(* ===== verification/Prelude.thy ===== *)
theory Prelude
  imports Complex_Main
begin

text \<open>
  Shared vocabulary of the development: Python's decimal rounding over exact rationals,
  the string conversions the program uses (\<open>upper\<close>, \<open>strip\<close>, \<open>split\<close>, \<open>int\<close>, \<open>float\<close>),
  exceptions as values, wall-clock times in IST, and tables of rows addressed by a key
  (the relational tables of the program) with the facts every component needs about them.

  A Python \<open>float\<close> is an exact rational here: binary rounding of intermediate results,
  infinities and NaN are outside the model, while every explicit \<open>round(x, n)\<close> of the
  source is kept.
\<close>

named_theorems table_simps "facts on keyed tables"
named_theorems cents_intros "which amounts are whole paise"

section \<open>Exceptions and results\<close>

datatype exn =
    UnboundLocalError
  | ValueError
  | IntegrityError
  | MultipleResultsFound
  | ZeroDivisionError
  | TypeError
  | DataError

section \<open>Rounding\<close>

definition round_half_even :: "rat \<Rightarrow> int" where
  "round_half_even x =
     (let f = \<lfloor>x\<rfloor>; d = x - of_int f in
      if d < 1/2 then f else if 1/2 < d then f + 1 else if even f then f else f + 1)"

definition pyround :: "rat \<Rightarrow> nat \<Rightarrow> rat" where
  "pyround x n = of_int (round_half_even (x * 10 ^ n)) / 10 ^ n"

lemma round_half_even_of_int [simp]: "round_half_even (of_int k) = k"
  by (simp add: round_half_even_def)

lemma round_half_even_error: "\<bar>of_int (round_half_even x) - x\<bar> \<le> 1/2"
proof -
  have "of_int \<lfloor>x\<rfloor> \<le> x" "x < of_int \<lfloor>x\<rfloor> + 1" by linarith+
  then show ?thesis by (auto simp: round_half_even_def Let_def)
qed

lemma round_half_even_mono: "x \<le> y \<Longrightarrow> round_half_even x \<le> round_half_even y"
proof -
  assume le: "x \<le> y"
  then have f: "\<lfloor>x\<rfloor> \<le> \<lfloor>y\<rfloor>" by (rule floor_mono)
  show ?thesis
  proof (cases "\<lfloor>x\<rfloor> = \<lfloor>y\<rfloor>")
    case True
    with le show ?thesis by (auto simp: round_half_even_def Let_def)
  next
    case False
    with f have "\<lfloor>x\<rfloor> + 1 \<le> \<lfloor>y\<rfloor>" by linarith
    moreover have "round_half_even x \<le> \<lfloor>x\<rfloor> + 1" "\<lfloor>y\<rfloor> \<le> round_half_even y"
      by (auto simp: round_half_even_def Let_def)
    ultimately show ?thesis by linarith
  qed
qed

lemma pyround_zero [simp]: "pyround 0 n = 0"
  using round_half_even_of_int [of 0] by (simp add: pyround_def)

lemma pyround_mono: "x \<le> y \<Longrightarrow> pyround x n \<le> pyround y n"
  by (simp add: pyround_def divide_right_mono round_half_even_mono mult_right_mono)

lemma pyround_nonneg: "0 \<le> x \<Longrightarrow> 0 \<le> pyround x n"
  using pyround_mono [of 0 x n] by simp

lemma pyround_error: "\<bar>pyround x n - x\<bar> \<le> 1 / (2 * 10 ^ n)"
proof -
  have "pyround x n - x = (of_int (round_half_even (x * 10 ^ n)) - x * 10 ^ n) / 10 ^ n"
    by (simp add: pyround_def diff_divide_distrib)
  then have "\<bar>pyround x n - x\<bar> = \<bar>of_int (round_half_even (x * 10 ^ n)) - x * 10 ^ n\<bar> / 10 ^ n"
    by (simp add: abs_divide)
  also have "\<dots> \<le> (1/2) / 10 ^ n"
    by (intro divide_right_mono round_half_even_error) simp
  finally show ?thesis by simp
qed

text \<open>Amounts of whole paise: what \<open>round(x, 2)\<close> returns, and closed under sums.\<close>

definition cents :: "rat \<Rightarrow> bool" where
  "cents x \<longleftrightarrow> (\<exists>k::int. x * 100 = of_int k)"

lemma cents_pyround [cents_intros, simp]: "cents (pyround x 2)"
  by (simp add: cents_def pyround_def)

lemma cents_0 [cents_intros, simp]: "cents 0"
  by (simp add: cents_def exI [of _ 0])

lemma cents_add [cents_intros]: "cents x \<Longrightarrow> cents y \<Longrightarrow> cents (x + y)"
  unfolding cents_def by (metis distrib_right of_int_add)

lemma cents_diff [cents_intros]: "cents x \<Longrightarrow> cents y \<Longrightarrow> cents (x - y)"
  unfolding cents_def by (metis left_diff_distrib of_int_diff)

lemma cents_max [cents_intros]: "cents x \<Longrightarrow> cents y \<Longrightarrow> cents (max x y)"
  by (simp add: max_def)

lemma cents_sum_list [cents_intros]: "(\<And>x. x \<in> set xs \<Longrightarrow> cents (f x)) \<Longrightarrow> cents (sum_list (map f xs))"
  by (induction xs) (auto intro: cents_add)

lemma pyround_cents: "cents x \<Longrightarrow> pyround x 2 = x"
  by (auto simp: cents_def pyround_def power2_eq_square field_simps)

section \<open>Strings\<close>

text \<open>\<open>ord(c)\<close>\<close>

definition ord_chr :: "char \<Rightarrow> int" where
  "ord_chr c = of_char c"

definition up_char :: "char \<Rightarrow> char" where
  "up_char c = (if 97 \<le> ord_chr c \<and> ord_chr c \<le> 122
                then char_of (ord_chr c - 32) else c)"

definition upper :: "string \<Rightarrow> string" where
  "upper s = map up_char s"

lemma ord_chr_inj: "ord_chr a = ord_chr b \<longleftrightarrow> a = b"
  by (simp add: ord_chr_def)

lemma ord_chr_up:
  "ord_chr (up_char c) = (let n = ord_chr c in if 97 \<le> n \<and> n \<le> 122 then n - 32 else n)"
  by (auto simp: up_char_def ord_chr_def Let_def)

lemma up_char_dash [simp]: "up_char c = CHR ''-'' \<longleftrightarrow> c = CHR ''-''"
proof -
  have "ord_chr (CHR ''-'') = 45" by (simp add: ord_chr_def)
  then show ?thesis
    using ord_chr_inj [of "up_char c" "CHR ''-''"] ord_chr_inj [of c "CHR ''-''"]
    by (auto simp: ord_chr_up Let_def split: if_splits)
qed

lemma up_char_idem [simp]: "up_char (up_char c) = up_char c"
  by (auto simp: ord_chr_inj [symmetric] ord_chr_up Let_def)

lemma upper_idem [simp]: "upper (upper s) = upper s"
  by (simp add: upper_def)

definition is_ws :: "char \<Rightarrow> bool" where
  "is_ws c \<longleftrightarrow> ord_chr c \<in> {9, 10, 11, 12, 13, 28, 29, 30, 31, 32}"

definition strip :: "string \<Rightarrow> string" where
  "strip s = rev (dropWhile is_ws (rev (dropWhile is_ws s)))"

definition ends_with :: "string \<Rightarrow> string \<Rightarrow> bool" where
  "ends_with s t \<longleftrightarrow> length t \<le> length s \<and> drop (length s - length t) s = t"

text \<open>\<open>break_at p s\<close>: the part before the first character with \<open>p\<close>, and the part after it
  if there is one (Python's \<open>split(c, 1)\<close>).\<close>

fun break_at :: "(char \<Rightarrow> bool) \<Rightarrow> string \<Rightarrow> string \<times> string option" where
  "break_at p [] = ([], None)"
| "break_at p (c # cs) =
     (if p c then ([], Some cs) else (let (a, b) = break_at p cs in (c # a, b)))"

definition is_digit :: "char \<Rightarrow> bool" where
  "is_digit c \<longleftrightarrow> 48 \<le> ord_chr c \<and> ord_chr c \<le> 57"

definition digit_val :: "char \<Rightarrow> int" where
  "digit_val c = ord_chr c - 48"

definition digit_chr :: "int \<Rightarrow> char" where
  "digit_chr d = char_of (48 + d)"

lemma ord_digit_chr: "0 \<le> d \<Longrightarrow> d < 10 \<Longrightarrow> ord_chr (digit_chr d) = 48 + d"
  by (simp add: ord_chr_def digit_chr_def)

lemma digit_chr_inj: "0 \<le> a \<Longrightarrow> a < 10 \<Longrightarrow> 0 \<le> b \<Longrightarrow> b < 10 \<Longrightarrow> digit_chr a = digit_chr b \<longleftrightarrow> a = b"
  by (metis add_left_cancel ord_digit_chr)

text \<open>A run of digits; single underscores may separate digits, as in Python's literals.
  The flag says whether the previous character was a digit.\<close>

fun digits_val :: "bool \<Rightarrow> int \<Rightarrow> string \<Rightarrow> int option" where
  "digits_val pd acc [] = (if pd then Some acc else None)"
| "digits_val pd acc (c # cs) =
     (if is_digit c then digits_val True (10 * acc + digit_val c) cs
      else if c = CHR ''_'' \<and> pd then digits_val False acc cs
      else None)"

definition take_sign :: "string \<Rightarrow> bool \<times> string" where
  "take_sign s = (case s of [] \<Rightarrow> (False, [])
     | c # cs \<Rightarrow> if c = CHR ''-'' then (True, cs) else if c = CHR ''+'' then (False, cs) else (False, s))"

text \<open>\<open>int(s)\<close>; \<open>None\<close> is the \<open>ValueError\<close>.\<close>

definition py_int :: "string \<Rightarrow> int option" where
  "py_int s = (let (neg, t) = take_sign (strip s) in
     map_option (\<lambda>n. if neg then - n else n) (digits_val False 0 t))"

definition opt_digits :: "string \<Rightarrow> int option" where
  "opt_digits s = (if s = [] then Some 0 else digits_val False 0 s)"

definition digit_count :: "string \<Rightarrow> nat" where
  "digit_count s = length (filter is_digit s)"

definition pow10 :: "int \<Rightarrow> rat" where
  "pow10 e = (if 0 \<le> e then 10 ^ nat e else 1 / 10 ^ nat (- e))"

text \<open>\<open>float(s)\<close> for finite decimal literals; \<open>None\<close> is the \<open>ValueError\<close>. The words
  \<open>inf\<close>, \<open>infinity\<close> and \<open>nan\<close>, which Python accepts too, are not values of the model.\<close>

definition py_float :: "string \<Rightarrow> rat option" where
  "py_float s =
     (let (neg, t) = take_sign (strip s);
          (m, e) = break_at (\<lambda>c. c = CHR ''e'' \<or> c = CHR ''E'') t;
          (ip, fp) = break_at (\<lambda>c. c = CHR ''.'') m;
          fs = (case fp of None \<Rightarrow> [] | Some f \<Rightarrow> f)
      in if ip = [] \<and> fs = [] then None
         else case (opt_digits ip, opt_digits fs,
                    case e of None \<Rightarrow> Some 0
                    | Some x \<Rightarrow> (let (en, ed) = take_sign x in
                        map_option (\<lambda>n. if en then - n else n) (digits_val False 0 ed))) of
           (Some i, Some f, Some x) \<Rightarrow>
             (let v = (of_int i + of_int f / 10 ^ digit_count fs) * pow10 x
              in Some (if neg then - v else v))
         | _ \<Rightarrow> None)"

text \<open>Values of a decoded JSON request.\<close>

datatype jval = JNone | JBool bool | JInt int | JFloat rat | JStr string

section \<open>Wall-clock time\<close>

text \<open>An IST datetime is its number of microseconds since midnight of day 0.\<close>

type_synonym datetime = int

definition usec_per_day :: int where
  "usec_per_day = 86400000000"

definition day_of :: "datetime \<Rightarrow> int" where
  "day_of t = t div usec_per_day"

text \<open>\<open>now.replace(hour=h, minute=m, second=0, microsecond=0)\<close>\<close>

definition at_hm :: "datetime \<Rightarrow> int \<Rightarrow> int \<Rightarrow> datetime" where
  "at_hm t h m = day_of t * usec_per_day + (h * 60 + m) * 60000000"

definition valid_hm :: "int \<Rightarrow> int \<Rightarrow> bool" where
  "valid_hm h m \<longleftrightarrow> 0 \<le> h \<and> h \<le> 23 \<and> 0 \<le> m \<and> m \<le> 59"

definition replace_hm :: "datetime \<Rightarrow> int \<Rightarrow> int \<Rightarrow> exn + datetime" where
  "replace_hm t h m = (if valid_hm h m then Inr (at_hm t h m) else Inl ValueError)"

lemma at_hm_midnight_le: "at_hm t 0 0 \<le> t"
  using pos_mod_bound [of usec_per_day t] pos_mod_sign [of usec_per_day t] div_mult_mod_eq [of t usec_per_day]
  by (simp add: at_hm_def day_of_def usec_per_day_def)

lemma day_of_at_hm: "valid_hm h m \<Longrightarrow> day_of (at_hm t h m) = day_of t"
proof -
  assume v: "valid_hm h m"
  let ?r = "(h * 60 + m) * 60000000"
  from v have r: "0 \<le> ?r" "?r < usec_per_day" by (auto simp: valid_hm_def usec_per_day_def)
  have "(day_of t * usec_per_day + ?r) div usec_per_day = day_of t + ?r div usec_per_day"
    by (simp add: usec_per_day_def)
  also have "?r div usec_per_day = 0" using r by (simp add: div_pos_pos_trivial)
  finally show ?thesis by (simp add: at_hm_def day_of_def)
qed

section \<open>Tables of rows with a unique key\<close>

fun get_row :: "('r \<Rightarrow> 'k) \<Rightarrow> 'k \<Rightarrow> 'r list \<Rightarrow> 'r option" where
  "get_row key k [] = None"
| "get_row key k (r # rs) = (if key r = k then Some r else get_row key k rs)"

text \<open>\<open>put_row\<close> replaces the row with the key of \<open>r\<close>, or adds \<open>r\<close> at the end.\<close>

fun put_row :: "('r \<Rightarrow> 'k) \<Rightarrow> 'r \<Rightarrow> 'r list \<Rightarrow> 'r list" where
  "put_row key r [] = [r]"
| "put_row key r (x # xs) = (if key x = key r then r # xs else x # put_row key r xs)"

definition uniq :: "('r \<Rightarrow> 'k) \<Rightarrow> 'r list \<Rightarrow> bool" where
  "uniq key rs \<longleftrightarrow> distinct (map key rs)"

definition opt_weight :: "('r \<Rightarrow> rat) \<Rightarrow> 'r option \<Rightarrow> rat" where
  "opt_weight w x = (case x of None \<Rightarrow> 0 | Some r \<Rightarrow> w r)"

lemma opt_weight_simps [simp]: "opt_weight w None = 0" "opt_weight w (Some r) = w r"
  by (simp_all add: opt_weight_def)

definition row_total :: "('r \<Rightarrow> rat) \<Rightarrow> 'r list \<Rightarrow> rat" where
  "row_total w rs = sum_list (map w rs)"

lemma row_total_simps [simp]: "row_total w [] = 0" "row_total w (r # rs) = w r + row_total w rs"
    "row_total w (rs @ ss) = row_total w rs + row_total w ss"
  by (simp_all add: row_total_def)

lemma row_total_nonneg: "(\<And>r. r \<in> set rs \<Longrightarrow> 0 \<le> w r) \<Longrightarrow> 0 \<le> row_total w rs"
  by (induction rs) auto

lemma row_total_cong: "(\<And>r. r \<in> set rs \<Longrightarrow> w r = v r) \<Longrightarrow> row_total w rs = row_total v rs"
  by (induction rs) auto

lemma row_total_zero: "(\<And>r. r \<in> set rs \<Longrightarrow> w r = 0) \<Longrightarrow> row_total w rs = 0"
  by (induction rs) auto

lemma row_total_mono: "(\<And>r. r \<in> set rs \<Longrightarrow> w r \<le> v r) \<Longrightarrow> row_total w rs \<le> row_total v rs"
  by (induction rs) (auto intro: add_mono)

lemma row_total_add: "row_total (\<lambda>r. w r + v r) rs = row_total w rs + row_total v rs"
  by (induction rs) auto

lemma row_total_filter_split:
  "row_total w rs = row_total w (filter P rs) + row_total w (filter (\<lambda>r. \<not> P r) rs)"
  by (induction rs) auto

lemma row_total_filter: "(\<And>r. \<not> P r \<Longrightarrow> w r = 0) \<Longrightarrow> row_total w (filter P rs) = row_total w rs"
  by (induction rs) auto

lemma row_total_member_le:
  "r \<in> set rs \<Longrightarrow> (\<And>x. x \<in> set rs \<Longrightarrow> 0 \<le> w x) \<Longrightarrow> w r \<le> row_total w rs"
proof (induction rs)
  case (Cons a rs)
  have "0 \<le> w a" "0 \<le> row_total w rs" using Cons.prems(2) by (auto intro: row_total_nonneg)
  then show ?case using Cons by fastforce
qed simp

lemma cents_row_total [cents_intros]: "(\<And>r. r \<in> set rs \<Longrightarrow> cents (w r)) \<Longrightarrow> cents (row_total w rs)"
  by (induction rs) (auto intro: cents_add)

lemma get_row_mem: "get_row key k rs = Some r \<Longrightarrow> r \<in> set rs"
  by (induction rs) (auto split: if_splits)

lemma get_row_key: "get_row key k rs = Some r \<Longrightarrow> key r = k"
  by (induction rs) (auto split: if_splits)

lemma get_row_None: "get_row key k rs = None \<longleftrightarrow> k \<notin> key ` set rs"
  by (induction rs) auto

lemma get_row_uniq: "uniq key rs \<Longrightarrow> r \<in> set rs \<Longrightarrow> get_row key (key r) rs = Some r"
  by (induction rs) (auto simp: uniq_def image_iff)

lemma get_put_row [table_simps]:
  "get_row key k (put_row key r rs) = (if k = key r then Some r else get_row key k rs)"
  by (induction rs) auto

lemma keys_put_row: "key ` set (put_row key r rs) = insert (key r) (key ` set rs)"
  by (induction rs) (auto simp: image_iff)

lemma uniq_put_row [table_simps]: "uniq key rs \<Longrightarrow> uniq key (put_row key r rs)"
proof (induction rs)
  case (Cons a rs)
  have "key a \<noteq> key r \<Longrightarrow> key a \<notin> key ` set rs \<Longrightarrow> key a \<notin> key ` set (put_row key r rs)"
    by (simp add: keys_put_row)
  with Cons show ?case by (auto simp: uniq_def)
qed (simp add: uniq_def)

lemma set_put_row: "x \<in> set (put_row key r rs) \<Longrightarrow> x = r \<or> x \<in> set rs"
  by (induction rs) (auto split: if_splits)

lemma mem_put_row: "r \<in> set (put_row key r rs)"
  by (induction rs) auto

lemma put_row_keeps: "x \<in> set rs \<Longrightarrow> key x \<noteq> key r \<Longrightarrow> x \<in> set (put_row key r rs)"
  by (induction rs) auto

lemma row_total_put_row [table_simps]:
  "row_total w (put_row key r rs) = row_total w rs - opt_weight w (get_row key (key r) rs) + w r"
  by (induction rs) auto

lemma uniq_filter [table_simps]: "uniq key rs \<Longrightarrow> uniq key (filter P rs)"
  by (simp add: uniq_def distinct_map_filter)

lemma uniq_map [table_simps]: "(\<And>r. key (f r) = key r) \<Longrightarrow> uniq key (map f rs) = uniq key rs"
  by (simp add: uniq_def comp_def)

lemma get_row_map [table_simps]:
  "(\<And>r. key (f r) = key r) \<Longrightarrow> get_row key k (map f rs) = map_option f (get_row key k rs)"
  by (induction rs) auto

lemma get_row_filter:
  "uniq key rs \<Longrightarrow> get_row key k (filter P rs) =
     (case get_row key k rs of Some r \<Rightarrow> if P r then Some r else None | None \<Rightarrow> None)"
proof (induction rs)
  case (Cons a rs)
  have "get_row key (key a) rs = None" using Cons.prems by (auto simp: uniq_def get_row_None)
  with Cons show ?case by (auto simp: uniq_def)
qed simp

lemma row_total_map: "row_total w (map f rs) = row_total (\<lambda>r. w (f r)) rs"
  by (induction rs) auto

text \<open>The contract the components rely on: a store of rows addressed by a key.\<close>

locale row_store =
  fixes get :: "'k \<Rightarrow> 's \<Rightarrow> 'r option"
    and put :: "'r \<Rightarrow> 's \<Rightarrow> 's"
    and key :: "'r \<Rightarrow> 'k"
  assumes get_put: "get k (put r s) = (if k = key r then Some r else get k s)"
    and get_key: "get k s = Some r \<Longrightarrow> key r = k"
begin

lemma get_put_same: "get (key r) (put r s) = Some r"
  by (simp add: get_put)

lemma get_put_other: "k \<noteq> key r \<Longrightarrow> get k (put r s) = get k s"
  by (simp add: get_put)

lemma get_put_put: "key r = key q \<Longrightarrow> get k (put r (put q s)) = get k (put r s)"
  by (simp add: get_put)

text \<open>Writing rows one after the other changes exactly the rows with their keys.\<close>

lemma get_fold_put_other: "k \<notin> key ` set rs \<Longrightarrow> get k (fold put rs s) = get k s"
  by (induction rs arbitrary: s) (auto simp: get_put)

lemma get_fold_put_mem:
  "distinct (map key rs) \<Longrightarrow> r \<in> set rs \<Longrightarrow> get (key r) (fold put rs s) = Some r"
proof (induction rs arbitrary: s)
  case (Cons a rs)
  show ?case
  proof (cases "r = a")
    case True
    with Cons.prems(1) have "key r \<notin> key ` set rs" by auto
    then show ?thesis using True by (simp add: get_fold_put_other get_put)
  next
    case False
    with Cons show ?thesis by simp
  qed
qed simp

end

text \<open>A store whose rows carry a weight (a margin): the total over all rows moves by the
  difference of the weights of the row written and the row it replaces.\<close>

locale weighted_store = row_store get put key
  for get :: "'k \<Rightarrow> 's \<Rightarrow> 'r option" and put :: "'r \<Rightarrow> 's \<Rightarrow> 's" and key :: "'r \<Rightarrow> 'k" +
  fixes rows :: "'s \<Rightarrow> 'r list"
  assumes total_put: "row_total w (rows (put r s)) = row_total w (rows s) - opt_weight w (get (key r) s) + w r"
begin

lemma total_put_same_weight:
  "get (key r) s = Some q \<Longrightarrow> w r = w q \<Longrightarrow> row_total w (rows (put r s)) = row_total w (rows s)"
  by (simp add: total_put)

lemma total_put_new:
  "get (key r) s = None \<Longrightarrow> row_total w (rows (put r s)) = row_total w (rows s) + w r"
  by (simp add: total_put)

lemma total_put_other_weight:
  "get (key r) s = Some q \<Longrightarrow> row_total w (rows (put r s)) = row_total w (rows s) - w q + w r"
  by (simp add: total_put)

end

section \<open>Steps\<close>

text \<open>A relation between states that holds of any sequence of steps when it holds of each.\<close>

locale step_preorder =
  fixes R :: "'s \<Rightarrow> 's \<Rightarrow> bool"
  assumes refl: "R s s" and trans: "R s t \<Longrightarrow> R t r \<Longrightarrow> R s r"
begin

lemma fold_steps: "(\<And>x t. x \<in> set xs \<Longrightarrow> R t (f x t)) \<Longrightarrow> R s (fold f xs s)"
proof (induction xs arbitrary: s)
  case (Cons a xs)
  then have "R s (f a s)" "R (f a s) (fold f xs (f a s))" by simp_all
  then show ?case by (auto intro: trans)
qed (simp add: refl)

end

end
