(* ===== verification/Sandbox_Db.thy ===== *)
theory Sandbox_Db
  imports Prelude
begin

text \<open>
  The tables of the simulated-trading engine (\<open>src/backend/models/sandbox.py\<close> and the columns
  of \<open>src/backend/models/symbol.py\<close> the sandbox reads), one record per table and one state record
  for the database. Surrogate \<open>id\<close> columns are left out: every table has the unique key the
  source declares. \<open>reset_at\<close>, \<open>added_on\<close>, \<open>created_at\<close>, \<open>update_timestamp\<close> and the fund row's
  \<open>updated_at\<close> are written by the database and read by no sandbox operation, so they are left
  out too; the position row's \<open>updated_at\<close> is read by settlement and is kept.
\<close>

section \<open>Why an order is rejected\<close>

text \<open>One constructor for each message of \<open>validate_order\<close>, \<open>place_order\<close>, \<open>block_margin\<close> and
  \<open>_cancel_pending_mis_orders\<close>; the arguments are the values the message prints.\<close>

datatype reason =
    BadAction
  | BadPricetype string
  | BadProduct string
  | BadQuantity
  | ProductExchange string string
  | UnknownSymbol string string
  | LotMultiple int int
  | BadPrice string
  | PriceTick rat rat
  | BadTrigger string
  | TriggerTick rat rat
  | CncOversell int string int
  | MisBlocked string
  | NoLtp string string string
  | Insufficient rat rat
  | AutoSquareoff
  | Rejected string

section \<open>Rows\<close>

datatype order_status = SOpen | STriggerPending | SComplete | SCancelled | SRejected

record order =
  or_user_id :: int
  or_orderid :: string
  or_symbol :: string
  or_exchange :: string
  or_action :: string
  or_quantity :: int
  or_filled_quantity :: int
  or_pricetype :: string
  or_product :: string
  or_price :: rat
  or_trigger_price :: rat
  or_average_price :: rat
  or_status :: order_status
  or_rejection_reason :: "reason option"
  or_strategy :: "string option"
  or_margin_blocked :: rat
  or_order_timestamp :: datetime

record trade =
  tr_user_id :: int
  tr_orderid :: string
  tr_tradeid :: string
  tr_symbol :: string
  tr_exchange :: string
  tr_action :: string
  tr_quantity :: int
  tr_average_price :: rat
  tr_product :: string
  tr_strategy :: "string option"
  tr_timestamp :: datetime

record position =
  po_user_id :: int
  po_symbol :: string
  po_exchange :: string
  po_product :: string
  po_net_quantity :: int
  po_average_price :: rat
  po_ltp :: rat
  po_pnl :: rat
  po_realized_pnl :: rat
  po_today_realized_pnl :: rat
  po_unrealized_pnl :: rat
  po_margin_blocked :: rat
  po_day_buy_quantity :: int
  po_day_buy_value :: rat
  po_day_sell_quantity :: int
  po_day_sell_value :: rat
  po_updated_at :: datetime

record holding =
  ho_user_id :: int
  ho_symbol :: string
  ho_exchange :: string
  ho_quantity :: int
  ho_average_price :: rat
  ho_ltp :: rat
  ho_pnl :: rat
  ho_pnlpercent :: rat
  ho_settlement_date :: "int option"

record fund =
  fd_user_id :: int
  fd_starting_capital :: rat
  fd_available :: rat
  fd_used_margin :: rat
  fd_realized_pnl :: rat
  fd_today_realized_pnl :: rat
  fd_unrealized_pnl :: rat

record config_row =
  cf_key :: string
  cf_value :: string
  cf_is_editable :: bool

record daily_pnl =
  dp_user_id :: int
  dp_snapshot_date :: int
  dp_starting_capital :: rat
  dp_available :: rat
  dp_used_margin :: rat
  dp_realized_pnl :: rat
  dp_unrealized_pnl :: rat
  dp_total_pnl :: rat
  dp_positions_pnl :: rat
  dp_holdings_pnl :: rat
  dp_trades_count :: int

record symtoken =
  sy_symbol :: string
  sy_exchange :: string
  sy_lotsize :: "int option"
  sy_tick_size :: "rat option"
  sy_instrumenttype :: "string option"
  sy_expiry :: "string option"

text \<open>The events \<open>apply_fill\<close> publishes on the bus: user, symbol, quantity, price, and the
  realized PnL or the side and the margin in use.\<close>

datatype position_event =
    PositionClosed int string int rat rat
  | PositionOpened int string string int rat rat

section \<open>The database\<close>

record db =
  db_orders :: "order list"
  db_trades :: "trade list"
  db_positions :: "position list"
  db_holdings :: "holding list"
  db_funds :: "fund list"
  db_config :: "config_row list"
  db_daily_pnl :: "daily_pnl list"
  db_symtoken :: "symtoken list"
  db_events :: "position_event list"

type_synonym pos_key = "int \<times> string \<times> string \<times> string"

definition po_key :: "position \<Rightarrow> pos_key" where
  "po_key p = (po_user_id p, po_symbol p, po_exchange p, po_product p)"

definition ho_key :: "holding \<Rightarrow> int \<times> string \<times> string" where
  "ho_key h = (ho_user_id h, ho_symbol h, ho_exchange h)"

definition or_key :: "order \<Rightarrow> int \<times> string" where
  "or_key r = (or_user_id r, or_orderid r)"

section \<open>Row access\<close>

definition get_config :: "string \<Rightarrow> db \<Rightarrow> config_row option" where
  "get_config k s = get_row cf_key k (db_config s)"

definition put_config :: "config_row \<Rightarrow> db \<Rightarrow> db" where
  "put_config r s = s\<lparr>db_config := put_row cf_key r (db_config s)\<rparr>"

definition get_fund :: "int \<Rightarrow> db \<Rightarrow> fund option" where
  "get_fund u s = get_row fd_user_id u (db_funds s)"

definition put_fund :: "fund \<Rightarrow> db \<Rightarrow> db" where
  "put_fund r s = s\<lparr>db_funds := put_row fd_user_id r (db_funds s)\<rparr>"

definition get_position :: "pos_key \<Rightarrow> db \<Rightarrow> position option" where
  "get_position k s = get_row po_key k (db_positions s)"

definition put_position :: "position \<Rightarrow> db \<Rightarrow> db" where
  "put_position p s = s\<lparr>db_positions := put_row po_key p (db_positions s)\<rparr>"

definition get_order_row :: "int \<times> string \<Rightarrow> db \<Rightarrow> order option" where
  "get_order_row k s = get_row or_key k (db_orders s)"

definition put_order :: "order \<Rightarrow> db \<Rightarrow> db" where
  "put_order r s = s\<lparr>db_orders := put_row or_key r (db_orders s)\<rparr>"

definition get_holding :: "int \<times> string \<times> string \<Rightarrow> db \<Rightarrow> holding option" where
  "get_holding k s = get_row ho_key k (db_holdings s)"

definition put_holding :: "holding \<Rightarrow> db \<Rightarrow> db" where
  "put_holding h s = s\<lparr>db_holdings := put_row ho_key h (db_holdings s)\<rparr>"

interpretation cfgs: row_store get_config put_config cf_key
  by unfold_locales (auto simp: get_config_def put_config_def get_put_row dest: get_row_key)

interpretation funds: weighted_store get_fund put_fund fd_user_id db_funds
  by unfold_locales (auto simp: get_fund_def put_fund_def get_put_row row_total_put_row dest: get_row_key)

interpretation poss: weighted_store get_position put_position po_key db_positions
  by unfold_locales (auto simp: get_position_def put_position_def get_put_row row_total_put_row dest: get_row_key)

interpretation ords: weighted_store get_order_row put_order or_key db_orders
  by unfold_locales (auto simp: get_order_row_def put_order_def get_put_row row_total_put_row dest: get_row_key)

interpretation holds: weighted_store get_holding put_holding ho_key db_holdings
  by unfold_locales (auto simp: get_holding_def put_holding_def get_put_row row_total_put_row dest: get_row_key)

text \<open>Writing one table leaves the others alone.\<close>

lemma put_fund_frame [simp]:
  "db_orders (put_fund f s) = db_orders s" "db_trades (put_fund f s) = db_trades s"
  "db_positions (put_fund f s) = db_positions s" "db_holdings (put_fund f s) = db_holdings s"
  "db_config (put_fund f s) = db_config s" "db_daily_pnl (put_fund f s) = db_daily_pnl s"
  "db_symtoken (put_fund f s) = db_symtoken s" "db_events (put_fund f s) = db_events s"
  by (simp_all add: put_fund_def)

lemma put_position_frame [simp]:
  "db_orders (put_position p s) = db_orders s" "db_trades (put_position p s) = db_trades s"
  "db_funds (put_position p s) = db_funds s" "db_holdings (put_position p s) = db_holdings s"
  "db_config (put_position p s) = db_config s" "db_daily_pnl (put_position p s) = db_daily_pnl s"
  "db_symtoken (put_position p s) = db_symtoken s" "db_events (put_position p s) = db_events s"
  by (simp_all add: put_position_def)

lemma put_order_frame [simp]:
  "db_positions (put_order r s) = db_positions s" "db_trades (put_order r s) = db_trades s"
  "db_funds (put_order r s) = db_funds s" "db_holdings (put_order r s) = db_holdings s"
  "db_config (put_order r s) = db_config s" "db_daily_pnl (put_order r s) = db_daily_pnl s"
  "db_symtoken (put_order r s) = db_symtoken s" "db_events (put_order r s) = db_events s"
  by (simp_all add: put_order_def)

lemma put_holding_frame [simp]:
  "db_orders (put_holding h s) = db_orders s" "db_positions (put_holding h s) = db_positions s"
  "db_trades (put_holding h s) = db_trades s" "db_funds (put_holding h s) = db_funds s"
  "db_config (put_holding h s) = db_config s" "db_daily_pnl (put_holding h s) = db_daily_pnl s"
  "db_symtoken (put_holding h s) = db_symtoken s" "db_events (put_holding h s) = db_events s"
  by (simp_all add: put_holding_def)

lemma get_frame [simp]:
  "get_fund u (put_position p s) = get_fund u s" "get_fund u (put_order r s) = get_fund u s"
  "get_fund u (put_holding h s) = get_fund u s"
  "get_position k (put_fund f s) = get_position k s" "get_position k (put_order r s) = get_position k s"
  "get_position k (put_holding h s) = get_position k s"
  "get_order_row q (put_fund f s) = get_order_row q s"
  "get_order_row q (put_position p s) = get_order_row q s"
  "get_order_row q (put_holding h s) = get_order_row q s"
  "get_config c (put_fund f s) = get_config c s" "get_config c (put_position p s) = get_config c s"
  "get_config c (put_order r s) = get_config c s"
  by (simp_all add: get_fund_def get_position_def get_order_row_def get_config_def)

text \<open>The unique keys of the tables, as the schema declares them.\<close>

definition db_keys :: "db \<Rightarrow> bool" where
  "db_keys s \<longleftrightarrow> uniq or_key (db_orders s) \<and> uniq or_orderid (db_orders s) \<and>
     uniq tr_tradeid (db_trades s) \<and> uniq po_key (db_positions s) \<and>
     uniq ho_key (db_holdings s) \<and> uniq fd_user_id (db_funds s) \<and> uniq cf_key (db_config s)"

definition empty_db :: db where
  "empty_db = \<lparr>db_orders = [], db_trades = [], db_positions = [], db_holdings = [],
     db_funds = [], db_config = [], db_daily_pnl = [], db_symtoken = [], db_events = []\<rparr>"

end
