(* ===== verification/Sandbox_Config.thy ===== *)
theory Sandbox_Config
  imports Sandbox_Db
begin

text \<open>
  The configuration table and its typed readers (\<open>src/backend/sandbox/config.py\<close>,
  \<open>src/backend/sandbox/defaults.py\<close>) and the symbol master lookups
  (\<open>src/backend/sandbox/symbol_info.py\<close>). The description column is display text and left out.
\<close>

section \<open>Configuration\<close>

definition DEFAULT_CONFIGS :: "(string \<times> string) list" where
  "DEFAULT_CONFIGS =
    [(''starting_capital'', ''10000000''),
     (''reset_day'', ''Sunday''),
     (''reset_time'', ''00:00''),
     (''leverage_mis'', ''5''),
     (''leverage_nrml'', ''1''),
     (''leverage_cnc'', ''1''),
     (''equity_mis_leverage'', ''5''),
     (''equity_cnc_leverage'', ''1''),
     (''futures_leverage'', ''10''),
     (''option_buy_leverage'', ''1''),
     (''option_sell_leverage'', ''1''),
     (''squareoff_nse_nfo_bse_bfo'', ''15:15''),
     (''squareoff_cds'', ''16:45''),
     (''squareoff_mcx'', ''23:30''),
     (''order_check_interval_seconds'', ''5''),
     (''mtm_update_interval_seconds'', ''5'')]"

definition new_config :: "string \<Rightarrow> string \<Rightarrow> config_row" where
  "new_config k v = \<lparr>cf_key = k, cf_value = v, cf_is_editable = True\<rparr>"

text \<open>The keys that exist are read once, before the loop.\<close>

definition seed_defaults :: "db \<Rightarrow> db" where
  "seed_defaults s =
     fold (\<lambda>(k, v) t. if get_config k s = None then put_config (new_config k v) t else t)
       DEFAULT_CONFIGS s"

definition read_str :: "db \<Rightarrow> string \<Rightarrow> string \<Rightarrow> string" where
  "read_str s key fallback = (case get_config key s of Some r \<Rightarrow> cf_value r | None \<Rightarrow> fallback)"

text \<open>\<open>float(str(fallback))\<close> is \<open>fallback\<close>, so a missing row and an unreadable value both give it.\<close>

definition read_float :: "db \<Rightarrow> string \<Rightarrow> rat \<Rightarrow> rat" where
  "read_float s key fallback =
     (case get_config key s of None \<Rightarrow> fallback
      | Some r \<Rightarrow> (case py_float (cf_value r) of Some x \<Rightarrow> x | None \<Rightarrow> fallback))"

definition read_int :: "db \<Rightarrow> string \<Rightarrow> int \<Rightarrow> int" where
  "read_int s key fallback =
     (case get_config key s of None \<Rightarrow> fallback
      | Some r \<Rightarrow> (case py_int (cf_value r) of Some x \<Rightarrow> x | None \<Rightarrow> fallback))"

definition get_starting_capital :: "db \<Rightarrow> rat" where
  "get_starting_capital s = read_float s ''starting_capital'' 10000000"

definition LEVERAGE_KEYS :: "string \<Rightarrow> string" where
  "LEVERAGE_KEYS p =
     (if p = ''MIS'' then ''leverage_mis''
      else if p = ''NRML'' then ''leverage_nrml''
      else if p = ''CNC'' then ''leverage_cnc''
      else ''leverage_nrml'')"

definition get_leverage :: "db \<Rightarrow> string \<Rightarrow> rat" where
  "get_leverage s prd = read_float s (LEVERAGE_KEYS (upper prd)) 1"

definition leverage_key :: "string \<Rightarrow> string \<Rightarrow> string \<Rightarrow> string \<Rightarrow> string" where
  "leverage_key exch prd itype action =
     (let itype = upper itype; action = upper action; prd = upper prd; exch = upper exch in
      if itype = ''CE'' \<or> itype = ''PE'' then
        (if action = ''BUY'' then ''option_buy_leverage'' else ''option_sell_leverage'')
      else if itype = ''FUT'' \<or> ends_with itype ''FUT'' then ''futures_leverage''
      else if exch = ''NSE'' \<or> exch = ''BSE'' then
        (if prd = ''MIS'' then ''equity_mis_leverage'' else ''equity_cnc_leverage'')
      else LEVERAGE_KEYS prd)"

definition get_leverage_for :: "db \<Rightarrow> string \<Rightarrow> string \<Rightarrow> string \<Rightarrow> string \<Rightarrow> rat" where
  "get_leverage_for s exch prd itype action = read_float s (leverage_key exch prd itype action) 1"

definition get_order_check_interval :: "db \<Rightarrow> int" where
  "get_order_check_interval s = max 1 (read_int s ''order_check_interval_seconds'' 5)"

definition get_mtm_update_interval :: "db \<Rightarrow> int" where
  "get_mtm_update_interval s = max 1 (read_int s ''mtm_update_interval_seconds'' 5)"

definition get_all_configs :: "db \<Rightarrow> (string \<times> string \<times> bool) list" where
  "get_all_configs s = map (\<lambda>r. (cf_key r, cf_value r, cf_is_editable r)) (db_config s)"

definition set_config :: "db \<Rightarrow> string \<Rightarrow> string \<Rightarrow> bool \<times> db" where
  "set_config s key value =
     (case get_config key s of
        None \<Rightarrow> (False, s)
      | Some r \<Rightarrow> if \<not> cf_is_editable r then (False, s)
                  else (True, put_config (r\<lparr>cf_value := value\<rparr>) s))"

section \<open>Symbol master\<close>

definition FNO_EXCHANGES :: "string list" where
  "FNO_EXCHANGES = [''NFO'', ''BFO'', ''MCX'', ''CDS'', ''BCD'', ''CRYPTO'']"

definition EQUITY_EXCHANGES :: "string list" where
  "EQUITY_EXCHANGES = [''NSE'', ''BSE'']"

definition PRODUCT_EXCHANGE_OK :: "string \<Rightarrow> string list option" where
  "PRODUCT_EXCHANGE_OK p =
     (if p = ''CNC'' then Some EQUITY_EXCHANGES
      else if p = ''NRML'' then Some FNO_EXCHANGES
      else if p = ''MIS'' then Some (EQUITY_EXCHANGES @ FNO_EXCHANGES)
      else None)"

record symbol_info =
  si_symbol :: string
  si_exchange :: string
  si_lot_size :: int
  si_tick_size :: rat
  si_instrument_type :: string

definition is_option :: "symbol_info \<Rightarrow> bool" where
  "is_option i \<longleftrightarrow> si_instrument_type i = ''CE'' \<or> si_instrument_type i = ''PE''"

definition is_future :: "symbol_info \<Rightarrow> bool" where
  "is_future i \<longleftrightarrow> si_instrument_type i = ''FUT'' \<or> ends_with (si_instrument_type i) ''FUT''"

definition is_equity :: "symbol_info \<Rightarrow> bool" where
  "is_equity i \<longleftrightarrow> si_exchange i \<in> set EQUITY_EXCHANGES \<and> \<not> is_option i \<and> \<not> is_future i"

text \<open>The symbol master has no unique index on (symbol, exchange): \<open>scalar_one_or_none\<close> raises when
  two rows match.\<close>

definition find_symtoken :: "db \<Rightarrow> string \<Rightarrow> string \<Rightarrow> exn + symtoken option" where
  "find_symtoken s symb exch =
     (case filter (\<lambda>r. sy_symbol r = symb \<and> sy_exchange r = exch) (db_symtoken s) of
        [] \<Rightarrow> Inr None
      | [r] \<Rightarrow> Inr (Some r)
      | _ \<Rightarrow> Inl MultipleResultsFound)"

definition info_of_row :: "symtoken \<Rightarrow> symbol_info" where
  "info_of_row r =
     \<lparr>si_symbol = sy_symbol r, si_exchange = sy_exchange r,
      si_lot_size = (case sy_lotsize r of None \<Rightarrow> 1 | Some n \<Rightarrow> if n = 0 then 1 else n),
      si_tick_size = (case sy_tick_size r of None \<Rightarrow> 1/20 | Some x \<Rightarrow> if x = 0 then 1/20 else x),
      si_instrument_type = upper (case sy_instrumenttype r of None \<Rightarrow> [] | Some t \<Rightarrow> t)\<rparr>"

definition get_symbol_info :: "db \<Rightarrow> string \<Rightarrow> string \<Rightarrow> exn + symbol_info option" where
  "get_symbol_info s symb exch =
     (if symb = [] \<or> exch = [] then Inr None
      else case find_symtoken s symb exch of
             Inl e \<Rightarrow> Inl e
           | Inr None \<Rightarrow> Inr None
           | Inr (Some r) \<Rightarrow> Inr (Some (info_of_row r)))"

definition classify_from_symbol :: "string \<Rightarrow> string \<Rightarrow> string" where
  "classify_from_symbol symb exch =
     (if symb = [] then []
      else let s = upper symb in
           if ends_with s ''CE'' then ''CE''
           else if ends_with s ''PE'' then ''PE''
           else if ends_with s ''FUT'' then ''FUT''
           else if exch \<in> set EQUITY_EXCHANGES then ''EQ''
           else [])"

definition is_product_exchange_compatible :: "string \<Rightarrow> string \<Rightarrow> bool" where
  "is_product_exchange_compatible prd exch =
     (case PRODUCT_EXCHANGE_OK (upper prd) of None \<Rightarrow> False
      | Some allowed \<Rightarrow> upper exch \<in> set allowed)"

end
