(* ===== verification/Fund_Manager.thy ===== *)
theory Fund_Manager
  imports Sandbox_Config
begin

text \<open>
  The capital and margin book (\<open>src/backend/sandbox/fund_manager.py\<close>). Every mutator runs under
  the user's re-entrant lock and inside one database transaction, so each is one atomic step
  on the state. Locking itself is not modelled: steps of different users commute on the funds
  table (they write different rows), and steps of one user are serialised by the lock.
\<close>

section \<open>Operations\<close>

definition ensure_fund_row :: "db \<Rightarrow> int \<Rightarrow> fund \<times> db" where
  "ensure_fund_row s u =
     (case get_fund u s of
        Some r \<Rightarrow> (r, s)
      | None \<Rightarrow>
          let capital = get_starting_capital s;
              row = \<lparr>fd_user_id = u, fd_starting_capital = capital, fd_available = capital,
                     fd_used_margin = 0, fd_realized_pnl = 0, fd_today_realized_pnl = 0,
                     fd_unrealized_pnl = 0\<rparr>
          in (row, put_fund row s))"

definition compute_required_margin ::
  "db \<Rightarrow> rat \<Rightarrow> int \<Rightarrow> string \<Rightarrow> string \<Rightarrow> string \<Rightarrow> string \<Rightarrow> rat" where
  "compute_required_margin s price quantity prd exch itype action =
     (if price \<le> 0 \<or> quantity \<le> 0 then 0
      else
        let leverage = (if exch \<noteq> [] \<or> itype \<noteq> [] \<or> action \<noteq> []
                        then get_leverage_for s exch prd itype action
                        else get_leverage s prd);
            leverage = (if leverage \<le> 0 then 1 else leverage)
        in pyround ((price * of_int quantity) / leverage) 2)"

definition block_margin :: "db \<Rightarrow> int \<Rightarrow> rat \<Rightarrow> (bool \<times> reason option) \<times> db" where
  "block_margin s u amount =
     (if amount \<le> 0 then ((True, None), s)
      else
        let (row, s') = ensure_fund_row s u in
        if fd_available row < amount
        then ((False, Some (Insufficient amount (fd_available row))), s')
        else ((True, None),
              put_fund (row\<lparr>fd_available := fd_available row - amount,
                            fd_used_margin := fd_used_margin row + amount\<rparr>) s'))"

definition release_row :: "rat \<Rightarrow> rat \<Rightarrow> fund \<Rightarrow> fund" where
  "release_row amount pnl row =
     (let row = (if 0 < amount
                 then row\<lparr>fd_used_margin := max 0 (fd_used_margin row - amount),
                          fd_available := fd_available row + amount\<rparr>
                 else row)
      in if pnl \<noteq> 0
         then row\<lparr>fd_available := fd_available row + pnl,
                  fd_realized_pnl := fd_realized_pnl row + pnl,
                  fd_today_realized_pnl := fd_today_realized_pnl row + pnl\<rparr>
         else row)"

definition release_margin :: "db \<Rightarrow> int \<Rightarrow> rat \<Rightarrow> rat \<Rightarrow> db" where
  "release_margin s u amount pnl =
     (if amount \<le> 0 \<and> pnl = 0 then s
      else let (row, s') = ensure_fund_row s u in put_fund (release_row amount pnl row) s')"

definition transfer_margin_to_holdings :: "db \<Rightarrow> int \<Rightarrow> rat \<Rightarrow> db" where
  "transfer_margin_to_holdings s u amount =
     (if amount \<le> 0 then s
      else let (row, s') = ensure_fund_row s u in
           put_fund (row\<lparr>fd_used_margin := max 0 (fd_used_margin row - amount)\<rparr>) s')"

definition credit_sale_proceeds :: "db \<Rightarrow> int \<Rightarrow> rat \<Rightarrow> db" where
  "credit_sale_proceeds s u amount =
     (if amount \<le> 0 then s
      else let (row, s') = ensure_fund_row s u in
           put_fund (row\<lparr>fd_available := fd_available row + amount\<rparr>) s')"

definition apply_realized_pnl :: "db \<Rightarrow> int \<Rightarrow> rat \<Rightarrow> db" where
  "apply_realized_pnl s u amount =
     (if amount = 0 then s
      else let (row, s') = ensure_fund_row s u in
           put_fund (row\<lparr>fd_realized_pnl := fd_realized_pnl row + amount,
                         fd_today_realized_pnl := fd_today_realized_pnl row + amount,
                         fd_available := fd_available row + amount\<rparr>) s')"

definition set_unrealized_pnl :: "db \<Rightarrow> int \<Rightarrow> rat \<Rightarrow> db" where
  "set_unrealized_pnl s u amount =
     (let (row, s') = ensure_fund_row s u in put_fund (row\<lparr>fd_unrealized_pnl := amount\<rparr>) s')"

definition reset_today_realized_pnl :: "db \<Rightarrow> int \<Rightarrow> db" where
  "reset_today_realized_pnl s u =
     (let (row, s') = ensure_fund_row s u in put_fund (row\<lparr>fd_today_realized_pnl := 0\<rparr>) s')"

definition reset_funds :: "db \<Rightarrow> int \<Rightarrow> db" where
  "reset_funds s u =
     (let (row, s') = ensure_fund_row s u; capital = get_starting_capital s' in
      put_fund (row\<lparr>fd_starting_capital := capital, fd_available := capital, fd_used_margin := 0,
                    fd_realized_pnl := 0, fd_today_realized_pnl := 0, fd_unrealized_pnl := 0\<rparr>) s')"

record reconcile_details =
  rc_used_margin :: rat
  rc_position_margin_total :: rat
  rc_discrepancy :: rat
  rc_auto_fixed :: bool

definition reconcile_margin :: "db \<Rightarrow> int \<Rightarrow> bool \<Rightarrow> (bool \<times> rat \<times> reconcile_details) \<times> db" where
  "reconcile_margin s u auto_fix =
     (let (row, s') = ensure_fund_row s u;
          open_ps = filter (\<lambda>p. po_user_id p = u \<and> po_net_quantity p \<noteq> 0) (db_positions s');
          position_total = pyround (sum_list (map po_margin_blocked open_ps)) 2;
          used = pyround (fd_used_margin row) 2;
          discrepancy = pyround (used - position_total) 2;
          details = \<lparr>rc_used_margin = used, rc_position_margin_total = position_total,
                     rc_discrepancy = discrepancy, rc_auto_fixed = False\<rparr>
      in if discrepancy = 0 then ((True, 0, details), s')
         else if auto_fix \<and> 0 < discrepancy then
           ((True, 0, details\<lparr>rc_auto_fixed := True\<rparr>),
            put_fund (row\<lparr>fd_used_margin := position_total,
                          fd_available := fd_available row + discrepancy\<rparr>) s')
         else ((False, discrepancy, details), s'))"

record funds_snapshot =
  fs_availablecash :: rat
  fs_utiliseddebits :: rat
  fs_collateral :: rat
  fs_m2munrealized :: rat
  fs_m2mrealized :: rat

definition get_funds_snapshot :: "db \<Rightarrow> int \<Rightarrow> funds_snapshot \<times> db" where
  "get_funds_snapshot s u =
     (let (row, s') = ensure_fund_row s u in
      (\<lparr>fs_availablecash = pyround (fd_available row) 2,
        fs_utiliseddebits = pyround (fd_used_margin row) 2,
        fs_collateral = 0,
        fs_m2munrealized = pyround (fd_unrealized_pnl row) 2,
        fs_m2mrealized = pyround (fd_realized_pnl row) 2\<rparr>, s'))"

section \<open>The row an operation works on\<close>

text \<open>\<open>fund_of s u\<close> is the row \<open>ensure_fund_row\<close> hands out: the stored one, or a fresh one.\<close>

definition fund_of :: "db \<Rightarrow> int \<Rightarrow> fund" where
  "fund_of s u = fst (ensure_fund_row s u)"

lemma ensure_eq: "ensure_fund_row s u = (fund_of s u, snd (ensure_fund_row s u))"
  by (simp add: fund_of_def)

lemma ensure_user [simp]: "fd_user_id (fund_of s u) = u"
  by (auto simp: fund_of_def ensure_fund_row_def Let_def split: option.split dest: funds.get_key)

lemma fund_of_Some: "get_fund u s = Some f \<Longrightarrow> fund_of s u = f"
  by (simp add: fund_of_def ensure_fund_row_def)

lemma get_fund_ensure: "get_fund v (snd (ensure_fund_row s u)) = (if v = u then Some (fund_of s u) else get_fund v s)"
  by (auto simp: fund_of_def ensure_fund_row_def Let_def funds.get_put split: option.split)

lemma ensure_frame [simp]:
  "db_orders (snd (ensure_fund_row s u)) = db_orders s"
  "db_trades (snd (ensure_fund_row s u)) = db_trades s"
  "db_positions (snd (ensure_fund_row s u)) = db_positions s"
  "db_holdings (snd (ensure_fund_row s u)) = db_holdings s"
  "db_config (snd (ensure_fund_row s u)) = db_config s"
  "db_daily_pnl (snd (ensure_fund_row s u)) = db_daily_pnl s"
  "db_symtoken (snd (ensure_fund_row s u)) = db_symtoken s"
  "db_events (snd (ensure_fund_row s u)) = db_events s"
  by (auto simp: ensure_fund_row_def Let_def split: option.split)

lemma read_float_cong: "db_config s = db_config t \<Longrightarrow> read_float s k x = read_float t k x"
  by (simp add: read_float_def get_config_def)

lemma starting_capital_cong: "db_config s = db_config t \<Longrightarrow> get_starting_capital s = get_starting_capital t"
  by (simp add: get_starting_capital_def read_float_cong [of s t])

text \<open>Each mutator is \<open>ensure_fund_row\<close> followed by one write of that user's row; what a mutator
  does is then what it does to the row.\<close>

definition on_fund :: "(fund \<Rightarrow> fund) \<Rightarrow> db \<Rightarrow> int \<Rightarrow> db" where
  "on_fund g s u = put_fund (g (fund_of s u)) (snd (ensure_fund_row s u))"

lemma fund_of_on_fund:
  assumes "\<And>f. fd_user_id (g f) = fd_user_id f"
  shows "fund_of (on_fund g s u) v = (if v = u then g (fund_of s u) else fund_of s v)"
proof (cases "v = u")
  case True
  have "get_fund u (on_fund g s u) = Some (g (fund_of s u))"
    using assms by (simp add: on_fund_def funds.get_put)
  with True show ?thesis by (simp add: fund_of_Some)
next
  case False
  have g: "get_fund v (on_fund g s u) = get_fund v s"
    using assms False by (simp add: on_fund_def funds.get_put get_fund_ensure)
  moreover have "get_starting_capital (on_fund g s u) = get_starting_capital s"
    by (rule starting_capital_cong) (simp add: on_fund_def)
  ultimately show ?thesis using False
    by (simp add: fund_of_def ensure_fund_row_def Let_def split: option.split)
qed

lemma on_fund_frame [simp]:
  "db_orders (on_fund g s u) = db_orders s" "db_trades (on_fund g s u) = db_trades s"
  "db_positions (on_fund g s u) = db_positions s" "db_holdings (on_fund g s u) = db_holdings s"
  "db_config (on_fund g s u) = db_config s" "db_daily_pnl (on_fund g s u) = db_daily_pnl s"
  "db_symtoken (on_fund g s u) = db_symtoken s" "db_events (on_fund g s u) = db_events s"
  by (simp_all add: on_fund_def)

lemma fund_of_ensure [simp]: "fund_of (snd (ensure_fund_row s u)) v = fund_of s v"
proof -
  have "get_starting_capital (snd (ensure_fund_row s u)) = get_starting_capital s"
    by (rule starting_capital_cong) simp
  then show ?thesis
    by (auto simp: fund_of_def [of "snd (ensure_fund_row s u)"] ensure_fund_row_def [of "snd (ensure_fund_row s u)"]
        get_fund_ensure Let_def split: option.split)
      (auto simp: fund_of_def ensure_fund_row_def Let_def split: option.splits)
qed

lemma fund_of_cong:
  "db_funds s = db_funds t \<Longrightarrow> db_config s = db_config t \<Longrightarrow> fund_of s u = fund_of t u"
  using starting_capital_cong [of s t]
  by (auto simp: fund_of_def ensure_fund_row_def Let_def get_fund_def split: option.split)

lemma fund_of_frame [simp]:
  "fund_of (put_position p s) u = fund_of s u" "fund_of (put_order r s) u = fund_of s u"
  "fund_of (put_holding h s) u = fund_of s u"
  by (rule fund_of_cong, simp, simp)+

section \<open>What each operation does to the row\<close>

definition block_row :: "rat \<Rightarrow> fund \<Rightarrow> fund" where
  "block_row amount f = f\<lparr>fd_available := fd_available f - amount, fd_used_margin := fd_used_margin f + amount\<rparr>"

definition can_block :: "rat \<Rightarrow> fund \<Rightarrow> bool" where
  "can_block amount f \<longleftrightarrow> amount \<le> 0 \<or> amount \<le> fd_available f"

lemma release_row_user [simp]: "fd_user_id (release_row a p f) = fd_user_id f"
  by (simp add: release_row_def Let_def)

lemma block_row_user [simp]: "fd_user_id (block_row a f) = fd_user_id f"
  by (simp add: block_row_def)

lemma release_row_none [simp]: "a \<le> 0 \<Longrightarrow> release_row a 0 f = f"
  by (simp add: release_row_def)

lemma release_margin_eq:
  "release_margin s u a p = (if a \<le> 0 \<and> p = 0 then s else on_fund (release_row a p) s u)"
  by (simp add: release_margin_def on_fund_def fund_of_def split: prod.split)

lemma block_margin_eq:
  "block_margin s u a =
     (if a \<le> 0 then ((True, None), s)
      else if a \<le> fd_available (fund_of s u) then ((True, None), on_fund (block_row a) s u)
      else ((False, Some (Insufficient a (fd_available (fund_of s u)))), snd (ensure_fund_row s u)))"
  by (simp add: block_margin_def on_fund_def fund_of_def block_row_def split: prod.split)

lemma fund_of_release [simp]:
  "fund_of (release_margin s u a p) v = (if v = u then release_row a p (fund_of s u) else fund_of s v)"
  by (simp add: release_margin_eq fund_of_on_fund)

lemma fund_of_block:
  "fund_of (snd (block_margin s u a)) v =
     (if v = u \<and> 0 < a \<and> a \<le> fd_available (fund_of s u) then block_row a (fund_of s u) else fund_of s v)"
  by (simp add: block_margin_eq fund_of_on_fund)

lemma block_margin_ok: "fst (fst (block_margin s u a)) \<longleftrightarrow> can_block a (fund_of s u)"
  by (simp add: block_margin_eq can_block_def)

lemma block_margin_reason:
  "snd (fst (block_margin s u a)) =
     (if can_block a (fund_of s u) then None else Some (Insufficient a (fd_available (fund_of s u))))"
  by (simp add: block_margin_eq can_block_def)

lemma release_margin_frame [simp]:
  "db_orders (release_margin s u a p) = db_orders s" "db_trades (release_margin s u a p) = db_trades s"
  "db_positions (release_margin s u a p) = db_positions s"
  "db_holdings (release_margin s u a p) = db_holdings s"
  "db_config (release_margin s u a p) = db_config s"
  "db_symtoken (release_margin s u a p) = db_symtoken s"
  "db_events (release_margin s u a p) = db_events s"
  by (simp_all add: release_margin_eq)

lemma block_margin_frame [simp]:
  "db_orders (snd (block_margin s u a)) = db_orders s" "db_trades (snd (block_margin s u a)) = db_trades s"
  "db_positions (snd (block_margin s u a)) = db_positions s"
  "db_holdings (snd (block_margin s u a)) = db_holdings s"
  "db_config (snd (block_margin s u a)) = db_config s"
  "db_symtoken (snd (block_margin s u a)) = db_symtoken s"
  "db_events (snd (block_margin s u a)) = db_events s"
  by (simp_all add: block_margin_eq)

lemma transfer_margin_eq:
  "transfer_margin_to_holdings s u a =
     (if a \<le> 0 then s else on_fund (\<lambda>f. f\<lparr>fd_used_margin := max 0 (fd_used_margin f - a)\<rparr>) s u)"
  by (simp add: transfer_margin_to_holdings_def on_fund_def fund_of_def split: prod.split)

lemma fund_of_transfer [simp]:
  "fund_of (transfer_margin_to_holdings s u a) v =
     (if v = u \<and> 0 < a then (fund_of s u)\<lparr>fd_used_margin := max 0 (fd_used_margin (fund_of s u) - a)\<rparr>
      else fund_of s v)"
  by (simp add: transfer_margin_eq fund_of_on_fund)

lemma transfer_frame [simp]:
  "db_orders (transfer_margin_to_holdings s u a) = db_orders s"
  "db_positions (transfer_margin_to_holdings s u a) = db_positions s"
  "db_holdings (transfer_margin_to_holdings s u a) = db_holdings s"
  "db_trades (transfer_margin_to_holdings s u a) = db_trades s"
  "db_config (transfer_margin_to_holdings s u a) = db_config s"
  by (simp_all add: transfer_margin_eq)

section \<open>Cash accounting\<close>

text \<open>The cash a fund row stands for: what is free plus what is locked.\<close>

definition cash :: "fund \<Rightarrow> rat" where
  "cash f = fd_available f + fd_used_margin f"

text \<open>What a user could have lost or won: cash against capital and booked PnL.\<close>

definition cash_gap :: "fund \<Rightarrow> rat" where
  "cash_gap f = cash f - fd_starting_capital f - fd_realized_pnl f"

lemma cash_block_row [simp]: "cash (block_row a f) = cash f"
  by (simp add: cash_def block_row_def)

lemma cash_gap_block_row [simp]: "cash_gap (block_row a f) = cash_gap f"
  by (simp add: cash_gap_def) (simp add: block_row_def)

lemma cash_release_row:
  "0 \<le> fd_used_margin f \<Longrightarrow>
   cash (release_row a p f) = cash f + p + max 0 (max 0 a - fd_used_margin f)"
  by (auto simp: cash_def release_row_def Let_def max_def)

lemma cash_gap_release_row:
  "0 \<le> fd_used_margin f \<Longrightarrow> a \<le> fd_used_margin f \<Longrightarrow> cash_gap (release_row a p f) = cash_gap f"
  by (auto simp: cash_gap_def cash_def release_row_def Let_def max_def)

lemma used_release_row:
  "0 \<le> a \<Longrightarrow> a \<le> fd_used_margin f \<Longrightarrow> fd_used_margin (release_row a p f) = fd_used_margin f - a"
  by (auto simp: release_row_def Let_def)

lemma used_block_row [simp]: "fd_used_margin (block_row a f) = fd_used_margin f + a"
  by (simp add: block_row_def)

lemma release_block_row:
  "0 < a \<Longrightarrow> 0 \<le> fd_used_margin f \<Longrightarrow> release_row a 0 (block_row a f) = f"
  by (simp add: release_row_def block_row_def)

end
