(* ===== verification/Sandbox_Session.thy ===== *)
theory Sandbox_Session
  imports Sandbox_Config
begin

text \<open>
  Session boundaries (\<open>src/backend/sandbox/_session.py\<close>): the start of the current sandbox
  session, from the wall clock and the configured expiry time.
\<close>

definition read_session_expiry_str :: "db \<Rightarrow> string" where
  "read_session_expiry_str s =
     (case get_config ''session_expiry_time'' s of
        Some r \<Rightarrow> if cf_value r \<noteq> [] then strip (cf_value r) else ''00:00''
      | None \<Rightarrow> ''00:00'')"

text \<open>Shared by every reader of an \<open>HH:MM\<close> value: \<open>split(':', 1)\<close> and two \<open>int\<close> conversions;
  \<open>None\<close> stands for the exception of a malformed value.\<close>

definition split_hm :: "string \<Rightarrow> (int \<times> int) option" where
  "split_hm t =
     (case break_at (\<lambda>c. c = CHR '':'') t of
        (_, None) \<Rightarrow> None
      | (h, Some m) \<Rightarrow> (case (py_int h, py_int m) of (Some x, Some y) \<Rightarrow> Some (x, y) | _ \<Rightarrow> None))"

text \<open>\<open>time(h, m)\<close> refuses an hour or minute out of range; every failure gives midnight.\<close>

definition session_parse_hhmm :: "string \<Rightarrow> int \<times> int" where
  "session_parse_hhmm t =
     (case split_hm t of
        Some (h, m) \<Rightarrow> if valid_hm h m then (h, m) else (0, 0)
      | None \<Rightarrow> (0, 0))"

definition session_start_ist :: "db \<Rightarrow> datetime \<Rightarrow> datetime" where
  "session_start_ist s now =
     (let (h, m) = session_parse_hhmm (read_session_expiry_str s);
          today_boundary = at_hm now h m
      in if today_boundary \<le> now then today_boundary else today_boundary - usec_per_day)"

lemma session_parse_valid: "valid_hm (fst (session_parse_hhmm t)) (snd (session_parse_hhmm t))"
  by (auto simp: session_parse_hhmm_def valid_hm_def split: option.splits prod.splits)

lemma at_hm_bounds:
  assumes "valid_hm h m"
  shows "at_hm t h m < t + usec_per_day" and "t - usec_per_day < at_hm t h m"
proof -
  have d: "day_of t * usec_per_day + t mod usec_per_day = t" by (simp add: day_of_def)
  have m: "0 \<le> t mod usec_per_day" "t mod usec_per_day < usec_per_day" by (simp_all add: usec_per_day_def)
  have r: "0 \<le> (h * 60 + m) * 60000000" "(h * 60 + m) * 60000000 < usec_per_day"
    using assms by (auto simp: valid_hm_def usec_per_day_def)
  show "at_hm t h m < t + usec_per_day" "t - usec_per_day < at_hm t h m"
    using d m r unfolding at_hm_def by linarith+
qed

text \<open>The session start is never in the future and the session it opens lasts less than a
  day: the current time always lies in \<open>[start, start + 24h)\<close>, whatever the configured expiry
  text is (an unreadable or out-of-range value falls back to midnight).\<close>

theorem session_start_bounds:
  "session_start_ist s now \<le> now \<and> now < session_start_ist s now + usec_per_day"
proof -
  obtain h m where hm: "session_parse_hhmm (read_session_expiry_str s) = (h, m)" by fastforce
  with session_parse_valid [of "read_session_expiry_str s"] have "valid_hm h m" by simp
  note b = at_hm_bounds [OF this, of now]
  show ?thesis using b by (simp add: session_start_ist_def hm Let_def)
qed

lemma session_start_le: "session_start_ist s now \<le> now"
  using session_start_bounds [of s now] by simp

end
