(* ===== verification/Order_Manager.thy ===== *)
theory Order_Manager
  imports Sandbox_Session
begin

text \<open>
  Orders and trades (\<open>src/backend/sandbox/order_manager.py\<close>). The clock, the random suffix of an
  order id and the random part of a trade id are arguments. Each function is one transaction:
  an exception leaves the state as it was.
\<close>

section \<open>Identifiers\<close>

text \<open>Zero-padded decimal: the last \<open>w\<close> digits of \<open>n\<close>.\<close>

fun zpad :: "nat \<Rightarrow> int \<Rightarrow> string" where
  "zpad 0 n = []"
| "zpad (Suc w) n = zpad w (n div 10) @ [digit_chr (n mod 10)]"

definition new_orderid :: "int \<Rightarrow> int \<Rightarrow> int \<Rightarrow> int \<Rightarrow> int \<Rightarrow> string" where
  "new_orderid yy mm dd microsecond rnd = zpad 2 yy @ zpad 2 mm @ zpad 2 dd @ zpad 6 microsecond @ zpad 2 rnd"

definition new_tradeid :: "int \<Rightarrow> int \<Rightarrow> int \<Rightarrow> int \<Rightarrow> int \<Rightarrow> int \<Rightarrow> string \<Rightarrow> string" where
  "new_tradeid yyyy mm dd h mi sec hex8 =
     ''TRADE-'' @ zpad 4 yyyy @ zpad 2 mm @ zpad 2 dd @ ''-'' @ zpad 2 h @ zpad 2 mi @ zpad 2 sec @
     ''-'' @ upper hex8"

section \<open>Orders\<close>

definition pending_status :: "order_status \<Rightarrow> bool" where
  "pending_status st \<longleftrightarrow> st = SOpen \<or> st = STriggerPending"

definition new_order ::
  "datetime \<Rightarrow> string \<Rightarrow> int \<Rightarrow> string \<Rightarrow> string \<Rightarrow> string \<Rightarrow> int \<Rightarrow> string \<Rightarrow> string \<Rightarrow> rat \<Rightarrow> rat \<Rightarrow>
   string option \<Rightarrow> rat \<Rightarrow> order_status \<Rightarrow> reason option \<Rightarrow> order" where
  "new_order now orderid u symb exch action quantity pricetype prd price trigger strategy
     margin initial_status rejection =
     \<lparr>or_user_id = u, or_orderid = orderid, or_symbol = symb, or_exchange = exch,
      or_action = upper action, or_quantity = quantity, or_filled_quantity = 0,
      or_pricetype = upper pricetype, or_product = upper prd,
      or_price = price, or_trigger_price = trigger, or_average_price = 0,
      or_status = initial_status, or_rejection_reason = rejection,
      or_strategy = strategy, or_margin_blocked = margin, or_order_timestamp = now\<rparr>"

text \<open>Inserting a row whose order id is taken violates the unique index.\<close>

definition create_order :: "order \<Rightarrow> db \<Rightarrow> (exn + order) \<times> db" where
  "create_order row s =
     (if get_row or_orderid (or_orderid row) (db_orders s) \<noteq> None then (Inl IntegrityError, s)
      else (Inr row, put_order row s))"

definition get_order :: "db \<Rightarrow> int \<Rightarrow> string \<Rightarrow> order option" where
  "get_order s u orderid = get_order_row (u, orderid) s"

definition list_orders :: "db \<Rightarrow> datetime \<Rightarrow> int \<Rightarrow> bool \<Rightarrow> order list" where
  "list_orders s now u all_history =
     sort_key (\<lambda>r. - or_order_timestamp r)
       (filter (\<lambda>r. or_user_id r = u \<and> (all_history \<or> session_start_ist s now \<le> or_order_timestamp r))
          (db_orders s))"

definition list_trades :: "db \<Rightarrow> datetime \<Rightarrow> int \<Rightarrow> bool \<Rightarrow> trade list" where
  "list_trades s now u all_history =
     sort_key (\<lambda>t. - tr_timestamp t)
       (filter (\<lambda>t. tr_user_id t = u \<and> (all_history \<or> session_start_ist s now \<le> tr_timestamp t))
          (db_trades s))"

definition list_pending_orders :: "db \<Rightarrow> order list" where
  "list_pending_orders s = filter (\<lambda>r. pending_status (or_status r)) (db_orders s)"

definition count_all_orders :: "db \<Rightarrow> int" where
  "count_all_orders s = int (length (db_orders s))"

definition om_modify_order ::
  "int \<Rightarrow> string \<Rightarrow> int option \<Rightarrow> rat option \<Rightarrow> rat option \<Rightarrow> string option \<Rightarrow> db \<Rightarrow> order option \<times> db" where
  "om_modify_order u orderid quantity price trigger pricetype s =
     (case get_order_row (u, orderid) s of
        None \<Rightarrow> (None, s)
      | Some row \<Rightarrow>
          if \<not> pending_status (or_status row) then (None, s)
          else
            let row = (case quantity of Some q \<Rightarrow> row\<lparr>or_quantity := q\<rparr> | None \<Rightarrow> row);
                row = (case price of Some x \<Rightarrow> row\<lparr>or_price := x\<rparr> | None \<Rightarrow> row);
                row = (case trigger of Some x \<Rightarrow> row\<lparr>or_trigger_price := x\<rparr> | None \<Rightarrow> row);
                row = (case pricetype of Some t \<Rightarrow> row\<lparr>or_pricetype := upper t\<rparr> | None \<Rightarrow> row)
            in (Some row, put_order row s))"

definition om_cancel_order :: "int \<Rightarrow> string \<Rightarrow> db \<Rightarrow> order option \<times> db" where
  "om_cancel_order u orderid s =
     (case get_order_row (u, orderid) s of
        None \<Rightarrow> (None, s)
      | Some row \<Rightarrow>
          if \<not> pending_status (or_status row) then (None, s)
          else let row = row\<lparr>or_status := SCancelled\<rparr> in (Some row, put_order row s))"

definition list_cancellable_orders :: "db \<Rightarrow> int \<Rightarrow> order list" where
  "list_cancellable_orders s u =
     filter (\<lambda>r. or_user_id r = u \<and> pending_status (or_status r)) (db_orders s)"

definition fill_trade :: "datetime \<Rightarrow> string \<Rightarrow> order \<Rightarrow> int \<Rightarrow> rat \<Rightarrow> trade" where
  "fill_trade now tradeid row qty price =
     \<lparr>tr_user_id = or_user_id row, tr_orderid = or_orderid row, tr_tradeid = tradeid,
      tr_symbol = or_symbol row, tr_exchange = or_exchange row, tr_action = or_action row,
      tr_quantity = qty, tr_average_price = pyround price 4, tr_product = or_product row,
      tr_strategy = or_strategy row, tr_timestamp = now\<rparr>"

definition fill_row :: "int \<Rightarrow> rat \<Rightarrow> order \<Rightarrow> order" where
  "fill_row qty fill_price row =
     (let prev_qty = or_filled_quantity row;
          prev_avg = or_average_price row;
          new_total_qty = prev_qty + qty;
          new_avg = (if 0 < new_total_qty
                     then (prev_avg * of_int prev_qty + fill_price * of_int qty) / of_int new_total_qty
                     else fill_price)
      in row\<lparr>or_filled_quantity := new_total_qty, or_average_price := pyround new_avg 4,
             or_status := (if or_quantity row \<le> new_total_qty then SComplete else or_status row)\<rparr>)"

definition fill_qty :: "int option \<Rightarrow> order \<Rightarrow> int" where
  "fill_qty fill_quantity row =
     (case fill_quantity of Some q \<Rightarrow> q | None \<Rightarrow> or_quantity row - or_filled_quantity row)"

definition fill ::
  "datetime \<Rightarrow> string \<Rightarrow> int \<Rightarrow> string \<Rightarrow> rat \<Rightarrow> int option \<Rightarrow> db \<Rightarrow> (exn + (order \<times> trade) option) \<times> db" where
  "fill now tradeid u orderid fill_price fill_quantity s =
     (case get_order_row (u, orderid) s of
        None \<Rightarrow> (Inr None, s)
      | Some row \<Rightarrow>
          if \<not> pending_status (or_status row) then (Inr None, s)
          else
            let qty = fill_qty fill_quantity row in
            if qty \<le> 0 then (Inr None, s)
            else
              let row' = fill_row qty fill_price row;
                  trade = fill_trade now tradeid row' qty fill_price
              in if get_row tr_tradeid tradeid (db_trades s) \<noteq> None then (Inl IntegrityError, s)
                 else (Inr (Some (row', trade)),
                       (put_order row' s)\<lparr>db_trades := db_trades s @ [trade]\<rparr>))"

definition reject_order :: "int \<Rightarrow> string \<Rightarrow> string \<Rightarrow> db \<Rightarrow> db" where
  "reject_order u orderid reason s =
     s\<lparr>db_orders := map (\<lambda>r. if or_user_id r = u \<and> or_orderid r = orderid
         then r\<lparr>or_status := SRejected, or_rejection_reason := Some (Rejected (take 500 reason))\<rparr> else r)
         (db_orders s)\<rparr>"

section \<open>Broker-compatible views\<close>

record order_dict =
  od_orderid :: string
  od_symbol :: string
  od_exchange :: string
  od_action :: string
  od_order_status :: order_status
  od_quantity :: int
  od_filled_quantity :: int
  od_pending_quantity :: int
  od_pricetype :: string
  od_product :: string
  od_price :: rat
  od_trigger_price :: rat
  od_average_price :: rat
  od_timestamp :: datetime
  od_strategy :: string
  od_rejection_reason :: "reason option"

definition to_dict :: "order \<Rightarrow> order_dict" where
  "to_dict r =
     \<lparr>od_orderid = or_orderid r, od_symbol = or_symbol r, od_exchange = or_exchange r,
      od_action = or_action r, od_order_status = or_status r, od_quantity = or_quantity r,
      od_filled_quantity = or_filled_quantity r,
      od_pending_quantity = max 0 (or_quantity r - or_filled_quantity r),
      od_pricetype = or_pricetype r, od_product = or_product r,
      od_price = pyround (or_price r) 2, od_trigger_price = pyround (or_trigger_price r) 2,
      od_average_price = pyround (or_average_price r) 2, od_timestamp = or_order_timestamp r,
      od_strategy = (case or_strategy r of None \<Rightarrow> [] | Some x \<Rightarrow> x),
      od_rejection_reason = or_rejection_reason r\<rparr>"

record trade_dict =
  td_tradeid :: string
  td_orderid :: string
  td_symbol :: string
  td_exchange :: string
  td_action :: string
  td_product :: string
  td_quantity :: int
  td_average_price :: rat
  td_trade_value :: rat
  td_strategy :: string
  td_timestamp :: datetime

definition trade_to_dict :: "trade \<Rightarrow> trade_dict" where
  "trade_to_dict t =
     \<lparr>td_tradeid = tr_tradeid t, td_orderid = tr_orderid t, td_symbol = tr_symbol t,
      td_exchange = tr_exchange t, td_action = tr_action t, td_product = tr_product t,
      td_quantity = tr_quantity t, td_average_price = pyround (tr_average_price t) 2,
      td_trade_value = pyround (of_int (tr_quantity t) * tr_average_price t) 2,
      td_strategy = (case tr_strategy t of None \<Rightarrow> [] | Some x \<Rightarrow> x),
      td_timestamp = tr_timestamp t\<rparr>"

section \<open>Facts\<close>

lemma length_zpad [simp]: "length (zpad w n) = w"
  by (induction w n rule: zpad.induct) auto

lemma zpad_inj:
  "0 \<le> a \<Longrightarrow> a < 10 ^ w \<Longrightarrow> 0 \<le> b \<Longrightarrow> b < 10 ^ w \<Longrightarrow> zpad w a = zpad w b \<longleftrightarrow> a = b"
proof (induction w arbitrary: a b)
  case (Suc w)
  have "a div 10 < 10 ^ w" "b div 10 < 10 ^ w" using Suc.prems by (auto simp: div_less_iff_less_mult)
  then have "zpad w (a div 10) = zpad w (b div 10) \<longleftrightarrow> a div 10 = b div 10"
    using Suc.prems by (intro Suc.IH) auto
  moreover have "digit_chr (a mod 10) = digit_chr (b mod 10) \<longleftrightarrow> a mod 10 = b mod 10"
    by (simp add: digit_chr_inj)
  moreover have "a = b \<longleftrightarrow> a div 10 = b div 10 \<and> a mod 10 = b mod 10"
    by (metis div_mult_mod_eq)
  ultimately show ?case by simp
qed simp

lemma new_order_sel [simp]:
  "or_user_id (new_order n oid u sy ex a q pt pd pr tg st m ist rj) = u"
  "or_orderid (new_order n oid u sy ex a q pt pd pr tg st m ist rj) = oid"
  "or_symbol (new_order n oid u sy ex a q pt pd pr tg st m ist rj) = sy"
  "or_exchange (new_order n oid u sy ex a q pt pd pr tg st m ist rj) = ex"
  "or_action (new_order n oid u sy ex a q pt pd pr tg st m ist rj) = upper a"
  "or_quantity (new_order n oid u sy ex a q pt pd pr tg st m ist rj) = q"
  "or_filled_quantity (new_order n oid u sy ex a q pt pd pr tg st m ist rj) = 0"
  "or_pricetype (new_order n oid u sy ex a q pt pd pr tg st m ist rj) = upper pt"
  "or_product (new_order n oid u sy ex a q pt pd pr tg st m ist rj) = upper pd"
  "or_price (new_order n oid u sy ex a q pt pd pr tg st m ist rj) = pr"
  "or_trigger_price (new_order n oid u sy ex a q pt pd pr tg st m ist rj) = tg"
  "or_margin_blocked (new_order n oid u sy ex a q pt pd pr tg st m ist rj) = m"
  "or_status (new_order n oid u sy ex a q pt pd pr tg st m ist rj) = ist"
  "or_key (new_order n oid u sy ex a q pt pd pr tg st m ist rj) = (u, oid)"
  by (simp_all add: new_order_def or_key_def)

lemma fresh_orderid: "get_row or_orderid oid (db_orders s) = None \<Longrightarrow> get_order_row (u, oid) s = None"
  by (auto simp: get_order_row_def get_row_None or_key_def image_iff)

lemma create_order_fresh:
  "get_row or_orderid (or_orderid row) (db_orders s) = None \<Longrightarrow> create_order row s = (Inr row, put_order row s)"
  by (simp add: create_order_def)

lemma fill_row_sel [simp]:
  "or_user_id (fill_row q p r) = or_user_id r" "or_orderid (fill_row q p r) = or_orderid r"
  "or_key (fill_row q p r) = or_key r" "or_margin_blocked (fill_row q p r) = or_margin_blocked r"
  "or_filled_quantity (fill_row q p r) = or_filled_quantity r + q"
  "or_quantity (fill_row q p r) = or_quantity r"
  "or_status (fill_row q p r) = (if or_quantity r \<le> or_filled_quantity r + q then SComplete else or_status r)"
  "or_symbol (fill_row q p r) = or_symbol r" "or_exchange (fill_row q p r) = or_exchange r"
  "or_product (fill_row q p r) = or_product r" "or_action (fill_row q p r) = or_action r"
  by (simp_all add: fill_row_def Let_def or_key_def)

section \<open>The life of an order\<close>

text \<open>What an operation may do to one order: nothing, or change a pending one.\<close>

inductive order_step :: "order \<Rightarrow> order \<Rightarrow> bool" where
  keep: "order_step r r"
| modified: "pending_status (or_status r) \<Longrightarrow> or_status r' = or_status r \<Longrightarrow>
     or_key r' = or_key r \<Longrightarrow> or_margin_blocked r' = or_margin_blocked r \<Longrightarrow>
     or_filled_quantity r' = or_filled_quantity r \<Longrightarrow> order_step r r'"
| cancelled: "pending_status (or_status r) \<Longrightarrow> order_step r (r\<lparr>or_status := SCancelled\<rparr>)"
| filled: "pending_status (or_status r) \<Longrightarrow> or_filled_quantity r < or_filled_quantity r' \<Longrightarrow>
     or_key r' = or_key r \<Longrightarrow> or_margin_blocked r' = or_margin_blocked r \<Longrightarrow>
     (or_status r' = SComplete \<and> or_quantity r' \<le> or_filled_quantity r' \<or> or_status r' = or_status r) \<Longrightarrow>
     order_step r r'"

inductive_cases order_stepE: "order_step r r'"

lemma order_step_terminal: "order_step r r' \<Longrightarrow> \<not> pending_status (or_status r) \<Longrightarrow> r' = r"
  by (auto elim: order_stepE)

lemma order_step_margin: "order_step r r' \<Longrightarrow> or_margin_blocked r' = or_margin_blocked r"
  by (auto elim!: order_stepE)

lemma create_order_step:
  "get_order_row k s = Some r \<Longrightarrow> get_order_row k (snd (create_order row s)) = Some r"
  using fresh_orderid [of "or_orderid row" s "or_user_id row"]
  by (auto simp: create_order_def ords.get_put or_key_def)

text \<open>The three operations on an existing order share one shape: look the row up, and write a
  row with the same key that is one step away.\<close>

lemma put_order_step:
  assumes "get_order_row k s = Some r" "get_order_row (u, oid) s = Some q"
    and "or_key q' = or_key q" "order_step q q'"
  shows "\<exists>r'. get_order_row k (put_order q' s) = Some r' \<and> order_step r r'"
proof (cases "k = (u, oid)")
  case True
  with assms ords.get_key [OF assms(2)] show ?thesis by (auto simp: ords.get_put)
next
  case False
  with assms ords.get_key [OF assms(2)] show ?thesis by (auto simp: ords.get_put intro: order_step.keep)
qed

lemma om_modify_order_step:
  assumes r: "get_order_row k s = Some r"
  shows "\<exists>r'. get_order_row k (snd (om_modify_order u oid q x y t s)) = Some r' \<and> order_step r r'"
proof (cases "\<exists>row. get_order_row (u, oid) s = Some row \<and> pending_status (or_status row)")
  case True
  then obtain row where row: "get_order_row (u, oid) s = Some row" "pending_status (or_status row)" by blast
  obtain m where m: "snd (om_modify_order u oid q x y t s) = put_order m s"
    and ms: "or_status m = or_status row" "or_key m = or_key row"
      "or_margin_blocked m = or_margin_blocked row" "or_filled_quantity m = or_filled_quantity row"
    using row by (auto simp: om_modify_order_def Let_def or_key_def split: option.splits)
  show ?thesis unfolding m
    by (rule put_order_step [OF r row(1) ms(2)]) (rule order_step.modified [OF row(2) ms(1,2,3,4)])
next
  case False
  then have "snd (om_modify_order u oid q x y t s) = s"
    by (auto simp: om_modify_order_def split: option.split)
  with r show ?thesis by (auto intro: order_step.keep)
qed

lemma om_cancel_order_step:
  assumes r: "get_order_row k s = Some r"
  shows "\<exists>r'. get_order_row k (snd (om_cancel_order u oid s)) = Some r' \<and> order_step r r'"
proof (cases "\<exists>row. get_order_row (u, oid) s = Some row \<and> pending_status (or_status row)")
  case True
  then obtain row where row: "get_order_row (u, oid) s = Some row" "pending_status (or_status row)" by blast
  then have m: "snd (om_cancel_order u oid s) = put_order (row\<lparr>or_status := SCancelled\<rparr>) s"
    by (simp add: om_cancel_order_def Let_def)
  show ?thesis unfolding m
    by (rule put_order_step [OF r row(1)]) (simp_all add: or_key_def order_step.cancelled row(2))
next
  case False
  then have "snd (om_cancel_order u oid s) = s"
    by (auto simp: om_cancel_order_def split: option.split)
  with r show ?thesis by (auto intro: order_step.keep)
qed

lemma fill_row_step:
  "pending_status (or_status r) \<Longrightarrow> 0 < q \<Longrightarrow> order_step r (fill_row q p r)"
  by (rule order_step.filled) auto

lemma fill_step:
  assumes r: "get_order_row k s = Some r"
  shows "\<exists>r'. get_order_row k (snd (fill now tid u oid price fq s)) = Some r' \<and> order_step r r'"
proof (cases "\<exists>row. get_order_row (u, oid) s = Some row \<and> pending_status (or_status row) \<and>
    0 < fill_qty fq row \<and> get_row tr_tradeid tid (db_trades s) = None")
  case True
  then obtain row where row: "get_order_row (u, oid) s = Some row" "pending_status (or_status row)"
    "0 < fill_qty fq row" "get_row tr_tradeid tid (db_trades s) = None" by blast
  then have m: "get_order_row k (snd (fill now tid u oid price fq s)) =
      get_order_row k (put_order (fill_row (fill_qty fq row) price row) s)"
    by (simp add: fill_def Let_def get_order_row_def)
  show ?thesis unfolding m
    by (rule put_order_step [OF r row(1)]) (simp_all add: fill_row_step row)
next
  case False
  then have "snd (fill now tid u oid price fq s) = s"
    by (auto simp: fill_def Let_def not_le split: option.split)
  with r show ?thesis by (auto intro: order_step.keep)
qed

section \<open>What a fill does\<close>

lemma fill_frame:
  "fill now tid u oid x fq s = (res, s') \<Longrightarrow>
     db_positions s' = db_positions s \<and> db_funds s' = db_funds s \<and> db_holdings s' = db_holdings s \<and>
     db_config s' = db_config s \<and> db_symtoken s' = db_symtoken s \<and> db_daily_pnl s' = db_daily_pnl s"
  by (auto simp: fill_def Let_def split: option.splits if_splits)

lemma fill_none:
  "fill now tid u oid x fq s = (Inr None, s') \<Longrightarrow> s' = s"
  "fill now tid u oid x fq s = (Inl e, s') \<Longrightarrow> s' = s"
  by (auto simp: fill_def Let_def split: option.splits if_splits)

text \<open>A fill of everything that is left completes the order.\<close>

lemma fill_rest:
  assumes "fill now tid u oid x None s = (Inr (Some (r', td)), s')"
  obtains r where "get_order_row (u, oid) s = Some r" "pending_status (or_status r)"
    "or_filled_quantity r < or_quantity r" "r' = fill_row (or_quantity r - or_filled_quantity r) x r"
    "or_status r' = SComplete" "tr_quantity td = or_quantity r - or_filled_quantity r"
    "s' = (put_order r' s)\<lparr>db_trades := db_trades s @ [td]\<rparr>" "or_key r' = (u, oid)"
  using assms ords.get_key [of "(u, oid)" s]
  by (auto simp: fill_def fill_qty_def fill_trade_def Let_def split: option.splits if_splits)

lemma fill_rest_orders:
  assumes "fill now tid u oid x None s = (res, s')"
  shows "get_order_row k s' = get_order_row k s \<or>
     (k = (u, oid) \<and> (\<exists>r. get_order_row k s' = Some r \<and> or_status r = SComplete))"
proof (cases res)
  case (Inl e)
  with assms fill_none(2) [of now tid u oid x None s e s'] show ?thesis by simp
next
  case (Inr q)
  show ?thesis
  proof (cases q)
    case None
    with assms Inr fill_none(1) [of now tid u oid x None s s'] show ?thesis by simp
  next
    case (Some a)
    obtain r' td where a: "a = (r', td)" by fastforce
    obtain r where r: "get_order_row (u, oid) s = Some r" "or_status r' = SComplete" "or_key r' = (u, oid)"
      "s' = (put_order r' s)\<lparr>db_trades := db_trades s @ [td]\<rparr>"
      using assms unfolding Inr Some a by (elim fill_rest) blast
    have "get_order_row k s' = get_order_row k (put_order r' s)" unfolding r by (simp add: get_order_row_def)
    then show ?thesis using r(2,3) by (auto simp: ords.get_put)
  qed
qed

lemma fill_uniq: "uniq or_key (db_orders s) \<Longrightarrow> uniq or_key (db_orders (snd (fill now tid u oid x fq s)))"
  by (auto simp: fill_def Let_def put_order_def uniq_put_row split: option.split)

end
