(* ===== verification/Position_Manager.thy ===== *)
theory Position_Manager
  imports Order_Manager
begin

text \<open>
  The position book (\<open>src/backend/sandbox/position_manager.py\<close>): one net position per user,
  symbol, exchange and product, updated on every fill. A write through the ORM bumps
  \<open>updated_at\<close> when a column really changes (\<open>onupdate=func.now()\<close>). Reading the position
  list is in \<open>Catch_Up\<close>, because it first settles expired contracts.
\<close>

section \<open>Rows\<close>

definition new_position :: "datetime \<Rightarrow> pos_key \<Rightarrow> position" where
  "new_position now k =
     (case k of (u, symb, exch, prd) \<Rightarrow>
       \<lparr>po_user_id = u, po_symbol = symb, po_exchange = exch, po_product = prd,
        po_net_quantity = 0, po_average_price = 0, po_ltp = 0, po_pnl = 0, po_realized_pnl = 0,
        po_today_realized_pnl = 0, po_unrealized_pnl = 0, po_margin_blocked = 0,
        po_day_buy_quantity = 0, po_day_buy_value = 0, po_day_sell_quantity = 0,
        po_day_sell_value = 0, po_updated_at = now\<rparr>)"

text \<open>\<open>_get_or_create\<close>: the row the fill works on (the insert is flushed in the same transaction).\<close>

definition get_or_create :: "datetime \<Rightarrow> pos_key \<Rightarrow> db \<Rightarrow> position" where
  "get_or_create now k s = (case get_position k s of Some p \<Rightarrow> p | None \<Rightarrow> new_position now k)"

definition orm_touch :: "datetime \<Rightarrow> position \<Rightarrow> position \<Rightarrow> position" where
  "orm_touch now old new = (if new = old then old else new\<lparr>po_updated_at := now\<rparr>)"

definition get_position_snapshot :: "db \<Rightarrow> pos_key \<Rightarrow> (int \<times> rat) option" where
  "get_position_snapshot s k =
     (case get_position k s of
        None \<Rightarrow> None
      | Some p \<Rightarrow> if po_net_quantity p = 0 then None
                  else Some (po_net_quantity p, po_margin_blocked p))"

section \<open>Fills\<close>

text \<open>The locals of \<open>apply_fill\<close> that outlive its two branches. \<open>remaining\<close> is assigned in the
  opposite-direction branch only: \<open>None\<close> is the unbound local.\<close>

record fill_locals =
  fl_pos :: position
  fl_new_net :: int
  fl_realized :: rat
  fl_release :: rat
  fl_remaining :: "int option"

definition same_direction :: "int \<Rightarrow> int \<Rightarrow> bool" where
  "same_direction old_net signed_qty \<longleftrightarrow>
     (0 \<le> old_net \<and> 0 < signed_qty) \<or> (old_net \<le> 0 \<and> signed_qty < 0)"

definition fill_accumulate :: "position \<Rightarrow> int \<Rightarrow> rat \<Rightarrow> rat \<Rightarrow> fill_locals" where
  "fill_accumulate pos signed_qty price order_margin =
     (let old_net = po_net_quantity pos;
          old_avg = po_average_price pos;
          new_net = old_net + signed_qty;
          new_total_cost = old_avg * of_int \<bar>old_net\<bar> + price * of_int \<bar>signed_qty\<bar>;
          new_avg = (if new_net \<noteq> 0 then new_total_cost / of_int \<bar>new_net\<bar> else 0)
      in \<lparr>fl_pos = pos\<lparr>po_net_quantity := new_net, po_average_price := pyround new_avg 4,
                       po_margin_blocked := pyround (po_margin_blocked pos + order_margin) 2\<rparr>,
          fl_new_net = new_net, fl_realized = 0, fl_release = 0, fl_remaining = None\<rparr>)"

definition fill_offset :: "position \<Rightarrow> int \<Rightarrow> rat \<Rightarrow> rat \<Rightarrow> fill_locals" where
  "fill_offset pos signed_qty price order_margin =
     (let old_net = po_net_quantity pos;
          old_avg = po_average_price pos;
          old_margin = po_margin_blocked pos;
          offset_qty = min \<bar>old_net\<bar> \<bar>signed_qty\<bar>;
          realized_delta = (if 0 < old_net then (price - old_avg) * of_int offset_qty
                            else (old_avg - price) * of_int offset_qty);
          remaining = \<bar>signed_qty\<bar> - offset_qty;
          new_net = old_net + signed_qty;
          pro_rata = (if 0 < \<bar>old_net\<bar> \<and> 0 < old_margin
                      then pyround (old_margin * (of_int offset_qty / of_int \<bar>old_net\<bar>)) 2 else 0);
          pos = pos\<lparr>po_net_quantity := new_net\<rparr>;
          (pos, to_release) =
            (if new_net = 0 then
               (pos\<lparr>po_average_price := 0, po_margin_blocked := 0\<rparr>, pyround old_margin 2)
             else if 0 < remaining then
               (pos\<lparr>po_average_price := pyround price 4, po_margin_blocked := pyround order_margin 2\<rparr>,
                pyround old_margin 2)
             else
               (pos\<lparr>po_margin_blocked := pyround (max 0 (old_margin - pro_rata)) 2\<rparr>, pro_rata))
      in \<lparr>fl_pos = pos\<lparr>po_realized_pnl := pyround (po_realized_pnl pos + realized_delta) 4,
                       po_today_realized_pnl := pyround (po_today_realized_pnl pos + realized_delta) 4\<rparr>,
          fl_new_net = new_net, fl_realized = realized_delta, fl_release = to_release,
          fl_remaining = Some remaining\<rparr>)"

definition fill_branch :: "position \<Rightarrow> int \<Rightarrow> rat \<Rightarrow> rat \<Rightarrow> fill_locals" where
  "fill_branch pos signed_qty price order_margin =
     (if same_direction (po_net_quantity pos) signed_qty
      then fill_accumulate pos signed_qty price order_margin
      else fill_offset pos signed_qty price order_margin)"

definition day_fields :: "string \<Rightarrow> int \<Rightarrow> rat \<Rightarrow> position \<Rightarrow> position" where
  "day_fields action quantity price pos =
     (let pos = (if action = ''BUY''
        then pos\<lparr>po_day_buy_quantity := po_day_buy_quantity pos + quantity,
                 po_day_buy_value := pyround (po_day_buy_value pos + price * of_int quantity) 2\<rparr>
        else pos\<lparr>po_day_sell_quantity := po_day_sell_quantity pos + quantity,
                 po_day_sell_value := pyround (po_day_sell_value pos + price * of_int quantity) 2\<rparr>)
      in pos\<lparr>po_pnl := pyround (po_realized_pnl pos + po_unrealized_pnl pos) 4\<rparr>)"

text \<open>Which events to publish: (closed quantity, price, realized) and (opened quantity, price,
  margin). The last test reads \<open>remaining\<close>.\<close>

definition fill_events ::
  "int \<Rightarrow> fill_locals \<Rightarrow> rat \<Rightarrow> rat \<Rightarrow> exn + (int \<times> rat \<times> rat) \<times> (int \<times> rat \<times> rat)" where
  "fill_events old_net l price order_margin =
     (if old_net = 0 \<and> fl_new_net l \<noteq> 0 then
        Inr ((0, 0, 0), (\<bar>fl_new_net l\<bar>, price, po_margin_blocked (fl_pos l)))
      else if old_net \<noteq> 0 \<and> fl_new_net l = 0 then
        Inr ((\<bar>old_net\<bar>, price, fl_realized l), (0, 0, 0))
      else
        (case fl_remaining l of
           None \<Rightarrow> Inl UnboundLocalError
         | Some remaining \<Rightarrow>
             if 0 < remaining
             then Inr ((\<bar>old_net\<bar>, price, fl_realized l), (remaining, price, order_margin))
             else Inr ((0, 0, 0), (0, 0, 0))))"

definition publish_fill ::
  "int \<Rightarrow> string \<Rightarrow> string \<Rightarrow> (int \<times> rat \<times> rat) \<times> (int \<times> rat \<times> rat) \<Rightarrow> position_event list" where
  "publish_fill u action symb ev =
     (case ev of ((cq, cp, cr), (oq, op, mu)) \<Rightarrow>
       (if 0 < cq then [PositionClosed u symb cq cp cr] else []) @
       (if 0 < oq then [PositionOpened u action symb oq op mu] else []))"

definition signed_quantity :: "string \<Rightarrow> int \<Rightarrow> int" where
  "signed_quantity action quantity = (if action = ''BUY'' then quantity else - quantity)"

text \<open>Everything up to the events runs in one transaction: an exception undoes the row.\<close>

definition apply_fill ::
  "datetime \<Rightarrow> pos_key \<Rightarrow> string \<Rightarrow> int \<Rightarrow> rat \<Rightarrow> rat \<Rightarrow> db \<Rightarrow> (exn + rat \<times> rat) \<times> db" where
  "apply_fill now k action quantity price order_margin s =
     (let action = upper action;
          signed_qty = signed_quantity action quantity;
          old = get_or_create now k s;
          old_net = po_net_quantity old;
          l = fill_branch old signed_qty price order_margin;
          pos = day_fields action quantity price (fl_pos l)
      in case fill_events old_net l price order_margin of
           Inl e \<Rightarrow> (Inl e, s)
         | Inr ev \<Rightarrow>
             (Inr (pyround (fl_realized l) 4, pyround (fl_release l) 2),
              (put_position (orm_touch now old pos) s)
                \<lparr>db_events := db_events s @ publish_fill (fst k) action (fst (snd k)) ev\<rparr>))"

section \<open>Marking to market\<close>

definition unrealized_at :: "position \<Rightarrow> rat \<Rightarrow> rat" where
  "unrealized_at p ltp =
     (if 0 < po_net_quantity p then (ltp - po_average_price p) * of_int (po_net_quantity p)
      else (po_average_price p - ltp) * of_int \<bar>po_net_quantity p\<bar>)"

definition mark_row :: "rat \<Rightarrow> position \<Rightarrow> position" where
  "mark_row ltp p =
     (let p = p\<lparr>po_ltp := pyround ltp 4, po_unrealized_pnl := pyround (unrealized_at p ltp) 4\<rparr>
      in p\<lparr>po_pnl := pyround (po_realized_pnl p + po_unrealized_pnl p) 4\<rparr>)"

definition mark_to_market :: "datetime \<Rightarrow> pos_key \<Rightarrow> rat \<Rightarrow> db \<Rightarrow> db" where
  "mark_to_market now k ltp s =
     (if ltp \<le> 0 then s
      else case get_position k s of
             None \<Rightarrow> s
           | Some p \<Rightarrow> if po_net_quantity p = 0 then s
                       else put_position (orm_touch now p (mark_row ltp p)) s)"

section \<open>Facts\<close>

lemma orm_touch_sel [simp]:
  "po_user_id (orm_touch now old new) = po_user_id new" "po_symbol (orm_touch now old new) = po_symbol new"
  "po_exchange (orm_touch now old new) = po_exchange new" "po_product (orm_touch now old new) = po_product new"
  "po_net_quantity (orm_touch now old new) = po_net_quantity new"
  "po_average_price (orm_touch now old new) = po_average_price new"
  "po_margin_blocked (orm_touch now old new) = po_margin_blocked new"
  "po_realized_pnl (orm_touch now old new) = po_realized_pnl new"
  "po_unrealized_pnl (orm_touch now old new) = po_unrealized_pnl new"
  "po_key (orm_touch now old new) = po_key new"
  by (simp_all add: orm_touch_def po_key_def)

lemma mark_row_sel [simp]:
  "po_user_id (mark_row x p) = po_user_id p" "po_net_quantity (mark_row x p) = po_net_quantity p"
  "po_average_price (mark_row x p) = po_average_price p" "po_margin_blocked (mark_row x p) = po_margin_blocked p"
  "po_realized_pnl (mark_row x p) = po_realized_pnl p" "po_key (mark_row x p) = po_key p"
  by (simp_all add: mark_row_def Let_def po_key_def)

lemma day_fields_sel [simp]:
  "po_user_id (day_fields a q x p) = po_user_id p" "po_net_quantity (day_fields a q x p) = po_net_quantity p"
  "po_average_price (day_fields a q x p) = po_average_price p"
  "po_margin_blocked (day_fields a q x p) = po_margin_blocked p"
  "po_realized_pnl (day_fields a q x p) = po_realized_pnl p" "po_key (day_fields a q x p) = po_key p"
  by (simp_all add: day_fields_def Let_def po_key_def)

lemma get_or_create_key [simp]: "po_key (get_or_create now k s) = k"
  by (auto simp: get_or_create_def new_position_def po_key_def split: option.split prod.split
      dest!: poss.get_key)

lemma fill_accumulate_sel [simp]:
  "po_key (fl_pos (fill_accumulate p sq x om)) = po_key p"
  "po_net_quantity (fl_pos (fill_accumulate p sq x om)) = po_net_quantity p + sq"
  "po_margin_blocked (fl_pos (fill_accumulate p sq x om)) = pyround (po_margin_blocked p + om) 2"
  "fl_new_net (fill_accumulate p sq x om) = po_net_quantity p + sq"
  "fl_realized (fill_accumulate p sq x om) = 0" "fl_release (fill_accumulate p sq x om) = 0"
  "fl_remaining (fill_accumulate p sq x om) = None"
  "po_realized_pnl (fl_pos (fill_accumulate p sq x om)) = po_realized_pnl p"
  by (simp_all add: fill_accumulate_def Let_def po_key_def)

lemma fill_offset_sel [simp]:
  "po_key (fl_pos (fill_offset p sq x om)) = po_key p"
  "po_net_quantity (fl_pos (fill_offset p sq x om)) = po_net_quantity p + sq"
  "fl_new_net (fill_offset p sq x om) = po_net_quantity p + sq"
  "fl_remaining (fill_offset p sq x om) = Some (\<bar>sq\<bar> - min \<bar>po_net_quantity p\<bar> \<bar>sq\<bar>)"
  by (simp_all add: fill_offset_def Let_def po_key_def split: prod.split)

text \<open>Which part of a fill this is: the three ways a fill in the opposite direction can end.\<close>

definition fill_opens :: "int \<Rightarrow> int \<Rightarrow> bool" where
  "fill_opens old_net signed_qty \<longleftrightarrow> same_direction old_net signed_qty \<or> \<bar>old_net\<bar> < \<bar>signed_qty\<bar>"

text \<open>A row holding a whole number of paise, none when flat.\<close>

definition margin_wf :: "position \<Rightarrow> bool" where
  "margin_wf p \<longleftrightarrow> 0 \<le> po_margin_blocked p \<and> cents (po_margin_blocked p) \<and>
     (po_net_quantity p = 0 \<longrightarrow> po_margin_blocked p = 0 \<and> po_average_price p = 0)"

lemma margin_wf_new [simp]: "margin_wf (new_position now k)"
  by (simp add: margin_wf_def new_position_def split: prod.split)

lemma pro_rata_le:
  assumes "0 \<le> m" "cents m" "0 \<le> c" "c \<le> 1"
  shows "pyround (m * c) 2 \<le> m"
proof -
  have "pyround (m * c) 2 \<le> pyround m 2"
    using assms mult_left_le by (intro pyround_mono) (simp add: mult_left_le)
  then show ?thesis using assms by (simp add: pyround_cents)
qed

text \<open>Margin moves through the offset branch without loss: what stays on the row and what is
  released add up to what was there, plus the order's margin when the position reverses.\<close>

lemma fill_offset_margin:
  fixes x om :: rat
  assumes wf: "margin_wf p" and om: "cents om" "0 \<le> om" and nd: "\<not> same_direction (po_net_quantity p) sq" and sq: "sq \<noteq> 0"
  defines "l \<equiv> fill_offset p sq x om"
  shows "po_margin_blocked (fl_pos l) =
           po_margin_blocked p - fl_release l + (if \<bar>po_net_quantity p\<bar> < \<bar>sq\<bar> then om else 0)"
    and "0 \<le> fl_release l" and "fl_release l \<le> po_margin_blocked p" and "cents (fl_release l)"
    and "margin_wf (fl_pos l)"
proof -
  let ?n = "po_net_quantity p" and ?m = "po_margin_blocked p"
  have m: "0 \<le> ?m" "cents ?m" "pyround ?m 2 = ?m" using wf by (simp_all add: margin_wf_def pyround_cents)
  have n0: "?n \<noteq> 0" using nd sq by (auto simp: same_direction_def)
  have opp: "(0 < ?n \<and> sq < 0) \<or> (?n < 0 \<and> 0 < sq)" using nd n0 sq by (auto simp: same_direction_def)
  let ?c = "of_int (min \<bar>?n\<bar> \<bar>sq\<bar>) / (of_int \<bar>?n\<bar> :: rat)"
  have c: "0 \<le> ?c" "?c \<le> 1" using n0 by (simp_all add: divide_le_eq_1)
  let ?r = "if 0 < ?m then pyround (?m * ?c) 2 else 0"
  have r: "0 \<le> ?r" "?r \<le> ?m" "cents ?r"
    using pyround_nonneg [of "?m * ?c" 2] pro_rata_le [OF m(1,2) c] m c by auto
  have rr: "pyround (max 0 (?m - ?r)) 2 = ?m - ?r"
    using r m by (simp add: max_def pyround_cents cents_diff)
  consider (close) "?n + sq = 0" | (rev) "?n + sq \<noteq> 0" "\<bar>?n\<bar> < \<bar>sq\<bar>" | (red) "?n + sq \<noteq> 0" "\<bar>sq\<bar> < \<bar>?n\<bar>"
    using opp by linarith
  then have "(po_margin_blocked (fl_pos l) = ?m - fl_release l + (if \<bar>?n\<bar> < \<bar>sq\<bar> then om else 0)) \<and>
     0 \<le> fl_release l \<and> fl_release l \<le> ?m \<and> cents (fl_release l) \<and> margin_wf (fl_pos l)"
  proof cases
    case close
    then have "\<bar>?n\<bar> = \<bar>sq\<bar>" by linarith
    then show ?thesis using close m by (simp add: l_def fill_offset_def margin_wf_def Let_def)
  next
    case rev
    then show ?thesis using m om n0 by (simp add: l_def fill_offset_def margin_wf_def pyround_cents min_def Let_def)
  next
    case red
    then have *: "fl_release l = ?r" "po_margin_blocked (fl_pos l) = pyround (max 0 (?m - ?r)) 2"
      using n0 by (auto simp: l_def fill_offset_def min_def Let_def)
    have "po_net_quantity (fl_pos l) \<noteq> 0" using red by (simp add: l_def)
    then show ?thesis using r red m rr unfolding * by (simp add: margin_wf_def * cents_diff)
  qed
  then show "po_margin_blocked (fl_pos l) = ?m - fl_release l + (if \<bar>?n\<bar> < \<bar>sq\<bar> then om else 0)"
    "0 \<le> fl_release l" "fl_release l \<le> ?m" "cents (fl_release l)" "margin_wf (fl_pos l)" by simp_all
qed

lemma fill_branch_sel [simp]:
  "po_key (fl_pos (fill_branch p sq x om)) = po_key p"
  "po_net_quantity (fl_pos (fill_branch p sq x om)) = po_net_quantity p + sq"
  "fl_new_net (fill_branch p sq x om) = po_net_quantity p + sq"
  by (simp_all add: fill_branch_def)

lemma fill_branch_margin:
  fixes x om :: rat
  assumes wf: "margin_wf p" and om: "cents om" "0 \<le> om" and sq: "sq \<noteq> 0"
  defines "l \<equiv> fill_branch p sq x om"
  shows "po_margin_blocked (fl_pos l) =
           po_margin_blocked p - fl_release l + (if fill_opens (po_net_quantity p) sq then om else 0)"
    and "0 \<le> fl_release l" and "fl_release l \<le> po_margin_blocked p" and "cents (fl_release l)"
    and "margin_wf (fl_pos l)"
proof -
  let ?m = "po_margin_blocked p"
  have "(po_margin_blocked (fl_pos l) = ?m - fl_release l + (if fill_opens (po_net_quantity p) sq then om else 0))
     \<and> 0 \<le> fl_release l \<and> fl_release l \<le> ?m \<and> cents (fl_release l) \<and> margin_wf (fl_pos l)"
  proof (cases "same_direction (po_net_quantity p) sq")
    case True
    then have "po_net_quantity p + sq \<noteq> 0" by (auto simp: same_direction_def)
    with True assms show ?thesis
      by (simp add: l_def fill_branch_def fill_opens_def margin_wf_def pyround_cents cents_add)
  next
    case False
    note fill_offset_margin [OF wf om False sq, of x]
    with False show ?thesis by (simp add: l_def fill_branch_def fill_opens_def)
  qed
  then show "po_margin_blocked (fl_pos l) = ?m - fl_release l + (if fill_opens (po_net_quantity p) sq then om else 0)"
    "0 \<le> fl_release l" "fl_release l \<le> ?m" "cents (fl_release l)" "margin_wf (fl_pos l)" by simp_all
qed

text \<open>What a fill that returns did: it wrote the one row of its key.\<close>

definition fill_written :: "datetime \<Rightarrow> pos_key \<Rightarrow> string \<Rightarrow> int \<Rightarrow> rat \<Rightarrow> rat \<Rightarrow> db \<Rightarrow> position" where
  "fill_written now k action quantity price order_margin s =
     (let old = get_or_create now k s;
          l = fill_branch old (signed_quantity (upper action) quantity) price order_margin
      in orm_touch now old (day_fields (upper action) quantity price (fl_pos l)))"

lemma fill_written_key [simp]: "po_key (fill_written now k a q x om s) = k"
  by (simp add: fill_written_def Let_def)

lemma apply_fill_ok:
  assumes "apply_fill now k action quantity price om s = (Inr (realized, rel), s')"
  shows "\<exists>ev. s' = (put_position (fill_written now k action quantity price om s) s)\<lparr>db_events := ev\<rparr>"
    and "realized = pyround (fl_realized (fill_branch (get_or_create now k s) (signed_quantity (upper action) quantity) price om)) 4"
    and "rel = pyround (fl_release (fill_branch (get_or_create now k s) (signed_quantity (upper action) quantity) price om)) 2"
  using assms by (auto simp: apply_fill_def fill_written_def Let_def split: sum.splits)

lemma apply_fill_error: "apply_fill now k action quantity price om s = (Inl e, s') \<Longrightarrow> s' = s"
  by (auto simp: apply_fill_def Let_def split: sum.splits)

lemma apply_fill_frame:
  assumes "apply_fill now k action quantity price om s = (r, s')"
  shows "db_orders s' = db_orders s" "db_trades s' = db_trades s" "db_funds s' = db_funds s"
    "db_holdings s' = db_holdings s" "db_config s' = db_config s" "db_symtoken s' = db_symtoken s"
    "db_daily_pnl s' = db_daily_pnl s"
  using assms by (auto simp: apply_fill_def Let_def split: sum.splits)

text \<open>When the code stops with an exception: exactly on a fill that adds to an open position in the
  same direction, where the last test reads the local \<open>remaining\<close> that only the other branch
  assigns.\<close>

lemma apply_fill_raises_iff:
  assumes "0 < quantity"
  shows "(\<exists>e s'. apply_fill now k action quantity price om s = (Inl e, s')) \<longleftrightarrow>
     (let n = po_net_quantity (get_or_create now k s) in
      n \<noteq> 0 \<and> same_direction n (signed_quantity (upper action) quantity))"
  using assms
  by (auto simp: apply_fill_def Let_def fill_events_def fill_branch_def same_direction_def signed_quantity_def
      split: sum.splits if_splits)

section \<open>Profit and loss\<close>

text \<open>Signed form of the paper profit.\<close>

lemma unrealized_at_eq: "unrealized_at p x = (x - po_average_price p) * of_int (po_net_quantity p)"
  by (simp add: unrealized_at_def algebra_simps)

lemma rounded_times: "\<bar>(pyround x 4 - x) * of_int n\<bar> \<le> of_int \<bar>n\<bar> / 20000"
proof -
  have "\<bar>(pyround x 4 - x) * of_int n\<bar> = \<bar>pyround x 4 - x\<bar> * of_int \<bar>n\<bar>" by (simp add: abs_mult)
  also have "\<dots> \<le> (1 / 20000) * of_int \<bar>n\<bar>"
    using pyround_error [of x 4] by (intro mult_right_mono) auto
  finally show ?thesis by simp
qed

text \<open>A fill at price \<open>x\<close> moves paper profit at \<open>x\<close> into realized profit and creates none; the
  average price is kept to four decimals, hence the slack per unit held.\<close>

lemma fill_branch_value:
  fixes x om :: rat and p :: position
  assumes sq: "sq \<noteq> 0"
  defines "l \<equiv> fill_branch p sq x om"
  shows "\<bar>unrealized_at (fl_pos l) x + fl_realized l - unrealized_at p x\<bar> \<le> of_int \<bar>po_net_quantity p + sq\<bar> / 20000"
proof -
  let ?n = "po_net_quantity p" and ?a = "po_average_price p"
  have net: "po_net_quantity (fl_pos l) = ?n + sq" by (simp add: l_def)
  consider (acc) "same_direction ?n sq" | (close) "\<not> same_direction ?n sq" "?n + sq = 0"
    | (rev) "\<not> same_direction ?n sq" "?n + sq \<noteq> 0" "\<bar>?n\<bar> < \<bar>sq\<bar>" | (red) "\<not> same_direction ?n sq" "?n + sq \<noteq> 0" "\<not> \<bar>?n\<bar> < \<bar>sq\<bar>"
    by blast
  then show ?thesis
  proof cases
    case acc
    then have nz: "?n + sq \<noteq> 0" using sq by (auto simp: same_direction_def)
    have ab: "(of_int \<bar>?n + sq\<bar> :: rat) = of_int \<bar>?n\<bar> + of_int \<bar>sq\<bar>" using acc by (auto simp: same_direction_def)
    let ?v = "(?a * of_int \<bar>?n\<bar> + x * of_int \<bar>sq\<bar>) / of_int \<bar>?n + sq\<bar>"
    have v: "?v * of_int (?n + sq) = ?a * of_int ?n + x * of_int sq"
      using acc nz by (auto simp: same_direction_def field_simps)
    have l: "po_average_price (fl_pos l) = pyround ?v 4" "fl_realized l = 0"
      using acc nz by (simp_all add: l_def fill_branch_def fill_accumulate_def Let_def)
    have "unrealized_at (fl_pos l) x + fl_realized l - unrealized_at p x =
        - ((pyround ?v 4 - ?v) * of_int (?n + sq))"
      unfolding unrealized_at_eq net l using v by (simp add: algebra_simps)
    then show ?thesis using rounded_times [of ?v "?n + sq"] by simp
  next
    case close
    then have "\<bar>sq\<bar> = \<bar>?n\<bar>" "sq = - ?n" by linarith+
    then have "unrealized_at (fl_pos l) x + fl_realized l - unrealized_at p x = 0"
      using close unfolding unrealized_at_eq net
      by (simp add: l_def fill_branch_def fill_offset_def Let_def algebra_simps)
    then show ?thesis by simp
  next
    case rev
    then have "min \<bar>?n\<bar> \<bar>sq\<bar> = \<bar>?n\<bar>" by linarith
    with rev have l: "po_average_price (fl_pos l) = pyround x 4"
        "fl_realized l = (if 0 < ?n then (x - ?a) * of_int \<bar>?n\<bar> else (?a - x) * of_int \<bar>?n\<bar>)"
      by (simp_all add: l_def fill_branch_def fill_offset_def Let_def)
    have "unrealized_at (fl_pos l) x + fl_realized l - unrealized_at p x = - ((pyround x 4 - x) * of_int (?n + sq))"
      unfolding unrealized_at_eq net l by (simp add: algebra_simps)
    then show ?thesis using rounded_times [of x "?n + sq"] by simp
  next
    case red
    then have "min \<bar>?n\<bar> \<bar>sq\<bar> = \<bar>sq\<bar>" by linarith
    with red have l: "po_average_price (fl_pos l) = ?a"
        "fl_realized l = (if 0 < ?n then (x - ?a) * of_int \<bar>sq\<bar> else (?a - x) * of_int \<bar>sq\<bar>)"
      by (simp_all add: l_def fill_branch_def fill_offset_def Let_def)
    have "fl_realized l = - ((x - ?a) * of_int sq)"
      using red sq unfolding l by (auto simp: same_direction_def algebra_simps)
    then have "unrealized_at (fl_pos l) x + fl_realized l - unrealized_at p x = 0"
      unfolding unrealized_at_eq net l(1) by (simp add: algebra_simps)
    then show ?thesis by simp
  qed
qed

lemma signed_quantity_nz: "0 < q \<Longrightarrow> signed_quantity a q \<noteq> 0"
  by (simp add: signed_quantity_def)

lemma fill_written_sel:
  "po_net_quantity (fill_written now k a q x om s) = po_net_quantity (get_or_create now k s) + signed_quantity (upper a) q"
  "po_margin_blocked (fill_written now k a q x om s) =
     po_margin_blocked (fl_pos (fill_branch (get_or_create now k s) (signed_quantity (upper a) q) x om))"
  "unrealized_at (fill_written now k a q x om s) y =
     unrealized_at (fl_pos (fill_branch (get_or_create now k s) (signed_quantity (upper a) q) x om)) y"
  "margin_wf (fill_written now k a q x om s) \<longleftrightarrow>
     margin_wf (fl_pos (fill_branch (get_or_create now k s) (signed_quantity (upper a) q) x om))"
  by (simp_all add: fill_written_def Let_def unrealized_at_eq margin_wf_def)

lemma get_position_written:
  "s' = (put_position (fill_written now k a q x om s) s)\<lparr>db_events := ev\<rparr> \<Longrightarrow>
   get_position k' s' = (if k' = k then Some (fill_written now k a q x om s) else get_position k' s)"
  by (auto simp: get_position_def put_position_def get_put_row)

text \<open>A concrete book: long 100 at 50 with 1000 blocked.\<close>

definition demo_key :: pos_key where
  "demo_key = (7, ''SBIN'', ''NSE'', ''MIS'')"

definition demo_position :: position where
  "demo_position = (new_position 0 demo_key)\<lparr>po_net_quantity := 100, po_average_price := 50, po_margin_blocked := 1000\<rparr>"

definition demo_db :: db where
  "demo_db = empty_db\<lparr>db_positions := [demo_position]\<rparr>"

lemma demo_lookup [simp]: "get_or_create now demo_key demo_db = demo_position"
  by (simp add: get_or_create_def get_position_def demo_db_def demo_position_def demo_key_def new_position_def po_key_def)

lemma demo_wf: "margin_wf demo_position"
  by (simp add: margin_wf_def demo_position_def demo_key_def new_position_def cents_def exI [of _ 100000])

lemma demo_sell: "fst (apply_fill 5 demo_key ''sell'' 40 60 0 demo_db) = Inr (400, 400)"
  by code_simp

text \<open>C15: margin is conserved by a fill. What a fill that returns leaves on the position row plus
  what it tells the caller to release is what the row held before, plus the order's own blocked
  margin exactly when the fill opens exposure (fresh, or reversing the position); the amount
  released is never negative and never more than the row held, rows stay well formed (whole
  paise, nothing blocked when flat), and no other position changes.\<close>

theorem apply_fill_margin:
  assumes "apply_fill now k action quantity price om s = (Inr (realized, rel), s')"
    and "0 < quantity" "0 \<le> om" "cents om" "margin_wf (get_or_create now k s)"
  shows "\<exists>p'. get_position k s' = Some p' \<and> margin_wf p' \<and>
     po_net_quantity p' = po_net_quantity (get_or_create now k s) + signed_quantity (upper action) quantity \<and>
     po_margin_blocked p' + rel = po_margin_blocked (get_or_create now k s) +
       (if fill_opens (po_net_quantity (get_or_create now k s)) (signed_quantity (upper action) quantity) then om else 0) \<and>
     0 \<le> rel \<and> rel \<le> po_margin_blocked (get_or_create now k s) \<and>
     (\<forall>k'. k' \<noteq> k \<longrightarrow> get_position k' s' = get_position k' s)"
proof -
  obtain ev where s': "s' = (put_position (fill_written now k action quantity price om s) s)\<lparr>db_events := ev\<rparr>"
    using apply_fill_ok(1) [OF assms(1)] by blast
  note m = fill_branch_margin [OF assms(5,4,3) signed_quantity_nz [OF assms(2), of "upper action"], of price]
  have rel: "rel = fl_release (fill_branch (get_or_create now k s) (signed_quantity (upper action) quantity) price om)"
    using apply_fill_ok(3) [OF assms(1)] m(4) by (simp add: pyround_cents)
  show ?thesis
    using m unfolding rel by (simp add: get_position_written [OF s'] fill_written_sel)
qed

theorem apply_fill_margin_witness:
  "\<exists>p'. get_position demo_key (snd (apply_fill 5 demo_key ''sell'' 40 60 0 demo_db)) = Some p' \<and>
     po_margin_blocked p' + 400 = 1000"
  using apply_fill_margin [of 5 demo_key "''sell''" 40 60 0 demo_db 400 400 "snd (apply_fill 5 demo_key ''sell'' 40 60 0 demo_db)"]
  by (auto simp: prod_eq_iff demo_sell demo_wf)
    (auto simp: fill_opens_def same_direction_def demo_position_def signed_quantity_def upper_def up_char_def)

text \<open>C16: a fill creates no profit. At the fill price, the paper profit of the position after the
  fill plus the profit the fill books equals the paper profit before, up to half a ten-thousandth
  per unit held after the fill (the average is kept to four decimals) and half a ten-thousandth
  for the rounding of the booked amount. Quantities add up exactly.\<close>

theorem apply_fill_pnl:
  assumes "apply_fill now k action quantity price om s = (Inr (realized, rel), s')" and "0 < quantity"
  shows "\<exists>p'. get_position k s' = Some p' \<and>
     \<bar>unrealized_at p' price + realized - unrealized_at (get_or_create now k s) price\<bar>
        \<le> (1 + of_int \<bar>po_net_quantity p'\<bar>) / 20000"
proof -
  obtain ev where s': "s' = (put_position (fill_written now k action quantity price om s) s)\<lparr>db_events := ev\<rparr>"
    using apply_fill_ok(1) [OF assms(1)] by blast
  let ?l = "fill_branch (get_or_create now k s) (signed_quantity (upper action) quantity) price om"
  have "\<bar>realized - fl_realized ?l\<bar> \<le> 1 / 20000"
    using pyround_error [of "fl_realized ?l" 4] apply_fill_ok(2) [OF assms(1)] by simp
  with fill_branch_value [OF signed_quantity_nz [OF assms(2), of "upper action"], of "get_or_create now k s" price om]
  have "\<bar>unrealized_at (fl_pos ?l) price + realized - unrealized_at (get_or_create now k s) price\<bar>
     \<le> 1 / 20000 + of_int \<bar>po_net_quantity (get_or_create now k s) + signed_quantity (upper action) quantity\<bar> / 20000"
    by linarith
  then show ?thesis
    by (simp add: get_position_written [OF s'] fill_written_sel add_divide_distrib)
qed

theorem apply_fill_pnl_witness:
  "\<exists>p'. get_position demo_key (snd (apply_fill 5 demo_key ''sell'' 40 60 0 demo_db)) = Some p' \<and>
     \<bar>unrealized_at p' 60 + 400 - unrealized_at demo_position 60\<bar> \<le> (1 + of_int \<bar>po_net_quantity p'\<bar>) / 20000"
  using apply_fill_pnl [of 5 demo_key "''sell''" 40 60 0 demo_db 400 400 "snd (apply_fill 5 demo_key ''sell'' 40 60 0 demo_db)"]
  by (simp add: prod_eq_iff demo_sell)

end
