(* ===== verification/Execution_Engine.thy ===== *)
theory Execution_Engine
  imports Fund_Manager Position_Manager
begin

text \<open>
  Filling pending orders (\<open>src/backend/sandbox/execution_engine.py\<close>): the fill decision, one
  attempt, and the two loops that drive it (a tick, a poll pass). An attempt is three
  transactions one after the other: an exception in the second leaves the first committed.
\<close>

section \<open>The fill decision\<close>

definition limit_price :: "string \<Rightarrow> rat \<Rightarrow> rat \<Rightarrow> rat option" where
  "limit_price action price ltp =
     (if action = ''BUY'' \<and> ltp \<le> price then Some price
      else if action = ''SELL'' \<and> price \<le> ltp then Some price
      else None)"

definition fill_price :: "order \<Rightarrow> rat \<Rightarrow> rat option" where
  "fill_price r ltp =
     (if ltp \<le> 0 then None
      else
        let pt = upper (or_pricetype r); action = upper (or_action r) in
        if pt = ''MARKET'' then Some ltp
        else if pt = ''LIMIT'' then limit_price action (or_price r) ltp
        else if pt = ''SL'' \<or> pt = ''SL-M'' then
          (let trigger = or_trigger_price r;
               triggered = (action = ''BUY'' \<and> trigger \<le> ltp) \<or> (action = ''SELL'' \<and> ltp \<le> trigger)
           in if \<not> triggered then None
              else if pt = ''SL'' then limit_price action (or_price r) ltp
              else Some ltp)
        else None)"

section \<open>One attempt\<close>

definition order_pos_key :: "order \<Rightarrow> pos_key" where
  "order_pos_key r = (or_user_id r, or_symbol r, or_exchange r, or_product r)"

text \<open>\<open>r\<close> is the caller's copy of the row: it may be older than the row in the table.\<close>

definition try_fill_order :: "datetime \<Rightarrow> string \<Rightarrow> order \<Rightarrow> rat \<Rightarrow> db \<Rightarrow> (exn + bool) \<times> db" where
  "try_fill_order now tradeid r ltp s =
     (case fill_price r ltp of
        None \<Rightarrow> (Inr False, s)
      | Some price \<Rightarrow>
          (case fill now tradeid (or_user_id r) (or_orderid r) price None s of
             (Inl e, s1) \<Rightarrow> (Inl e, s1)
           | (Inr None, s1) \<Rightarrow> (Inr False, s1)
           | (Inr (Some (filled_row, trade)), s1) \<Rightarrow>
               (case apply_fill now (order_pos_key r) (or_action r) (tr_quantity trade) price
                       (or_margin_blocked r) s1 of
                  (Inl e, s2) \<Rightarrow> (Inl e, s2)
                | (Inr (realized, margin_to_release), s2) \<Rightarrow>
                    (Inr True,
                     (if 0 < margin_to_release \<or> realized \<noteq> 0
                      then release_margin s2 (or_user_id r) margin_to_release realized else s2)))))"

section \<open>The loops\<close>

text \<open>Walk a list of pending orders read before the loop; \<open>price_of\<close> says at which LTP each is
  tried, if at all; an exception ends the walk. \<open>ids\<close> supplies the trade ids.\<close>

fun fill_loop ::
  "datetime \<Rightarrow> (nat \<Rightarrow> string) \<Rightarrow> (order \<Rightarrow> rat option) \<Rightarrow> nat \<Rightarrow> order list \<Rightarrow> db \<Rightarrow> (exn + unit) \<times> db" where
  "fill_loop now ids price_of i [] s = (Inr (), s)"
| "fill_loop now ids price_of i (r # rs) s =
     (case price_of r of
        None \<Rightarrow> fill_loop now ids price_of (Suc i) rs s
      | Some ltp \<Rightarrow>
          (case try_fill_order now (ids i) r ltp s of
             (Inl e, s') \<Rightarrow> (Inl e, s')
           | (Inr _, s') \<Rightarrow> fill_loop now ids price_of (Suc i) rs s'))"

text \<open>\<open>isinstance(ltp, (int, float)) and ltp > 0\<close>\<close>

definition tick_ltp :: "jval \<Rightarrow> rat option" where
  "tick_ltp v =
     (case v of
        JInt n \<Rightarrow> if 0 < n then Some (of_int n) else None
      | JFloat x \<Rightarrow> if 0 < x then Some x else None
      | JBool b \<Rightarrow> if b then Some 1 else None
      | _ \<Rightarrow> None)"

definition on_tick :: "datetime \<Rightarrow> (nat \<Rightarrow> string) \<Rightarrow> string \<Rightarrow> string \<Rightarrow> jval \<Rightarrow> db \<Rightarrow> db" where
  "on_tick now ids symb exch ltp s =
     (case tick_ltp ltp of
        None \<Rightarrow> s
      | Some x \<Rightarrow>
          if symb = [] \<or> exch = [] then s
          else snd (fill_loop now ids
                 (\<lambda>r. if or_symbol r \<noteq> symb \<or> or_exchange r \<noteq> exch then None else Some x)
                 0 (list_pending_orders s) s))"

definition poll_once ::
  "datetime \<Rightarrow> (nat \<Rightarrow> string) \<Rightarrow> (int \<Rightarrow> string \<Rightarrow> string \<Rightarrow> rat option) \<Rightarrow> db \<Rightarrow> db" where
  "poll_once now ids quote s =
     snd (fill_loop now ids
        (\<lambda>r. case quote (or_user_id r) (or_symbol r) (or_exchange r) of
               None \<Rightarrow> None | Some x \<Rightarrow> if x \<le> 0 then None else Some x)
        0 (list_pending_orders s) s)"

section \<open>Lifecycle\<close>

text \<open>The module globals: running flag, subscription id, poll thread, stop event.
  \<open>subscribed\<close> is the id the market-data cache handed out, or \<open>None\<close> when subscribing raised.\<close>

record engine_globals =
  eg_running :: bool
  eg_subscriber_id :: "int option"
  eg_poll_thread :: bool
  eg_stop_event :: bool

definition engine_start :: "int option \<Rightarrow> engine_globals \<Rightarrow> engine_globals" where
  "engine_start subscribed g =
     (if eg_running g then g
      else \<lparr>eg_running = True,
            eg_subscriber_id = (case subscribed of Some i \<Rightarrow> Some i | None \<Rightarrow> eg_subscriber_id g),
            eg_poll_thread = True, eg_stop_event = False\<rparr>)"

text \<open>\<open>stop\<close> returns the id to unsubscribe, if any.\<close>

definition engine_stop :: "engine_globals \<Rightarrow> int option \<times> engine_globals" where
  "engine_stop g =
     (if \<not> eg_running g then (None, g)
      else (eg_subscriber_id g,
            \<lparr>eg_running = False, eg_subscriber_id = None, eg_poll_thread = False, eg_stop_event = True\<rparr>))"

section \<open>Facts on one attempt\<close>

lemma try_fill_orders:
  "try_fill_order now tid r x s = (res, s') \<Longrightarrow>
     db_orders s' = (case fill_price r x of None \<Rightarrow> db_orders s
       | Some p \<Rightarrow> db_orders (snd (fill now tid (or_user_id r) (or_orderid r) p None s)))"
  by (auto simp: try_fill_order_def dest: apply_fill_frame split: option.splits sum.splits prod.splits)

lemma try_fill_uniq:
  "try_fill_order now tid r x s = (res, s') \<Longrightarrow> uniq or_key (db_orders s) \<Longrightarrow> uniq or_key (db_orders s')"
  by (drule try_fill_orders) (auto simp: fill_uniq split: option.splits)

lemma get_order_row_cong: "db_orders s = db_orders t \<Longrightarrow> get_order_row k s = get_order_row k t"
  by (simp add: get_order_row_def)

lemma try_fill_other:
  assumes "try_fill_order now tid r x s = (res, s')" and "k \<noteq> or_key r"
  shows "get_order_row k s' = get_order_row k s"
proof (cases "fill_price r x")
  case None
  with try_fill_orders [OF assms(1)] show ?thesis by (simp add: get_order_row_def)
next
  case (Some p)
  obtain res1 s1 where f: "fill now tid (or_user_id r) (or_orderid r) p None s = (res1, s1)" by fastforce
  have "get_order_row k s' = get_order_row k s1"
    using try_fill_orders [OF assms(1)] Some f by (intro get_order_row_cong) simp
  with fill_rest_orders [OF f, of k] assms(2) show ?thesis by (simp add: or_key_def)
qed

text \<open>A finished attempt on the current row leaves it alone, because it cannot be filled at this
  price or has nothing left, or completes it.\<close>

lemma try_fill_self:
  assumes "try_fill_order now tid r x s = (Inr b, s')" and r: "get_order_row (or_key r) s = Some r"
    and "pending_status (or_status r)"
  shows "(get_order_row (or_key r) s' = Some r \<and> (fill_price r x = None \<or> or_quantity r \<le> or_filled_quantity r)) \<or>
     (\<exists>r'. get_order_row (or_key r) s' = Some r' \<and> or_status r' = SComplete)"
proof (cases "fill_price r x")
  case None
  with assms show ?thesis by (simp add: try_fill_order_def)
next
  case (Some p)
  obtain res1 s1 where f: "fill now tid (or_user_id r) (or_orderid r) p None s = (res1, s1)" by fastforce
  have g: "get_order_row (or_key r) s' = get_order_row (or_key r) s1"
    using try_fill_orders [OF assms(1)] Some f by (intro get_order_row_cong) simp
  show ?thesis
  proof (cases "or_quantity r \<le> or_filled_quantity r")
    case True
    with f r assms(3) have "s1 = s" by (auto simp: fill_def fill_qty_def or_key_def Let_def split: if_splits)
    with g r True show ?thesis by simp
  next
    case False
    obtain q where "res1 = Inr q" using assms(1) Some f by (cases res1) (auto simp: try_fill_order_def)
    moreover have "q \<noteq> None"
      using f r assms(3) False \<open>res1 = Inr q\<close> by (auto simp: fill_def fill_qty_def or_key_def Let_def split: if_splits)
    ultimately obtain r' td where "fill now tid (or_user_id r) (or_orderid r) p None s = (Inr (Some (r', td)), s1)"
      using f by auto
    then obtain r0 where "or_status r' = SComplete" "or_key r' = (or_user_id r, or_orderid r)"
      "s1 = (put_order r' s)\<lparr>db_trades := db_trades s @ [td]\<rparr>" by (elim fill_rest) blast
    then have "get_order_row (or_key r) s1 = Some r'"
      by (simp add: get_order_row_def put_order_def get_put_row or_key_def)
    with g \<open>or_status r' = SComplete\<close> show ?thesis by simp
  qed
qed

section \<open>A whole pass\<close>

lemma fill_loop_other:
  "fill_loop now ids price_of i rs s = (res, t) \<Longrightarrow> k \<notin> or_key ` set rs \<Longrightarrow> get_order_row k t = get_order_row k s"
proof (induction rs arbitrary: i s)
  case (Cons r rs)
  then show ?case
    by (auto split: option.splits prod.splits sum.splits dest!: try_fill_other [where k = k])
qed simp

lemma fill_loop_each:
  assumes "fill_loop now ids price_of i rs s = (Inr (), t)" "distinct (map or_key rs)" "r \<in> set rs"
    and "\<And>q. q \<in> set rs \<Longrightarrow> get_order_row (or_key q) s = Some q \<and> pending_status (or_status q)"
  shows "(get_order_row (or_key r) t = Some r \<and>
           (\<forall>x. price_of r = Some x \<longrightarrow> fill_price r x = None \<or> or_quantity r \<le> or_filled_quantity r)) \<or>
     (\<exists>r'. get_order_row (or_key r) t = Some r' \<and> or_status r' = SComplete)"
  using assms
proof (induction rs arbitrary: i s)
  case (Cons a rs)
  note prems = Cons.prems
  obtain s1 where s1: "fill_loop now ids price_of (Suc i) rs s1 = (Inr (), t)"
      "price_of a = None \<and> s1 = s \<or> (\<exists>x b. price_of a = Some x \<and> try_fill_order now (ids i) a x s = (Inr b, s1))"
    using prems(1) by (auto split: option.splits prod.splits sum.splits)
  have other: "get_order_row k s1 = get_order_row k s" if "k \<noteq> or_key a" for k
    using s1(2) that try_fill_other by blast
  have k: "or_key a \<notin> or_key ` set rs" using prems(2) by simp
  show ?case
  proof (cases "r = a")
    case True
    have "get_order_row (or_key a) t = get_order_row (or_key a) s1" by (rule fill_loop_other [OF s1(1) k])
    with s1(2) True prems(4) [of a] show ?thesis by (auto dest!: try_fill_self)
  next
    case False
    then have r: "r \<in> set rs" using prems(3) by simp
    have "get_order_row (or_key q) s1 = Some q \<and> pending_status (or_status q)" if "q \<in> set rs" for q
    proof -
      have "or_key q \<noteq> or_key a" using k that by (metis imageI)
      with other have "get_order_row (or_key q) s1 = get_order_row (or_key q) s" by blast
      with prems(4) [of q] that show ?thesis by simp
    qed
    from Cons.IH [OF s1(1) _ r this] prems(2) show ?thesis by simp
  qed
qed simp

lemma fill_loop_uniq:
  "uniq or_key (db_orders s) \<Longrightarrow> uniq or_key (db_orders (snd (fill_loop now ids price_of i rs s)))"
proof (induction rs arbitrary: i s)
  case (Cons r rs)
  then show ?case by (auto split: option.splits prod.splits sum.splits dest: try_fill_uniq)
qed simp

text \<open>Concrete orders for the book of \<open>demo_db\<close>: buy 10 more at the market, and a limit at 90.\<close>

definition demo_order :: order where
  "demo_order = new_order 0 ''OID1'' 7 ''SBIN'' ''NSE'' ''BUY'' 10 ''MARKET'' ''MIS'' 0 0 None 200 SOpen None"

definition demo_limit :: order where
  "demo_limit = new_order 0 ''OID2'' 7 ''SBIN'' ''NSE'' ''BUY'' 10 ''LIMIT'' ''MIS'' 90 0 None 200 SOpen None"

definition demo_orders_db :: db where
  "demo_orders_db = demo_db\<lparr>db_orders := [demo_order, demo_limit]\<rparr>"

lemma demo_order_price: "fill_price demo_order 60 = Some 60" by code_simp

lemma demo_limit_price: "fill_price demo_limit 85 = Some 90" by code_simp

text \<open>C18: no order fills at a worse price than it asked for. A limit fills at exactly its limit, and
  only when the market is at or through it; a stop fills only once its trigger is reached, a
  stop-limit also only within its limit; market orders and triggered stop-market orders take the
  market price, which is positive.\<close>

theorem fill_price_sound:
  assumes "fill_price r ltp = Some p"
  shows "0 < ltp \<and>
     (upper (or_pricetype r) \<in> {''LIMIT'', ''SL''} \<longrightarrow> p = or_price r \<and>
        (upper (or_action r) = ''BUY'' \<and> ltp \<le> p \<or> upper (or_action r) = ''SELL'' \<and> p \<le> ltp)) \<and>
     (upper (or_pricetype r) \<in> {''SL'', ''SL-M''} \<longrightarrow>
        (upper (or_action r) = ''BUY'' \<and> or_trigger_price r \<le> ltp \<or>
         upper (or_action r) = ''SELL'' \<and> ltp \<le> or_trigger_price r)) \<and>
     (upper (or_pricetype r) \<in> {''MARKET'', ''SL-M''} \<longrightarrow> p = ltp) \<and>
     upper (or_pricetype r) \<in> {''MARKET'', ''LIMIT'', ''SL'', ''SL-M''}"
proof -
  have pos: "0 < ltp" using assms by (auto simp: fill_price_def split: if_splits)
  consider "upper (or_pricetype r) = ''MARKET''" | "upper (or_pricetype r) = ''LIMIT''"
    | "upper (or_pricetype r) = ''SL''" | "upper (or_pricetype r) = ''SL-M''"
    using assms by (simp add: fill_price_def Let_def split: if_split_asm)
  then show ?thesis
  proof cases
    case 1
    with assms pos show ?thesis by (simp add: fill_price_def)
  next
    case 2
    with assms pos have "limit_price (upper (or_action r)) (or_price r) ltp = Some p" by (simp add: fill_price_def)
    with 2 pos show ?thesis by (simp add: limit_price_def split: if_split_asm)
  next
    case 3
    with assms pos have "limit_price (upper (or_action r)) (or_price r) ltp = Some p"
      "(upper (or_action r) = ''BUY'' \<and> or_trigger_price r \<le> ltp) \<or> (upper (or_action r) = ''SELL'' \<and> ltp \<le> or_trigger_price r)"
      by (simp_all add: fill_price_def Let_def split: if_split_asm)
    with 3 pos show ?thesis by (simp add: limit_price_def split: if_split_asm)
  next
    case 4
    with assms pos show ?thesis by (simp add: fill_price_def Let_def split: if_split_asm)
  qed
qed

theorem fill_price_sound_witness:
  "fill_price demo_limit 85 = Some 90 \<and> (85::rat) \<le> 90 \<and> (90::rat) = or_price demo_limit"
  using fill_price_sound [OF demo_limit_price]
  by (simp add: demo_limit_price) (simp add: demo_limit_def new_order_def upper_def up_char_def ord_chr_def)

text \<open>C17: a matching pass misses nothing. When the pass over the pending orders runs to its end,
  every order still pending afterwards was pending before, is unchanged, and could not be filled
  at the price the pass saw for it (or has nothing left to fill): no order that the price
  crosses survives a pass unfilled.\<close>

theorem fill_pass_complete:
  assumes "fill_loop now ids price_of 0 (list_pending_orders s) s = (Inr (), t)" and "uniq or_key (db_orders s)"
    and "r \<in> set (list_pending_orders t)" and "price_of r = Some x"
  shows "r \<in> set (list_pending_orders s) \<and> (fill_price r x = None \<or> or_quantity r \<le> or_filled_quantity r)"
proof -
  let ?rs = "list_pending_orders s"
  have ut: "uniq or_key (db_orders t)" using fill_loop_uniq [OF assms(2)] assms(1) by (metis snd_conv)
  have r: "get_order_row (or_key r) t = Some r" "pending_status (or_status r)"
    using assms(3) get_row_uniq [OF ut] by (auto simp: list_pending_orders_def get_order_row_def)
  have rows: "get_order_row (or_key q) s = Some q \<and> pending_status (or_status q)" if "q \<in> set ?rs" for q
    using that get_row_uniq [OF assms(2)] by (auto simp: list_pending_orders_def get_order_row_def)
  have d: "distinct (map or_key ?rs)" using assms(2) uniq_filter by (auto simp: list_pending_orders_def uniq_def [symmetric])
  have in_s: "or_key r \<in> or_key ` set ?rs"
  proof (rule ccontr)
    assume n: "\<not> ?thesis"
    then have "get_order_row (or_key r) s = Some r" using fill_loop_other [OF assms(1) n] r(1) by simp
    with r(2) n show False by (auto simp: list_pending_orders_def get_order_row_def dest: get_row_mem)
  qed
  then obtain q where q: "q \<in> set ?rs" "or_key q = or_key r" by auto
  have each: "(get_order_row (or_key q) t = Some q \<and>
       (\<forall>x. price_of q = Some x \<longrightarrow> fill_price q x = None \<or> or_quantity q \<le> or_filled_quantity q)) \<or>
     (\<exists>r'. get_order_row (or_key q) t = Some r' \<and> or_status r' = SComplete)"
    by (rule fill_loop_each [OF assms(1) d q(1)]) (rule rows)
  have nc: "or_status r \<noteq> SComplete" using r(2) by (auto simp: pending_status_def)
  have "get_order_row (or_key q) t = Some r" using q(2) r(1) by metis
  with each nc have "r = q" "\<forall>x. price_of q = Some x \<longrightarrow> fill_price q x = None \<or> or_quantity q \<le> or_filled_quantity q"
    by (metis option.inject)+
  with q(1) assms(4) show ?thesis by metis
qed

theorem fill_pass_complete_witness:
  "fill_price demo_limit 100 = None \<or> or_quantity demo_limit \<le> or_filled_quantity demo_limit"
proof -
  let ?s = "empty_db\<lparr>db_orders := [demo_limit]\<rparr>"
  have "fill_loop 5 (\<lambda>i. ''T'') (\<lambda>r. Some 100) 0 (list_pending_orders ?s) ?s = (Inr (), ?s)" by code_simp
  moreover have "uniq or_key (db_orders ?s)" by (simp add: uniq_def)
  moreover have "demo_limit \<in> set (list_pending_orders ?s)"
    by (simp add: list_pending_orders_def demo_limit_def pending_status_def)
  ultimately show ?thesis
    using fill_pass_complete [of 5 "\<lambda>i. ''T''" "\<lambda>r. Some 100" ?s ?s demo_limit 100] by simp
qed

section \<open>Adding to an open position\<close>

text \<open>C35: an order that adds to an open position is lost half way. When an order is filled while the
  user already holds the symbol in the same direction, the attempt raises after the order was
  committed as complete and its trade recorded: the position and the funds are unchanged, so the
  margin the order blocked belongs to no row any more.\<close>

theorem accumulate_fill_lost:
  assumes "fill_price r ltp = Some p" and "get_order_row (or_key r) s = Some r" "pending_status (or_status r)"
    and "or_filled_quantity r < or_quantity r" and "get_row tr_tradeid tid (db_trades s) = None"
    and "get_position (order_pos_key r) s = Some pos" "po_net_quantity pos \<noteq> 0"
    and "same_direction (po_net_quantity pos) (signed_quantity (upper (or_action r)) (or_quantity r - or_filled_quantity r))"
  shows "fst (try_fill_order now tid r ltp s) = Inl UnboundLocalError \<and>
     db_positions (snd (try_fill_order now tid r ltp s)) = db_positions s \<and>
     db_funds (snd (try_fill_order now tid r ltp s)) = db_funds s \<and>
     length (db_trades (snd (try_fill_order now tid r ltp s))) = length (db_trades s) + 1 \<and>
     (\<exists>r'. get_order_row (or_key r) (snd (try_fill_order now tid r ltp s)) = Some r' \<and> or_status r' = SComplete \<and>
        or_margin_blocked r' = or_margin_blocked r)"
proof -
  let ?q = "or_quantity r - or_filled_quantity r"
  let ?r = "fill_row ?q p r" and ?td = "fill_trade now tid (fill_row ?q p r) ?q p"
  let ?s = "(put_order ?r s)\<lparr>db_trades := db_trades s @ [?td]\<rparr>"
  have f: "fill now tid (or_user_id r) (or_orderid r) p None s = (Inr (Some (?r, ?td)), ?s)"
    using assms(2-5) by (simp add: fill_def fill_qty_def or_key_def Let_def)
  have td: "tr_quantity ?td = ?q" by (simp add: fill_trade_def)
  have pos: "get_or_create now (order_pos_key r) ?s = pos"
    using assms(6) by (simp add: get_or_create_def get_position_def)
  have a: "apply_fill now (order_pos_key r) (or_action r) ?q p (or_margin_blocked r) ?s = (Inl UnboundLocalError, ?s)"
    using assms(4,7,8) pos
    by (auto simp: apply_fill_def Let_def fill_events_def fill_branch_def same_direction_def signed_quantity_def)
  have t: "try_fill_order now tid r ltp s = (Inl UnboundLocalError, ?s)"
    by (simp add: try_fill_order_def assms(1) f td a)
  have "get_order_row (or_key r) ?s = Some ?r"
    by (simp add: get_order_row_def put_order_def get_put_row)
  then show ?thesis by (simp add: t)
qed

theorem accumulate_fill_lost_witness:
  "fst (try_fill_order 5 ''T1'' demo_order 60 demo_orders_db) = Inl UnboundLocalError \<and>
   db_positions (snd (try_fill_order 5 ''T1'' demo_order 60 demo_orders_db)) = [demo_position]"
proof -
  have "get_order_row (or_key demo_order) demo_orders_db = Some demo_order"
    by (simp add: get_order_row_def demo_orders_db_def)
  moreover have "pending_status (or_status demo_order)" "or_filled_quantity demo_order < or_quantity demo_order"
    by (simp_all add: demo_order_def pending_status_def)
  moreover have "get_row tr_tradeid ''T1'' (db_trades demo_orders_db) = None"
    by (simp add: demo_orders_db_def demo_db_def empty_db_def)
  moreover have "get_position (order_pos_key demo_order) demo_orders_db = Some demo_position"
    by code_simp
  moreover have "same_direction (po_net_quantity demo_position)
      (signed_quantity (upper (or_action demo_order)) (or_quantity demo_order - or_filled_quantity demo_order))"
    "po_net_quantity demo_position \<noteq> 0"
    by code_simp+
  ultimately show ?thesis
    using accumulate_fill_lost [OF demo_order_price, of demo_orders_db "''T1''" demo_position 5]
    by (simp add: demo_orders_db_def demo_db_def)
qed

end
