(* ===== verification/Settlement.thy ===== *)
theory Settlement
  imports Fund_Manager Position_Manager
begin

text \<open>
  Moving positions on without an order: T+1 settlement of long CNC positions into holdings
  (\<open>src/backend/sandbox/t1_settle.py\<close>), the holdings view with its refresh
  (\<open>src/backend/sandbox/holdings_manager.py\<close>) and the periodic mark-to-market pass
  (\<open>src/backend/sandbox/mtm_updater.py\<close>). Quotes are a function argument.
\<close>

type_synonym quotes = "int \<Rightarrow> string \<Rightarrow> string \<Rightarrow> rat option"

section \<open>Per-user accumulators\<close>

text \<open>A Python dict from user to amount, in insertion order.\<close>

definition dict_get :: "int \<Rightarrow> (int \<times> 'a) list \<Rightarrow> 'a option" where
  "dict_get u d = map_option snd (get_row fst u d)"

definition dict_put :: "int \<Rightarrow> 'a \<Rightarrow> (int \<times> 'a) list \<Rightarrow> (int \<times> 'a) list" where
  "dict_put u x d = put_row fst (u, x) d"

definition dict_add :: "int \<Rightarrow> rat \<Rightarrow> (int \<times> rat) list \<Rightarrow> (int \<times> rat) list" where
  "dict_add u x d = dict_put u ((case dict_get u d of Some y \<Rightarrow> y | None \<Rightarrow> 0) + x) d"

section \<open>T+1 settlement\<close>

definition compute_pnl_percent :: "rat \<Rightarrow> rat \<Rightarrow> rat" where
  "compute_pnl_percent avg_price ltp =
     (if avg_price \<le> 0 then 0 else pyround (((ltp - avg_price) / avg_price) * 100) 4)"

definition settle_holding :: "int \<Rightarrow> position \<Rightarrow> holding option \<Rightarrow> holding option" where
  "settle_holding today pos existing =
     (let avg_price = pyround (po_average_price pos) 4;
          ltp = (if po_ltp pos \<noteq> 0 then pyround (po_ltp pos) 4 else avg_price);
          pnl = pyround ((ltp - avg_price) * of_int (po_net_quantity pos)) 2
      in case existing of
           None \<Rightarrow>
             Some \<lparr>ho_user_id = po_user_id pos, ho_symbol = po_symbol pos, ho_exchange = po_exchange pos,
                   ho_quantity = po_net_quantity pos, ho_average_price = avg_price, ho_ltp = ltp,
                   ho_pnl = pnl, ho_pnlpercent = compute_pnl_percent avg_price ltp,
                   ho_settlement_date = Some today\<rparr>
         | Some h \<Rightarrow>
             (let total_qty = ho_quantity h + po_net_quantity pos in
              if 0 < total_qty then
                (let total_cost = ho_average_price h * of_int (ho_quantity h)
                                  + po_average_price pos * of_int (po_net_quantity pos);
                     new_avg = pyround (total_cost / of_int total_qty) 4
                 in Some (h\<lparr>ho_average_price := new_avg, ho_quantity := total_qty, ho_ltp := ltp,
                           ho_pnl := pyround ((ltp - new_avg) * of_int total_qty) 2,
                           ho_pnlpercent := compute_pnl_percent new_avg ltp,
                           ho_settlement_date := Some today\<rparr>))
              else None))"

definition delete_position :: "pos_key \<Rightarrow> db \<Rightarrow> db" where
  "delete_position k s = s\<lparr>db_positions := filter (\<lambda>p. po_key p \<noteq> k) (db_positions s)\<rparr>"

definition settle_one :: "int \<Rightarrow> position \<Rightarrow> db \<times> (int \<times> rat) list \<Rightarrow> db \<times> (int \<times> rat) list" where
  "settle_one today pos st =
     (let (s, transfers) = st;
          hk = (po_user_id pos, po_symbol pos, po_exchange pos);
          s = (case settle_holding today pos (get_holding hk s) of
                 Some h \<Rightarrow> put_holding h s | None \<Rightarrow> s);
          transfers = (if 0 < po_margin_blocked pos
                       then dict_add (po_user_id pos) (po_margin_blocked pos) transfers else transfers)
      in (delete_position (po_key pos) s, transfers))"

definition settle_due :: "datetime \<Rightarrow> position \<Rightarrow> bool" where
  "settle_due cutoff p \<longleftrightarrow> po_product p = ''CNC'' \<and> 0 < po_net_quantity p \<and> po_updated_at p < cutoff"

definition settle_cnc_to_holdings :: "datetime \<Rightarrow> db \<Rightarrow> int \<times> db" where
  "settle_cnc_to_holdings now s =
     (let due = filter (settle_due (session_start_ist s now)) (db_positions s);
          (s', transfers) = fold (settle_one (day_of now)) due (s, [])
      in (int (length due),
          fold (\<lambda>(u, amount) t. transfer_margin_to_holdings t u amount) transfers s'))"

section \<open>Holdings\<close>

definition refresh_holding_mtm :: "quotes \<Rightarrow> int \<Rightarrow> holding \<Rightarrow> holding" where
  "refresh_holding_mtm quote u h =
     (case quote u (ho_symbol h) (ho_exchange h) of
        None \<Rightarrow> h
      | Some ltp \<Rightarrow>
          if ltp \<le> 0 then h
          else
            let l = pyround ltp 4;
                h = h\<lparr>ho_ltp := l, ho_pnl := pyround ((l - ho_average_price h) * of_int (ho_quantity h)) 2\<rparr>
            in if 0 < ho_average_price h
               then h\<lparr>ho_pnlpercent := pyround (((l - ho_average_price h) / ho_average_price h) * 100) 4\<rparr>
               else h)"

record holding_dict =
  hd_symbol :: string
  hd_exchange :: string
  hd_quantity :: int
  hd_average_price :: rat
  hd_ltp :: rat
  hd_pnl :: rat
  hd_pnlpercent :: rat
  hd_settlement_date :: "int option"

record holdings_payload =
  hp_holdings :: "holding_dict list"
  hp_totalholdingvalue :: rat
  hp_totalinvvalue :: rat
  hp_totalprofitandloss :: rat
  hp_totalpnlpercentage :: rat

definition holding_to_dict :: "holding \<Rightarrow> holding_dict" where
  "holding_to_dict h =
     \<lparr>hd_symbol = ho_symbol h, hd_exchange = ho_exchange h, hd_quantity = ho_quantity h,
      hd_average_price = pyround (ho_average_price h) 2, hd_ltp = pyround (ho_ltp h) 2,
      hd_pnl = pyround (ho_pnl h) 2, hd_pnlpercent = pyround (ho_pnlpercent h) 2,
      hd_settlement_date = ho_settlement_date h\<rparr>"

definition holding_inv_value :: "holding \<Rightarrow> rat" where
  "holding_inv_value h = pyround (ho_average_price h * of_int (ho_quantity h)) 2"

definition holding_value :: "holding \<Rightarrow> rat" where
  "holding_value h = (if ho_ltp h \<noteq> 0 then pyround (ho_ltp h * of_int (ho_quantity h)) 2
                      else holding_inv_value h)"

definition get_holdings_for_user :: "quotes \<Rightarrow> int \<Rightarrow> db \<Rightarrow> holdings_payload \<times> db" where
  "get_holdings_for_user quote u s =
     (let hs = map (\<lambda>h. if ho_user_id h = u then refresh_holding_mtm quote u h else h) (db_holdings s);
          mine = filter (\<lambda>h. ho_user_id h = u) hs;
          total_inv = sum_list (map holding_inv_value mine);
          total_value = sum_list (map holding_value mine);
          total_pnl = sum_list (map ho_pnl mine)
      in (\<lparr>hp_holdings = map holding_to_dict mine,
           hp_totalholdingvalue = pyround total_value 2,
           hp_totalinvvalue = pyround total_inv 2,
           hp_totalprofitandloss = pyround total_pnl 2,
           hp_totalpnlpercentage =
             (if 0 < total_inv then pyround ((total_pnl / total_inv) * 100) 2 else 0)\<rparr>,
          s\<lparr>db_holdings := hs\<rparr>))"

section \<open>The mark-to-market pass\<close>

definition live_quote :: "quotes \<Rightarrow> position \<Rightarrow> rat option" where
  "live_quote quote p =
     (case quote (po_user_id p) (po_symbol p) (po_exchange p) of
        None \<Rightarrow> None | Some x \<Rightarrow> if x \<le> 0 then None else Some x)"

definition refresh_row :: "datetime \<Rightarrow> quotes \<Rightarrow> position \<Rightarrow> position" where
  "refresh_row now quote p =
     (if po_net_quantity p = 0 then p
      else case live_quote quote p of None \<Rightarrow> p | Some ltp \<Rightarrow> orm_touch now p (mark_row ltp p))"

definition refresh_once :: "datetime \<Rightarrow> quotes \<Rightarrow> db \<Rightarrow> int \<times> db" where
  "refresh_once now quote s =
     (let ps = map (refresh_row now quote) (db_positions s);
          open_ps = filter (\<lambda>p. po_net_quantity p \<noteq> 0) ps;
          totals = fold (\<lambda>p d. dict_add (po_user_id p) (po_unrealized_pnl p) d) open_ps [];
          touched = filter (\<lambda>p. live_quote quote p \<noteq> None) open_ps
      in (int (length touched),
          fold (\<lambda>(u, t) s. set_unrealized_pnl s u (pyround t 2)) totals (s\<lparr>db_positions := ps\<rparr>)))"

end
