(* ===== verification/Order_Validation.thy ===== *)
theory Order_Validation
  imports Order_Manager
begin

text \<open>
  The gates an order passes before placement (\<open>src/backend/sandbox/order_validation.py\<close>), in the
  order the source runs them. The verdict keeps the reason as a value; the symbol row found on
  the way is returned with it, as the source does.
\<close>

definition SQUAREOFF_CFG_KEY :: "string \<Rightarrow> string option" where
  "SQUAREOFF_CFG_KEY exch =
     (if exch \<in> set [''NSE'', ''NFO'', ''BSE'', ''BFO''] then Some ''squareoff_nse_nfo_bse_bfo''
      else if exch \<in> set [''CDS'', ''BCD''] then Some ''squareoff_cds''
      else if exch = ''MCX'' then Some ''squareoff_mcx''
      else None)"

definition DEFAULT_SQUAREOFF :: "string \<Rightarrow> string" where
  "DEFAULT_SQUAREOFF key =
     (if key = ''squareoff_cds'' then ''16:45''
      else if key = ''squareoff_mcx'' then ''23:30''
      else ''15:15'')"

definition read_squareoff_time :: "db \<Rightarrow> string \<Rightarrow> (int \<times> int) option" where
  "read_squareoff_time s exch =
     (case SQUAREOFF_CFG_KEY (upper exch) of
        None \<Rightarrow> None
      | Some key \<Rightarrow> split_hm (strip (read_str s key (DEFAULT_SQUAREOFF key))))"

definition is_multiple :: "rat \<Rightarrow> rat \<Rightarrow> bool" where
  "is_multiple v step =
     (if step \<le> 0 then True
      else \<bar>of_int (round_half_even (v / step)) * step - v\<bar> \<le> 1 / 1000000)"

definition existing_long_qty :: "db \<Rightarrow> int \<Rightarrow> string \<Rightarrow> string \<Rightarrow> int" where
  "existing_long_qty s u symb exch =
     (let holding_qty = (case get_holding (u, symb, exch) s of Some h \<Rightarrow> ho_quantity h | None \<Rightarrow> 0);
          position_qty = (case get_position (u, symb, exch, ''CNC'') s of
                            Some p \<Rightarrow> po_net_quantity p | None \<Rightarrow> 0)
      in holding_qty + max 0 position_qty)"

definition is_reducing :: "db \<Rightarrow> pos_key \<Rightarrow> string \<Rightarrow> bool" where
  "is_reducing s k action =
     (case get_position k s of
        None \<Rightarrow> False
      | Some p \<Rightarrow>
          if po_net_quantity p = 0 then False
          else (0 < po_net_quantity p \<and> action = ''SELL'') \<or> (po_net_quantity p < 0 \<and> action = ''BUY''))"

text \<open>\<open>now.replace\<close> raises on an hour or minute out of range, whatever the order is.\<close>

definition is_after_squareoff :: "db \<Rightarrow> string \<Rightarrow> datetime \<Rightarrow> exn + bool" where
  "is_after_squareoff s exch now =
     (case read_squareoff_time s exch of
        None \<Rightarrow> Inr False
      | Some (hh, mm) \<Rightarrow>
          (case replace_hm now hh mm of
             Inl e \<Rightarrow> Inl e
           | Inr cutoff \<Rightarrow>
               let market_open = at_hm now 9 0 in
               if 9 \<le> hh then Inr (cutoff \<le> now \<or> now < market_open)
               else Inr (now < market_open \<and> cutoff \<le> now)))"

definition VALID_PRICETYPES :: "string list" where
  "VALID_PRICETYPES = [''MARKET'', ''LIMIT'', ''SL'', ''SL-M'']"

definition VALID_PRODUCTS :: "string list" where
  "VALID_PRODUCTS = [''MIS'', ''NRML'', ''CNC'']"

text \<open>The checks on the order and the symbol row alone (after the row is known).\<close>

definition check_terms ::
  "symbol_info \<Rightarrow> string \<Rightarrow> int \<Rightarrow> string \<Rightarrow> rat \<Rightarrow> rat \<Rightarrow> reason option" where
  "check_terms info exch quantity pricetype price trigger_price =
     (if exch \<notin> set EQUITY_EXCHANGES \<and> 1 < si_lot_size info \<and> quantity mod si_lot_size info \<noteq> 0
        then Some (LotMultiple (si_lot_size info) quantity)
      else if (pricetype = ''LIMIT'' \<or> pricetype = ''SL'') \<and> price \<le> 0 then Some (BadPrice pricetype)
      else if (pricetype = ''LIMIT'' \<or> pricetype = ''SL'') \<and>
              0 < si_tick_size info \<and> \<not> is_multiple price (si_tick_size info)
        then Some (PriceTick price (si_tick_size info))
      else if (pricetype = ''SL'' \<or> pricetype = ''SL-M'') \<and> trigger_price \<le> 0
        then Some (BadTrigger pricetype)
      else if (pricetype = ''SL'' \<or> pricetype = ''SL-M'') \<and>
              0 < si_tick_size info \<and> \<not> is_multiple trigger_price (si_tick_size info)
        then Some (TriggerTick trigger_price (si_tick_size info))
      else None)"

text \<open>The checks that read the books and the clock.\<close>

definition check_books ::
  "db \<Rightarrow> datetime \<Rightarrow> int \<Rightarrow> string \<Rightarrow> string \<Rightarrow> string \<Rightarrow> int \<Rightarrow> string \<Rightarrow> exn + reason option" where
  "check_books s now u symb exch action quantity prd =
     (let owned = existing_long_qty s u symb exch in
      if prd = ''CNC'' \<and> action = ''SELL'' \<and> owned < quantity
      then Inr (Some (CncOversell quantity symb owned))
      else if prd = ''MIS'' then
        (case is_after_squareoff s exch now of
           Inl e \<Rightarrow> Inl e
         | Inr after \<Rightarrow>
             if after \<and> \<not> is_reducing s (u, symb, exch, prd) action
             then Inr (Some (MisBlocked exch)) else Inr None)
      else Inr None)"

definition validate_order ::
  "db \<Rightarrow> datetime \<Rightarrow> int \<Rightarrow> string \<Rightarrow> string \<Rightarrow> string \<Rightarrow> int \<Rightarrow> string \<Rightarrow> string \<Rightarrow> rat \<Rightarrow> rat \<Rightarrow>
   exn + (reason option \<times> symbol_info option)" where
  "validate_order s now u symb exch action quantity pricetype prd price trigger_price =
     (let action = upper action; pricetype = upper pricetype; prd = upper prd; exch = upper exch in
      if action \<noteq> ''BUY'' \<and> action \<noteq> ''SELL'' then Inr (Some BadAction, None)
      else if pricetype \<notin> set VALID_PRICETYPES then Inr (Some (BadPricetype pricetype), None)
      else if prd \<notin> set VALID_PRODUCTS then Inr (Some (BadProduct prd), None)
      else if quantity \<le> 0 then Inr (Some BadQuantity, None)
      else if \<not> is_product_exchange_compatible prd exch then Inr (Some (ProductExchange prd exch), None)
      else case get_symbol_info s symb exch of
             Inl e \<Rightarrow> Inl e
           | Inr None \<Rightarrow> Inr (Some (UnknownSymbol symb exch), None)
           | Inr (Some info) \<Rightarrow>
               (case check_terms info exch quantity pricetype price trigger_price of
                  Some r \<Rightarrow> Inr (Some r, Some info)
                | None \<Rightarrow>
                    (case check_books s now u symb exch action quantity prd of
                       Inl e \<Rightarrow> Inl e
                     | Inr r \<Rightarrow> Inr (r, Some info))))"

end
