(* ===== verification/Catch_Up.thy ===== *)
theory Catch_Up
  imports Settlement Order_Validation
begin

text \<open>
  Dates of contracts, the startup catch-up tasks (\<open>src/backend/sandbox/catch_up.py\<close>), the daily
  reset and the daily snapshot (\<open>daily_reset.py\<close>, \<open>pnl_snapshot.py\<close>), and reading the position
  book (\<open>position_manager.get_positions\<close>), which settles expired contracts first. A calendar
  date is its proleptic Gregorian ordinal, Python's \<open>date.toordinal()\<close>.
\<close>

section \<open>Calendar\<close>

definition is_leap :: "int \<Rightarrow> bool" where
  "is_leap y \<longleftrightarrow> y mod 4 = 0 \<and> (y mod 100 \<noteq> 0 \<or> y mod 400 = 0)"

definition days_in_month :: "int \<Rightarrow> int \<Rightarrow> int" where
  "days_in_month y m =
     (if m = 2 then (if is_leap y then 29 else 28)
      else if m \<in> {4, 6, 9, 11} then 30 else 31)"

definition days_before_month :: "int \<Rightarrow> int \<Rightarrow> int" where
  "days_before_month y m =
     ([0, 0, 31, 59, 90, 120, 151, 181, 212, 243, 273, 304, 334] ! nat m)
     + (if 2 < m \<and> is_leap y then 1 else 0)"

definition ymd2ord :: "int \<Rightarrow> int \<Rightarrow> int \<Rightarrow> int" where
  "ymd2ord y m d =
     (y - 1) * 365 + (y - 1) div 4 - (y - 1) div 100 + (y - 1) div 400 + days_before_month y m + d"

text \<open>\<open>date(y, m, d)\<close>; \<open>None\<close> is the \<open>ValueError\<close>.\<close>

definition mk_date :: "int \<Rightarrow> int \<Rightarrow> int \<Rightarrow> int option" where
  "mk_date y m d =
     (if 1 \<le> y \<and> y \<le> 9999 \<and> 1 \<le> m \<and> m \<le> 12 \<and> 1 \<le> d \<and> d \<le> days_in_month y m
      then Some (ymd2ord y m d) else None)"

definition MONTHS :: "string list" where
  "MONTHS = [''JAN'', ''FEB'', ''MAR'', ''APR'', ''MAY'', ''JUN'',
             ''JUL'', ''AUG'', ''SEP'', ''OCT'', ''NOV'', ''DEC'']"

definition MONTH_NAMES :: "string list" where
  "MONTH_NAMES = [''JANUARY'', ''FEBRUARY'', ''MARCH'', ''APRIL'', ''MAY'', ''JUNE'',
                  ''JULY'', ''AUGUST'', ''SEPTEMBER'', ''OCTOBER'', ''NOVEMBER'', ''DECEMBER'']"

fun index_from :: "int \<Rightarrow> string \<Rightarrow> string list \<Rightarrow> int option" where
  "index_from i x [] = None"
| "index_from i x (y # ys) = (if x = y then Some i else index_from (i + 1) x ys)"

definition MONTH_MAP :: "string \<Rightarrow> int option" where
  "MONTH_MAP m = index_from 1 m MONTHS"

section \<open>Expiry from the symbol name\<close>

definition is_upper :: "char \<Rightarrow> bool" where
  "is_upper c \<longleftrightarrow> 65 \<le> ord_chr c \<and> ord_chr c \<le> 90"

text \<open>The first occurrence of \<open>(\d{2})([A-Z]{3})(\d{2})\<close>.\<close>

fun search_expiry :: "string \<Rightarrow> (string \<times> string \<times> string) option" where
  "search_expiry (a # b # c # d # e # f # g # rest) =
     (if is_digit a \<and> is_digit b \<and> is_upper c \<and> is_upper d \<and> is_upper e \<and> is_digit f \<and> is_digit g
      then Some ([a, b], [c, d, e], [f, g])
      else search_expiry (b # c # d # e # f # g # rest))"
| "search_expiry _ = None"

definition two_digits :: "string \<Rightarrow> int" where
  "two_digits t = foldl (\<lambda>n c. 10 * n + digit_val c) 0 t"

definition FNO_EXCHANGES_FOR_EXPIRY :: "string list" where
  "FNO_EXCHANGES_FOR_EXPIRY = [''NFO'', ''BFO'', ''MCX'', ''CDS'', ''BCD'', ''NCDEX'']"

definition parse_expiry_from_symbol :: "string \<Rightarrow> string \<Rightarrow> int option" where
  "parse_expiry_from_symbol symb exch =
     (if exch \<notin> set FNO_EXCHANGES_FOR_EXPIRY then None
      else case search_expiry symb of
             None \<Rightarrow> None
           | Some (dd, mon, yy) \<Rightarrow>
               (case MONTH_MAP mon of
                  None \<Rightarrow> None
                | Some m \<Rightarrow> mk_date (2000 + two_digits yy) m (two_digits dd)))"

text \<open>\<open>strptime\<close> on the four formats: \<open>%Y-%m-%d\<close>, \<open>%d-%b-%Y\<close>, \<open>%d-%B-%Y\<close>, \<open>%d%b%Y\<close>. A day or month
  is one or two digits in range (a day may be padded with a blank), a year four digits, a month
  name is compared without case.\<close>

definition all_digits :: "string \<Rightarrow> bool" where
  "all_digits t \<longleftrightarrow> t \<noteq> [] \<and> list_all is_digit t"

definition num_field :: "int \<Rightarrow> string \<Rightarrow> int option" where
  "num_field hi t =
     (if all_digits t \<and> length t \<le> 2 \<and> 1 \<le> two_digits t \<and> two_digits t \<le> hi
      then Some (two_digits t) else None)"

definition day_field :: "string \<Rightarrow> int option" where
  "day_field t = (case t of
      [c, d] \<Rightarrow> if c = CHR '' '' then num_field 9 [d] else num_field 31 t
    | _ \<Rightarrow> num_field 31 t)"

definition year_field :: "string \<Rightarrow> int option" where
  "year_field t = (if all_digits t \<and> length t = 4 then Some (two_digits t) else None)"

definition opt_date :: "int option \<Rightarrow> int option \<Rightarrow> int option \<Rightarrow> int option" where
  "opt_date y m d = (case (y, m, d) of (Some y, Some m, Some d) \<Rightarrow> mk_date y m d | _ \<Rightarrow> None)"

definition split3 :: "string \<Rightarrow> (string \<times> string \<times> string) option" where
  "split3 t =
     (case break_at (\<lambda>c. c = CHR ''-'') t of
        (a, Some r) \<Rightarrow>
          (case break_at (\<lambda>c. c = CHR ''-'') r of (b, Some c) \<Rightarrow> Some (a, b, c) | _ \<Rightarrow> None)
      | _ \<Rightarrow> None)"

definition first_some :: "'a option list \<Rightarrow> 'a option" where
  "first_some xs = (case filter (\<lambda>x. x \<noteq> None) xs of [] \<Rightarrow> None | x # _ \<Rightarrow> x)"

definition parse_expiry :: "string \<Rightarrow> int option" where
  "parse_expiry raw =
     (let t = strip raw;
          dashed = (case split3 t of
             None \<Rightarrow> []
           | Some (a, b, c) \<Rightarrow>
               [opt_date (year_field a) (num_field 12 b) (day_field c),
                opt_date (year_field c) (index_from 1 (upper b) MONTHS) (day_field a),
                opt_date (year_field c) (index_from 1 (upper b) MONTH_NAMES) (day_field a)]);
          n = length t;
          compact = (if n < 8 then None
             else opt_date (year_field (drop (n - 4) t))
                    (index_from 1 (upper (take 3 (drop (n - 7) t))) MONTHS) (day_field (take (n - 7) t)))
      in if t = [] then None else first_some (dashed @ [compact]))"

definition get_contract_expiry :: "string \<Rightarrow> string \<Rightarrow> string option \<Rightarrow> int option" where
  "get_contract_expiry symb exch sym_expiry_field =
     (case parse_expiry_from_symbol symb exch of
        Some d \<Rightarrow> Some d
      | None \<Rightarrow> (case sym_expiry_field of
                   Some t \<Rightarrow> if t \<noteq> [] then parse_expiry t else None
                 | None \<Rightarrow> None))"

section \<open>Closing positions outside the order path\<close>

text \<open>The row after a forced close, and what it realizes: \<open>today_realized_pnl\<close> is not touched.\<close>

definition forced_realized :: "rat \<Rightarrow> position \<Rightarrow> rat" where
  "forced_realized close_price p =
     (if 0 < po_net_quantity p then (close_price - po_average_price p) * of_int (po_net_quantity p)
      else (po_average_price p - close_price) * of_int \<bar>po_net_quantity p\<bar>)"

definition flatten_row :: "rat \<Rightarrow> position \<Rightarrow> position" where
  "flatten_row realized p =
     (let r = pyround (po_realized_pnl p + realized) 4 in
      p\<lparr>po_realized_pnl := r, po_net_quantity := 0, po_average_price := 0, po_margin_blocked := 0,
        po_unrealized_pnl := 0, po_pnl := pyround r 4\<rparr>)"

type_synonym releases = "(int \<times> (rat \<times> rat)) list"

definition add_release :: "int \<Rightarrow> rat \<Rightarrow> rat \<Rightarrow> releases \<Rightarrow> releases" where
  "add_release u margin realized d =
     (let (m, r) = (case dict_get u d of Some x \<Rightarrow> x | None \<Rightarrow> (0, 0)) in
      dict_put u (pyround (m + margin) 2, pyround (r + realized) 4) d)"

definition book_past_pnl :: "rat \<Rightarrow> fund \<Rightarrow> fund" where
  "book_past_pnl x f = f\<lparr>fd_realized_pnl := fd_realized_pnl f + x, fd_available := fd_available f + x\<rparr>"

definition apply_release :: "int \<times> (rat \<times> rat) \<Rightarrow> db \<Rightarrow> db" where
  "apply_release e s =
     (case e of (u, margin, realized) \<Rightarrow>
       let s = (if 0 < margin then release_margin s u margin 0 else s) in
       if realized \<noteq> 0 then on_fund (book_past_pnl realized) s u else s)"

text \<open>One pass over the position table: \<open>close\<close> says at which price a row is closed, if at all.\<close>

fun force_close ::
  "datetime \<Rightarrow> (position \<Rightarrow> rat option) \<Rightarrow> position list \<Rightarrow> releases \<Rightarrow> int \<Rightarrow> position list \<times> releases \<times> int" where
  "force_close now close [] d n = ([], d, n)"
| "force_close now close (p # ps) d n =
     (case close p of
        None \<Rightarrow> (let (qs, d', m) = force_close now close ps d n in (p # qs, d', m))
      | Some price \<Rightarrow>
          (let realized = forced_realized price p;
               (qs, d', m) = force_close now close ps
                  (add_release (po_user_id p) (po_margin_blocked p) realized d) (n + 1)
           in (orm_touch now p (flatten_row realized p) # qs, d', m)))"

definition run_force_close :: "datetime \<Rightarrow> (position \<Rightarrow> rat option) \<Rightarrow> db \<Rightarrow> int \<times> db" where
  "run_force_close now close s =
     (let (ps, d, n) = force_close now close (db_positions s) [] 0 in
      (n, fold apply_release d (s\<lparr>db_positions := ps\<rparr>)))"

definition today_start_ist :: "datetime \<Rightarrow> datetime" where
  "today_start_ist now = at_hm now 0 0"

definition stale_mis_price :: "quotes \<Rightarrow> datetime \<Rightarrow> position \<Rightarrow> rat option" where
  "stale_mis_price quote now p =
     (if po_product p = ''MIS'' \<and> po_net_quantity p \<noteq> 0 \<and> po_updated_at p < today_start_ist now
      then Some (case live_quote quote p of Some x \<Rightarrow> x | None \<Rightarrow> po_average_price p)
      else None)"

definition close_stale_mis_positions :: "datetime \<Rightarrow> quotes \<Rightarrow> db \<Rightarrow> int \<times> db" where
  "close_stale_mis_positions now quote s = run_force_close now (stale_mis_price quote now) s"

definition settle_stale_cnc_positions :: "datetime \<Rightarrow> db \<Rightarrow> int \<times> db" where
  "settle_stale_cnc_positions now s =
     (if list_ex (settle_due (today_start_ist now)) (db_positions s)
      then settle_cnc_to_holdings now s else (0, s))"

definition expiry_candidate :: "position \<Rightarrow> bool" where
  "expiry_candidate p \<longleftrightarrow> (po_product p = ''MIS'' \<or> po_product p = ''NRML'') \<and> po_net_quantity p \<noteq> 0 \<and>
     po_exchange p \<in> set [''NFO'', ''BFO'', ''MCX'', ''CDS'', ''BCD'']"

definition expired_price :: "datetime \<Rightarrow> quotes \<Rightarrow> symtoken option \<Rightarrow> position \<Rightarrow> rat option" where
  "expired_price now quote tok p =
     (let expiry = get_contract_expiry (po_symbol p) (po_exchange p)
                     (case tok of Some t \<Rightarrow> sy_expiry t | None \<Rightarrow> None);
          itype = (case (case tok of Some t \<Rightarrow> sy_instrumenttype t | None \<Rightarrow> None) of
                     Some ty \<Rightarrow> if ty \<noteq> [] then upper ty else upper (classify_from_symbol (po_symbol p) (po_exchange p))
                   | None \<Rightarrow> upper (classify_from_symbol (po_symbol p) (po_exchange p)))
      in case expiry of
           None \<Rightarrow> None
         | Some d \<Rightarrow>
             if day_of now \<le> d then None
             else Some (if itype = ''CE'' \<or> itype = ''PE'' then 0
                        else if po_ltp p \<noteq> 0 then po_ltp p
                        else case quote (po_user_id p) (po_symbol p) (po_exchange p) of
                               Some x \<Rightarrow> if x \<noteq> 0 then x else po_average_price p
                             | None \<Rightarrow> po_average_price p))"

text \<open>A symbol listed twice in the symbol master raises in the middle of the pass, before the
  transaction commits.\<close>

definition close_expired_fno_positions :: "datetime \<Rightarrow> quotes \<Rightarrow> db \<Rightarrow> (exn + int) \<times> db" where
  "close_expired_fno_positions now quote s =
     (let look = (\<lambda>p. find_symtoken s (po_symbol p) (po_exchange p)) in
      if list_ex (\<lambda>p. expiry_candidate p \<and> look p = Inl MultipleResultsFound) (db_positions s)
      then (Inl MultipleResultsFound, s)
      else
        let (n, s') = run_force_close now
              (\<lambda>p. if expiry_candidate p
                   then (case look p of Inr tok \<Rightarrow> expired_price now quote tok p | Inl _ \<Rightarrow> None)
                   else None) s
        in (Inr n, s'))"

section \<open>Daily reset and snapshot\<close>

definition reset_today_pnl :: "db \<Rightarrow> int \<times> db" where
  "reset_today_pnl s =
     (let fdirty = (\<lambda>f. fd_today_realized_pnl f \<noteq> 0);
          pdirty = (\<lambda>p. po_today_realized_pnl p \<noteq> 0 \<or> po_day_buy_quantity p \<noteq> 0 \<or> po_day_buy_value p \<noteq> 0
                       \<or> po_day_sell_quantity p \<noteq> 0 \<or> po_day_sell_value p \<noteq> 0)
      in (int (length (filter fdirty (db_funds s))) + int (length (filter pdirty (db_positions s))),
          s\<lparr>db_funds := map (\<lambda>f. if fdirty f then f\<lparr>fd_today_realized_pnl := 0\<rparr> else f) (db_funds s),
            db_positions := map (\<lambda>p. if pdirty p
               then p\<lparr>po_today_realized_pnl := 0, po_day_buy_quantity := 0, po_day_buy_value := 0,
                      po_day_sell_quantity := 0, po_day_sell_value := 0\<rparr> else p) (db_positions s)\<rparr>))"

text \<open>\<open>db_day\<close> is the database's \<open>date()\<close> of a timestamp, which depends on its session time zone.\<close>

definition snapshot_row :: "(datetime \<Rightarrow> int) \<Rightarrow> int \<Rightarrow> db \<Rightarrow> int \<Rightarrow> daily_pnl" where
  "snapshot_row db_day target s u =
     (let fnd = get_fund u s;
          field = (\<lambda>g. case fnd of Some f \<Rightarrow> g f | None \<Rightarrow> 0)
      in \<lparr>dp_user_id = u, dp_snapshot_date = target,
          dp_starting_capital = pyround (field fd_starting_capital) 2,
          dp_available = pyround (field fd_available) 2,
          dp_used_margin = pyround (field fd_used_margin) 2,
          dp_realized_pnl = pyround (field fd_realized_pnl) 2,
          dp_unrealized_pnl = pyround (field fd_unrealized_pnl) 2,
          dp_total_pnl = pyround (field fd_realized_pnl + field fd_unrealized_pnl) 2,
          dp_positions_pnl = pyround (sum_list (map po_pnl (filter (\<lambda>p. po_user_id p = u) (db_positions s)))) 2,
          dp_holdings_pnl = pyround (sum_list (map ho_pnl (filter (\<lambda>h. ho_user_id h = u) (db_holdings s)))) 2,
          dp_trades_count = int (length (filter (\<lambda>t. tr_user_id t = u \<and> db_day (tr_timestamp t) = target)
                                   (db_trades s)))\<rparr>)"

definition snapshot_users :: "db \<Rightarrow> int list" where
  "snapshot_users s = remdups (map fd_user_id (db_funds s) @ map po_user_id (db_positions s)
     @ map ho_user_id (db_holdings s) @ map tr_user_id (db_trades s))"

definition snapshot_for_date :: "(datetime \<Rightarrow> int) \<Rightarrow> int \<Rightarrow> db \<Rightarrow> int \<times> db" where
  "snapshot_for_date db_day target s =
     (let todo = filter (\<lambda>u. \<not> list_ex (\<lambda>r. dp_user_id r = u \<and> dp_snapshot_date r = target) (db_daily_pnl s))
                   (snapshot_users s)
      in (int (length todo), s\<lparr>db_daily_pnl := db_daily_pnl s @ map (snapshot_row db_day target s) todo\<rparr>))"

section \<open>Startup\<close>

record catch_up_counts =
  cu_stale_mis_closed :: int
  cu_stale_cnc_settled :: int
  cu_expired_fno_closed :: int
  cu_today_pnl_rows_reset :: int

definition run_catch_up_tasks :: "datetime \<Rightarrow> quotes \<Rightarrow> (datetime \<Rightarrow> int) \<Rightarrow> db \<Rightarrow> catch_up_counts \<times> db" where
  "run_catch_up_tasks now quote db_day s =
     (let (n1, s1) = close_stale_mis_positions now quote s;
          (n2, s2) = settle_stale_cnc_positions now s1;
          (r3, s3) = close_expired_fno_positions now quote s2;
          n3 = (case r3 of Inr n \<Rightarrow> n | Inl _ \<Rightarrow> 0);
          (n4, s4) = reset_today_pnl s3;
          (_, s5) = snapshot_for_date db_day (day_of now - 1) s4
      in (\<lparr>cu_stale_mis_closed = n1, cu_stale_cnc_settled = n2, cu_expired_fno_closed = n3,
           cu_today_pnl_rows_reset = n4\<rparr>, s5))"

section \<open>Reading the position book\<close>

record position_dict =
  pd_symbol :: string
  pd_exchange :: string
  pd_product :: string
  pd_netqty :: int
  pd_buyqty :: int
  pd_sellqty :: int
  pd_average_price :: rat
  pd_ltp :: rat
  pd_pnl :: rat
  pd_unrealized_pnl :: rat
  pd_realized_pnl :: rat
  pd_today_realized_pnl :: rat
  pd_margin_blocked :: rat

definition position_to_dict :: "position \<Rightarrow> position_dict" where
  "position_to_dict p =
     \<lparr>pd_symbol = po_symbol p, pd_exchange = po_exchange p, pd_product = po_product p,
      pd_netqty = po_net_quantity p, pd_buyqty = po_day_buy_quantity p, pd_sellqty = po_day_sell_quantity p,
      pd_average_price = (if po_net_quantity p \<noteq> 0 then pyround (po_average_price p) 2 else 0),
      pd_ltp = pyround (po_ltp p) 2,
      pd_pnl = pyround (if po_net_quantity p \<noteq> 0 then po_pnl p else po_today_realized_pnl p) 2,
      pd_unrealized_pnl = pyround (po_unrealized_pnl p) 2,
      pd_realized_pnl = pyround (po_realized_pnl p) 2,
      pd_today_realized_pnl = pyround (po_today_realized_pnl p) 2,
      pd_margin_blocked = pyround (po_margin_blocked p) 2\<rparr>"

definition traded_since :: "datetime \<Rightarrow> int \<Rightarrow> db \<Rightarrow> position \<Rightarrow> bool" where
  "traded_since boundary u s p \<longleftrightarrow>
     list_ex (\<lambda>t. tr_user_id t = u \<and> boundary \<le> tr_timestamp t \<and> tr_symbol t = po_symbol p \<and>
                  tr_exchange t = po_exchange p \<and> tr_product t = po_product p) (db_trades s)"

text \<open>The heal writes \<open>today_realized_pnl\<close> by raw SQL and then assigns the same column on the loaded
  row, so the ORM writes it again at commit and bumps \<open>updated_at\<close>.\<close>

definition heal_row :: "datetime \<Rightarrow> int \<Rightarrow> db \<Rightarrow> position \<Rightarrow> position" where
  "heal_row now u s p =
     (if po_user_id p = u \<and> po_net_quantity p = 0 \<and> po_today_realized_pnl p \<noteq> 0 \<and>
         \<not> traded_since (at_hm now 0 0) u s p
      then p\<lparr>po_today_realized_pnl := 0, po_updated_at := now\<rparr> else p)"

definition get_positions :: "datetime \<Rightarrow> quotes \<Rightarrow> int \<Rightarrow> db \<Rightarrow> position_dict list \<times> db" where
  "get_positions now quote u s0 =
     (let s = snd (close_expired_fno_positions now quote s0);
          s' = s\<lparr>db_positions := map (heal_row now u s) (db_positions s)\<rparr>;
          visible = filter (\<lambda>p. po_user_id p = u \<and>
                      (po_net_quantity p \<noteq> 0 \<or> traded_since (at_hm now 0 0) u s p)) (db_positions s')
      in (map position_to_dict visible, s'))"

end
