(* ===== verification/Sandbox_Service.thy ===== *)
theory Sandbox_Service
  imports Execution_Engine Catch_Up
begin

text \<open>
  The service layer of the sandbox (\<open>src/backend/services/sandbox_service.py\<close>). A call is a
  sequence of transactions; an exception ends it and keeps the transactions already committed.
  The environment of a call gives the clock, the ids drawn for the order and the trade, and the
  answers of the two price lookups. A response carries its HTTP status; a message is the
  rejection reason or the fixed text.
\<close>

section \<open>Requests and responses\<close>

record order_req =
  rq_symbol :: string
  rq_exchange :: string
  rq_action :: string
  rq_quantity :: jval
  rq_pricetype :: string
  rq_product :: string
  rq_price :: jval
  rq_trigger_price :: jval
  rq_strategy :: string
  rq_position_size :: "jval option"

record env =
  ev_now :: datetime
  ev_orderid :: string
  ev_tradeid :: string
  ev_quote_ref :: quotes
  ev_quote_fill :: quotes

datatype message = MReason reason | MText string

record response =
  rs_ok :: bool
  rs_orderid :: "string option"
  rs_message :: "message option"
  rs_status :: int

definition resp_ok :: "string \<Rightarrow> response" where
  "resp_ok orderid = \<lparr>rs_ok = True, rs_orderid = Some orderid, rs_message = None, rs_status = 200\<rparr>"

definition resp_noop :: "string \<Rightarrow> response" where
  "resp_noop msg = \<lparr>rs_ok = True, rs_orderid = None, rs_message = Some (MText msg), rs_status = 200\<rparr>"

definition resp_err :: "string option \<Rightarrow> message \<Rightarrow> int \<Rightarrow> response" where
  "resp_err orderid msg status =
     \<lparr>rs_ok = False, rs_orderid = orderid, rs_message = Some msg, rs_status = status\<rparr>"

text \<open>\<open>int(str(v))\<close> and \<open>float(str(v))\<close> with a default: the text of a float always holds a point,
  an exponent or a name, so \<open>int\<close> refuses it; the texts \<open>None\<close>, \<open>True\<close> and \<open>False\<close> are refused by both.\<close>

definition int_of_jval :: "jval \<Rightarrow> int option" where
  "int_of_jval v = (case v of JInt n \<Rightarrow> Some n | JStr t \<Rightarrow> py_int t | _ \<Rightarrow> None)"

definition parse_int :: "jval \<Rightarrow> int" where
  "parse_int v = (case int_of_jval v of Some n \<Rightarrow> n | None \<Rightarrow> 0)"

definition parse_float :: "jval \<Rightarrow> rat" where
  "parse_float v =
     (case v of JInt n \<Rightarrow> of_int n | JFloat x \<Rightarrow> x
      | JStr t \<Rightarrow> (case py_float t of Some x \<Rightarrow> x | None \<Rightarrow> 0) | _ \<Rightarrow> 0)"

section \<open>Placing an order\<close>

text \<open>The row an order request becomes: the fields are those \<open>place_order\<close> reads from the payload.\<close>

definition request_row :: "env \<Rightarrow> int \<Rightarrow> order_req \<Rightarrow> rat \<Rightarrow> order_status \<Rightarrow> reason option \<Rightarrow> order" where
  "request_row e u q margin status reason =
     new_order (ev_now e) (ev_orderid e) u (rq_symbol q) (rq_exchange q) (upper (rq_action q))
       (parse_int (rq_quantity q)) (upper (rq_pricetype q)) (upper (rq_product q))
       (parse_float (rq_price q)) (parse_float (rq_trigger_price q))
       (if rq_strategy q = [] then None else Some (rq_strategy q)) margin status reason"

definition reject_request :: "env \<Rightarrow> int \<Rightarrow> order_req \<Rightarrow> reason \<Rightarrow> db \<Rightarrow> (exn + response) \<times> db" where
  "reject_request e u q reason s =
     (case create_order (request_row e u q 0 SRejected (Some reason)) s of
        (Inl x, s') \<Rightarrow> (Inl x, s')
      | (Inr row, s') \<Rightarrow> (Inr (resp_err (Some (or_orderid row)) (MReason reason) 400), s'))"

definition price_by_ltp :: "string \<Rightarrow> bool" where
  "price_by_ltp pricetype \<longleftrightarrow> pricetype = ''MARKET'' \<or> pricetype = ''SL-M''"

text \<open>The reference price for margin: the order's own price, or a positive LTP.\<close>

definition ref_price :: "env \<Rightarrow> int \<Rightarrow> order_req \<Rightarrow> rat option" where
  "ref_price e u q =
     (if price_by_ltp (upper (rq_pricetype q))
      then (case ev_quote_ref e u (rq_symbol q) (rq_exchange q) of
              None \<Rightarrow> None | Some x \<Rightarrow> if x \<le> 0 then None else Some x)
      else Some (parse_float (rq_price q)))"

text \<open>Position-aware sizing: nothing for a pure reduction, the excess for a reversal, else all.\<close>

definition actual_margin ::
  "db \<Rightarrow> rat \<Rightarrow> int \<Rightarrow> string \<Rightarrow> string \<Rightarrow> string \<Rightarrow> string \<Rightarrow> (int \<times> rat) option \<Rightarrow> rat" where
  "actual_margin s price quantity prd exch itype action snap =
     (let full = compute_required_margin s price quantity prd exch itype action in
      case snap of
        None \<Rightarrow> full
      | Some (existing_qty, _) \<Rightarrow>
          if (0 < existing_qty \<and> action = ''SELL'') \<or> (existing_qty < 0 \<and> action = ''BUY'') then
            (if quantity \<le> \<bar>existing_qty\<bar> then 0
             else compute_required_margin s price (quantity - \<bar>existing_qty\<bar>) prd exch itype action)
          else full)"

definition initial_status :: "string \<Rightarrow> order_status" where
  "initial_status pricetype =
     (if pricetype = ''SL'' \<or> pricetype = ''SL-M'' then STriggerPending else SOpen)"

text \<open>The part after the gates: block the margin, record the order, try to fill it at once.\<close>

definition accept_order :: "env \<Rightarrow> int \<Rightarrow> order_req \<Rightarrow> rat \<Rightarrow> db \<Rightarrow> (exn + response) \<times> db" where
  "accept_order e u q margin s =
     (case block_margin s u margin of
        ((False, err), s1) \<Rightarrow>
          reject_request e u q (case err of Some r \<Rightarrow> r | None \<Rightarrow> Insufficient margin 0) s1
      | ((True, _), s1) \<Rightarrow>
          (case create_order (request_row e u q margin (initial_status (upper (rq_pricetype q))) None) s1 of
             (Inl x, s2) \<Rightarrow> (Inl x, s2)
           | (Inr row, s2) \<Rightarrow>
               (case ev_quote_fill e u (rq_symbol q) (rq_exchange q) of
                  None \<Rightarrow> (Inr (resp_ok (or_orderid row)), s2)
                | Some ltp \<Rightarrow>
                    if ltp \<le> 0 then (Inr (resp_ok (or_orderid row)), s2)
                    else (case try_fill_order (ev_now e) (ev_tradeid e) row ltp s2 of
                            (Inl x, s3) \<Rightarrow> (Inl x, s3)
                          | (Inr _, s3) \<Rightarrow> (Inr (resp_ok (or_orderid row)), s3)))))"

definition place_order :: "env \<Rightarrow> int \<Rightarrow> order_req \<Rightarrow> db \<Rightarrow> (exn + response) \<times> db" where
  "place_order e u q s =
     (let symb = rq_symbol q; exch = rq_exchange q;
          action = upper (rq_action q); quantity = parse_int (rq_quantity q);
          pricetype = upper (rq_pricetype q); prd = upper (rq_product q)
      in case validate_order s (ev_now e) u symb exch action quantity pricetype prd
                (parse_float (rq_price q)) (parse_float (rq_trigger_price q)) of
           Inl x \<Rightarrow> (Inl x, s)
         | Inr (Some reason, _) \<Rightarrow> reject_request e u q reason s
         | Inr (None, info) \<Rightarrow>
             (let itype0 = (case info of Some i \<Rightarrow> si_instrument_type i | None \<Rightarrow> []);
                  itype = (if itype0 \<noteq> [] then itype0 else classify_from_symbol symb exch)
              in case ref_price e u q of
                   None \<Rightarrow> reject_request e u q (NoLtp pricetype symb exch) s
                 | Some price \<Rightarrow>
                     accept_order e u q
                       (actual_margin s price quantity prd exch itype action
                          (get_position_snapshot s (u, symb, exch, prd))) s))"

section \<open>Modifying and cancelling\<close>

definition svc_modify_order ::
  "int \<Rightarrow> string \<Rightarrow> jval \<Rightarrow> jval \<Rightarrow> jval \<Rightarrow> string option \<Rightarrow> db \<Rightarrow> response \<times> db" where
  "svc_modify_order u orderid quantity price trigger pricetype s =
     (if orderid = [] then (resp_err None (MText ''orderid is required'') 400, s)
      else
        let q = parse_int quantity in
        case om_modify_order u orderid (if q = 0 then None else Some q) (Some (parse_float price))
               (Some (parse_float trigger)) pricetype s of
          (None, s') \<Rightarrow> (resp_err None (MText ''Order not found or not modifiable'') 404, s')
        | (Some row, s') \<Rightarrow> (resp_ok (or_orderid row), s'))"

definition svc_cancel_order :: "int \<Rightarrow> string \<Rightarrow> db \<Rightarrow> response \<times> db" where
  "svc_cancel_order u orderid s =
     (case om_cancel_order u orderid s of
        (None, s') \<Rightarrow> (resp_err None (MText ''Order not found or not cancellable'') 404, s')
      | (Some row, s') \<Rightarrow>
          (resp_ok orderid,
           if or_margin_blocked row \<noteq> 0 then release_margin s' u (or_margin_blocked row) 0 else s'))"

fun cancel_loop :: "int \<Rightarrow> order list \<Rightarrow> db \<Rightarrow> string list \<times> db" where
  "cancel_loop u [] s = ([], s)"
| "cancel_loop u (r # rs) s =
     (case om_cancel_order u (or_orderid r) s of
        (None, s') \<Rightarrow> cancel_loop u rs s'
      | (Some c, s') \<Rightarrow>
          (let s'' = (if or_margin_blocked c \<noteq> 0 then release_margin s' u (or_margin_blocked c) 0 else s');
               (ids, t) = cancel_loop u rs s''
           in (or_orderid c # ids, t)))"

definition cancel_all_orders :: "int \<Rightarrow> db \<Rightarrow> string list \<times> db" where
  "cancel_all_orders u s = cancel_loop u (list_cancellable_orders s u) s"

section \<open>Closing positions\<close>

definition market_close :: "string \<Rightarrow> string \<Rightarrow> string \<Rightarrow> int \<Rightarrow> string \<Rightarrow> order_req" where
  "market_close symb exch prd qty strategy =
     \<lparr>rq_symbol = symb, rq_exchange = exch, rq_action = (if 0 < qty then ''SELL'' else ''BUY''),
      rq_quantity = JInt \<bar>qty\<bar>, rq_pricetype = ''MARKET'', rq_product = prd,
      rq_price = JInt 0, rq_trigger_price = JInt 0, rq_strategy = strategy, rq_position_size = None\<rparr>"

definition close_position :: "env \<Rightarrow> int \<Rightarrow> string \<Rightarrow> string \<Rightarrow> string \<Rightarrow> db \<Rightarrow> (exn + response) \<times> db" where
  "close_position e u symb exch prd s =
     (case get_position_snapshot s (u, symb, exch, prd) of
        None \<Rightarrow> (Inr (resp_noop ''no open position''), s)
      | Some (qty, _) \<Rightarrow>
          if qty = 0 then (Inr (resp_noop ''position is flat''), s)
          else place_order e u (market_close symb exch prd qty ''close_position'') s)"

text \<open>\<open>envs\<close> supplies the environment of each order placed in the loop.\<close>

fun close_loop ::
  "(nat \<Rightarrow> env) \<Rightarrow> nat \<Rightarrow> int \<Rightarrow> position_dict list \<Rightarrow> db \<Rightarrow> (exn + string list) \<times> db" where
  "close_loop envs i u [] s = (Inr [], s)"
| "close_loop envs i u (p # ps) s =
     (if pd_netqty p = 0 then close_loop envs i u ps s
      else
        case place_order (envs i) u
               (market_close (pd_symbol p) (pd_exchange p) (pd_product p) (pd_netqty p) ''close_all'') s of
          (Inl x, s') \<Rightarrow> (Inl x, s')
        | (Inr resp, s') \<Rightarrow>
            (case close_loop envs (Suc i) u ps s' of
               (Inl x, t) \<Rightarrow> (Inl x, t)
             | (Inr ids, t) \<Rightarrow>
                 (Inr ((case rs_orderid resp of Some oid \<Rightarrow> if oid \<noteq> [] then [oid] else [] | None \<Rightarrow> []) @ ids), t)))"

definition close_all_positions ::
  "datetime \<Rightarrow> quotes \<Rightarrow> (nat \<Rightarrow> env) \<Rightarrow> int \<Rightarrow> db \<Rightarrow> (exn + string list) \<times> db" where
  "close_all_positions now quote envs u s =
     (let (ps, s') = get_positions now quote u s in close_loop envs 0 u ps s')"

definition place_smart_order :: "env \<Rightarrow> int \<Rightarrow> order_req \<Rightarrow> db \<Rightarrow> (exn + response) \<times> db" where
  "place_smart_order e u q s =
     (let prd = upper (if rq_product q = [] then ''MIS'' else rq_product q) in
      case (case rq_position_size q of None \<Rightarrow> Some 0 | Some v \<Rightarrow> int_of_jval v) of
        None \<Rightarrow> (Inr (resp_err None (MText ''position_size must be an integer'') 400), s)
      | Some target \<Rightarrow>
          (let current = (case get_position_snapshot s (u, rq_symbol q, rq_exchange q, prd) of
                            Some (n, _) \<Rightarrow> n | None \<Rightarrow> 0);
               delta = target - current
           in if delta = 0 then (Inr (resp_noop ''already at target''), s)
              else place_order e u
                     (q\<lparr>rq_action := (if 0 < delta then ''BUY'' else ''SELL''),
                        rq_quantity := JInt \<bar>delta\<bar>,
                        rq_pricetype := upper (if rq_pricetype q = [] then ''MARKET'' else rq_pricetype q),
                        rq_product := prd\<rparr>) s))"

section \<open>Reads\<close>

record orderbook =
  ob_orders :: "order_dict list"
  ob_total :: int
  ob_completed :: int
  ob_open :: int
  ob_rejected :: int
  ob_cancelled :: int
  ob_buy :: int
  ob_sell :: int

definition count_if :: "('a \<Rightarrow> bool) \<Rightarrow> 'a list \<Rightarrow> int" where
  "count_if P xs = int (length (filter P xs))"

definition get_orderbook :: "datetime \<Rightarrow> int \<Rightarrow> db \<Rightarrow> orderbook" where
  "get_orderbook now u s =
     (let orders = map to_dict (list_orders s now u False) in
      \<lparr>ob_orders = orders, ob_total = int (length orders),
       ob_completed = count_if (\<lambda>x. od_order_status x = SComplete) orders,
       ob_open = count_if (\<lambda>x. pending_status (od_order_status x)) orders,
       ob_rejected = count_if (\<lambda>x. od_order_status x = SRejected) orders,
       ob_cancelled = count_if (\<lambda>x. od_order_status x = SCancelled) orders,
       ob_buy = count_if (\<lambda>x. od_action x = ''BUY'') orders,
       ob_sell = count_if (\<lambda>x. od_action x = ''SELL'') orders\<rparr>)"

definition get_tradebook :: "datetime \<Rightarrow> int \<Rightarrow> db \<Rightarrow> trade_dict list" where
  "get_tradebook now u s = map trade_to_dict (list_trades s now u False)"

definition get_order_status :: "int \<Rightarrow> string \<Rightarrow> db \<Rightarrow> response \<times> order_dict option" where
  "get_order_status u orderid s =
     (case get_order s u orderid of
        None \<Rightarrow> (resp_err None (MText ''Order not found'') 404, None)
      | Some row \<Rightarrow> (resp_ok orderid, Some (to_dict row)))"

end
