(* ===== verification/Sandbox_Jobs.thy ===== *)
theory Sandbox_Jobs
  imports Sandbox_Service
begin

text \<open>
  The time-driven jobs: auto square-off of MIS positions (\<open>src/backend/sandbox/squareoff.py\<close>), the
  weekly wipe (\<open>weekly_reset.py\<close>), the per-user reset and admin calls of
  \<open>src/backend/routers/sandbox.py\<close>, and the scheduler's evaluation pass (\<open>scheduler.py\<close>).
\<close>

section \<open>Square-off\<close>

definition EXCHANGE_BUCKETS :: "string \<Rightarrow> string list option" where
  "EXCHANGE_BUCKETS b =
     (if b = ''nse_nfo_bse_bfo'' then Some [''NSE'', ''NFO'', ''BSE'', ''BFO'']
      else if b = ''cds'' then Some [''CDS'', ''BCD'']
      else if b = ''mcx'' then Some [''MCX'']
      else None)"

definition squareoff_due :: "string list \<Rightarrow> order \<Rightarrow> bool" where
  "squareoff_due exs r \<longleftrightarrow> or_product r = ''MIS'' \<and> pending_status (or_status r) \<and> or_exchange r \<in> set exs"

definition squareoff_cancel_row :: "order \<Rightarrow> order" where
  "squareoff_cancel_row r =
     r\<lparr>or_status := SCancelled, or_rejection_reason := Some AutoSquareoff, or_margin_blocked := 0\<rparr>"

definition cancel_pending_mis_orders :: "string list \<Rightarrow> db \<Rightarrow> int \<times> db" where
  "cancel_pending_mis_orders exs s =
     (let due = filter (squareoff_due exs) (db_orders s);
          releases = fold (\<lambda>r d. if 0 < or_margin_blocked r
                                 then dict_add (or_user_id r) (or_margin_blocked r) d else d) due [];
          s' = s\<lparr>db_orders := map (\<lambda>r. if squareoff_due exs r then squareoff_cancel_row r else r) (db_orders s)\<rparr>
      in (int (length due), fold (\<lambda>(u, amount) t. release_margin t u amount 0) releases s'))"

definition open_mis_positions :: "string list \<Rightarrow> db \<Rightarrow> position list" where
  "open_mis_positions exs s =
     filter (\<lambda>p. po_product p = ''MIS'' \<and> po_net_quantity p \<noteq> 0 \<and> po_exchange p \<in> set exs) (db_positions s)"

text \<open>Each order is placed under its own \<open>try\<close>: an exception is logged and the loop goes on.\<close>

fun squareoff_loop :: "(nat \<Rightarrow> env) \<Rightarrow> nat \<Rightarrow> position list \<Rightarrow> db \<Rightarrow> int \<times> db" where
  "squareoff_loop envs i [] s = (0, s)"
| "squareoff_loop envs i (p # ps) s =
     (let (r, s') = place_order (envs i) (po_user_id p)
                      (market_close (po_symbol p) (po_exchange p) ''MIS'' (po_net_quantity p) ''auto_squareoff'') s;
          (n, t) = squareoff_loop envs (Suc i) ps s'
      in ((case r of Inr resp \<Rightarrow> if rs_ok resp then n + 1 else n | Inl _ \<Rightarrow> n), t))"

definition squareoff_bucket :: "(nat \<Rightarrow> env) \<Rightarrow> string \<Rightarrow> db \<Rightarrow> int \<times> db" where
  "squareoff_bucket envs b s =
     (case EXCHANGE_BUCKETS b of
        None \<Rightarrow> (0, s)
      | Some exs \<Rightarrow>
          (let s1 = snd (cancel_pending_mis_orders exs s)
           in squareoff_loop envs 0 (open_mis_positions exs s1) s1))"

section \<open>Resets\<close>

definition wipe_users :: "db \<Rightarrow> int list" where
  "wipe_users s = remdups (map fd_user_id (db_funds s) @ map or_user_id (db_orders s)
     @ map tr_user_id (db_trades s) @ map po_user_id (db_positions s) @ map ho_user_id (db_holdings s))"

definition wipe_all_users :: "db \<Rightarrow> int \<times> db" where
  "wipe_all_users s =
     (let users = wipe_users s in
      if users = [] then (0, s)
      else (int (length users),
            fold (\<lambda>u t. reset_funds t u) users
              (s\<lparr>db_orders := [], db_trades := [], db_positions := [], db_holdings := [], db_daily_pnl := []\<rparr>)))"

definition reset_my_sandbox :: "int \<Rightarrow> db \<Rightarrow> db" where
  "reset_my_sandbox u s =
     reset_funds
       (s\<lparr>db_orders := filter (\<lambda>r. or_user_id r \<noteq> u) (db_orders s),
          db_trades := filter (\<lambda>t. tr_user_id t \<noteq> u) (db_trades s),
          db_positions := filter (\<lambda>p. po_user_id p \<noteq> u) (db_positions s),
          db_holdings := filter (\<lambda>h. ho_user_id h \<noteq> u) (db_holdings s)\<rparr>) u"

section \<open>The scheduler\<close>

text \<open>Calendar names of a day, as the standard library computes them (\<open>_ord2ymd\<close>, \<open>isoformat\<close>,
  \<open>weekday\<close>): the day is a proleptic Gregorian ordinal.\<close>

fun month_of :: "int \<Rightarrow> int \<Rightarrow> nat \<Rightarrow> int \<times> int" where
  "month_of y n 0 = (1, n + 1)"
| "month_of y n (Suc k) =
     (if days_before_month y (int (Suc k)) \<le> n then (int (Suc k), n - days_before_month y (int (Suc k)) + 1)
      else month_of y n k)"

definition ord2ymd :: "int \<Rightarrow> int \<times> int \<times> int" where
  "ord2ymd d =
     (let n = d - 1;
          n400 = n div 146097; n = n mod 146097;
          n100 = n div 36524; n = n mod 36524;
          n4 = n div 1461; n = n mod 1461;
          n1 = n div 365; n = n mod 365;
          year = n400 * 400 + 1 + n100 * 100 + n4 * 4 + n1
      in if n1 = 4 \<or> n100 = 4 then (year - 1, 12, 31)
         else (case month_of year n 12 of (m, dd) \<Rightarrow> (year, m, dd)))"

definition isoformat :: "int \<Rightarrow> string" where
  "isoformat d =
     (case ord2ymd d of (y, m, dd) \<Rightarrow> zpad 4 y @ ''-'' @ zpad 2 m @ ''-'' @ zpad 2 dd)"

definition weekday :: "int \<Rightarrow> int" where
  "weekday d = (d + 6) mod 7"

text \<open>The ISO year and week: those of the Thursday of the same Monday-based week.\<close>

definition iso_week_key :: "int \<Rightarrow> string" where
  "iso_week_key d =
     (let th = d - weekday d + 3;
          y = fst (ord2ymd th);
          w = (th - ymd2ord y 1 1) div 7 + 1
      in zpad 4 y @ ''-W'' @ zpad 2 w)"

definition DAY_NAMES :: "string list" where
  "DAY_NAMES = [''Monday'', ''Tuesday'', ''Wednesday'', ''Thursday'', ''Friday'', ''Saturday'', ''Sunday'']"

definition sched_key :: "string \<Rightarrow> string" where
  "sched_key job = ''_sched_last_'' @ job"

definition read_last_run :: "db \<Rightarrow> string \<Rightarrow> string" where
  "read_last_run s job = read_str s (sched_key job) []"

definition mark_ran :: "string \<Rightarrow> string \<Rightarrow> db \<Rightarrow> db" where
  "mark_ran job today s =
     (case get_config (sched_key job) s of
        None \<Rightarrow> put_config \<lparr>cf_key = sched_key job, cf_value = today, cf_is_editable = False\<rparr> s
      | Some r \<Rightarrow> put_config (r\<lparr>cf_value := today\<rparr>) s)"

definition due_today :: "string \<Rightarrow> datetime \<Rightarrow> bool \<Rightarrow> exn + bool" where
  "due_today hhmm now already_ran_today =
     (if already_ran_today then Inr False
      else case split_hm (strip hhmm) of
             None \<Rightarrow> Inr False
           | Some (h, m) \<Rightarrow>
               (case replace_hm now h m of Inl e \<Rightarrow> Inl e | Inr target \<Rightarrow> Inr (target \<le> now)))"

definition due_weekly :: "string \<Rightarrow> string \<Rightarrow> datetime \<Rightarrow> bool \<Rightarrow> exn + bool" where
  "due_weekly day_name hhmm now already_ran_week =
     (if already_ran_week then Inr False
      else if day_name \<notin> set DAY_NAMES then Inr False
      else if index_from 0 day_name DAY_NAMES \<noteq> Some (weekday (day_of now)) then Inr False
      else case split_hm (strip hhmm) of
             None \<Rightarrow> Inr False
           | Some (h, m) \<Rightarrow>
               (case replace_hm now h m of Inl e \<Rightarrow> Inl e | Inr target \<Rightarrow> Inr (target \<le> now)))"

text \<open>What one pass may run, in order. \<open>_run_once_safely\<close> swallows a job's exception, so a job is
  its effect on the state; a malformed time in the configuration raises out of the pass and
  the jobs after it are not looked at.\<close>

datatype job = SquareoffJob string | EodSettle | DailyReset | WeeklyReset

record sched_env =
  se_now :: datetime
  se_quote :: quotes
  se_envs :: "string \<Rightarrow> nat \<Rightarrow> env"
  se_db_day :: "datetime \<Rightarrow> int"

definition job_name :: "job \<Rightarrow> string" where
  "job_name j = (case j of SquareoffJob b \<Rightarrow> ''squareoff_'' @ b | EodSettle \<Rightarrow> ''eod_settle''
     | DailyReset \<Rightarrow> ''daily_reset'' | WeeklyReset \<Rightarrow> ''weekly_reset'')"

definition job_stamp :: "datetime \<Rightarrow> job \<Rightarrow> string" where
  "job_stamp now j = (case j of WeeklyReset \<Rightarrow> iso_week_key (day_of now) | _ \<Rightarrow> isoformat (day_of now))"

definition job_due :: "job \<Rightarrow> datetime \<Rightarrow> db \<Rightarrow> exn + bool" where
  "job_due j now s =
     (let already = (read_last_run s (job_name j) = job_stamp now j) in
      case j of
        SquareoffJob b \<Rightarrow> due_today (read_str s (''squareoff_'' @ b) ''15:15'') now already
      | EodSettle \<Rightarrow> due_today ''23:55'' now already
      | DailyReset \<Rightarrow> due_today ''00:00'' now already
      | WeeklyReset \<Rightarrow>
          (let reset_day = read_str s ''reset_day'' ''Sunday'' in
           if reset_day = ''Never'' then Inr False
           else due_weekly reset_day (read_str s ''reset_time'' ''00:00'') now already))"

definition run_job :: "sched_env \<Rightarrow> job \<Rightarrow> db \<Rightarrow> db" where
  "run_job e j s =
     (case j of
        SquareoffJob b \<Rightarrow> snd (squareoff_bucket (se_envs e b) b s)
      | EodSettle \<Rightarrow>
          (let s1 = snd (settle_cnc_to_holdings (se_now e) s)
           in snd (snapshot_for_date (se_db_day e) (day_of (se_now e)) s1))
      | DailyReset \<Rightarrow>
          (let s1 = snd (reset_today_pnl s)
           in snd (close_expired_fno_positions (se_now e) (se_quote e) s1))
      | WeeklyReset \<Rightarrow> snd (wipe_all_users s))"

definition ALL_JOBS :: "job list" where
  "ALL_JOBS = [SquareoffJob ''nse_nfo_bse_bfo'', SquareoffJob ''cds'', SquareoffJob ''mcx'',
               EodSettle, DailyReset, WeeklyReset]"

text \<open>The pass returns the jobs it ran.\<close>

fun sched_jobs :: "sched_env \<Rightarrow> job list \<Rightarrow> db \<Rightarrow> (job list \<times> exn option) \<times> db" where
  "sched_jobs e [] s = (([], None), s)"
| "sched_jobs e (j # js) s =
     (case job_due j (se_now e) s of
        Inl x \<Rightarrow> (([], Some x), s)
      | Inr False \<Rightarrow> sched_jobs e js s
      | Inr True \<Rightarrow>
          (let s' = mark_ran (job_name j) (job_stamp (se_now e) j) (run_job e j s);
               ((ran, x), t) = sched_jobs e js s'
           in ((j # ran, x), t)))"

definition sched_tick :: "sched_env \<Rightarrow> db \<Rightarrow> (job list \<times> exn option) \<times> db" where
  "sched_tick e s = sched_jobs e ALL_JOBS s"

end
