(* ===== verification/Margin_Ledger.thy ===== *)
theory Margin_Ledger
  imports Sandbox_Jobs
begin

text \<open>
  The books of the sandbox as a whole. The margin a user has in use should be backed by rows: the
  margin blocked by the pending orders plus the margin carried by the positions. \<open>ledger\<close> is that
  sum, \<open>slack\<close> what the fund row has in use beyond it. The invariant \<open>books_ok\<close> says that the rows
  are well formed and the slack is never negative; every operation of the sandbox but
  \<open>reconcile_margin\<close> keeps it, and none of them creates cash.
\<close>

named_theorems books_simps "how the row writes move the slack"
named_theorems books_steps "operations that conserve the books"

section \<open>The invariant\<close>

definition order_hold :: "int \<Rightarrow> order \<Rightarrow> rat" where
  "order_hold u r = (if or_user_id r = u \<and> pending_status (or_status r) then or_margin_blocked r else 0)"

definition pos_hold :: "int \<Rightarrow> position \<Rightarrow> rat" where
  "pos_hold u p = (if po_user_id p = u then po_margin_blocked p else 0)"

definition ledger :: "db \<Rightarrow> int \<Rightarrow> rat" where
  "ledger s u = row_total (order_hold u) (db_orders s) + row_total (pos_hold u) (db_positions s)"

definition used :: "db \<Rightarrow> int \<Rightarrow> rat" where
  "used s u = fd_used_margin (fund_of s u)"

definition slack :: "db \<Rightarrow> int \<Rightarrow> rat" where
  "slack s u = used s u - ledger s u"

definition gap :: "db \<Rightarrow> int \<Rightarrow> rat" where
  "gap s u = cash_gap (fund_of s u)"

definition order_wf :: "order \<Rightarrow> bool" where
  "order_wf r \<longleftrightarrow> pending_status (or_status r) \<longrightarrow> 0 \<le> or_margin_blocked r \<and> cents (or_margin_blocked r)"

definition books_wf :: "db \<Rightarrow> bool" where
  "books_wf s \<longleftrightarrow> uniq or_key (db_orders s) \<and> uniq po_key (db_positions s) \<and>
     (\<forall>r \<in> set (db_orders s). order_wf r) \<and> (\<forall>p \<in> set (db_positions s). margin_wf p)"

definition books_ok :: "db \<Rightarrow> bool" where
  "books_ok s \<longleftrightarrow> books_wf s \<and> (\<forall>u. 0 \<le> slack s u)"

text \<open>One step of the system: it keeps the books in order; it moves cash or it only spends it.\<close>

definition conserves :: "db \<Rightarrow> db \<Rightarrow> bool" where
  "conserves s t \<longleftrightarrow> books_ok s \<longrightarrow> books_ok t \<and> (\<forall>u. gap t u = gap s u)"

definition spends :: "db \<Rightarrow> db \<Rightarrow> bool" where
  "spends s t \<longleftrightarrow> books_ok s \<longrightarrow> books_ok t \<and> (\<forall>u. gap t u \<le> gap s u)"

interpretation cons: step_preorder conserves
  by unfold_locales (auto simp: conserves_def)

interpretation spend: step_preorder spends
proof
  show "spends s s" for s by (simp add: spends_def)
  show "spends s r" if "spends s t" "spends t r" for s t r
    using that unfolding spends_def by (meson order_trans)
qed

lemma conserves_spends: "conserves s t \<Longrightarrow> spends s t"
  by (simp add: conserves_def spends_def)

lemmas step_intros = cons.refl cons.trans spend.refl spend.trans conserves_spends

section \<open>Row writes\<close>

lemma order_hold_nonneg: "order_wf r \<Longrightarrow> 0 \<le> order_hold u r"
  by (simp add: order_hold_def order_wf_def)

lemma pos_hold_nonneg: "margin_wf p \<Longrightarrow> 0 \<le> pos_hold u p"
  by (simp add: pos_hold_def margin_wf_def)

lemma totals_nonneg:
  assumes "books_wf s"
  shows "0 \<le> row_total (order_hold u) (db_orders s)" "0 \<le> row_total (pos_hold u) (db_positions s)"
  using assms by (auto simp: books_wf_def intro!: row_total_nonneg order_hold_nonneg pos_hold_nonneg)

lemma ledger_nonneg: "books_wf s \<Longrightarrow> 0 \<le> ledger s u"
  using totals_nonneg [of s u] by (simp add: ledger_def)

lemma order_le_used:
  assumes "books_ok s" "r \<in> set (db_orders s)"
  shows "order_hold u r \<le> used s u"
proof -
  have wf: "books_wf s" "0 \<le> slack s u" using assms by (simp_all add: books_ok_def)
  have "order_hold u r \<le> row_total (order_hold u) (db_orders s)"
    using wf assms(2) by (intro row_total_member_le) (auto simp: books_wf_def order_hold_nonneg)
  with wf totals_nonneg [OF wf(1), of u] show ?thesis by (simp add: slack_def ledger_def)
qed

lemma pos_le_used:
  assumes "books_ok s" "p \<in> set (db_positions s)"
  shows "pos_hold u p \<le> used s u"
proof -
  have wf: "books_wf s" "0 \<le> slack s u" using assms by (simp_all add: books_ok_def)
  have "pos_hold u p \<le> row_total (pos_hold u) (db_positions s)"
    using wf assms(2) by (intro row_total_member_le) (auto simp: books_wf_def pos_hold_nonneg)
  with wf totals_nonneg [OF wf(1), of u] show ?thesis by (simp add: slack_def ledger_def)
qed

lemma used_nonneg: "books_ok s \<Longrightarrow> 0 \<le> used s u"
proof -
  assume "books_ok s"
  then have "books_wf s" "ledger s u \<le> used s u" by (simp_all add: books_ok_def slack_def)
  with ledger_nonneg [of s u] show ?thesis by simp
qed

lemma fund_of_update [simp]:
  "fund_of (s\<lparr>db_trades := x\<rparr>) u = fund_of s u" "fund_of (s\<lparr>db_events := ev\<rparr>) u = fund_of s u"
  "fund_of (s\<lparr>db_orders := os\<rparr>) u = fund_of s u" "fund_of (s\<lparr>db_positions := ps\<rparr>) u = fund_of s u"
  "fund_of (s\<lparr>db_holdings := hs\<rparr>) u = fund_of s u" "fund_of (s\<lparr>db_daily_pnl := ds\<rparr>) u = fund_of s u"
  by (rule fund_of_cong, simp, simp)+

lemma gap_update [books_simps]:
  "gap (s\<lparr>db_trades := x\<rparr>) u = gap s u" "gap (s\<lparr>db_events := ev\<rparr>) u = gap s u"
  "gap (s\<lparr>db_orders := os\<rparr>) u = gap s u" "gap (s\<lparr>db_positions := ps\<rparr>) u = gap s u"
  "gap (s\<lparr>db_holdings := hs\<rparr>) u = gap s u" "gap (s\<lparr>db_daily_pnl := ds\<rparr>) u = gap s u"
  "gap (put_order r s) u = gap s u" "gap (put_position p s) u = gap s u" "gap (put_holding h s) u = gap s u"
  by (simp_all add: gap_def)

lemma slack_update [books_simps]:
  "slack (s\<lparr>db_trades := x\<rparr>) u = slack s u" "slack (s\<lparr>db_events := ev\<rparr>) u = slack s u"
  "slack (s\<lparr>db_holdings := hs\<rparr>) u = slack s u" "slack (s\<lparr>db_daily_pnl := ds\<rparr>) u = slack s u"
  "slack (put_holding h s) u = slack s u"
  by (simp_all add: slack_def used_def ledger_def)

lemma wf_update [books_simps]:
  "books_wf (s\<lparr>db_trades := x\<rparr>) = books_wf s" "books_wf (s\<lparr>db_events := ev\<rparr>) = books_wf s"
  "books_wf (s\<lparr>db_holdings := hs\<rparr>) = books_wf s" "books_wf (s\<lparr>db_daily_pnl := ds\<rparr>) = books_wf s"
  "books_wf (put_holding h s) = books_wf s"
  by (simp_all add: books_wf_def)

lemma slack_put_order [books_simps]:
  "slack (put_order r s) u = slack s u + opt_weight (order_hold u) (get_order_row (or_key r) s) - order_hold u r"
  by (simp add: slack_def used_def ledger_def ords.total_put)

lemma slack_put_position [books_simps]:
  "slack (put_position p s) u = slack s u + opt_weight (pos_hold u) (get_position (po_key p) s) - pos_hold u p"
  by (simp add: slack_def used_def ledger_def poss.total_put)

lemma wf_put_order [books_simps]: "books_wf s \<Longrightarrow> order_wf r \<Longrightarrow> books_wf (put_order r s)"
  by (auto simp: books_wf_def put_order_def uniq_put_row dest: set_put_row)

lemma wf_put_position [books_simps]: "books_wf s \<Longrightarrow> margin_wf p \<Longrightarrow> books_wf (put_position p s)"
  by (auto simp: books_wf_def put_position_def uniq_put_row dest: set_put_row)

lemma wf_on_fund [books_simps]: "books_wf (on_fund g s u) = books_wf s"
  by (simp add: books_wf_def)

lemma wf_ensure [books_simps]: "books_wf (snd (ensure_fund_row s u)) = books_wf s"
  by (simp add: books_wf_def)

lemma slack_on_fund [books_simps]:
  "(\<And>f. fd_user_id (g f) = fd_user_id f) \<Longrightarrow>
   slack (on_fund g s u) v = slack s v + (if v = u then fd_used_margin (g (fund_of s u)) - used s u else 0)"
  by (simp add: slack_def used_def ledger_def fund_of_on_fund)

lemma gap_on_fund [books_simps]:
  "(\<And>f. fd_user_id (g f) = fd_user_id f) \<Longrightarrow>
   gap (on_fund g s u) v = (if v = u then cash_gap (g (fund_of s u)) else gap s v)"
  by (simp add: gap_def fund_of_on_fund)

lemma ensure_books [books_simps]:
  "slack (snd (ensure_fund_row s u)) v = slack s v" "gap (snd (ensure_fund_row s u)) v = gap s v"
  by (simp_all add: slack_def used_def ledger_def gap_def)

section \<open>Fund operations\<close>

lemma release_wf [books_simps]: "books_wf (release_margin s u a p) = books_wf s"
  by (simp add: release_margin_eq wf_on_fund)

lemma release_slack [books_simps]:
  "0 \<le> a \<Longrightarrow> a \<le> used s u \<Longrightarrow> slack (release_margin s u a p) v = slack s v - (if v = u then a else 0)"
  by (auto simp: release_margin_eq slack_on_fund used_def used_release_row)

lemma release_gap [books_simps]:
  "0 \<le> a \<Longrightarrow> a \<le> used s u \<Longrightarrow> gap (release_margin s u a p) v = gap s v"
  by (simp add: release_margin_eq gap_on_fund used_def cash_gap_release_row) (simp add: gap_def)

lemma block_wf [books_simps]: "books_wf (snd (block_margin s u a)) = books_wf s"
  by (simp add: block_margin_eq wf_on_fund wf_ensure)

lemma block_slack [books_simps]:
  "fst (fst (block_margin s u a)) \<Longrightarrow> 0 \<le> a \<Longrightarrow>
     slack (snd (block_margin s u a)) v = slack s v + (if v = u then a else 0)"
  by (auto simp: block_margin_eq slack_on_fund used_def split: if_splits)

lemma block_fail_slack [books_simps]:
  "\<not> fst (fst (block_margin s u a)) \<Longrightarrow> slack (snd (block_margin s u a)) v = slack s v"
  by (auto simp: block_margin_eq ensure_books split: if_splits)

lemma block_gap [books_simps]: "gap (snd (block_margin s u a)) v = gap s v"
  by (simp add: block_margin_eq gap_on_fund ensure_books) (simp add: gap_def)

section \<open>Fills\<close>

text \<open>The caller of \<open>try_fill_order\<close> holds a copy of the row that may be out of date, but the
  blocked margin of an order never changes while it is pending.\<close>

definition copy_of :: "db \<Rightarrow> order \<Rightarrow> bool" where
  "copy_of s r \<longleftrightarrow> (\<exists>r'. get_order_row (or_key r) s = Some r' \<and> or_margin_blocked r' = or_margin_blocked r)"

lemma books_okI: "books_wf s \<Longrightarrow> (\<And>u. 0 \<le> slack s u) \<Longrightarrow> books_ok s"
  by (simp add: books_ok_def)

lemma books_ok_wf: "books_ok s \<Longrightarrow> books_wf s"
  by (simp add: books_ok_def)

lemma books_ok_slack: "books_ok s \<Longrightarrow> 0 \<le> slack s u"
  by (simp add: books_ok_def)

lemma order_row_mem: "get_order_row k s = Some r \<Longrightarrow> r \<in> set (db_orders s)"
  by (auto simp: get_order_row_def dest: get_row_mem)

lemma position_mem: "get_position k s = Some p \<Longrightarrow> p \<in> set (db_positions s)"
  by (auto simp: get_position_def dest: get_row_mem)

lemma get_or_create_wf: "books_wf s \<Longrightarrow> margin_wf (get_or_create now k s)"
  by (auto simp: get_or_create_def books_wf_def dest: position_mem split: option.split)

text \<open>The three transactions of a successful attempt, as moves of the slack.\<close>

lemma fill_books:
  assumes "fill now tid u oid p None s = (Inr (Some (r', td)), s1)" and "get_order_row (u, oid) s = Some r0"
    and "books_wf s"
  shows "books_wf s1" and "slack s1 v = slack s v + (if v = u then or_margin_blocked r0 else 0)"
    and "gap s1 v = gap s v" and "0 < tr_quantity td" and "0 \<le> or_margin_blocked r0" "cents (or_margin_blocked r0)"
proof -
  obtain r where r: "get_order_row (u, oid) s = Some r" "pending_status (or_status r)"
    "or_filled_quantity r < or_quantity r" "r' = fill_row (or_quantity r - or_filled_quantity r) p r"
    "or_status r' = SComplete" "tr_quantity td = or_quantity r - or_filled_quantity r"
    "s1 = (put_order r' s)\<lparr>db_trades := db_trades s @ [td]\<rparr>" "or_key r' = (u, oid)"
    using assms(1) by (rule fill_rest)
  have u: "or_user_id r = u" "r0 = r" using r(1) assms(2) ords.get_key [OF r(1)] by (simp_all add: or_key_def)
  have wf: "order_wf r" using assms(3) order_row_mem [OF r(1)] by (simp add: books_wf_def)
  have fin: "order_wf r'" "order_hold v r' = 0" for v
    using r(5) by (simp_all add: order_wf_def order_hold_def pending_status_def)
  show "books_wf s1" using assms(3) fin(1) by (simp add: r(7) books_simps)
  have "order_hold v r = (if v = u then or_margin_blocked r else 0)"
    using r(2) u(1) by (simp add: order_hold_def)
  then show "slack s1 v = slack s v + (if v = u then or_margin_blocked r0 else 0)"
    using fin(2) by (simp add: r(1,7,8) books_simps u)
  show "gap s1 v = gap s v" by (simp add: r(7) books_simps)
  show "0 < tr_quantity td" "0 \<le> or_margin_blocked r0" "cents (or_margin_blocked r0)"
    using r(2,3,6) wf u by (simp_all add: order_wf_def)
qed

lemma apply_fill_books:
  assumes a: "apply_fill now k action q x om s = (Inr (realized, rel), s')"
    and "0 < q" "0 \<le> om" "cents om" and wf: "books_wf s"
  shows "books_wf s'" and "gap s' v = gap s v" and "0 \<le> rel"
    and "slack s' v = slack s v + (if v = fst k then rel else 0) -
      (if v = fst k \<and> fill_opens (po_net_quantity (get_or_create now k s)) (signed_quantity (upper action) q) then om else 0)"
proof -
  let ?old = "get_or_create now k s" and ?sq = "signed_quantity (upper action) q"
  let ?p = "fill_written now k action q x om s"
  obtain ev where s': "s' = (put_position ?p s)\<lparr>db_events := ev\<rparr>" using apply_fill_ok(1) [OF a] by blast
  have old: "margin_wf ?old" using wf by (rule get_or_create_wf)
  note m = fill_branch_margin [OF old assms(4,3) signed_quantity_nz [OF assms(2), of "upper action"], of x]
  have rel: "rel = fl_release (fill_branch ?old ?sq x om)" using apply_fill_ok(3) [OF a] m(4) by (simp add: pyround_cents)
  show "0 \<le> rel" using m(2) rel by simp
  show "gap s' v = gap s v" by (simp add: s' books_simps)
  show "books_wf s'" using m(5) wf by (simp add: s' books_simps fill_written_sel)
  have user: "po_user_id ?p = fst k" using fill_written_key [of now k action q x om s] unfolding po_key_def by (metis fst_conv)
  have pm: "po_margin_blocked ?p = po_margin_blocked ?old - rel + (if fill_opens (po_net_quantity ?old) ?sq then om else 0)"
    using m(1) rel by (simp add: fill_written_sel)
  have "opt_weight (pos_hold v) (get_position k s) = (if v = fst k then po_margin_blocked ?old else 0)"
    by (auto simp: get_or_create_def pos_hold_def opt_weight_def new_position_def po_key_def
        split: option.split prod.split dest!: poss.get_key)
  then show "slack s' v = slack s v + (if v = fst k then rel else 0) -
      (if v = fst k \<and> fill_opens (po_net_quantity ?old) ?sq then om else 0)"
    using user pm by (simp add: s' books_simps pos_hold_def)
qed

text \<open>A successful attempt: the books stay in order, no cash is made, and the user's slack grows by
  the order's margin exactly when the fill opened no exposure that could carry it.\<close>

lemma try_fill_success:
  assumes "try_fill_order now tid r x s = (Inr True, s')" and copy: "copy_of s r" and ok: "books_ok s"
  obtains q where "0 < q" "books_wf s'" "\<And>v. gap s' v = gap s v" "0 \<le> or_margin_blocked r"
    "\<And>v. slack s' v = slack s v + (if v = or_user_id r \<and>
        \<not> fill_opens (po_net_quantity (get_or_create now (order_pos_key r) s)) (signed_quantity (upper (or_action r)) q)
      then or_margin_blocked r else 0)"
    "\<exists>r0. get_order_row (or_key r) s = Some r0 \<and> q = or_quantity r0 - or_filled_quantity r0"
proof -
  note wf = books_ok_wf [OF ok]
  let ?u = "or_user_id r"
  obtain r0 where r0: "get_order_row (?u, or_orderid r) s = Some r0" "or_margin_blocked r0 = or_margin_blocked r"
    using copy by (auto simp: copy_of_def or_key_def)
  obtain p r' td s1 res2 s2 where p: "fill_price r x = Some p"
    and f: "fill now tid ?u (or_orderid r) p None s = (Inr (Some (r', td)), s1)"
    and a: "apply_fill now (order_pos_key r) (or_action r) (tr_quantity td) p (or_margin_blocked r) s1 = (Inr res2, s2)"
    and t: "s' = (case res2 of (realized, rel) \<Rightarrow> if 0 < rel \<or> realized \<noteq> 0 then release_margin s2 ?u rel realized else s2)"
    using assms(1) by (auto simp: try_fill_order_def split: option.splits sum.splits prod.splits)
  note fb = fill_books [OF f r0(1) wf]
  obtain realized rel where b: "res2 = (realized, rel)" by fastforce
  note ab = apply_fill_books [OF a [unfolded b] fb(4) fb(5,6) [unfolded r0(2)] fb(1)]
  have k: "fst (order_pos_key r) = ?u" by (simp add: order_pos_key_def)
  have "get_or_create now (order_pos_key r) s1 = get_or_create now (order_pos_key r) s"
    using fill_frame [OF f] by (simp add: get_or_create_def get_position_def)
  then have sl: "slack s2 v = slack s v + (if v = ?u then rel else 0) + (if v = ?u then or_margin_blocked r else 0) -
      (if v = ?u \<and> fill_opens (po_net_quantity (get_or_create now (order_pos_key r) s))
         (signed_quantity (upper (or_action r)) (tr_quantity td)) then or_margin_blocked r else 0)" for v
    using ab(4) [of v] fb(2) [of v] by (simp add: k r0(2))
  have "rel \<le> slack s2 ?u" using sl [of ?u] books_ok_slack [OF ok, of ?u] fb(5) by (simp add: r0(2))
  moreover have "0 \<le> ledger s2 ?u" using ab(1) by (rule ledger_nonneg)
  ultimately have ru: "rel \<le> used s2 ?u" by (simp add: slack_def)
  have t': "s' = (if 0 < rel \<or> realized \<noteq> 0 then release_margin s2 ?u rel realized else s2)" by (simp add: t b)
  have wft: "books_wf s'" using ab(1) by (simp add: t' books_simps)
  have st: "slack s' v = slack s2 v - (if v = ?u then rel else 0)" for v using ab(3) ru by (auto simp: t' release_slack)
  have gt: "gap s' v = gap s v" for v using ab(2,3) ru fb(3) by (simp add: t' release_gap)
  obtain r1 where r1: "get_order_row (?u, or_orderid r) s = Some r1" "tr_quantity td = or_quantity r1 - or_filled_quantity r1"
    using f by (rule fill_rest)
  have m: "0 \<le> or_margin_blocked r" using fb(5) by (simp add: r0(2))
  show thesis
    by (rule that [OF fb(4) wft gt m]) (use st sl r1 in \<open>auto simp: or_key_def\<close>)
qed

lemma try_fill_conserves:
  assumes copy: "copy_of s r"
  shows "conserves s (snd (try_fill_order now tid r x s))"
  unfolding conserves_def
proof
  assume ok: "books_ok s"
  note wf = books_ok_wf [OF ok]
  let ?u = "or_user_id r"
  obtain res t where t: "try_fill_order now tid r x s = (res, t)" by fastforce
  consider (none) "t = s" | (won) "res = Inr True"
    | (lost) p r' td where "fill now tid ?u (or_orderid r) p None s = (Inr (Some (r', td)), t)"
    using t by (auto simp: try_fill_order_def dest: fill_none apply_fill_error
        split: option.splits sum.splits prod.splits)
  then have "books_ok t \<and> (\<forall>v. gap t v = gap s v)"
  proof cases
    case none
    with ok show ?thesis by simp
  next
    case won
    show ?thesis
      by (rule try_fill_success [OF t [unfolded won] copy ok])
        (use books_ok_slack [OF ok] in \<open>simp add: books_ok_def\<close>)
  next
    case lost
    obtain r0 where r0: "get_order_row (?u, or_orderid r) s = Some r0"
      using copy by (auto simp: copy_of_def or_key_def)
    from fill_books [OF lost r0 wf] books_ok_slack [OF ok] show ?thesis by (simp add: books_ok_def add_nonneg_nonneg)
  qed
  then show "books_ok (snd (try_fill_order now tid r x s)) \<and> (\<forall>v. gap (snd (try_fill_order now tid r x s)) v = gap s v)"
    by (simp add: t)
qed

section \<open>Passes over the pending orders\<close>

lemma copy_of_step:
  assumes "copy_of s q" and "\<And>k r. get_order_row k s = Some r \<Longrightarrow> \<exists>r'. get_order_row k t = Some r' \<and> order_step r r'"
  shows "copy_of t q"
  using assms unfolding copy_of_def by (metis order_step_margin)

lemma try_fill_copy:
  assumes "copy_of s q"
  shows "copy_of (snd (try_fill_order now tid r x s)) q"
proof (rule copy_of_step [OF assms])
  fix k r0
  assume r0: "get_order_row k s = Some r0"
  obtain res s' where t: "try_fill_order now tid r x s = (res, s')" by fastforce
  show "\<exists>r'. get_order_row k (snd (try_fill_order now tid r x s)) = Some r' \<and> order_step r0 r'"
  proof (cases "fill_price r x")
    case None
    with r0 show ?thesis by (auto simp: try_fill_order_def intro: order_step.keep)
  next
    case (Some p)
    have "get_order_row k s' = get_order_row k (snd (fill now tid (or_user_id r) (or_orderid r) p None s))"
      using try_fill_orders [OF t] Some by (intro get_order_row_cong) simp
    with fill_step [OF r0, of now tid "or_user_id r" "or_orderid r" p None] t show ?thesis by simp
  qed
qed

lemma fill_loop_conserves:
  "(\<And>q. q \<in> set rs \<Longrightarrow> copy_of s q) \<Longrightarrow> conserves s (snd (fill_loop now ids price_of i rs s))"
proof (induction rs arbitrary: i s)
  case (Cons r rs)
  show ?case
  proof (cases "price_of r")
    case None
    with Cons show ?thesis by simp
  next
    case (Some x)
    obtain res s' where t: "try_fill_order now (ids i) r x s = (res, s')" by fastforce
    have c: "conserves s s'" using try_fill_conserves [of s r now "ids i" x] Cons.prems [of r] t by simp
    have "conserves s' (snd (fill_loop now ids price_of (Suc i) rs s'))"
      using Cons.prems try_fill_copy [of s _ now "ids i" r x] t by (intro Cons.IH) simp
    with c Some t show ?thesis by (cases res) (auto intro: cons.trans)
  qed
qed (simp add: cons.refl)

lemma own_copy: "uniq or_key (db_orders s) \<Longrightarrow> q \<in> set (db_orders s) \<Longrightarrow> copy_of s q"
  by (auto simp: copy_of_def get_order_row_def get_row_uniq)

lemma conservesI: "(books_ok s \<Longrightarrow> conserves s t) \<Longrightarrow> conserves s t"
  by (simp add: conserves_def)

lemma spendsI: "(books_ok s \<Longrightarrow> spends s t) \<Longrightarrow> spends s t"
  by (simp add: spends_def)

lemma fill_pass_conserves: "conserves s (snd (fill_loop now ids price_of i (list_pending_orders s) s))"
  by (rule conservesI, rule fill_loop_conserves)
    (auto simp: books_ok_def books_wf_def list_pending_orders_def intro: own_copy)

lemma on_tick_conserves [books_steps]: "conserves s (on_tick now ids symb exch ltp s)"
  by (auto simp: on_tick_def intro: fill_pass_conserves cons.refl split: option.split)

lemma poll_once_conserves [books_steps]: "conserves s (poll_once now ids quote s)"
  by (simp add: poll_once_def fill_pass_conserves)

section \<open>Placing orders\<close>

lemma required_margin_ok: "0 \<le> compute_required_margin s x q prd exch it a" "cents (compute_required_margin s x q prd exch it a)"
  by (auto simp: compute_required_margin_def Let_def not_le intro!: pyround_nonneg divide_nonneg_pos mult_nonneg_nonneg)

lemma actual_margin_ok: "0 \<le> actual_margin s x q prd exch it a snap" "cents (actual_margin s x q prd exch it a snap)"
  by (auto simp: actual_margin_def Let_def required_margin_ok split: option.split)

text \<open>Recording an order whose margin was just blocked.\<close>

lemma create_order_books:
  assumes "create_order row s = (Inr row', s')" and "books_wf s" and "order_wf row"
  shows "row' = row" "books_wf s'" "gap s' v = gap s v" "slack s' v = slack s v - order_hold v row"
    "get_order_row (or_key row) s' = Some row"
proof -
  have fresh: "get_row or_orderid (or_orderid row) (db_orders s) = None" and s': "row' = row" "s' = put_order row s"
    using assms(1) by (auto simp: create_order_def split: if_splits)
  have "get_order_row (or_key row) s = None" using fresh_orderid [OF fresh, of "or_user_id row"] by (simp add: or_key_def)
  then show "row' = row" "books_wf s'" "gap s' v = gap s v" "slack s' v = slack s v - order_hold v row"
    "get_order_row (or_key row) s' = Some row"
    using assms(2,3) by (simp_all add: s' books_simps ords.get_put)
qed

lemma create_order_fails: "create_order row s = (Inl e, s') \<Longrightarrow> s' = s"
  by (auto simp: create_order_def split: if_splits)

lemma request_row_sel [simp]:
  "or_user_id (request_row e u q m st rs) = u" "or_status (request_row e u q m st rs) = st"
  "or_margin_blocked (request_row e u q m st rs) = m"
  by (simp_all add: request_row_def)

lemma reject_request_conserves: "conserves s (snd (reject_request e u q reason s))"
  unfolding conserves_def
proof
  assume ok: "books_ok s"
  let ?row = "request_row e u q 0 SRejected (Some reason)"
  obtain res s' where c: "create_order ?row s = (res, s')" by fastforce
  have t: "snd (reject_request e u q reason s) = s'" using c by (cases res) (simp_all add: reject_request_def)
  show "books_ok (snd (reject_request e u q reason s)) \<and> (\<forall>u'. gap (snd (reject_request e u q reason s)) u' = gap s u')"
  proof (cases res)
    case (Inl x)
    with c create_order_fails ok show ?thesis unfolding t by blast
  next
    case (Inr row')
    have wf: "order_wf ?row" "order_hold v ?row = 0" for v by (simp_all add: order_wf_def order_hold_def pending_status_def)
    note cb = create_order_books [OF c [unfolded Inr] books_ok_wf [OF ok] wf(1)]
    show ?thesis unfolding t using cb(2,3,4) wf(2) books_ok_slack [OF ok] by (simp add: books_ok_def)
  qed
qed

lemma accept_order_conserves:
  assumes m: "0 \<le> m" "cents m"
  shows "conserves s (snd (accept_order e u q m s))"
proof (rule conservesI)
  assume ok: "books_ok s"
  note wf = books_ok_wf [OF ok]
  obtain b err s1 where bl: "block_margin s u m = ((b, err), s1)" by (metis prod.collapse)
  have s1: "books_wf s1" "gap s1 v = gap s v" for v
    using wf block_wf [of s u m] block_gap [of s u m v] bl by simp_all
  show ?thesis
  proof (cases b)
    case False
    have "slack s1 v = slack s v" for v using block_fail_slack [of s u m v] bl False by simp
    with s1 books_ok_slack [OF ok] have "conserves s s1" by (simp add: conserves_def books_ok_def)
    then show ?thesis using reject_request_conserves [of s1] bl False by (auto simp: accept_order_def intro: cons.trans)
  next
    case True
    let ?row = "request_row e u q m (initial_status (upper (rq_pricetype q))) None"
    have sl1: "slack s1 v = slack s v + (if v = u then m else 0)" for v
      using block_slack [of s u m v] bl True m by simp
    have hold: "order_hold v ?row = (if v = u then m else 0)" "order_wf ?row" for v
      using m by (simp_all add: order_hold_def order_wf_def pending_status_def initial_status_def)
    obtain res s2 where c: "create_order ?row s1 = (res, s2)" by fastforce
    show ?thesis
    proof (cases res)
      case (Inl x)
      with c create_order_fails have "s2 = s1" by blast
      moreover have "conserves s s1" using s1 sl1 books_ok_slack [OF ok] m by (simp add: conserves_def books_ok_def)
      ultimately show ?thesis using bl True c Inl by (simp add: accept_order_def)
    next
      case (Inr row')
      note cb = create_order_books [OF c [unfolded Inr] s1(1) hold(2)]
      have "conserves s s2"
        using cb(2,3,4) s1(2) sl1 hold(1) books_ok_slack [OF ok] by (simp add: conserves_def books_ok_def)
      moreover have "copy_of s2 ?row" using cb(5) by (simp add: copy_of_def)
      then have "conserves s2 (snd (try_fill_order (ev_now e) (ev_tradeid e) ?row x s2))" for x
        by (rule try_fill_conserves)
      ultimately show ?thesis using bl True c Inr cb(1)
        by (auto simp: accept_order_def intro: cons.trans split: option.split sum.split prod.split) (metis cons.trans snd_conv)+
    qed
  qed
qed

lemma place_order_conserves [books_steps]: "conserves s (snd (place_order e u q s))"
  by (auto simp: place_order_def Let_def reject_request_conserves accept_order_conserves actual_margin_ok cons.refl
      split: sum.split prod.split option.split)

lemma place_smart_conserves [books_steps]: "conserves s (snd (place_smart_order e u q s))"
  by (auto simp: place_smart_order_def Let_def place_order_conserves cons.refl split: option.split)

lemma close_position_conserves [books_steps]: "conserves s (snd (close_position e u sy ex pd s))"
  by (auto simp: close_position_def place_order_conserves cons.refl split: option.split prod.split)

lemma close_loop_conserves: "conserves s (snd (close_loop envs i u ps s))"
proof (induction ps arbitrary: i s)
  case (Cons p ps)
  show ?case
  proof (cases "pd_netqty p = 0")
    case True
    with Cons show ?thesis by simp
  next
    case False
    let ?q = "market_close (pd_symbol p) (pd_exchange p) (pd_product p) (pd_netqty p) ''close_all''"
    obtain res s' where p: "place_order (envs i) u ?q s = (res, s')" by fastforce
    have "conserves s s'" using place_order_conserves [of s "envs i" u ?q] p by simp
    then show ?thesis using False p Cons.IH [of s' "Suc i"]
      by (cases res) (auto intro: cons.trans split: sum.split prod.split)
  qed
qed (simp add: cons.refl)

section \<open>Modifying and cancelling\<close>

lemma put_order_conserves:
  assumes r: "get_order_row k s = Some r" and k: "or_key r' = or_key r" and wf: "order_wf r'"
    and h: "\<And>v. order_hold v r' = order_hold v r"
  shows "conserves s (put_order r' s)"
proof -
  have "or_key r = k" using r by (rule ords.get_key)
  with r k have "get_order_row (or_key r') s = Some r" by simp
  then show ?thesis using wf h by (simp add: conserves_def books_ok_def books_simps)
qed

lemma modify_conserves [books_steps]: "conserves s (snd (svc_modify_order u oid q x tr pt s))"
proof -
  have "conserves s (snd (om_modify_order u oid a b c d s))" for a b c d
  proof (cases "\<exists>row. get_order_row (u, oid) s = Some row \<and> pending_status (or_status row)")
    case True
    then obtain row where row: "get_order_row (u, oid) s = Some row" "pending_status (or_status row)" by blast
    obtain m where m: "snd (om_modify_order u oid a b c d s) = put_order m s"
      and ms: "or_status m = or_status row" "or_key m = or_key row"
        "or_margin_blocked m = or_margin_blocked row" "or_user_id m = or_user_id row"
      using row by (auto simp: om_modify_order_def Let_def or_key_def split: option.splits)
    show ?thesis unfolding m
    proof (rule conservesI, rule put_order_conserves [OF row(1) ms(2)])
      assume "books_ok s"
      then show "order_wf m" using order_row_mem [OF row(1)] ms by (auto simp: books_ok_def books_wf_def order_wf_def)
      show "order_hold v m = order_hold v row" for v using ms by (simp add: order_hold_def)
    qed
  next
    case False
    then have "snd (om_modify_order u oid a b c d s) = s" by (auto simp: om_modify_order_def split: option.split)
    then show ?thesis by (simp add: cons.refl)
  qed
  then show ?thesis by (auto simp: svc_modify_order_def Let_def cons.refl split: option.split prod.split) (metis snd_conv)+
qed

text \<open>Cancelling one order and giving its margin back.\<close>

lemma cancel_one_conserves:
  assumes "om_cancel_order u oid s = (Some c, s')"
  shows "conserves s (if or_margin_blocked c \<noteq> 0 then release_margin s' u (or_margin_blocked c) 0 else s')"
  unfolding conserves_def
proof
  assume ok: "books_ok s"
  obtain r where r: "get_order_row (u, oid) s = Some r" "pending_status (or_status r)"
    "c = r\<lparr>or_status := SCancelled\<rparr>" "s' = put_order c s"
    using assms by (auto simp: om_cancel_order_def Let_def split: option.splits if_splits)
  have u: "or_user_id r = u" "or_key c = (u, oid)" using ords.get_key [OF r(1)] by (simp_all add: or_key_def r(3))
  have wf: "order_wf r" using ok order_row_mem [OF r(1)] by (simp add: books_ok_def books_wf_def)
  have m: "0 \<le> or_margin_blocked r" using wf r(2) by (simp add: order_wf_def)
  have c: "order_wf c" "order_hold v c = 0" "order_hold v r = (if v = u then or_margin_blocked r else 0)" for v
    using r(2) u by (simp_all add: r(3) order_wf_def order_hold_def pending_status_def)
  have s': "books_wf s'" "gap s' v = gap s v" "slack s' v = slack s v + (if v = u then or_margin_blocked r else 0)" for v
    using ok c r(1) u(2) by (simp_all add: r(4) books_simps books_ok_def)
  have us: "or_margin_blocked r \<le> used s' u"
    using s'(3) [of u] ledger_nonneg [OF s'(1), of u] books_ok_slack [OF ok, of u] by (simp add: slack_def)
  have cm: "or_margin_blocked c = or_margin_blocked r" by (simp add: r(3))
  show "books_ok (if or_margin_blocked c \<noteq> 0 then release_margin s' u (or_margin_blocked c) 0 else s') \<and>
    (\<forall>v. gap (if or_margin_blocked c \<noteq> 0 then release_margin s' u (or_margin_blocked c) 0 else s') v = gap s v)"
    unfolding cm using s' m us books_ok_slack [OF ok]
    by (auto simp: books_ok_def release_wf release_slack release_gap)
qed

lemma cancel_none: "om_cancel_order u oid s = (None, s') \<Longrightarrow> s' = s"
  by (auto simp: om_cancel_order_def Let_def split: option.splits if_splits)

lemma cancel_conserves [books_steps]: "conserves s (snd (svc_cancel_order u oid s))"
proof (cases "om_cancel_order u oid s")
  case (Pair c s')
  show ?thesis
  proof (cases c)
    case None
    with Pair cancel_none [of u oid s s'] show ?thesis by (simp add: svc_cancel_order_def cons.refl)
  next
    case (Some r)
    with cancel_one_conserves [of u oid s r s'] Pair show ?thesis by (simp add: svc_cancel_order_def)
  qed
qed

lemma cancel_loop_conserves: "conserves s (snd (cancel_loop u rs s))"
proof (induction rs arbitrary: s)
  case (Cons r rs)
  obtain c s' where p: "om_cancel_order u (or_orderid r) s = (c, s')" by fastforce
  show ?case
  proof (cases c)
    case None
    with p Cons.IH [of s'] cancel_none [of u "or_orderid r" s s'] show ?thesis by simp
  next
    case (Some c')
    let ?s = "if or_margin_blocked c' \<noteq> 0 then release_margin s' u (or_margin_blocked c') 0 else s'"
    have "conserves s ?s" using cancel_one_conserves p Some by blast
    with Cons.IH [of ?s] have "conserves s (snd (cancel_loop u rs ?s))" by (rule cons.trans [rotated])
    moreover have "snd (cancel_loop u (r # rs) s) = snd (cancel_loop u rs ?s)" using p Some by (simp add: Let_def split_beta)
    ultimately show ?thesis by metis
  qed
qed (simp add: cons.refl)

lemma cancel_all_conserves [books_steps]: "conserves s (snd (cancel_all_orders u s))"
  by (simp add: cancel_all_orders_def cancel_loop_conserves)

end
