(* ===== verification/Job_Ledger.thy ===== *)
theory Job_Ledger
  imports Margin_Ledger
begin

text \<open>
  The books across the jobs that move positions and orders in bulk: square-off, settlement, forced
  closes, the daily reset and the reads that settle first. Each collects an amount per user and
  applies one fund operation per user; the locales below hold what such a pass does.
\<close>

section \<open>Per-user totals\<close>

text \<open>The jobs collect an amount per user in a dict and apply one fund operation per entry. \<open>act\<close> is
  that operation, \<open>amt\<close> how much margin an entry takes out of use.\<close>

definition owed :: "('v \<Rightarrow> rat) \<Rightarrow> int \<Rightarrow> (int \<times> 'v) list \<Rightarrow> rat" where
  "owed amt v d = opt_weight (\<lambda>e. amt (snd e)) (get_row fst v d)"

locale fund_releases =
  fixes act :: "int \<Rightarrow> 'v \<Rightarrow> db \<Rightarrow> db" and amt :: "'v \<Rightarrow> rat"
  assumes act_wf: "books_wf (act u x s) = books_wf s"
    and act_slack: "0 \<le> amt x \<Longrightarrow> amt x \<le> used s u \<Longrightarrow> slack (act u x s) v = slack s v - (if v = u then amt x else 0)"
    and act_gap: "0 \<le> amt x \<Longrightarrow> amt x \<le> used s u \<Longrightarrow> gap (act u x s) v \<le> gap s v"
begin

lemma covered:
  assumes "books_wf s" "amt x \<le> slack s u"
  shows "amt x \<le> used s u"
  using assms ledger_nonneg [of s u] by (simp add: slack_def)

lemma fold_act:
  assumes "uniq fst d" and "\<And>e. e \<in> set d \<Longrightarrow> 0 \<le> amt (snd e)" and "books_wf s"
    and "\<And>v. owed amt v d \<le> slack s v"
  shows "books_wf (fold (\<lambda>(u, x) t. act u x t) d s) \<and>
     slack (fold (\<lambda>(u, x) t. act u x t) d s) v = slack s v - owed amt v d \<and>
     gap (fold (\<lambda>(u, x) t. act u x t) d s) v \<le> gap s v"
  using assms
proof (induction d arbitrary: s)
  case (Cons e d)
  obtain u x where e: "e = (u, x)" by fastforce
  have none: "get_row fst u d = None" using Cons.prems(1) e by (auto simp: uniq_def get_row_None)
  have oz: "owed amt u d = 0" using none by (simp add: owed_def)
  have x: "0 \<le> amt x" using Cons.prems(2) [of e] e by simp
  have ou: "owed amt v (e # d) = (if v = u then amt x else owed amt v d)" for v by (simp add: owed_def e)
  have "amt x \<le> used s u" using covered [OF Cons.prems(3)] Cons.prems(4) [of u] ou by simp
  note a = act_slack [OF x this] act_gap [OF x this]
  have "owed amt v d \<le> slack (act u x s) v" for v
    using Cons.prems(4) [of v] oz by (auto simp: a(1) ou split: if_splits)
  with Cons.IH [of "act u x s"] Cons.prems(1,2,3)
  have "books_wf (fold (\<lambda>(u, x) t. act u x t) d (act u x s)) \<and>
     slack (fold (\<lambda>(u, x) t. act u x t) d (act u x s)) v = slack (act u x s) v - owed amt v d \<and>
     gap (fold (\<lambda>(u, x) t. act u x t) d (act u x s)) v \<le> gap (act u x s) v"
    by (simp add: act_wf uniq_def)
  then show ?case using a(2) [of v] oz by (auto simp: e a(1) ou [unfolded e])
qed (simp add: owed_def)

end

locale exact_releases = fund_releases act amt for act :: "int \<Rightarrow> 'v \<Rightarrow> db \<Rightarrow> db" and amt :: "'v \<Rightarrow> rat" +
  assumes act_gap_eq: "0 \<le> amt x \<Longrightarrow> amt x \<le> used s u \<Longrightarrow> gap (act u x s) v = gap s v"
begin

lemma fold_act_gap:
  assumes "uniq fst d" and "\<And>e. e \<in> set d \<Longrightarrow> 0 \<le> amt (snd e)" and "books_wf s"
    and "\<And>v. owed amt v d \<le> slack s v"
  shows "gap (fold (\<lambda>(u, x) t. act u x t) d s) v = gap s v"
  using assms
proof (induction d arbitrary: s)
  case (Cons e d)
  obtain u x where e: "e = (u, x)" by fastforce
  have none: "get_row fst u d = None" using Cons.prems(1) e by (auto simp: uniq_def get_row_None)
  have oz: "owed amt u d = 0" using none by (simp add: owed_def)
  have x: "0 \<le> amt x" using Cons.prems(2) [of e] e by simp
  have ou: "owed amt v (e # d) = (if v = u then amt x else owed amt v d)" for v by (simp add: owed_def e)
  have c: "amt x \<le> used s u" using covered [OF Cons.prems(3)] Cons.prems(4) [of u] ou by simp
  have "owed amt v d \<le> slack (act u x s) v" for v
    using Cons.prems(4) [of v] oz by (auto simp: act_slack [OF x c] ou split: if_splits)
  with Cons.IH [of "act u x s"] Cons.prems(1,2,3) show ?case
    by (simp add: e act_wf uniq_def act_gap_eq [OF x c])
qed simp

end

lemma transfer_slack:
  "0 \<le> a \<Longrightarrow> a \<le> used s u \<Longrightarrow>
     slack (transfer_margin_to_holdings s u a) v = slack s v - (if v = u then a else 0)"
  by (auto simp: transfer_margin_eq slack_on_fund used_def)

lemma transfer_gap:
  "0 \<le> a \<Longrightarrow> a \<le> used s u \<Longrightarrow> gap (transfer_margin_to_holdings s u a) v = gap s v - (if v = u then a else 0)"
  by (auto simp: transfer_margin_eq gap_on_fund) (simp_all add: gap_def cash_gap_def cash_def used_def)

lemma book_past_simps [simp]:
  "fd_user_id (book_past_pnl x f) = fd_user_id f" "fd_used_margin (book_past_pnl x f) = fd_used_margin f"
  "cash_gap (book_past_pnl x f) = cash_gap f"
  by (simp_all add: book_past_pnl_def cash_gap_def cash_def)

lemma past_books:
  "slack (on_fund (book_past_pnl x) s u) v = slack s v" "gap (on_fund (book_past_pnl x) s u) v = gap s v"
  by (simp_all add: slack_on_fund gap_on_fund used_def) (simp add: gap_def)

interpretation transfers: fund_releases "\<lambda>u a s. transfer_margin_to_holdings s u a" "\<lambda>a. a"
  by unfold_locales (simp_all add: transfer_slack transfer_gap, simp add: transfer_margin_eq wf_on_fund)

interpretation releases: exact_releases "\<lambda>u a s. release_margin s u a 0" "\<lambda>a. a"
  by unfold_locales (simp_all add: release_wf release_slack release_gap)

interpretation forced: exact_releases "\<lambda>u x s. apply_release (u, x) s" fst
  by unfold_locales
    (auto simp: apply_release_def Let_def wf_on_fund release_wf past_books release_slack release_gap split: prod.split)

section \<open>Dicts of amounts\<close>

lemma owed_dict_add: "owed (\<lambda>a. a) v (dict_add u x d) = owed (\<lambda>a. a) v d + (if v = u then x else 0)"
  by (auto simp: owed_def dict_add_def dict_put_def dict_get_def get_put_row opt_weight_def split: option.split)

lemma uniq_dict_add: "uniq fst d \<Longrightarrow> uniq fst (dict_add u x d)"
  by (simp add: dict_add_def dict_put_def uniq_put_row)

lemma dict_get_mem: "dict_get u d = Some y \<Longrightarrow> (u, y) \<in> set d"
  using get_row_mem [of fst u d] get_row_key [of fst u d] by (fastforce simp: dict_get_def)

lemma dict_add_nonneg:
  assumes "\<And>e. e \<in> set d \<Longrightarrow> 0 \<le> snd e" "0 \<le> x" "e \<in> set (dict_add u x d)"
  shows "(0::rat) \<le> snd e"
proof -
  let ?y = "(case dict_get u d of Some y \<Rightarrow> y | None \<Rightarrow> 0) + x"
  have "0 \<le> ?y" using assms(1) [of "(u, _)"] assms(2) by (auto split: option.split dest: dict_get_mem)
  moreover have "e = (u, ?y) \<or> e \<in> set d"
    using assms(3) set_put_row [of e fst "(u, ?y)" d] by (simp add: dict_add_def dict_put_def)
  ultimately show ?thesis using assms(1) [of e] by (elim disjE) simp_all
qed

text \<open>Summing the rows of a list into a dict.\<close>

lemma dict_fold:
  fixes usr :: "'r \<Rightarrow> int" and w :: "'r \<Rightarrow> rat" and d :: "(int \<times> rat) list"
  assumes "uniq fst d" "\<And>e. e \<in> set d \<Longrightarrow> 0 \<le> snd e" "\<And>r. r \<in> set rs \<Longrightarrow> 0 \<le> w r"
  defines "f \<equiv> \<lambda>r d. if 0 < w r then dict_add (usr r) (w r) d else d"
  shows "uniq fst (fold f rs d) \<and> (\<forall>e \<in> set (fold f rs d). 0 \<le> snd e) \<and>
     owed (\<lambda>a. a) v (fold f rs d) = owed (\<lambda>a. a) v d + row_total (\<lambda>r. if usr r = v then w r else 0) rs"
  using assms(1-3)
proof (induction rs arbitrary: d)
  case (Cons r rs)
  have "uniq fst (f r d)" using Cons.prems(1) by (simp add: f_def uniq_dict_add)
  moreover have "0 \<le> snd e" if "e \<in> set (f r d)" for e
    using that Cons.prems(2,3) dict_add_nonneg [of d "w r" e "usr r"] by (auto simp: f_def split: if_splits)
  ultimately have ih: "uniq fst (fold f rs (f r d)) \<and> (\<forall>e \<in> set (fold f rs (f r d)). 0 \<le> snd e) \<and>
     owed (\<lambda>a. a) v (fold f rs (f r d)) = owed (\<lambda>a. a) v (f r d) + row_total (\<lambda>r. if usr r = v then w r else 0) rs"
    using Cons.prems(3) by (intro Cons.IH) auto
  have "owed (\<lambda>a. a) v (f r d) = owed (\<lambda>a. a) v d + (if usr r = v then w r else 0)"
    using Cons.prems(3) [of r] by (auto simp: f_def owed_dict_add)
  with ih show ?case by simp
qed simp

lemma owed_nil [simp]: "owed amt v [] = 0"
  by (simp add: owed_def)

section \<open>Square-off\<close>

lemma squareoff_row [simp]:
  "or_key (squareoff_cancel_row r) = or_key r" "order_wf (squareoff_cancel_row r)"
  "order_hold v (squareoff_cancel_row r) = 0"
  by (simp_all add: squareoff_cancel_row_def or_key_def order_wf_def order_hold_def pending_status_def)

lemma row_total_update:
  "row_total w (map (\<lambda>r. if P r then f r else r) rs) =
   row_total w rs - row_total w (filter P rs) + row_total (\<lambda>r. w (f r)) (filter P rs)"
  by (induction rs) auto

lemma cancel_pending_conserves: "conserves s (snd (cancel_pending_mis_orders exs s))"
  unfolding conserves_def
proof
  assume ok: "books_ok s"
  note wf = books_ok_wf [OF ok]
  let ?due = "filter (squareoff_due exs) (db_orders s)"
  let ?d = "fold (\<lambda>r d. if 0 < or_margin_blocked r then dict_add (or_user_id r) (or_margin_blocked r) d else d) ?due []"
  let ?s = "s\<lparr>db_orders := map (\<lambda>r. if squareoff_due exs r then squareoff_cancel_row r else r) (db_orders s)\<rparr>"
  have due: "0 \<le> or_margin_blocked r" "order_hold v r = (if or_user_id r = v then or_margin_blocked r else 0)"
    if "r \<in> set ?due" for r v
    using that wf by (auto simp: books_wf_def order_wf_def squareoff_due_def order_hold_def)
  have d: "uniq fst ?d" "\<And>e. e \<in> set ?d \<Longrightarrow> 0 \<le> snd e"
    "owed (\<lambda>a. a) v ?d = row_total (\<lambda>r. if or_user_id r = v then or_margin_blocked r else 0) ?due" for v
    using dict_fold [of "[]" ?due or_margin_blocked or_user_id v] due(1) by (auto simp: uniq_def)
  have od: "owed (\<lambda>a. a) v ?d = row_total (order_hold v) ?due" for v
    unfolding d(3) using due(2) by (intro row_total_cong) simp
  have key: "or_key (if squareoff_due exs r then squareoff_cancel_row r else r) = or_key r" for r by simp
  have wf': "books_wf ?s" using wf by (auto simp: books_wf_def uniq_map [of or_key, OF key])
  have "ledger ?s v = ledger s v - row_total (order_hold v) ?due" for v
    by (simp add: ledger_def row_total_update row_total_zero)
  then have sl: "slack ?s v = slack s v + owed (\<lambda>a. a) v ?d" for v by (simp add: slack_def used_def od)
  have cover: "owed (\<lambda>a. a) v ?d \<le> slack ?s v" for v using sl [of v] books_ok_slack [OF ok, of v] by simp
  have "snd (cancel_pending_mis_orders exs s) = fold (\<lambda>(u, amount) t. release_margin t u amount 0) ?d ?s"
    by (simp add: cancel_pending_mis_orders_def Let_def)
  then show "books_ok (snd (cancel_pending_mis_orders exs s)) \<and> (\<forall>v. gap (snd (cancel_pending_mis_orders exs s)) v = gap s v)"
    using releases.fold_act [OF d(1,2) wf' cover] releases.fold_act_gap [OF d(1,2) wf' cover] sl books_ok_slack [OF ok]
    by (simp add: books_ok_def books_simps)
qed

lemma squareoff_loop_conserves: "conserves s (snd (squareoff_loop envs i ps s))"
proof (induction ps arbitrary: i s)
  case (Cons p ps)
  let ?q = "market_close (po_symbol p) (po_exchange p) ''MIS'' (po_net_quantity p) ''auto_squareoff''"
  let ?s = "snd (place_order (envs i) (po_user_id p) ?q s)"
  have "conserves s (snd (squareoff_loop envs (Suc i) ps ?s))"
    using place_order_conserves Cons.IH by (rule cons.trans)
  then show ?case by (simp add: Let_def split_beta)
qed (simp add: cons.refl)

lemma squareoff_conserves [books_steps]: "conserves s (snd (squareoff_bucket envs b s))"
  by (auto simp: squareoff_bucket_def Let_def cons.refl split: option.split
      intro: cons.trans [OF cancel_pending_conserves squareoff_loop_conserves])

section \<open>Rewriting the position table\<close>

text \<open>A pass that rewrites position rows in place but leaves their keys and margins.\<close>

lemma map_positions_conserves:
  assumes "\<And>p. po_key (f p) = po_key p" "\<And>p. po_margin_blocked (f p) = po_margin_blocked p"
    "\<And>p. po_net_quantity (f p) = po_net_quantity p" "\<And>p. po_average_price (f p) = po_average_price p"
  shows "conserves s (s\<lparr>db_positions := map f (db_positions s)\<rparr>)"
proof -
  have u: "po_user_id (f p) = po_user_id p" for p using assms(1) [of p] by (simp add: po_key_def)
  have "pos_hold v (f p) = pos_hold v p" for v p by (simp add: pos_hold_def u assms)
  then have "slack (s\<lparr>db_positions := map f (db_positions s)\<rparr>) v = slack s v" for v
    by (simp add: slack_def used_def ledger_def row_total_map)
  then show ?thesis using assms
    by (auto simp: conserves_def books_ok_def books_wf_def margin_wf_def uniq_map books_simps)
qed

lemma mark_to_market_conserves [books_steps]: "conserves s (mark_to_market now k x s)"
proof (rule conservesI)
  assume ok: "books_ok s"
  show ?thesis
  proof (cases "x \<le> 0 \<or> (\<forall>p. get_position k s = Some p \<longrightarrow> po_net_quantity p = 0)")
    case True
    then show ?thesis by (auto simp: mark_to_market_def cons.refl split: option.split)
  next
    case False
    then obtain p where p: "get_position k s = Some p" "po_net_quantity p \<noteq> 0" and x: "\<not> x \<le> 0" by blast
    let ?q = "orm_touch now p (mark_row x p)"
    have k: "po_key ?q = k" using poss.get_key [OF p(1)] by simp
    have wf: "margin_wf p" using ok position_mem [OF p(1)] by (simp add: books_ok_def books_wf_def)
    have "margin_wf ?q" "pos_hold v ?q = pos_hold v p" for v using wf by (simp_all add: margin_wf_def pos_hold_def)
    then show ?thesis
      using p x k by (simp add: mark_to_market_def conserves_def books_ok_def books_simps)
  qed
qed

lemma unrealized_conserves: "conserves s (set_unrealized_pnl s u x)"
proof -
  have "set_unrealized_pnl s u x = on_fund (\<lambda>f. f\<lparr>fd_unrealized_pnl := x\<rparr>) s u"
    by (simp add: set_unrealized_pnl_def on_fund_def fund_of_def split: prod.split)
  then show ?thesis
    by (simp add: conserves_def books_ok_def books_simps used_def) (simp add: gap_def cash_gap_def cash_def)
qed

lemma refresh_once_conserves [books_steps]: "conserves s (snd (refresh_once now quote s))"
proof -
  let ?s = "s\<lparr>db_positions := map (refresh_row now quote) (db_positions s)\<rparr>"
  have "conserves s ?s"
    by (rule map_positions_conserves) (simp_all add: refresh_row_def split: option.split)
  moreover have "conserves ?s (fold (\<lambda>(u, t) s. set_unrealized_pnl s u (pyround t 2)) d ?s)" for d
    by (rule cons.fold_steps) (auto simp: unrealized_conserves split: prod.split)
  ultimately show ?thesis unfolding refresh_once_def Let_def snd_conv by (rule cons.trans)
qed

section \<open>Settlement\<close>

lemma settle_fold:
  "fold (settle_one today) ps (s, d) = (s', d') \<Longrightarrow>
     db_orders s' = db_orders s \<and> db_funds s' = db_funds s \<and> db_config s' = db_config s \<and>
     db_positions s' = filter (\<lambda>p. po_key p \<notin> po_key ` set ps) (db_positions s) \<and>
     d' = fold (\<lambda>p d. if 0 < po_margin_blocked p then dict_add (po_user_id p) (po_margin_blocked p) d else d) ps d"
proof (induction ps arbitrary: s d)
  case (Cons p ps)
  let ?s = "fst (settle_one today p (s, d))" and ?d = "snd (settle_one today p (s, d))"
  have "fold (settle_one today) ps (?s, ?d) = (s', d')" using Cons.prems by simp
  note ih = Cons.IH [OF this]
  have st: "db_orders ?s = db_orders s" "db_funds ?s = db_funds s" "db_config ?s = db_config s"
     "db_positions ?s = filter (\<lambda>q. po_key q \<noteq> po_key p) (db_positions s)"
     "?d = (if 0 < po_margin_blocked p then dict_add (po_user_id p) (po_margin_blocked p) d else d)"
    by (simp_all add: settle_one_def Let_def delete_position_def split: option.split)
  show ?case using ih unfolding st by (auto simp: filter_filter intro: filter_cong)
qed simp

lemma settle_spends [books_steps]: "spends s (snd (settle_cnc_to_holdings now s))"
  unfolding spends_def
proof
  assume ok: "books_ok s"
  note wf = books_ok_wf [OF ok]
  let ?P = "settle_due (session_start_ist s now)"
  let ?due = "filter ?P (db_positions s)"
  obtain s' d where f: "fold (settle_one (day_of now)) ?due (s, []) = (s', d)" by fastforce
  note sf = settle_fold [OF f]
  have t: "snd (settle_cnc_to_holdings now s) = fold (\<lambda>(u, amount) t. transfer_margin_to_holdings t u amount) d s'"
    by (simp add: settle_cnc_to_holdings_def f)
  have "0 \<le> po_margin_blocked p" if "p \<in> set ?due" for p using that wf by (auto simp: books_wf_def margin_wf_def)
  then have d: "uniq fst d" "\<And>e. e \<in> set d \<Longrightarrow> 0 \<le> snd e" "owed (\<lambda>a. a) v d = row_total (pos_hold v) ?due" for v
    using dict_fold [of "[]" ?due po_margin_blocked po_user_id v] sf by (auto simp: uniq_def pos_hold_def [abs_def])
  have u: "uniq po_key (db_positions s)" using wf by (simp add: books_wf_def)
  have "po_key p \<in> po_key ` set ?due \<longleftrightarrow> ?P p" if "p \<in> set (db_positions s)" for p
  proof
    assume "po_key p \<in> po_key ` set ?due"
    then obtain q where q: "q \<in> set (db_positions s)" "?P q" "po_key q = po_key p" by auto
    moreover have "q = p" using u q that by (auto simp: uniq_def distinct_map dest: inj_onD)
    ultimately show "?P p" by simp
  qed (use that in simp)
  then have ps: "db_positions s' = filter (\<lambda>p. \<not> ?P p) (db_positions s)" using sf by (auto intro: filter_cong)
  have wf': "books_wf s'" using wf sf ps by (auto simp: books_wf_def uniq_filter)
  have fo: "fund_of s' v = fund_of s v" for v using sf by (intro fund_of_cong) simp_all
  have "ledger s' v = ledger s v - row_total (pos_hold v) ?due" for v
    using row_total_filter_split [of "pos_hold v" "db_positions s" ?P] sf by (simp add: ledger_def ps)
  then have sl: "slack s' v = slack s v + owed (\<lambda>a. a) v d" for v by (simp add: slack_def used_def fo d(3))
  have cover: "owed (\<lambda>a. a) v d \<le> slack s' v" for v using sl [of v] books_ok_slack [OF ok, of v] by simp
  have gp: "gap s' v = gap s v" for v by (simp add: gap_def fo)
  show "books_ok (snd (settle_cnc_to_holdings now s)) \<and> (\<forall>v. gap (snd (settle_cnc_to_holdings now s)) v \<le> gap s v)"
    using transfers.fold_act [OF d(1,2) wf' cover] sl gp books_ok_slack [OF ok] unfolding t by (simp add: books_ok_def)
qed

section \<open>Forced closes\<close>

lemma flatten_row_sel [simp]:
  "po_key (flatten_row x p) = po_key p" "po_margin_blocked (flatten_row x p) = 0"
  "po_net_quantity (flatten_row x p) = 0" "po_average_price (flatten_row x p) = 0"
  by (simp_all add: flatten_row_def Let_def po_key_def)

definition releases_wf :: "releases \<Rightarrow> bool" where
  "releases_wf d \<longleftrightarrow> uniq fst d \<and> (\<forall>e \<in> set d. 0 \<le> fst (snd e) \<and> cents (fst (snd e)))"

lemma releases_wf_nil [simp]: "releases_wf []"
  by (simp add: releases_wf_def uniq_def)

lemma add_release_owed:
  assumes "releases_wf d" "0 \<le> m" "cents m"
  shows "releases_wf (add_release u m x d)"
    and "owed fst v (add_release u m x d) = owed fst v d + (if v = u then m else 0)"
proof -
  let ?a = "case dict_get u d of Some e \<Rightarrow> fst e | None \<Rightarrow> 0"
  have a: "0 \<le> ?a" "cents ?a"
    using assms(1) dict_get_mem [of u d] by (fastforce simp: releases_wf_def split: option.split)+
  have e: "\<exists>y. add_release u m x d = put_row fst (u, (?a + m, y)) d"
    using a assms by (auto simp: add_release_def dict_put_def pyround_cents cents_add split: option.split prod.split)
  then obtain y where y: "add_release u m x d = put_row fst (u, (?a + m, y)) d" by blast
  show "releases_wf (add_release u m x d)"
    using assms a unfolding y releases_wf_def by (auto simp: uniq_put_row cents_add dest!: set_put_row)
  show "owed fst v (add_release u m x d) = owed fst v d + (if v = u then m else 0)"
    unfolding y by (auto simp: owed_def get_put_row opt_weight_def dict_get_def split: option.split)
qed

lemma force_close_books:
  assumes "force_close now close ps d n = (qs, d', m)" "\<And>p. p \<in> set ps \<Longrightarrow> margin_wf p" "releases_wf d"
  shows "map po_key qs = map po_key ps \<and> (\<forall>q \<in> set qs. margin_wf q) \<and> releases_wf d' \<and>
     row_total (pos_hold v) qs + owed fst v d' = row_total (pos_hold v) ps + owed fst v d"
  using assms
proof (induction ps arbitrary: d n qs)
  case (Cons p ps)
  have wf: "margin_wf p" using Cons.prems(2) by simp
  show ?case
  proof (cases "close p")
    case None
    then obtain qs0 where q: "force_close now close ps d n = (qs0, d', m)" "qs = p # qs0"
      using Cons.prems(1) by (auto split: prod.splits)
    from Cons.IH [OF q(1)] Cons.prems(2,3) show ?thesis by (simp add: q(2) wf)
  next
    case (Some x)
    let ?r = "forced_realized x p"
    let ?d = "add_release (po_user_id p) (po_margin_blocked p) ?r d"
    obtain qs0 where q: "force_close now close ps ?d (n + 1) = (qs0, d', m)"
        "qs = orm_touch now p (flatten_row ?r p) # qs0"
      using Cons.prems(1) Some by (auto simp: Let_def split: prod.splits)
    have m: "0 \<le> po_margin_blocked p" "cents (po_margin_blocked p)" using wf by (simp_all add: margin_wf_def)
    note ar = add_release_owed(1) [OF Cons.prems(3) m] add_release_owed(2) [OF Cons.prems(3) m, of v]
    have "margin_wf (orm_touch now p (flatten_row ?r p))" "pos_hold v (orm_touch now p (flatten_row ?r p)) = 0"
      by (simp_all add: margin_wf_def pos_hold_def)
    with Cons.IH [OF q(1) _ ar(1)] Cons.prems(2) ar(2) show ?thesis
      by (auto simp: q(2) pos_hold_def)
  qed
qed simp

lemma run_force_close_conserves: "conserves s (snd (run_force_close now close s))"
  unfolding conserves_def
proof
  assume ok: "books_ok s"
  note wf = books_ok_wf [OF ok]
  obtain qs d m where f: "force_close now close (db_positions s) [] 0 = (qs, d, m)" by (metis prod_cases3)
  let ?s = "s\<lparr>db_positions := qs\<rparr>"
  have fc: "map po_key qs = map po_key (db_positions s)" "\<forall>q \<in> set qs. margin_wf q" "releases_wf d"
     "row_total (pos_hold v) qs + owed fst v d = row_total (pos_hold v) (db_positions s)" for v
    using force_close_books [OF f, of v] wf by (auto simp: books_wf_def)
  have t: "snd (run_force_close now close s) = fold (\<lambda>(u, x) t. apply_release (u, x) t) d ?s"
    by (simp add: run_force_close_def f)
  have d: "uniq fst d" "\<And>e. e \<in> set d \<Longrightarrow> 0 \<le> fst (snd e)" using fc(3) by (auto simp: releases_wf_def)
  have wf': "books_wf ?s" using wf fc(1,2) by (simp add: books_wf_def uniq_def)
  have sl: "slack ?s v = slack s v + owed fst v d" for v
    using fc(4) [of v] by (simp add: slack_def used_def ledger_def)
  have cover: "owed fst v d \<le> slack ?s v" for v using sl [of v] books_ok_slack [OF ok, of v] by simp
  show "books_ok (snd (run_force_close now close s)) \<and> (\<forall>v. gap (snd (run_force_close now close s)) v = gap s v)"
    using forced.fold_act [OF d wf' cover] forced.fold_act_gap [OF d wf' cover] sl books_ok_slack [OF ok]
    unfolding t by (simp add: books_ok_def gap_update)
qed

lemma stale_mis_conserves [books_steps]: "conserves s (snd (close_stale_mis_positions now quote s))"
  by (simp add: close_stale_mis_positions_def run_force_close_conserves)

lemma stale_cnc_spends [books_steps]: "spends s (snd (settle_stale_cnc_positions now s))"
  by (simp add: settle_stale_cnc_positions_def settle_spends spend.refl)

lemma expired_conserves [books_steps]: "conserves s (snd (close_expired_fno_positions now quote s))"
proof (cases "list_ex (\<lambda>p. expiry_candidate p \<and> find_symtoken s (po_symbol p) (po_exchange p) = Inl MultipleResultsFound)
    (db_positions s)")
  case True
  then show ?thesis by (simp add: close_expired_fno_positions_def Let_def cons.refl)
next
  case False
  then show ?thesis
    using run_force_close_conserves by (simp add: close_expired_fno_positions_def Let_def split_beta)
qed

section \<open>Daily reset, snapshot and position reads\<close>

lemma reset_today_conserves [books_steps]: "conserves s (snd (reset_today_pnl s))"
proof -
  let ?f = "\<lambda>f. if fd_today_realized_pnl f \<noteq> 0 then f\<lparr>fd_today_realized_pnl := 0\<rparr> else f"
  let ?s = "s\<lparr>db_funds := map ?f (db_funds s)\<rparr>"
  have g: "get_fund v ?s = map_option ?f (get_fund v s)" for v by (simp add: get_fund_def get_row_map)
  have c: "get_starting_capital ?s = get_starting_capital s" by (rule starting_capital_cong) simp
  have eq: "fund_of ?s v = (case get_fund v s of Some f \<Rightarrow> ?f f | None \<Rightarrow> fund_of s v)" for v
    by (auto simp: fund_of_def ensure_fund_row_def Let_def g c split: option.split)
  have "fd_used_margin (fund_of ?s v) = fd_used_margin (fund_of s v)" "cash_gap (fund_of ?s v) = cash_gap (fund_of s v)" for v
    by (cases "get_fund v s"; simp add: eq fund_of_Some cash_gap_def cash_def)+
  then have one: "conserves s ?s"
    by (simp add: conserves_def books_ok_def books_wf_def slack_def used_def gap_def ledger_def)
  define h :: "position \<Rightarrow> position" where
    "h = (\<lambda>p. if po_today_realized_pnl p \<noteq> 0 \<or> po_day_buy_quantity p \<noteq> 0 \<or> po_day_buy_value p \<noteq> 0
                 \<or> po_day_sell_quantity p \<noteq> 0 \<or> po_day_sell_value p \<noteq> 0
               then p\<lparr>po_today_realized_pnl := 0, po_day_buy_quantity := 0, po_day_buy_value := 0,
                      po_day_sell_quantity := 0, po_day_sell_value := 0\<rparr> else p)"
  have two: "conserves ?s (?s\<lparr>db_positions := map h (db_positions ?s)\<rparr>)"
    by (rule map_positions_conserves) (simp_all add: h_def po_key_def)
  have "snd (reset_today_pnl s) = ?s\<lparr>db_positions := map h (db_positions ?s)\<rparr>"
    by (simp add: reset_today_pnl_def Let_def h_def)
  with cons.trans [OF one two] show ?thesis by metis
qed

lemma snapshot_conserves [books_steps]: "conserves s (snd (snapshot_for_date db_day target s))"
  by (simp add: snapshot_for_date_def Let_def conserves_def books_ok_def books_simps)

lemma catch_up_spends [books_steps]: "spends s (snd (run_catch_up_tasks now quote db_day s))"
proof -
  let ?s1 = "snd (close_stale_mis_positions now quote s)"
  let ?s2 = "snd (settle_stale_cnc_positions now ?s1)"
  let ?s3 = "snd (close_expired_fno_positions now quote ?s2)"
  let ?s4 = "snd (reset_today_pnl ?s3)"
  let ?s5 = "snd (snapshot_for_date db_day (day_of now - 1) ?s4)"
  have "snd (run_catch_up_tasks now quote db_day s) = ?s5" by (simp add: run_catch_up_tasks_def Let_def split_beta)
  moreover have "spends s ?s2"
    using conserves_spends [OF stale_mis_conserves] stale_cnc_spends by (rule spend.trans)
  moreover have "conserves ?s2 ?s5"
    by (intro cons.trans [OF expired_conserves cons.trans [OF reset_today_conserves snapshot_conserves]])
  ultimately show ?thesis using conserves_spends spend.trans by metis
qed

lemma get_positions_conserves [books_steps]: "conserves s (snd (get_positions now quote u s))"
proof -
  let ?s = "snd (close_expired_fno_positions now quote s)"
  have "conserves ?s (?s\<lparr>db_positions := map (heal_row now u ?s) (db_positions ?s)\<rparr>)"
    by (rule map_positions_conserves) (auto simp: heal_row_def po_key_def)
  then show ?thesis by (auto simp: get_positions_def Let_def intro: cons.trans expired_conserves)
qed

lemma close_all_conserves [books_steps]: "conserves s (snd (close_all_positions now quote envs u s))"
  by (auto simp: close_all_positions_def Let_def split_beta intro: cons.trans [OF get_positions_conserves close_loop_conserves])

lemma holdings_conserves [books_steps]: "conserves s (snd (get_holdings_for_user quote u s))"
  by (simp add: get_holdings_for_user_def Let_def conserves_def books_ok_def books_simps)

end
