(* ===== verification/Sandbox_System.thy ===== *)
theory Sandbox_System
  imports Job_Ledger
begin

text \<open>
  The sandbox as one transition system: every operation a request, a tick, a background thread or
  the scheduler can run is a step on the database. The invariants of the books hold in every state
  reached without reconciling margin that a pending order blocks, and a finished order never changes.
\<close>

section \<open>Remaining operations\<close>

lemma ensure_conserves: "conserves s (snd (ensure_fund_row s u))"
  by (simp add: conserves_def books_ok_def books_simps)

lemma funds_snapshot_conserves: "conserves s (snd (get_funds_snapshot s u))"
  by (simp add: get_funds_snapshot_def ensure_conserves split_beta)

lemma fund_of_put_config:
  "slack (put_config c s) u = slack s u" "gap (put_config c s) u = gap s u"
proof -
  have g: "get_fund u (put_config c s) = get_fund u s" by (simp add: get_fund_def put_config_def)
  have "fd_used_margin (fund_of (put_config c s) u) = fd_used_margin (fund_of s u) \<and>
      cash_gap (fund_of (put_config c s) u) = cash_gap (fund_of s u)"
    by (cases "get_fund u s") (simp_all add: fund_of_Some g, simp add: fund_of_def ensure_fund_row_def g cash_gap_def cash_def Let_def)
  then show "slack (put_config c s) u = slack s u" "gap (put_config c s) u = gap s u"
    by (simp_all add: slack_def used_def gap_def ledger_def put_config_def)
qed

lemma put_config_conserves: "conserves s (put_config c s)"
  by (simp add: conserves_def books_ok_def fund_of_put_config) (simp add: books_wf_def put_config_def)

lemma set_config_conserves: "conserves s (snd (set_config s k v))"
  by (auto simp: set_config_def put_config_conserves cons.refl split: option.split)

lemma seed_defaults_conserves: "conserves s (seed_defaults s)"
  unfolding seed_defaults_def
  by (rule cons.fold_steps) (auto simp: put_config_conserves cons.refl split: prod.split)

lemma mark_ran_conserves: "conserves s (mark_ran j d s)"
  by (auto simp: mark_ran_def put_config_conserves split: option.split)

lemma symtoken_conserves: "conserves s (s\<lparr>db_symtoken := symbols\<rparr>)"
proof -
  have "get_starting_capital (s\<lparr>db_symtoken := symbols\<rparr>) = get_starting_capital s"
    by (simp add: get_starting_capital_def read_float_def get_config_def)
  then have "fund_of (s\<lparr>db_symtoken := symbols\<rparr>) u = fund_of s u" for u
    by (cases "get_fund u s") (simp_all add: fund_of_def ensure_fund_row_def get_fund_def Let_def split: option.split)
  then show ?thesis by (simp add: conserves_def books_ok_def slack_def gap_def used_def ledger_def books_wf_def)
qed

section \<open>Steps\<close>

text \<open>What requests, ticks, background passes and jobs do; the download of the contracts replaces the symbol
  master by any other.\<close>

inductive book_step :: "db \<Rightarrow> db \<Rightarrow> bool" where
  place: "book_step s (snd (place_order e u q s))"
| smart: "book_step s (snd (place_smart_order e u q s))"
| modify: "book_step s (snd (svc_modify_order u oid qty price trigger pricetype s))"
| cancel: "book_step s (snd (svc_cancel_order u oid s))"
| cancel_all: "book_step s (snd (cancel_all_orders u s))"
| close: "book_step s (snd (close_position e u symb exch prd s))"
| close_all: "book_step s (snd (close_all_positions now quote envs u s))"
| tick: "book_step s (on_tick now ids symb exch ltp s)"
| poll: "book_step s (poll_once now ids pquote s)"
| mark: "book_step s (mark_to_market now k ltp s)"
| refresh: "book_step s (snd (refresh_once now quote s))"
| positions: "book_step s (snd (get_positions now quote u s))"
| holdings: "book_step s (snd (get_holdings_for_user quote u s))"
| funds: "book_step s (snd (get_funds_snapshot s u))"
| squareoff: "book_step s (snd (squareoff_bucket envs bucket s))"
| settle: "book_step s (snd (settle_cnc_to_holdings now s))"
| expire: "book_step s (snd (close_expired_fno_positions now quote s))"
| daily: "book_step s (snd (reset_today_pnl s))"
| snapshot: "book_step s (snd (snapshot_for_date db_day target s))"
| catch_up: "book_step s (snd (run_catch_up_tasks now quote db_day s))"
| config: "book_step s (snd (set_config s ckey cvalue))"
| seed: "book_step s (seed_defaults s)"
| stamp: "book_step s (mark_ran name today s)"
| contracts: "book_step s (s\<lparr>db_symtoken := symbols\<rparr>)"

text \<open>Beside these, a user may have the margin reconciled at any time.\<close>

inductive op_step :: "db \<Rightarrow> db \<Rightarrow> bool" where
  book: "book_step s t \<Longrightarrow> op_step s t"
| reconcile: "op_step s (snd (reconcile_margin s u fix_it))"

inductive reset_step :: "db \<Rightarrow> db \<Rightarrow> bool" where
  mine: "reset_step s (reset_my_sandbox u s)"
| everyone: "reset_step s (snd (wipe_all_users s))"

text \<open>A fresh installation: a symbol master and a configuration, and no activity.\<close>

definition fresh_db :: "db \<Rightarrow> bool" where
  "fresh_db s \<longleftrightarrow> db_orders s = [] \<and> db_positions s = [] \<and> db_funds s = []"

inductive reachable :: "db \<Rightarrow> bool" where
  start: "fresh_db s \<Longrightarrow> reachable s"
| operate: "reachable s \<Longrightarrow> op_step s t \<Longrightarrow> reachable t"
| reset: "reachable s \<Longrightarrow> reset_step s t \<Longrightarrow> reachable t"

text \<open>Reconciling counts the margin of the open positions only, so it is in order only when no pending
  order of the user blocks margin. The states reached without doing it at another time:\<close>

definition no_order_margin :: "int \<Rightarrow> db \<Rightarrow> bool" where
  "no_order_margin u s \<longleftrightarrow>
     list_all (\<lambda>r. or_user_id r = u \<and> pending_status (or_status r) \<longrightarrow> or_margin_blocked r = 0) (db_orders s)"

inductive orderly :: "db \<Rightarrow> bool" where
  start: "fresh_db s \<Longrightarrow> orderly s"
| operate: "orderly s \<Longrightarrow> book_step s t \<Longrightarrow> orderly t"
| reconcile: "orderly s \<Longrightarrow> no_order_margin u s \<Longrightarrow> orderly (snd (reconcile_margin s u fix_it))"
| reset: "orderly s \<Longrightarrow> reset_step s t \<Longrightarrow> orderly t"

lemma orderly_reachable: "orderly s \<Longrightarrow> reachable s"
  by (induction rule: orderly.induct) (auto intro: reachable.start reachable.operate [OF _ op_step.book]
      reachable.operate [OF _ op_step.reconcile] reachable.reset)

lemma book_step_spends: "book_step s t \<Longrightarrow> spends s t"
  by (induction rule: book_step.induct)
    (auto intro: conserves_spends books_steps funds_snapshot_conserves set_config_conserves
      seed_defaults_conserves mark_ran_conserves symtoken_conserves)

lemma reconcile_cases:
  "snd (reconcile_margin s u b) = snd (ensure_fund_row s u) \<or>
   (\<exists>x. snd (reconcile_margin s u b) =
      on_fund (\<lambda>f. f\<lparr>fd_used_margin := pyround (sum_list (map po_margin_blocked
        (filter (\<lambda>p. po_user_id p = u \<and> po_net_quantity p \<noteq> 0) (db_positions s)))) 2,
        fd_available := fd_available f + x\<rparr>) s u)"
  by (auto simp: reconcile_margin_def Let_def split_beta on_fund_def fund_of_def)

lemma open_margin_total:
  assumes "books_wf s"
  shows "pyround (sum_list (map po_margin_blocked (filter (\<lambda>p. po_user_id p = u \<and> po_net_quantity p \<noteq> 0) (db_positions s)))) 2 =
    row_total (pos_hold u) (db_positions s)"
proof -
  have m: "\<And>p. p \<in> set (db_positions s) \<Longrightarrow> margin_wf p" using assms by (simp add: books_wf_def)
  have "sum_list (map po_margin_blocked (filter (\<lambda>p. po_user_id p = u \<and> po_net_quantity p \<noteq> 0) ps)) =
      row_total (pos_hold u) ps \<and> cents (row_total (pos_hold u) ps)" if "set ps \<subseteq> set (db_positions s)" for ps
    using that m by (induction ps) (auto simp: pos_hold_def margin_wf_def cents_intros)
  then show ?thesis by (simp add: pyround_cents)
qed

lemma reconcile_books_ok:
  assumes ok: "books_ok s" and n: "no_order_margin u s"
  shows "books_ok (snd (reconcile_margin s u b))"
proof -
  have wf: "books_wf s" "\<And>v. 0 \<le> slack s v" using ok by (simp_all add: books_ok_def)
  have "row_total (order_hold u) (db_orders s) = 0"
    using n by (intro row_total_zero) (auto simp: no_order_margin_def order_hold_def list_all_iff)
  then have l: "used s u - slack s u = row_total (pos_hold u) (db_positions s)" by (simp add: slack_def ledger_def)
  from reconcile_cases [of s u b] show ?thesis
  proof
    assume "\<exists>x. snd (reconcile_margin s u b) =
      on_fund (\<lambda>f. f\<lparr>fd_used_margin := pyround (sum_list (map po_margin_blocked
        (filter (\<lambda>p. po_user_id p = u \<and> po_net_quantity p \<noteq> 0) (db_positions s)))) 2,
        fd_available := fd_available f + x\<rparr>) s u"
    then obtain x where e: "snd (reconcile_margin s u b) =
        on_fund (\<lambda>f. f\<lparr>fd_used_margin := row_total (pos_hold u) (db_positions s), fd_available := fd_available f + x\<rparr>) s u"
      unfolding open_margin_total [OF wf(1)] by blast
    show ?thesis using wf l by (simp add: e books_ok_def books_simps)
  qed (use ok in \<open>simp add: books_ok_def books_simps\<close>)
qed

section \<open>Soundness of the books\<close>

lemma fresh_fund: "get_fund u s = None \<Longrightarrow> fd_used_margin (fund_of s u) = 0 \<and> cash_gap (fund_of s u) = 0"
  by (simp add: fund_of_def ensure_fund_row_def Let_def cash_gap_def cash_def)

lemma fresh_books_ok: "fresh_db s \<Longrightarrow> books_ok s"
  using fresh_fund [of _ s]
  by (auto simp: fresh_db_def books_ok_def books_wf_def slack_def used_def gap_def ledger_def uniq_def get_fund_def)

definition reset_row :: "rat \<Rightarrow> fund \<Rightarrow> fund" where
  "reset_row capital f = f\<lparr>fd_starting_capital := capital, fd_available := capital, fd_used_margin := 0,
     fd_realized_pnl := 0, fd_today_realized_pnl := 0, fd_unrealized_pnl := 0\<rparr>"

lemma reset_funds_eq: "reset_funds s u = on_fund (reset_row (get_starting_capital s)) s u"
proof -
  have "get_starting_capital (snd (ensure_fund_row s u)) = get_starting_capital s" by (rule starting_capital_cong) simp
  then show ?thesis by (simp add: reset_funds_def on_fund_def reset_row_def fund_of_def Let_def split_beta)
qed

lemma fund_of_reset:
  "fund_of (reset_funds s u) v = (if v = u then reset_row (get_starting_capital s) (fund_of s u) else fund_of s v)"
  by (simp add: reset_funds_eq fund_of_on_fund reset_row_def)

lemma reset_row_cash [simp]: "fd_used_margin (reset_row c f) = 0" "cash_gap (reset_row c f) = 0"
  by (simp_all add: reset_row_def cash_gap_def cash_def)

lemma reset_funds_frame [simp]:
  "db_orders (reset_funds s u) = db_orders s" "db_positions (reset_funds s u) = db_positions s"
  by (simp_all add: reset_funds_eq)

lemma reset_mine_books_ok:
  assumes "books_ok s"
  shows "books_ok (reset_my_sandbox u s)"
proof -
  let ?os = "filter (\<lambda>r. or_user_id r \<noteq> u) (db_orders s)" and ?ps = "filter (\<lambda>p. po_user_id p \<noteq> u) (db_positions s)"
  let ?s = "s\<lparr>db_orders := ?os, db_trades := filter (\<lambda>t. tr_user_id t \<noteq> u) (db_trades s), db_positions := ?ps,
     db_holdings := filter (\<lambda>h. ho_user_id h \<noteq> u) (db_holdings s)\<rparr>"
  let ?t = "reset_my_sandbox u s"
  have t: "?t = reset_funds ?s u" by (simp add: reset_my_sandbox_def)
  have fo: "fund_of ?s v = fund_of s v" for v by (rule fund_of_cong) simp_all
  have os: "row_total (order_hold v) ?os = (if v = u then 0 else row_total (order_hold v) (db_orders s))" for v
    by (auto intro: row_total_zero row_total_filter simp: order_hold_def)
  have ps: "row_total (pos_hold v) ?ps = (if v = u then 0 else row_total (pos_hold v) (db_positions s))" for v
    by (auto intro: row_total_zero row_total_filter simp: pos_hold_def)
  have "slack ?t v = (if v = u then 0 else slack s v)" "gap ?t v = (if v = u then 0 else gap s v)" for v
    by (simp_all add: t slack_def used_def ledger_def gap_def fund_of_reset fo os ps)
  moreover have "books_wf ?t" using assms by (auto simp: t books_ok_def books_wf_def uniq_filter)
  ultimately show ?thesis using assms by (simp add: books_ok_def)
qed

lemma wipe_fold:
  "db_orders (fold (\<lambda>u t. reset_funds t u) us s) = db_orders s \<and>
   db_positions (fold (\<lambda>u t. reset_funds t u) us s) = db_positions s \<and>
   (\<forall>v. fd_used_margin (fund_of (fold (\<lambda>u t. reset_funds t u) us s) v) =
          (if v \<in> set us then 0 else fd_used_margin (fund_of s v)) \<and>
        cash_gap (fund_of (fold (\<lambda>u t. reset_funds t u) us s) v) = (if v \<in> set us then 0 else cash_gap (fund_of s v)))"
proof (induction us arbitrary: s)
  case (Cons u us)
  show ?case using Cons.IH [of "reset_funds s u"] by (auto simp: fund_of_reset)
qed simp

lemma wipe_books_ok:
  assumes "books_ok s"
  shows "books_ok (snd (wipe_all_users s))"
proof (cases "wipe_users s = []")
  case True
  with assms show ?thesis by (simp add: wipe_all_users_def)
next
  case False
  let ?s = "s\<lparr>db_orders := [], db_trades := [], db_positions := [], db_holdings := [], db_daily_pnl := []\<rparr>"
  let ?t = "fold (\<lambda>u t. reset_funds t u) (wipe_users s) ?s"
  have fo: "fund_of ?s v = fund_of s v" for v by (rule fund_of_cong) simp_all
  have none: "get_fund v s = None" if "v \<notin> set (wipe_users s)" for v
    using that by (auto simp: wipe_users_def get_fund_def get_row_None)
  have z: "fd_used_margin (fund_of ?t v) = 0 \<and> cash_gap (fund_of ?t v) = 0" for v
    using wipe_fold [of "wipe_users s" ?s] fresh_fund [OF none, of v] by (simp add: fo)
  have "db_orders ?t = []" "db_positions ?t = []" using wipe_fold [of "wipe_users s" ?s] by simp_all
  with z have "books_ok ?t"
    by (simp add: books_ok_def books_wf_def uniq_def slack_def used_def gap_def ledger_def)
  then show ?thesis using False by (simp add: wipe_all_users_def Let_def)
qed

lemma orderly_books_ok: "orderly s \<Longrightarrow> books_ok s"
proof (induction rule: orderly.induct)
  case (start s)
  then show ?case by (rule fresh_books_ok)
next
  case (operate s t)
  then show ?case using book_step_spends by (auto simp: spends_def)
next
  case (reconcile s u b)
  then show ?case using reconcile_books_ok by blast
next
  case (reset s t)
  from reset(2) show ?case
    by (cases rule: reset_step.cases) (simp_all add: reset(3) reset_mine_books_ok wipe_books_ok)
qed

text \<open>None of the book operations creates cash: free cash and margin in use together never rise against
  the starting capital plus the realized profit and loss.\<close>

lemma books_create_no_cash: "orderly s \<Longrightarrow> book_step s t \<Longrightarrow> gap t u \<le> gap s u"
  using book_step_spends orderly_books_ok by (auto simp: spends_def)

section \<open>Finished orders\<close>

definition frozen :: "db \<Rightarrow> db \<Rightarrow> bool" where
  "frozen s t \<longleftrightarrow> (\<forall>k r. get_order_row k s = Some r \<longrightarrow> \<not> pending_status (or_status r) \<longrightarrow> get_order_row k t = Some r)"

definition same_orders :: "db \<Rightarrow> db \<Rightarrow> bool" where
  "same_orders s t \<longleftrightarrow> db_orders t = db_orders s"

interpretation froz: step_preorder frozen
  by unfold_locales (auto simp: frozen_def)

interpretation same: step_preorder same_orders
  by unfold_locales (auto simp: same_orders_def)

named_theorems order_steps "what the operations do to the order table"

lemma same_frozen: "same_orders s t \<Longrightarrow> frozen s t"
  by (simp add: same_orders_def frozen_def get_order_row_def)

lemma frozen_step:
  "(\<And>k r. get_order_row k s = Some r \<Longrightarrow> \<exists>r'. get_order_row k t = Some r' \<and> order_step r r') \<Longrightarrow> frozen s t"
  unfolding frozen_def using order_step_terminal by metis

lemma frozen_cong: "frozen s t \<Longrightarrow> db_orders t' = db_orders t \<Longrightarrow> frozen s t'"
  by (simp add: frozen_def get_order_row_def)

lemma try_fill_frozen: "frozen s (snd (try_fill_order now tid r x s))"
proof (rule frozen_cong)
  obtain res s' where t: "try_fill_order now tid r x s = (res, s')" by fastforce
  show "db_orders (snd (try_fill_order now tid r x s)) =
      db_orders (case fill_price r x of None \<Rightarrow> s | Some p \<Rightarrow> snd (fill now tid (or_user_id r) (or_orderid r) p None s))"
    using try_fill_orders [OF t] t by (simp split: option.split)
  show "frozen s (case fill_price r x of None \<Rightarrow> s | Some p \<Rightarrow> snd (fill now tid (or_user_id r) (or_orderid r) p None s))"
    by (auto intro: frozen_step fill_step froz.refl split: option.split)
qed

lemma fill_loop_frozen: "frozen s (snd (fill_loop now ids price_of i rs s))"
proof (induction rs arbitrary: i s)
  case (Cons r rs)
  show ?case
  proof (cases "price_of r")
    case None
    with Cons show ?thesis by simp
  next
    case (Some x)
    obtain res s' where t: "try_fill_order now (ids i) r x s = (res, s')" by fastforce
    have "frozen s s'" using try_fill_frozen [of s now "ids i" r x] t by simp
    then show ?thesis using Some t Cons.IH [of s' "Suc i"] by (cases res) (auto intro: froz.trans)
  qed
qed (simp add: froz.refl)

lemma tick_frozen [order_steps]: "frozen s (on_tick now ids symb exch ltp s)"
  by (auto simp: on_tick_def fill_loop_frozen froz.refl split: option.split)

lemma poll_frozen [order_steps]: "frozen s (poll_once now ids quote s)"
  by (simp add: poll_once_def fill_loop_frozen)

lemma create_frozen: "frozen s (snd (create_order row s))"
  by (simp add: frozen_def create_order_step)

lemma reject_frozen: "frozen s (snd (reject_request e u q reason s))"
  using create_frozen [of s] by (auto simp: reject_request_def split: sum.split prod.split) (metis snd_conv)+

lemma accept_frozen: "frozen s (snd (accept_order e u q m s))"
proof -
  obtain b err s1 where bl: "block_margin s u m = ((b, err), s1)" by (metis prod.collapse)
  have s1: "frozen s s1" using block_margin_frame(1) [of s u m] bl by (intro same_frozen) (simp add: same_orders_def)
  let ?row = "request_row e u q m (initial_status (upper (rq_pricetype q))) None"
  obtain res s2 where c: "create_order ?row s1 = (res, s2)" by fastforce
  have s2: "frozen s s2" using froz.trans [OF s1 create_frozen [of s1 ?row]] c by simp
  have s3: "frozen s (snd (try_fill_order (ev_now e) (ev_tradeid e) r x s2))" for r x
    by (rule froz.trans [OF s2 try_fill_frozen])
  have rej: "frozen s (snd (reject_request e u q rs s1))" for rs by (rule froz.trans [OF s1 reject_frozen])
  show ?thesis
    using s2 s3 rej bl c
    by (auto simp: accept_order_def split: bool.split sum.split option.split prod.split) (metis snd_conv)+
qed

lemma place_frozen [order_steps]: "frozen s (snd (place_order e u q s))"
  by (auto simp: place_order_def Let_def reject_frozen accept_frozen froz.refl split: sum.split prod.split option.split)

lemma smart_frozen [order_steps]: "frozen s (snd (place_smart_order e u q s))"
  by (auto simp: place_smart_order_def Let_def place_frozen froz.refl split: option.split)

lemma close_frozen [order_steps]: "frozen s (snd (close_position e u sy ex pd s))"
  by (auto simp: close_position_def place_frozen froz.refl split: option.split prod.split)

lemma close_loop_frozen: "frozen s (snd (close_loop envs i u ps s))"
proof (induction ps arbitrary: i s)
  case (Cons p ps)
  show ?case
  proof (cases "pd_netqty p = 0")
    case True
    with Cons show ?thesis by simp
  next
    case False
    let ?q = "market_close (pd_symbol p) (pd_exchange p) (pd_product p) (pd_netqty p) ''close_all''"
    obtain res s' where p: "place_order (envs i) u ?q s = (res, s')" by fastforce
    have "frozen s s'" using place_frozen [of s "envs i" u ?q] p by simp
    then show ?thesis using False p Cons.IH [of s' "Suc i"]
      by (cases res) (auto intro: froz.trans split: sum.split prod.split)
  qed
qed (simp add: froz.refl)

lemma modify_frozen [order_steps]: "frozen s (snd (svc_modify_order u oid q x tr pt s))"
proof -
  have "frozen s (snd (om_modify_order u oid a b c d s))" for a b c d
    by (rule frozen_step) (rule om_modify_order_step)
  then show ?thesis by (auto simp: svc_modify_order_def Let_def froz.refl split: option.split prod.split) (metis snd_conv)+
qed

lemma om_cancel_frozen: "frozen s (snd (om_cancel_order u oid s))"
  by (rule frozen_step) (rule om_cancel_order_step)

lemma cancel_frozen [order_steps]: "frozen s (snd (svc_cancel_order u oid s))"
  by (rule frozen_cong [OF om_cancel_frozen [of s u oid]])
    (auto simp: svc_cancel_order_def split: option.split prod.split)

lemma cancel_loop_frozen: "frozen s (snd (cancel_loop u rs s))"
proof (induction rs arbitrary: s)
  case (Cons r rs)
  obtain c s' where p: "om_cancel_order u (or_orderid r) s = (c, s')" by fastforce
  have s': "frozen s s'" using om_cancel_frozen [of s u "or_orderid r"] p by simp
  show ?case
  proof (cases c)
    case None
    with p Cons.IH [of s'] s' show ?thesis by (auto intro: froz.trans)
  next
    case (Some c')
    let ?s = "if or_margin_blocked c' \<noteq> 0 then release_margin s' u (or_margin_blocked c') 0 else s'"
    have "frozen s ?s" using s' by (rule frozen_cong) simp
    with Cons.IH [of ?s] have "frozen s (snd (cancel_loop u rs ?s))" by (rule froz.trans [rotated])
    moreover have "snd (cancel_loop u (r # rs) s) = snd (cancel_loop u rs ?s)" using p Some by (simp add: Let_def split_beta)
    ultimately show ?thesis by metis
  qed
qed (simp add: froz.refl)

lemma cancel_all_frozen [order_steps]: "frozen s (snd (cancel_all_orders u s))"
  by (simp add: cancel_all_orders_def cancel_loop_frozen)

lemma same_simp: "same_orders s t \<longleftrightarrow> db_orders t = db_orders s"
  by (simp add: same_orders_def)

lemma apply_release_same: "same_orders s (apply_release e s)"
  by (simp add: same_simp apply_release_def Let_def split: prod.split)

lemma set_unrealized_same: "same_orders s (set_unrealized_pnl s u x)"
  by (simp add: same_simp set_unrealized_pnl_def split_beta)

lemma cancel_pending_frozen: "frozen s (snd (cancel_pending_mis_orders exs s))"
proof -
  let ?s = "s\<lparr>db_orders := map (\<lambda>r. if squareoff_due exs r then squareoff_cancel_row r else r) (db_orders s)\<rparr>"
  have key: "or_key (if squareoff_due exs r then squareoff_cancel_row r else r) = or_key r" for r by simp
  have "get_order_row k ?s = map_option (\<lambda>r. if squareoff_due exs r then squareoff_cancel_row r else r) (get_order_row k s)" for k
    unfolding get_order_row_def by (simp add: get_row_map [of or_key, OF key])
  then have "frozen s ?s" by (simp add: frozen_def squareoff_due_def)
  moreover have "same_orders ?s (fold (\<lambda>(u, amount) t. release_margin t u amount 0) d ?s)" for d
    by (rule same.fold_steps) (simp add: same_simp split_beta)
  ultimately show ?thesis
    unfolding cancel_pending_mis_orders_def Let_def snd_conv by (meson froz.trans same_frozen)
qed

lemma squareoff_loop_frozen: "frozen s (snd (squareoff_loop envs i ps s))"
proof (induction ps arbitrary: i s)
  case (Cons p ps)
  let ?q = "market_close (po_symbol p) (po_exchange p) ''MIS'' (po_net_quantity p) ''auto_squareoff''"
  have "frozen s (snd (squareoff_loop envs (Suc i) ps (snd (place_order (envs i) (po_user_id p) ?q s))))"
    using place_frozen Cons.IH by (rule froz.trans)
  then show ?case by (simp add: Let_def split_beta)
qed (simp add: froz.refl)

lemma squareoff_frozen [order_steps]: "frozen s (snd (squareoff_bucket envs b s))"
  by (auto simp: squareoff_bucket_def Let_def froz.refl split: option.split
      intro: froz.trans [OF cancel_pending_frozen squareoff_loop_frozen])

lemma mark_same: "same_orders s (mark_to_market now k x s)"
  by (auto simp: same_simp mark_to_market_def split: option.split)

lemma refresh_same: "same_orders s (snd (refresh_once now quote s))"
proof -
  have "same_orders t (fold (\<lambda>(u, x) s. set_unrealized_pnl s u (pyround x 2)) d t)" for d t
    by (rule same.fold_steps) (simp add: set_unrealized_same split_beta)
  then show ?thesis by (simp add: refresh_once_def Let_def same_simp)
qed

lemma run_force_same: "same_orders s (snd (run_force_close now close s))"
proof -
  have "same_orders t (fold apply_release d t)" for d t by (rule same.fold_steps) (rule apply_release_same)
  then show ?thesis by (simp add: run_force_close_def same_simp split_beta)
qed

lemma expired_same: "same_orders s (snd (close_expired_fno_positions now quote s))"
  using run_force_same by (auto simp: close_expired_fno_positions_def Let_def same.refl split_beta)

lemma settle_same: "same_orders s (snd (settle_cnc_to_holdings now s))"
proof -
  obtain s' d where f: "fold (settle_one (day_of now)) (filter (settle_due (session_start_ist s now)) (db_positions s)) (s, []) = (s', d)"
    by fastforce
  have "same_orders s' (fold (\<lambda>(u, amount) t. transfer_margin_to_holdings t u amount) d s')"
    by (rule same.fold_steps) (simp add: same_simp split_beta)
  with settle_fold [OF f] show ?thesis by (simp add: settle_cnc_to_holdings_def f same_simp Let_def)
qed

lemma stale_cnc_same: "same_orders s (snd (settle_stale_cnc_positions now s))"
  by (simp add: settle_stale_cnc_positions_def settle_same same.refl)

lemma reset_today_same: "same_orders s (snd (reset_today_pnl s))"
  by (simp add: same_simp reset_today_pnl_def Let_def)

lemma catch_up_same: "same_orders s (snd (run_catch_up_tasks now quote db_day s))"
  using run_force_same [of s now "stale_mis_price quote now"]
    stale_cnc_same [of "snd (close_stale_mis_positions now quote s)" now]
    expired_same [of "snd (settle_stale_cnc_positions now (snd (close_stale_mis_positions now quote s)))" now quote]
  by (simp add: run_catch_up_tasks_def Let_def split_beta same_simp reset_today_pnl_def snapshot_for_date_def
      close_stale_mis_positions_def)

lemma get_positions_same: "same_orders s (snd (get_positions now quote u s))"
  using expired_same [of s now quote] by (simp add: get_positions_def Let_def same_simp)

lemma put_config_same: "same_orders s (put_config c s)"
  by (simp add: same_simp put_config_def)

lemma config_same: "same_orders s (snd (set_config s k v))" "same_orders s (mark_ran j d s)" "same_orders s (seed_defaults s)"
proof -
  show "same_orders s (snd (set_config s k v))" "same_orders s (mark_ran j d s)"
    by (auto simp: set_config_def mark_ran_def put_config_same same.refl split: option.split)
  show "same_orders s (seed_defaults s)" unfolding seed_defaults_def
    by (rule same.fold_steps) (auto simp: put_config_same same.refl)
qed

lemma symtoken_same: "same_orders s (s\<lparr>db_symtoken := symbols\<rparr>)"
  by (simp add: same_simp)

lemma close_all_frozen [order_steps]: "frozen s (snd (close_all_positions now quote envs u s))"
  by (auto simp: close_all_positions_def Let_def split_beta
      intro: froz.trans [OF same_frozen [OF get_positions_same] close_loop_frozen])

lemma book_step_frozen: "book_step s t \<Longrightarrow> frozen s t"
proof (induction rule: book_step.induct)
  case (holdings s quote u)
  show ?case by (rule same_frozen) (simp add: same_simp get_holdings_for_user_def Let_def)
next
  case (funds s u)
  show ?case by (rule same_frozen) (simp add: same_simp get_funds_snapshot_def split_beta)
next
  case (snapshot s db_day target)
  show ?case by (rule same_frozen) (simp add: same_simp snapshot_for_date_def Let_def)
qed (auto intro: order_steps same_frozen mark_same refresh_same expired_same settle_same reset_today_same
    catch_up_same get_positions_same config_same symtoken_same)

lemma reconcile_same: "same_orders s (snd (reconcile_margin s u b))"
  using reconcile_cases [of s u b] by (auto simp: same_simp)

lemma op_step_frozen: "op_step s t \<Longrightarrow> frozen s t"
  by (induction rule: op_step.induct) (auto intro: book_step_frozen same_frozen reconcile_same)

section \<open>A concrete run\<close>

text \<open>A fresh installation that knows one share, and a limit order to buy ten of it at 100.\<close>

definition demo_install :: db where
  "demo_install = empty_db\<lparr>db_symtoken := [\<lparr>sy_symbol = ''SBIN'', sy_exchange = ''NSE'', sy_lotsize = Some 1,
     sy_tick_size = Some (1/20), sy_instrumenttype = Some ''EQ'', sy_expiry = None\<rparr>]\<rparr>"

definition demo_env :: env where
  "demo_env = \<lparr>ev_now = 36000000000, ev_orderid = ''26010100000101'', ev_tradeid = ''T1'',
     ev_quote_ref = (\<lambda>u s e. None), ev_quote_fill = (\<lambda>u s e. None)\<rparr>"

definition demo_req :: order_req where
  "demo_req = \<lparr>rq_symbol = ''SBIN'', rq_exchange = ''NSE'', rq_action = ''BUY'', rq_quantity = JInt 10,
     rq_pricetype = ''LIMIT'', rq_product = ''MIS'', rq_price = JInt 100, rq_trigger_price = JInt 0,
     rq_strategy = [], rq_position_size = None\<rparr>"

definition demo_placed :: db where
  "demo_placed = snd (place_order demo_env 7 demo_req demo_install)"

lemma demo_fresh: "fresh_db demo_install"
  by (simp add: fresh_db_def demo_install_def empty_db_def)

lemma demo_orderly: "orderly demo_placed"
  unfolding demo_placed_def by (rule orderly.operate [OF orderly.start [OF demo_fresh] book_step.place])

lemma demo_fund: "get_fund 7 demo_placed = Some \<lparr>fd_user_id = 7, fd_starting_capital = 10000000, fd_available = 9999000,
    fd_used_margin = 1000, fd_realized_pnl = 0, fd_today_realized_pnl = 0, fd_unrealized_pnl = 0\<rparr>"
  by code_simp

lemma demo_hold: "map or_margin_blocked (db_orders demo_placed) = [1000]" "db_positions demo_placed = []"
    "map or_status (db_orders demo_placed) = [SOpen]" "map or_key (db_orders demo_placed) = [(7, ''26010100000101'')]"
  by code_simp+

section \<open>What holds in every reachable state\<close>

text \<open>C1: margin in use is backed as long as it is reconciled in order. In every state reached from a fresh
  installation by any sequence of requests, ticks, polls, background passes, jobs, resets and
  reconciliations, where the margin of a user is only reconciled while no pending order of theirs blocks
  margin, for every user: the margin blocked by their pending orders plus the margin carried by their
  positions is at most the margin the fund row has in use, which is never negative. (A reconciliation at
  another time breaks it: \<open>reconcile_then_cancel_pays_twice\<close>.)\<close>

theorem margin_backed:
  assumes "orderly s"
  shows "0 \<le> sum_list (map or_margin_blocked (filter (\<lambda>r. or_user_id r = u \<and> pending_status (or_status r)) (db_orders s))) \<and>
     0 \<le> sum_list (map po_margin_blocked (filter (\<lambda>p. po_user_id p = u) (db_positions s))) \<and>
     sum_list (map or_margin_blocked (filter (\<lambda>r. or_user_id r = u \<and> pending_status (or_status r)) (db_orders s))) +
       sum_list (map po_margin_blocked (filter (\<lambda>p. po_user_id p = u) (db_positions s)))
     \<le> fd_used_margin (fund_of s u)"
proof -
  have ok: "books_ok s" by (rule orderly_books_ok [OF assms])
  have o: "sum_list (map or_margin_blocked (filter (\<lambda>r. or_user_id r = u \<and> pending_status (or_status r)) rs)) =
      row_total (order_hold u) rs" for rs
    by (induction rs) (auto simp: order_hold_def)
  have p: "sum_list (map po_margin_blocked (filter (\<lambda>p. po_user_id p = u) ps)) = row_total (pos_hold u) ps" for ps
    by (induction ps) (auto simp: pos_hold_def)
  show ?thesis unfolding o p
    using totals_nonneg [OF books_ok_wf [OF ok], of u] books_ok_slack [OF ok, of u]
    by (simp add: slack_def ledger_def used_def)
qed

theorem margin_backed_witness:
  "sum_list (map or_margin_blocked (filter (\<lambda>r. or_user_id r = 7 \<and> pending_status (or_status r)) (db_orders demo_placed))) \<le> 1000"
  using margin_backed [OF demo_orderly, of 7] by (simp add: fund_of_Some [OF demo_fund] demo_hold)

text \<open>C3: a finished order never changes. Once an order is complete, cancelled or rejected, no
  request, tick, background pass or job alters or removes its row: only the resets, which delete
  it. So an order cannot be filled twice, cancelled after a fill, or revived.\<close>

theorem finished_orders_stay:
  assumes "op_step s t" and "get_order s u orderid = Some r" and "\<not> pending_status (or_status r)"
  shows "get_order t u orderid = Some r"
  using op_step_frozen [OF assms(1)] assms(2,3) by (simp add: get_order_def frozen_def)

theorem finished_orders_stay_witness:
  "\<exists>r. get_order (on_tick 0 (\<lambda>i. ''T'') ''SBIN'' ''NSE'' (JInt 90)
       (snd (svc_cancel_order 7 ''26010100000101'' demo_placed))) 7 ''26010100000101'' = Some r \<and> or_status r = SCancelled"
proof -
  let ?s = "snd (svc_cancel_order 7 ''26010100000101'' demo_placed)"
  have "map_option or_status (get_order ?s 7 ''26010100000101'') = Some SCancelled" by code_simp
  then obtain r where r: "get_order ?s 7 ''26010100000101'' = Some r" "or_status r = SCancelled" by auto
  then show ?thesis
    using finished_orders_stay [OF op_step.book [OF book_step.tick] r(1), of 0 "\<lambda>i. ''T''" "''SBIN''" "''NSE''" "JInt 90"]
    by (simp add: pending_status_def)
qed

section \<open>Cash is conserved by trading\<close>

text \<open>The operations that place, fill, cancel and close, as opposed to those that settle or reset.\<close>

inductive trading_step :: "db \<Rightarrow> db \<Rightarrow> bool" where
  place: "trading_step s (snd (place_order e u q s))"
| smart: "trading_step s (snd (place_smart_order e u q s))"
| modify: "trading_step s (snd (svc_modify_order u oid qty price trigger pricetype s))"
| cancel: "trading_step s (snd (svc_cancel_order u oid s))"
| cancel_all: "trading_step s (snd (cancel_all_orders u s))"
| close: "trading_step s (snd (close_position e u symb exch prd s))"
| close_all: "trading_step s (snd (close_all_positions now quote envs u s))"
| tick: "trading_step s (on_tick now ids symb exch ltp s)"
| poll: "trading_step s (poll_once now ids pquote s)"
| refresh: "trading_step s (snd (refresh_once now quote s))"
| squareoff: "trading_step s (snd (squareoff_bucket envs bucket s))"
| expire: "trading_step s (snd (close_expired_fno_positions now quote s))"
| stale: "trading_step s (snd (close_stale_mis_positions now quote s))"

lemma trading_step_conserves: "trading_step s t \<Longrightarrow> conserves s t"
  by (induction rule: trading_step.induct) (auto intro: books_steps)

text \<open>C2: trading conserves cash exactly, as long as margin is reconciled in order. From a state reached
  without reconciling the margin of a user while a pending order of theirs blocks margin, placing,
  modifying, cancelling, filling, squaring off or expiring never changes a user's free cash plus margin
  in use less the starting capital and the realized profit: every rupee that leaves one bucket arrives in
  another, and realized profit is the only thing that adds to their sum. (After a reconciliation at
  another time a cancel creates cash: \<open>reconcile_then_cancel_pays_twice\<close>.)\<close>

theorem trading_conserves_cash:
  assumes "orderly s" and "trading_step s t"
  shows "fd_available (fund_of t u) + fd_used_margin (fund_of t u)
       - fd_starting_capital (fund_of t u) - fd_realized_pnl (fund_of t u) =
     fd_available (fund_of s u) + fd_used_margin (fund_of s u)
       - fd_starting_capital (fund_of s u) - fd_realized_pnl (fund_of s u)"
proof -
  have "books_ok s" by (rule orderly_books_ok [OF assms(1)])
  with trading_step_conserves [OF assms(2)] have "gap t u = gap s u" by (simp add: conserves_def)
  then show ?thesis by (simp add: gap_def cash_gap_def cash_def)
qed

theorem trading_conserves_cash_witness:
  "fd_available (fund_of demo_placed 7) + fd_used_margin (fund_of demo_placed 7) = 10000000"
proof -
  have f: "fund_of demo_install 7 = \<lparr>fd_user_id = 7, fd_starting_capital = 10000000, fd_available = 10000000,
      fd_used_margin = 0, fd_realized_pnl = 0, fd_today_realized_pnl = 0, fd_unrealized_pnl = 0\<rparr>" by code_simp
  show ?thesis
    using trading_conserves_cash [OF orderly.start [OF demo_fresh], of demo_placed 7]
      trading_step.place [of demo_install demo_env 7 demo_req]
    unfolding demo_placed_def [symmetric] by (simp add: f fund_of_Some [OF demo_fund])
qed

section \<open>Where margin is lost\<close>


text \<open>A user sells ten at 100 while flat, buys ten at the market, and the sale then closes the position.\<close>

definition demo_env2 :: env where
  "demo_env2 = \<lparr>ev_now = 36000000001, ev_orderid = ''26010100000202'', ev_tradeid = ''T2'',
     ev_quote_ref = (\<lambda>u s e. Some 95), ev_quote_fill = (\<lambda>u s e. Some 95)\<rparr>"

definition demo_round_trip :: db where
  "demo_round_trip = snd (place_order demo_env2 7 (demo_req\<lparr>rq_pricetype := ''MARKET''\<rparr>)
     (snd (place_order demo_env 7 (demo_req\<lparr>rq_action := ''SELL''\<rparr>) demo_install)))"

lemma demo_round_trip_orderly: "orderly demo_round_trip"
  unfolding demo_round_trip_def
  by (intro orderly.operate [OF orderly.operate [OF orderly.start [OF demo_fresh] book_step.place] book_step.place])


end
