(* ===== verification/Order_Flow.thy ===== *)
theory Order_Flow
  imports Sandbox_System
begin

text \<open>
  What the service calls promise their caller: which orders pass the gates, what margin is asked,
  what a rejection costs, what cancelling everything leaves, and where the position ends after a
  smart order; and what the margin reconciliation does to pending orders.
\<close>

section \<open>The gates\<close>

lemma check_terms_ok:
  assumes "check_terms info exch q pt price trigger = None"
  shows "exch \<notin> set EQUITY_EXCHANGES \<longrightarrow> 1 < si_lot_size info \<longrightarrow> q mod si_lot_size info = 0"
    and "pt \<in> {''LIMIT'', ''SL''} \<longrightarrow> 0 < price \<and> is_multiple price (si_tick_size info)"
    and "pt \<in> {''SL'', ''SL-M''} \<longrightarrow> 0 < trigger \<and> is_multiple trigger (si_tick_size info)"
  using assms
  by (simp_all add: check_terms_def not_le not_less is_multiple_def split: if_split_asm) (meson not_le)+

text \<open>C19: validation lets nothing through. An order that passes has a known action, price type,
  product and symbol, a positive quantity, a product the exchange trades, whole lots on derivative
  exchanges, positive prices on the tick grid where it has prices, never delivers more shares than
  the user holds, and, once intraday trading has been squared off, only reduces a position.\<close>

theorem validate_order_sound:
  assumes "validate_order s now u symb exch action q pt prd price trigger = Inr (None, Some info)"
  shows "upper action \<in> {''BUY'', ''SELL''} \<and> upper pt \<in> set VALID_PRICETYPES \<and> upper prd \<in> set VALID_PRODUCTS \<and>
     0 < q \<and> is_product_exchange_compatible (upper prd) (upper exch) \<and>
     get_symbol_info s symb (upper exch) = Inr (Some info) \<and>
     (upper exch \<notin> set EQUITY_EXCHANGES \<longrightarrow> 1 < si_lot_size info \<longrightarrow> q mod si_lot_size info = 0) \<and>
     (upper pt \<in> {''LIMIT'', ''SL''} \<longrightarrow> 0 < price \<and> is_multiple price (si_tick_size info)) \<and>
     (upper pt \<in> {''SL'', ''SL-M''} \<longrightarrow> 0 < trigger \<and> is_multiple trigger (si_tick_size info)) \<and>
     (upper prd = ''CNC'' \<longrightarrow> upper action = ''SELL'' \<longrightarrow> q \<le> existing_long_qty s u symb (upper exch)) \<and>
     (upper prd = ''MIS'' \<longrightarrow> is_after_squareoff s (upper exch) now = Inr False \<or>
        is_reducing s (u, symb, upper exch, upper prd) (upper action))"
proof -
  let ?a = "upper action" and ?pt = "upper pt" and ?prd = "upper prd" and ?ex = "upper exch"
  have g: "?a = ''BUY'' \<or> ?a = ''SELL''" "?pt \<in> set VALID_PRICETYPES" "?prd \<in> set VALID_PRODUCTS" "0 < q"
    "is_product_exchange_compatible ?prd ?ex"
    using assms by (simp_all add: validate_order_def Let_def not_le split: if_split_asm)
  have r: "get_symbol_info s symb ?ex = Inr (Some info)" "check_terms info ?ex q ?pt price trigger = None"
    "check_books s now u symb ?ex ?a q ?prd = Inr None"
    using assms g by (simp_all add: validate_order_def Let_def split: sum.splits option.splits if_split_asm)
  have b: "?prd = ''CNC'' \<longrightarrow> ?a = ''SELL'' \<longrightarrow> q \<le> existing_long_qty s u symb ?ex"
    "?prd = ''MIS'' \<longrightarrow> is_after_squareoff s ?ex now = Inr False \<or> is_reducing s (u, symb, ?ex, ?prd) ?a"
    using r(3) by (simp_all add: check_books_def Let_def not_less split: if_split_asm sum.split_asm)
  show ?thesis using g r(1) b check_terms_ok [OF r(2)] by blast
qed

theorem validate_order_sound_witness:
  "is_product_exchange_compatible (upper ''mis'') (upper ''NSE'') \<and>
   get_symbol_info demo_install ''SBIN'' (upper ''NSE'') = Inr (Some \<lparr>si_symbol = ''SBIN'', si_exchange = ''NSE'',
     si_lot_size = 1, si_tick_size = 1/20, si_instrument_type = ''EQ''\<rparr>)"
proof -
  have "validate_order demo_install 36000000000 7 ''SBIN'' ''NSE'' ''buy'' 10 ''limit'' ''mis'' 100 0 =
      Inr (None, Some \<lparr>si_symbol = ''SBIN'', si_exchange = ''NSE'', si_lot_size = 1, si_tick_size = 1/20,
        si_instrument_type = ''EQ''\<rparr>)" by code_simp
  from validate_order_sound [OF this] show ?thesis by blast
qed

section \<open>Margin\<close>

lemma required_margin_mono:
  "q \<le> q' \<Longrightarrow> compute_required_margin s x q prd exch it a \<le> compute_required_margin s x q' prd exch it a"
  unfolding compute_required_margin_def Let_def
  by (auto simp: not_le intro!: pyround_mono pyround_nonneg divide_right_mono mult_left_mono divide_nonneg_pos mult_nonneg_nonneg)

text \<open>Margin is asked once for the same exposure. An order against an open position in the other
  direction blocks nothing while it only reduces it, and only what its excess would need when it
  reverses it; no order is asked more than a fresh one of the same size, and never a negative
  amount.\<close>

theorem actual_margin_sizing:
  "0 \<le> actual_margin s x q prd exch it a snap \<and>
   actual_margin s x q prd exch it a snap \<le> compute_required_margin s x q prd exch it a \<and>
   actual_margin s x q prd exch it a None = compute_required_margin s x q prd exch it a \<and>
   (let opposite = (0 < n \<and> a = ''SELL'') \<or> (n < 0 \<and> a = ''BUY'') in
      actual_margin s x q prd exch it a (Some (n, m)) =
        (if \<not> opposite then compute_required_margin s x q prd exch it a
         else if q \<le> \<bar>n\<bar> then 0 else compute_required_margin s x (q - \<bar>n\<bar>) prd exch it a))"
  by (auto simp: actual_margin_ok actual_margin_def Let_def split: option.split
      intro!: required_margin_mono required_margin_ok(1))

section \<open>Rejections\<close>

text \<open>Only the order table differs, by one rejected row at the end.\<close>

definition adds_rejection :: "db \<Rightarrow> db \<Rightarrow> reason \<Rightarrow> bool" where
  "adds_rejection s t reason \<longleftrightarrow>
     (\<exists>r. db_orders t = db_orders s @ [r] \<and> or_status r = SRejected \<and> or_margin_blocked r = 0 \<and>
        or_rejection_reason r = Some reason) \<and>
     db_trades t = db_trades s \<and> db_positions t = db_positions s \<and> db_holdings t = db_holdings s \<and>
     (\<forall>v. fund_of t v = fund_of s v)"

lemma put_row_append: "get_row key (key r) rs = None \<Longrightarrow> put_row key r rs = rs @ [r]"
  by (induction rs) (auto split: if_splits)

lemma create_order_appends:
  assumes "create_order row s = (Inr row', s')"
  shows "s' = put_order row s" "db_orders s' = db_orders s @ [row]"
proof -
  have f: "get_row or_orderid (or_orderid row) (db_orders s) = None" and s': "s' = put_order row s"
    using assms by (auto simp: create_order_def split: if_splits)
  show "s' = put_order row s" by (rule s')
  have "get_row or_key (or_key row) (db_orders s) = None"
    using fresh_orderid [OF f, of "or_user_id row"] by (simp add: get_order_row_def or_key_def)
  then show "db_orders s' = db_orders s @ [row]" by (simp add: s' put_order_def put_row_append)
qed

lemma reject_request_adds:
  assumes "reject_request e u q reason s = (Inr resp, s')"
  shows "adds_rejection s s' reason \<and> resp = resp_err (Some (ev_orderid e)) (MReason reason) 400"
proof -
  obtain row s1 where c: "create_order (request_row e u q 0 SRejected (Some reason)) s = (Inr row, s1)"
    and eq: "s' = s1" "resp = resp_err (Some (or_orderid row)) (MReason reason) 400"
    using assms by (auto simp: reject_request_def split: sum.splits prod.splits)
  have "row = request_row e u q 0 SRejected (Some reason)" using c by (auto simp: create_order_def split: if_splits)
  then have "or_orderid row = ev_orderid e" by (simp add: request_row_def)
  then show ?thesis using create_order_appends [OF c] eq
    by (simp add: adds_rejection_def) (simp add: request_row_def new_order_def)
qed

lemma adds_rejection_via:
  "adds_rejection s1 t reason \<Longrightarrow> db_orders s1 = db_orders s \<Longrightarrow> db_trades s1 = db_trades s \<Longrightarrow>
   db_positions s1 = db_positions s \<Longrightarrow> db_holdings s1 = db_holdings s \<Longrightarrow> (\<And>v. fund_of s1 v = fund_of s v) \<Longrightarrow>
   adds_rejection s t reason"
  by (simp add: adds_rejection_def)

text \<open>C21: a rejected order costs nothing. Whenever placing an order answers with an error, the
  answer carries the reason, exactly one row was added to the order book, with status rejected,
  that reason and no margin, and trades, positions, holdings and every user's funds are as
  before.\<close>

theorem rejected_order_harmless:
  assumes "place_order e u q s = (Inr resp, s')" and "\<not> rs_ok resp"
  shows "\<exists>reason. adds_rejection s s' reason \<and> resp = resp_err (Some (ev_orderid e)) (MReason reason) 400"
proof -
  have accept: "\<exists>reason. adds_rejection s s' reason \<and> resp = resp_err (Some (ev_orderid e)) (MReason reason) 400"
    if a: "accept_order e u q m s = (Inr resp, s')" for m
  proof -
    obtain b err s1 where bl: "block_margin s u m = ((b, err), s1)" by (metis prod.collapse)
    have "\<not> b"
    proof
      assume b
      with a bl have "rs_ok resp"
        by (auto simp: accept_order_def resp_ok_def split: sum.splits prod.splits option.splits if_splits)
      with assms(2) show False by simp
    qed
    then obtain reason where r: "reject_request e u q reason s1 = (Inr resp, s')"
      using a bl by (auto simp: accept_order_def)
    have s1: "s1 = snd (ensure_fund_row s u)" using bl \<open>\<not> b\<close> by (auto simp: block_margin_eq split: if_splits)
    have "adds_rejection s s' reason"
      by (rule adds_rejection_via [OF conjunct1 [OF reject_request_adds [OF r]]]) (simp_all add: s1)
    with reject_request_adds [OF r] show ?thesis by blast
  qed
  show ?thesis
    using assms(1) accept reject_request_adds
    by (auto simp: place_order_def Let_def split: sum.splits prod.splits option.splits) blast+
qed

theorem rejected_order_harmless_witness:
  "\<exists>reason. adds_rejection demo_install (snd (place_order demo_env 7 (demo_req\<lparr>rq_symbol := ''NOSUCH''\<rparr>) demo_install)) reason"
proof -
  let ?p = "place_order demo_env 7 (demo_req\<lparr>rq_symbol := ''NOSUCH''\<rparr>) demo_install"
  have "(case fst ?p of Inr r \<Rightarrow> \<not> rs_ok r | Inl x \<Rightarrow> False)" by code_simp
  then obtain r where "fst ?p = Inr r" "\<not> rs_ok r" by (cases "fst ?p") auto
  then have "?p = (Inr r, snd ?p)" "\<not> rs_ok r" by (metis prod.collapse)+
  from rejected_order_harmless [OF this] show ?thesis by blast
qed

section \<open>Cancelling everything\<close>

lemma om_cancel_some:
  assumes "get_order_row (u, oid) s = Some r" "pending_status (or_status r)"
  shows "om_cancel_order u oid s = (Some (r\<lparr>or_status := SCancelled\<rparr>), put_order (r\<lparr>or_status := SCancelled\<rparr>) s)"
  using assms by (simp add: om_cancel_order_def Let_def)

lemma cancel_loop_effect:
  assumes "\<And>r. r \<in> set rs \<Longrightarrow> get_order_row (or_key r) s = Some r \<and> pending_status (or_status r) \<and> or_user_id r = u"
    and "distinct (map or_key rs)" and "cancel_loop u rs s = (ids, t)"
  shows "ids = map or_orderid rs \<and>
     (\<forall>k. get_order_row k t = (if k \<in> or_key ` set rs
        then map_option (\<lambda>r. r\<lparr>or_status := SCancelled\<rparr>) (get_order_row k s) else get_order_row k s))"
  using assms
proof (induction rs arbitrary: s ids)
  case (Cons r rs)
  let ?c = "r\<lparr>or_status := SCancelled\<rparr>"
  have key: "or_key r = (u, or_orderid r)" using Cons.prems(1) [of r] by (simp add: or_key_def)
  have c: "om_cancel_order u (or_orderid r) s = (Some ?c, put_order ?c s)"
    using Cons.prems(1) [of r] key by (intro om_cancel_some) simp_all
  define s1 where "s1 = (if or_margin_blocked ?c \<noteq> 0 then release_margin (put_order ?c s) u (or_margin_blocked ?c) 0 else put_order ?c s)"
  obtain ids' where l: "cancel_loop u rs s1 = (ids', t)" "ids = or_orderid r # ids'"
    using Cons.prems(3) c by (auto simp: s1_def Let_def split: prod.splits if_splits)
  have ck: "or_key ?c = or_key r" by (simp add: or_key_def)
  have g: "get_order_row k s1 = (if k = or_key r then Some ?c else get_order_row k s)" for k
    by (simp add: s1_def get_order_row_def put_order_def get_put_row ck)
  have n: "or_key r \<notin> or_key ` set rs" using Cons.prems(2) by simp
  have rows: "get_order_row (or_key q) s1 = Some q \<and> pending_status (or_status q) \<and> or_user_id q = u"
    if "q \<in> set rs" for q
  proof -
    have "or_key q \<noteq> or_key r" using n imageI [OF that, of or_key] by metis
    then show ?thesis using Cons.prems(1) [of q] that by (simp add: g)
  qed
  note ih = Cons.IH [OF rows _ l(1)]
  show ?case using ih Cons.prems(1) [of r] Cons.prems(2) n l(2) by (auto simp: g)
qed simp

text \<open>Cancel-all cancels all, and nothing else. It reports exactly the user's pending orders;
  afterwards each of them is cancelled and otherwise unchanged, and every other order (of this or
  another user) is untouched, so no order of the user is left pending.\<close>

theorem cancel_all_complete:
  assumes "uniq or_key (db_orders s)" and "cancel_all_orders u s = (ids, t)"
  shows "ids = map or_orderid (list_cancellable_orders s u) \<and>
     (\<forall>k. get_order_row k t =
        (case get_order_row k s of
           Some r \<Rightarrow> Some (if fst k = u \<and> pending_status (or_status r) then r\<lparr>or_status := SCancelled\<rparr> else r)
         | None \<Rightarrow> None))"
proof -
  let ?rs = "list_cancellable_orders s u"
  have rows: "get_order_row (or_key r) s = Some r \<and> pending_status (or_status r) \<and> or_user_id r = u" if "r \<in> set ?rs" for r
    using that get_row_uniq [OF assms(1)] by (auto simp: list_cancellable_orders_def get_order_row_def)
  have d: "distinct (map or_key ?rs)"
    using uniq_filter [OF assms(1)] by (simp add: list_cancellable_orders_def uniq_def)
  note e = cancel_loop_effect [OF rows d assms(2) [unfolded cancel_all_orders_def]]
  have m: "k \<in> or_key ` set ?rs \<longleftrightarrow> fst k = u \<and> pending_status (or_status r)" if r: "get_order_row k s = Some r" for k r
  proof
    assume "k \<in> or_key ` set ?rs"
    then obtain q where "q \<in> set ?rs" "k = or_key q" by auto
    with rows [of q] r show "fst k = u \<and> pending_status (or_status r)" by (auto simp: or_key_def)
  next
    assume "fst k = u \<and> pending_status (or_status r)"
    moreover have "or_key r = k" "r \<in> set (db_orders s)" using ords.get_key [OF r] order_row_mem [OF r] by simp_all
    ultimately show "k \<in> or_key ` set ?rs" by (force simp: list_cancellable_orders_def or_key_def)
  qed
  show ?thesis using e m by (auto split: option.split)
qed

theorem cancel_all_complete_witness:
  "fst (cancel_all_orders 7 demo_placed) = [''26010100000101'']"
proof -
  have u: "uniq or_key (db_orders demo_placed)" using demo_hold(4) by (simp add: uniq_def)
  have "map or_orderid (list_cancellable_orders demo_placed 7) = [''26010100000101'']" by code_simp
  then show ?thesis using cancel_all_complete [OF u, of 7 "fst (cancel_all_orders 7 demo_placed)" "snd (cancel_all_orders 7 demo_placed)"]
    by simp
qed

section \<open>Smart orders\<close>

text \<open>A fill that books a trade either moves the position by the quantity, or the order adds to an open
  position in its direction and the call raises with the position as it was.\<close>

lemma apply_fill_raises:
  "apply_fill now k action q x om s = (Inl e, t) \<Longrightarrow> e = UnboundLocalError"
  by (auto simp: apply_fill_def Let_def fill_events_def split: sum.splits option.splits if_splits)

lemma try_fill_trade:
  assumes "try_fill_order now tid r x s = (res, t)" and "db_trades t \<noteq> db_trades s"
    and "get_order_row (or_key r) s = Some r"
  defines "n \<equiv> po_net_quantity (get_or_create now (order_pos_key r) s)"
    and "sq \<equiv> signed_quantity (upper (or_action r)) (or_quantity r - or_filled_quantity r)"
  shows "case res of
      Inr b \<Rightarrow> \<not> (n \<noteq> 0 \<and> same_direction n sq) \<and>
        (\<exists>p'. get_position (order_pos_key r) t = Some p' \<and> po_net_quantity p' = n + sq)
    | Inl e \<Rightarrow> e = UnboundLocalError \<and> db_positions t = db_positions s \<and> n \<noteq> 0 \<and> same_direction n sq"
proof -
  obtain p r' td s1 res2 s2 where f: "fill now tid (or_user_id r) (or_orderid r) p None s = (Inr (Some (r', td)), s1)"
    and a: "apply_fill now (order_pos_key r) (or_action r) (tr_quantity td) p (or_margin_blocked r) s1 = (res2, s2)"
    and t: "(res, t) = (case res2 of Inl e \<Rightarrow> (Inl e, s2)
       | Inr (realized, rel) \<Rightarrow> (Inr True, if 0 < rel \<or> realized \<noteq> 0 then release_margin s2 (or_user_id r) rel realized else s2))"
    using assms(1,2) by (auto simp: try_fill_order_def dest: fill_none split: option.splits sum.splits prod.splits)
  obtain r0 where r0: "get_order_row (or_user_id r, or_orderid r) s = Some r0" "or_filled_quantity r0 < or_quantity r0"
    "tr_quantity td = or_quantity r0 - or_filled_quantity r0"
    using f by (rule fill_rest)
  have q: "tr_quantity td = or_quantity r - or_filled_quantity r" "0 < tr_quantity td" using r0 assms(3) by (auto simp: or_key_def)
  have g: "get_or_create now (order_pos_key r) s1 = get_or_create now (order_pos_key r) s"
    using fill_frame [OF f] by (simp add: get_or_create_def get_position_def)
  have iff: "(\<exists>e. res2 = Inl e) \<longleftrightarrow> n \<noteq> 0 \<and> same_direction n sq"
    using apply_fill_raises_iff [OF q(2), of now "order_pos_key r" "or_action r" p "or_margin_blocked r" s1]
    unfolding a g Let_def n_def sq_def q(1) [symmetric] by auto
  show ?thesis
  proof (cases res2)
    case (Inl e)
    then show ?thesis using iff t apply_fill_raises [OF a [unfolded Inl]] apply_fill_error [OF a [unfolded Inl]] fill_frame [OF f]
      by auto
  next
    case (Inr b)
    obtain realized rel where b: "b = (realized, rel)" by fastforce
    obtain ev where s2: "s2 = (put_position (fill_written now (order_pos_key r) (or_action r) (tr_quantity td) p (or_margin_blocked r) s1) s1)\<lparr>db_events := ev\<rparr>"
      using apply_fill_ok(1) [OF a [unfolded Inr b]] by blast
    have "get_position (order_pos_key r) t = get_position (order_pos_key r) s2"
      using t by (simp add: Inr b get_position_def)
    then show ?thesis using iff t by (simp add: get_position_written [OF s2] fill_written_sel q g n_def sq_def Inr b)
  qed
qed

lemma place_order_trade:
  assumes "place_order e u q s = (res, t)" and "db_trades t \<noteq> db_trades s" and k: "k = (u, rq_symbol q, rq_exchange q, upper (upper (rq_product q)))"
  defines "n \<equiv> po_net_quantity (get_or_create (ev_now e) k s)"
    and "sq \<equiv> signed_quantity (upper (upper (upper (rq_action q)))) (parse_int (rq_quantity q))"
  shows "case res of
      Inr resp \<Rightarrow> \<not> (n \<noteq> 0 \<and> same_direction n sq) \<and> (\<exists>p'. get_position k t = Some p' \<and> po_net_quantity p' = n + sq)
    | Inl x \<Rightarrow> x = UnboundLocalError \<and> db_positions t = db_positions s \<and> n \<noteq> 0 \<and> same_direction n sq"
proof -
  have rej: "db_trades t = db_trades s" if "reject_request e u q reason s' = (res, t)" "db_trades s' = db_trades s" for reason s'
    using that reject_request_adds [of e u q reason s' "projr res" t]
    by (cases res) (auto simp: adds_rejection_def reject_request_def create_order_def split: if_splits prod.splits sum.splits)
  obtain m where a: "accept_order e u q m s = (res, t)"
    using assms(1,2) rej by (auto simp: place_order_def Let_def split: sum.splits prod.splits option.splits)
  obtain b err s1 where bl: "block_margin s u m = ((b, err), s1)" by (metis prod.collapse)
  have fr: "db_trades s1 = db_trades s" "db_positions s1 = db_positions s"
    using block_margin_frame [of s u m] bl by simp_all
  have b: b using a bl rej [OF _ fr(1)] assms(2) by (auto simp: accept_order_def split: bool.splits)
  let ?row = "request_row e u q m (initial_status (upper (rq_pricetype q))) None"
  have "\<exists>row s2. create_order ?row s1 = (Inr row, s2)"
    using a bl b assms(2) fr by (auto simp: accept_order_def create_order_def split: if_splits)
  then obtain row s2 where c: "create_order ?row s1 = (Inr row, s2)" by blast
  note ca = create_order_appends [OF c]
  have row: "row = ?row" using c by (auto simp: create_order_def split: if_splits)
  have fr2: "db_trades s2 = db_trades s" "db_positions s2 = db_positions s" using ca(1) fr by simp_all
  obtain ltp res' where tf: "try_fill_order (ev_now e) (ev_tradeid e) ?row ltp s2 = (res', t)"
    and res: "case res' of Inl x \<Rightarrow> res = Inl x | Inr y \<Rightarrow> \<exists>resp. res = Inr resp"
    using a bl b c row assms(2) fr2 by (fastforce simp: accept_order_def split: option.splits if_splits sum.splits prod.splits)
  have g: "get_order_row (or_key ?row) s2 = Some ?row" using ca(1) by (simp add: ords.get_put)
  have ok: "order_pos_key ?row = k" by (simp add: order_pos_key_def request_row_def k)
  have goc: "get_or_create (ev_now e) k s2 = get_or_create (ev_now e) k s"
    using fr2 by (simp add: get_or_create_def get_position_def)
  have rw: "or_action ?row = upper (upper (rq_action q))" "or_quantity ?row = parse_int (rq_quantity q)" "or_filled_quantity ?row = 0"
    by (simp_all add: request_row_def)
  from try_fill_trade [OF tf _ g] assms(2) fr2 res show ?thesis
    by (cases res') (auto simp: ok goc rw n_def sq_def)
qed

lemma snapshot_net:
  "(case get_position_snapshot s k of Some (n, m) \<Rightarrow> n | None \<Rightarrow> 0) = po_net_quantity (get_or_create now k s)"
  by (auto simp: get_position_snapshot_def get_or_create_def new_position_def split: option.split prod.split)

text \<open>C20: a smart order that trades reaches its target, unless it adds to what is held. When a call of
  \<open>place_smart_order\<close> books a trade and the position (in the product asked, \<open>MIS\<close> when none is
  given) held \<open>n\<close> before it, there are two cases. If the position was flat or the order works against
  it, reducing, closing or reversing it, the call returns and the net quantity is exactly the
  requested position size. If the order adds to an open position in its direction, the call raises
  the unbound local of \<open>apply_fill\<close> after the trade has been booked, and every position is as it
  was, so the target is not reached.\<close>

theorem smart_order_reaches_target:
  assumes "place_smart_order e u q s = (res, t)" and "db_trades t \<noteq> db_trades s"
    and "rq_position_size q = Some v" "int_of_jval v = Some target"
    and "k = (u, rq_symbol q, rq_exchange q, upper (if rq_product q = [] then ''MIS'' else rq_product q))"
    and "n = po_net_quantity (get_or_create (ev_now e) k s)"
  shows "if n \<noteq> 0 \<and> same_direction n (target - n)
     then res = Inl UnboundLocalError \<and> db_positions t = db_positions s
     else \<exists>resp p'. res = Inr resp \<and> get_position k t = Some p' \<and> po_net_quantity p' = target"
proof -
  let ?prd = "upper (if rq_product q = [] then ''MIS'' else rq_product q)"
  let ?d = "target - n"
  let ?q = "q\<lparr>rq_action := (if 0 < ?d then ''BUY'' else ''SELL''), rq_quantity := JInt \<bar>?d\<bar>,
     rq_pricetype := upper (if rq_pricetype q = [] then ''MARKET'' else rq_pricetype q), rq_product := ?prd\<rparr>"
  have nz: "?d \<noteq> 0"
    using assms unfolding place_smart_order_def Let_def assms(3,4) snapshot_net [where now = "ev_now e"]
    by (auto simp: assms(4))
  have p: "place_order e u ?q s = (res, t)"
    using assms(1) nz unfolding place_smart_order_def Let_def snapshot_net [where now = "ev_now e"]
    by (simp add: assms(3-6))
  have u: "upper ''BUY'' = ''BUY''" "upper ''SELL'' = ''SELL''" by code_simp+
  have sq: "signed_quantity (upper (upper (upper (rq_action ?q)))) (parse_int (rq_quantity ?q)) = ?d"
    using nz by (auto simp: signed_quantity_def u parse_int_def int_of_jval_def)
  have k: "k = (u, rq_symbol ?q, rq_exchange ?q, upper (upper (rq_product ?q)))"
    by (simp add: assms(5))
  from place_order_trade [OF p assms(2) k, unfolded sq, folded assms(6)] show ?thesis
    by (cases res) auto
qed

theorem smart_order_reaches_target_witness:
  "\<exists>p'. get_position (7, ''SBIN'', ''NSE'', ''MIS'')
      (snd (place_smart_order demo_env2 7 (demo_req\<lparr>rq_pricetype := [], rq_position_size := Some (JStr '' 25 '')\<rparr>) demo_install)) = Some p' \<and>
     po_net_quantity p' = 25"
proof -
  let ?q = "demo_req\<lparr>rq_pricetype := [], rq_position_size := Some (JStr '' 25 '')\<rparr>"
  let ?p = "place_smart_order demo_env2 7 ?q demo_install"
  have "length (db_trades (snd ?p)) = 1 \<and>
    po_net_quantity (get_or_create (ev_now demo_env2) (7, ''SBIN'', ''NSE'', ''MIS'') demo_install) = 0" by code_simp
  then have r: "length (db_trades (snd ?p)) = 1"
    "0 = po_net_quantity (get_or_create (ev_now demo_env2) (7, ''SBIN'', ''NSE'', ''MIS'') demo_install)" by simp_all
  have n: "db_trades (snd ?p) \<noteq> db_trades demo_install" using r(1) by (auto simp: demo_install_def empty_db_def)
  have i: "int_of_jval (JStr '' 25 '') = Some 25" by code_simp
  have u: "upper ''MIS'' = ''MIS''" by code_simp
  have k: "(7, ''SBIN'', ''NSE'', ''MIS'') = (7, rq_symbol ?q, rq_exchange ?q, upper (if rq_product ?q = [] then ''MIS'' else rq_product ?q))"
    by (simp add: demo_req_def u)
  show ?thesis using smart_order_reaches_target [OF _ n _ i k r(2)] by (simp add: prod_eq_iff)
qed

section \<open>Margin reconciliation\<close>

text \<open>Reconciling margin pays out what pending orders still hold. When a user's only use of margin is
  one pending order and no position is open, the reconciliation with auto-fix reports success, sets
  the margin in use to zero and frees the order's margin while the order stays pending; cancelling
  that order afterwards frees the same margin again, so the user ends with that much more cash
  than before the order.\<close>

theorem reconcile_then_cancel_pays_twice:
  assumes "get_order_row (u, oid) s = Some r" "pending_status (or_status r)" "0 < or_margin_blocked r" "cents (or_margin_blocked r)"
    and "fd_used_margin (fund_of s u) = or_margin_blocked r"
    and "\<forall>p \<in> set (db_positions s). po_user_id p = u \<longrightarrow> po_net_quantity p = 0"
  shows "fst (fst (reconcile_margin s u True)) \<and>
     get_order_row (u, oid) (snd (reconcile_margin s u True)) = Some r \<and>
     fd_used_margin (fund_of (snd (svc_cancel_order u oid (snd (reconcile_margin s u True)))) u) = 0 \<and>
     fd_available (fund_of (snd (svc_cancel_order u oid (snd (reconcile_margin s u True)))) u) =
       fd_available (fund_of s u) + 2 * or_margin_blocked r"
proof -
  let ?m = "or_margin_blocked r"
  let ?g = "\<lambda>f. f\<lparr>fd_used_margin := 0, fd_available := fd_available f + ?m\<rparr>"
  have none: "filter (\<lambda>p. po_user_id p = u \<and> po_net_quantity p \<noteq> 0) (db_positions s) = []"
    using assms(6) by (auto simp: filter_empty_conv)
  have m: "pyround ?m 2 = ?m" using assms(4) by (rule pyround_cents)
  have e: "fst (ensure_fund_row s u) = fund_of s u" by (simp add: fund_of_def)
  have rec: "fst (fst (reconcile_margin s u True))" "snd (reconcile_margin s u True) = on_fund ?g s u"
    using assms(3)
    by (simp_all add: reconcile_margin_def split_beta Let_def none e assms(5) m on_fund_def)
  have o: "get_order_row (u, oid) (on_fund ?g s u) = Some r"
    using assms(1) by (simp add: get_order_row_def)
  have f: "fund_of (on_fund ?g s u) u = ?g (fund_of s u)" by (simp add: fund_of_on_fund)
  let ?c = "r\<lparr>or_status := SCancelled\<rparr>"
  have "snd (svc_cancel_order u oid (on_fund ?g s u)) = release_margin (put_order ?c (on_fund ?g s u)) u ?m 0"
    using assms(3) by (simp add: svc_cancel_order_def om_cancel_some [OF o assms(2)])
  then have "fund_of (snd (svc_cancel_order u oid (on_fund ?g s u))) u = release_row ?m 0 (?g (fund_of s u))"
    by (simp add: f)
  then show ?thesis using rec o assms(3) by (simp add: release_row_def)
qed

theorem reconcile_then_cancel_pays_twice_witness:
  "orderly demo_placed \<and>
   fd_available (fund_of (snd (svc_cancel_order 7 ''26010100000101'' (snd (reconcile_margin demo_placed 7 True)))) 7) = 10001000"
proof -
  obtain r where r: "get_order_row (7, ''26010100000101'') demo_placed = Some r" "or_status r = SOpen" "or_margin_blocked r = 1000"
  proof -
    have "(case get_order_row (7, ''26010100000101'') demo_placed of None \<Rightarrow> False
      | Some r \<Rightarrow> or_status r = SOpen \<and> or_margin_blocked r = 1000)" by code_simp
    then show thesis using that by (auto split: option.splits)
  qed
  have "cents 1000" by (simp add: cents_def exI [of _ 100000])
  then show ?thesis
    using reconcile_then_cancel_pays_twice [OF r(1)] r demo_orderly
    by (simp add: pending_status_def fund_of_Some [OF demo_fund] demo_hold)
qed

end
