(* ===== verification/Job_Flow.thy ===== *)
theory Job_Flow
  imports Sandbox_System
begin

text \<open>
  What the time-driven parts promise: settlement delivers exactly the due positions, a job of the
  scheduler runs at most once per day or week, a reset touches one user only, and where the code
  falls short (marking to market keeps positions out of settlement; one malformed time stops every
  later job).
\<close>

section \<open>Settlement delivers\<close>

definition hold_key :: "position \<Rightarrow> int \<times> string \<times> string" where
  "hold_key p = (po_user_id p, po_symbol p, po_exchange p)"

lemma settle_holding_key:
  "settle_holding today p x = Some h \<Longrightarrow> (\<And>g. x = Some g \<Longrightarrow> ho_key g = hold_key p) \<Longrightarrow> ho_key h = hold_key p"
  by (auto simp: settle_holding_def Let_def ho_key_def hold_key_def split: option.splits if_splits)

lemma get_holding_delete [simp]: "get_holding k (delete_position q s) = get_holding k s"
  by (simp add: get_holding_def delete_position_def)

lemma settle_one_holding:
  "get_holding k (fst (settle_one today p (s, d))) =
     (if k = hold_key p then (case settle_holding today p (get_holding k s) of Some h \<Rightarrow> Some h | None \<Rightarrow> get_holding k s)
      else get_holding k s)"
proof -
  have "ho_key h = hold_key p" if "settle_holding today p (get_holding (hold_key p) s) = Some h" for h
    using settle_holding_key [OF that] holds.get_key by blast
  then show ?thesis
    by (auto simp: settle_one_def Let_def hold_key_def [symmetric] holds.get_put split: option.split)
qed

lemma settle_fold_holding:
  "distinct (map hold_key ps) \<Longrightarrow>
   get_holding k (fst (fold (settle_one today) ps (s, d))) =
     (case find (\<lambda>p. hold_key p = k) ps of None \<Rightarrow> get_holding k s
      | Some p \<Rightarrow> (case settle_holding today p (get_holding k s) of Some h \<Rightarrow> Some h | None \<Rightarrow> get_holding k s))"
proof (induction ps arbitrary: s d)
  case (Cons p ps)
  have n: "find (\<lambda>q. hold_key q = hold_key p) ps = None"
    using Cons.prems by (auto simp: find_None_iff image_iff)
  have "get_holding k (fst (fold (settle_one today) ps (fst (settle_one today p (s, d)), snd (settle_one today p (s, d))))) =
     (case find (\<lambda>p. hold_key p = k) ps of None \<Rightarrow> get_holding k (fst (settle_one today p (s, d)))
      | Some q \<Rightarrow> (case settle_holding today q (get_holding k (fst (settle_one today p (s, d)))) of
          Some h \<Rightarrow> Some h | None \<Rightarrow> get_holding k (fst (settle_one today p (s, d)))))"
    using Cons.prems by (intro Cons.IH) simp
  with n show ?case by (auto simp: settle_one_holding split: option.split)
qed simp

lemma find_mem: "distinct (map f ps) \<Longrightarrow> p \<in> set ps \<Longrightarrow> find (\<lambda>q. f q = f p) ps = Some p"
  by (induction ps) (auto simp: image_iff)

lemma settle_quantity:
  assumes "0 < po_net_quantity p" "\<And>h. x = Some h \<Longrightarrow> 0 \<le> ho_quantity h"
  shows "\<exists>h. settle_holding today p x = Some h \<and> ho_quantity h = (case x of Some h \<Rightarrow> ho_quantity h | None \<Rightarrow> 0) + po_net_quantity p"
  using assms by (cases x) (auto simp: settle_holding_def Let_def add_nonneg_pos)

lemma transfers_frame:
  "db_positions (fold (\<lambda>(u, a) t. transfer_margin_to_holdings t u a) d s) = db_positions s \<and>
   db_holdings (fold (\<lambda>(u, a) t. transfer_margin_to_holdings t u a) d s) = db_holdings s"
  by (induction d arbitrary: s) (auto split: prod.split)

text \<open>C34: settlement delivers each due position once and keeps the rest. A long delivery position not
  touched in the current session leaves the position book, and the holding of that share grows by
  exactly its quantity; every other position stays as it is.\<close>

theorem settlement_delivers:
  assumes "uniq po_key (db_positions s)" and "p \<in> set (db_positions s)" "settle_due (session_start_ist s now) p"
    and "\<And>h. get_holding (hold_key p) s = Some h \<Longrightarrow> 0 \<le> ho_quantity h"
  shows "p \<notin> set (db_positions (snd (settle_cnc_to_holdings now s))) \<and>
     (\<exists>h. get_holding (hold_key p) (snd (settle_cnc_to_holdings now s)) = Some h \<and>
        ho_quantity h = (case get_holding (hold_key p) s of Some g \<Rightarrow> ho_quantity g | None \<Rightarrow> 0) + po_net_quantity p) \<and>
     (\<forall>q \<in> set (db_positions s). \<not> settle_due (session_start_ist s now) q \<longrightarrow>
        q \<in> set (db_positions (snd (settle_cnc_to_holdings now s))))"
proof -
  let ?P = "settle_due (session_start_ist s now)"
  let ?due = "filter ?P (db_positions s)"
  obtain s' d where f: "fold (settle_one (day_of now)) ?due (s, []) = (s', d)" by fastforce
  have t: "snd (settle_cnc_to_holdings now s) = fold (\<lambda>(u, a) t. transfer_margin_to_holdings t u a) d s'"
    by (simp add: settle_cnc_to_holdings_def f Let_def)
  have inj: "inj_on po_key (set (db_positions s))" and d0: "distinct (map po_key ?due)"
    using assms(1) uniq_filter [OF assms(1)] by (auto simp: uniq_def distinct_map)
  have "inj_on hold_key (set ?due)"
  proof (rule inj_onI)
    fix a b
    assume ab: "a \<in> set ?due" "b \<in> set ?due" "hold_key a = hold_key b"
    then have "po_key a = po_key b" by (simp add: settle_due_def hold_key_def po_key_def)
    with inj show "a = b" using ab by (simp add: inj_onD)
  qed
  then have dh: "distinct (map hold_key ?due)" using d0 by (simp add: distinct_map)
  have pm: "p \<in> set ?due" "0 < po_net_quantity p" using assms(2,3) by (auto simp: settle_due_def)
  obtain h where h: "settle_holding (day_of now) p (get_holding (hold_key p) s) = Some h"
    "ho_quantity h = (case get_holding (hold_key p) s of Some h \<Rightarrow> ho_quantity h | None \<Rightarrow> 0) + po_net_quantity p"
    using settle_quantity [OF pm(2) assms(4)] by blast
  have "get_holding (hold_key p) s' = Some h"
    using settle_fold_holding [OF dh, of "hold_key p" "day_of now" s "[]"] find_mem [OF dh pm(1)] h(1) by (simp add: f)
  then have gh: "get_holding (hold_key p) (snd (settle_cnc_to_holdings now s)) = Some h"
    unfolding t by (simp add: get_holding_def transfers_frame)
  have ps: "db_positions (snd (settle_cnc_to_holdings now s)) = filter (\<lambda>q. po_key q \<notin> po_key ` set ?due) (db_positions s)"
    unfolding t using settle_fold [OF f] by (simp add: transfers_frame)
  have "po_key q \<notin> po_key ` set ?due" if "q \<in> set (db_positions s)" "\<not> ?P q" for q
    using inj that by (auto dest: inj_onD)
  with ps gh h(2) pm(1) show ?thesis by auto
qed

definition demo_cnc :: db where
  "demo_cnc = empty_db\<lparr>db_positions := [(new_position 0 (7, ''SBIN'', ''NSE'', ''CNC''))\<lparr>po_net_quantity := 5, po_average_price := 100\<rparr>]\<rparr>"

theorem settlement_delivers_witness:
  "\<exists>h. get_holding (7, ''SBIN'', ''NSE'') (snd (settle_cnc_to_holdings (2 * usec_per_day) demo_cnc)) = Some h \<and> ho_quantity h = 5"
proof -
  let ?p = "(new_position 0 (7, ''SBIN'', ''NSE'', ''CNC''))\<lparr>po_net_quantity := 5, po_average_price := 100\<rparr>"
  have due: "settle_due (session_start_ist demo_cnc (2 * usec_per_day)) ?p" by code_simp
  have u: "uniq po_key (db_positions demo_cnc)" and m: "?p \<in> set (db_positions demo_cnc)"
    and g: "get_holding k demo_cnc = None" and k: "hold_key ?p = (7, ''SBIN'', ''NSE'')" for k
    by (simp_all add: demo_cnc_def uniq_def get_holding_def empty_db_def hold_key_def new_position_def)
  have n: "po_net_quantity ?p = 5" by simp
  from settlement_delivers [OF u m due] g k n show ?thesis by auto
qed

section \<open>Marking to market postpones settlement\<close>

text \<open>A position that is marked to market is not settled that day. A pass that finds a new price for
  an open position rewrites its row and with it the column settlement reads as the time of the last
  trade: until the session in which the pass ran is over, the position is never due, however long
  ago it was bought. With a pass every few seconds of the day, a delivery position whose share has
  a price is never delivered by the evening settlement.\<close>

theorem marking_postpones_settlement:
  assumes "p \<in> set (db_positions s)" "po_net_quantity p \<noteq> 0" "live_quote quote p = Some ltp"
    and "mark_row ltp p \<noteq> p" and "cutoff \<le> now"
  shows "\<exists>p' \<in> set (db_positions (snd (refresh_once now quote s))). po_key p' = po_key p \<and>
     po_net_quantity p' = po_net_quantity p \<and> \<not> settle_due cutoff p'"
proof -
  have fr: "db_positions (fold (\<lambda>(u, t) s. set_unrealized_pnl s u (pyround t 2)) d t) = db_positions t" for d t
    by (induction d arbitrary: t) (auto simp: set_unrealized_pnl_def split_beta)
  have ps: "db_positions (snd (refresh_once now quote s)) = map (refresh_row now quote) (db_positions s)"
    by (simp add: refresh_once_def Let_def fr)
  let ?q = "refresh_row now quote p"
  have q: "?q = (mark_row ltp p)\<lparr>po_updated_at := now\<rparr>"
    using assms(2-4) by (simp add: refresh_row_def orm_touch_def)
  have "po_key ?q = po_key p" "po_net_quantity ?q = po_net_quantity p" "\<not> settle_due cutoff ?q"
    using assms(5) by (simp_all add: q settle_due_def mark_row_def Let_def po_key_def)
  moreover have "?q \<in> set (db_positions (snd (refresh_once now quote s)))" using assms(1) by (simp add: ps)
  ultimately show ?thesis by blast
qed

theorem marking_postpones_settlement_witness:
  "\<exists>p' \<in> set (db_positions (snd (refresh_once (2 * usec_per_day) (\<lambda>u s e. Some 101) demo_cnc))).
     \<not> settle_due (session_start_ist demo_cnc (2 * usec_per_day)) p'"
proof -
  let ?p = "(new_position 0 (7, ''SBIN'', ''NSE'', ''CNC''))\<lparr>po_net_quantity := 5, po_average_price := 100\<rparr>"
  have m: "?p \<in> set (db_positions demo_cnc)" by (simp add: demo_cnc_def)
  have "po_ltp (mark_row 101 ?p) = 101" by code_simp
  then have c: "mark_row 101 ?p \<noteq> ?p" by (auto simp: new_position_def)
  show ?thesis
    using marking_postpones_settlement [OF m _ _ c session_start_le [of demo_cnc "2 * usec_per_day"], of "\<lambda>u s e. Some 101"]
    by (auto simp: live_quote_def)
qed

section \<open>The jobs leave the configuration alone\<close>

definition same_config :: "db \<Rightarrow> db \<Rightarrow> bool" where
  "same_config s t \<longleftrightarrow> db_config t = db_config s"

interpretation cfg: step_preorder same_config
  by unfold_locales (auto simp: same_config_def)

lemma cfg_simp: "same_config s t \<longleftrightarrow> db_config t = db_config s"
  by (simp add: same_config_def)

lemma try_fill_config: "same_config s (snd (try_fill_order now tid r x s))"
  by (auto simp: try_fill_order_def cfg_simp dest!: fill_frame dest: apply_fill_frame(5) split: option.split sum.split prod.split)

lemma create_config: "create_order row s = (res, s') \<Longrightarrow> db_config s' = db_config s"
  by (auto simp: create_order_def split: if_splits)

lemma reject_config: "same_config s (snd (reject_request e u q reason s))"
  by (auto simp: reject_request_def cfg_simp dest!: create_config split: sum.split prod.split)

lemma accept_config: "same_config s (snd (accept_order e u q m s))"
proof -
  obtain b err s1 where bl: "block_margin s u m = ((b, err), s1)" by (metis prod.collapse)
  have s1: "same_config s s1" using block_margin_frame(5) [of s u m] bl by (simp add: cfg_simp)
  let ?row = "request_row e u q m (initial_status (upper (rq_pricetype q))) None"
  obtain res s2 where c: "create_order ?row s1 = (res, s2)" by fastforce
  have s2: "same_config s s2" using s1 create_config [OF c] by (simp add: cfg_simp)
  have s3: "same_config s (snd (try_fill_order (ev_now e) (ev_tradeid e) r x s2))" for r x
    by (rule cfg.trans [OF s2 try_fill_config])
  have rej: "same_config s (snd (reject_request e u q rs s1))" for rs by (rule cfg.trans [OF s1 reject_config])
  show ?thesis
    using s2 s3 rej bl c
    by (auto simp: accept_order_def split: bool.split sum.split option.split prod.split) (metis snd_conv)+
qed

lemma place_config: "same_config s (snd (place_order e u q s))"
  by (auto simp: place_order_def Let_def reject_config accept_config cfg.refl split: sum.split prod.split option.split)

lemma squareoff_loop_config: "same_config s (snd (squareoff_loop envs i ps s))"
proof (induction ps arbitrary: i s)
  case (Cons p ps)
  let ?q = "market_close (po_symbol p) (po_exchange p) ''MIS'' (po_net_quantity p) ''auto_squareoff''"
  have "same_config s (snd (squareoff_loop envs (Suc i) ps (snd (place_order (envs i) (po_user_id p) ?q s))))"
    using place_config Cons.IH by (rule cfg.trans)
  then show ?case by (simp add: Let_def split_beta)
qed (simp add: cfg.refl)

lemma cancel_pending_config: "same_config s (snd (cancel_pending_mis_orders exs s))"
proof -
  have "same_config t (fold (\<lambda>(u, amount) t. release_margin t u amount 0) d t)" for d t
    by (rule cfg.fold_steps) (simp add: cfg_simp split_beta)
  then show ?thesis by (simp add: cancel_pending_mis_orders_def Let_def cfg_simp)
qed

lemma squareoff_config: "same_config s (snd (squareoff_bucket envs b s))"
  by (auto simp: squareoff_bucket_def Let_def cfg.refl split: option.split
      intro: cfg.trans [OF cancel_pending_config squareoff_loop_config])

lemma settle_config: "same_config s (snd (settle_cnc_to_holdings now s))"
proof -
  obtain s' d where f: "fold (settle_one (day_of now)) (filter (settle_due (session_start_ist s now)) (db_positions s)) (s, []) = (s', d)"
    by fastforce
  have "same_config s' (fold (\<lambda>(u, amount) t. transfer_margin_to_holdings t u amount) d s')"
    by (rule cfg.fold_steps) (simp add: cfg_simp split_beta)
  with settle_fold [OF f] show ?thesis by (simp add: settle_cnc_to_holdings_def f cfg_simp Let_def)
qed

lemma expired_config: "same_config s (snd (close_expired_fno_positions now quote s))"
proof -
  have "same_config t (fold apply_release d t)" for d t
    by (rule cfg.fold_steps) (simp add: cfg_simp apply_release_def Let_def split: prod.split)
  then have "same_config s (snd (run_force_close now close s))" for close
    by (simp add: run_force_close_def cfg_simp split_beta)
  then show ?thesis by (auto simp: close_expired_fno_positions_def Let_def cfg.refl split_beta)
qed

lemma wipe_config: "same_config s (snd (wipe_all_users s))"
proof -
  have "same_config t (fold (\<lambda>u t. reset_funds t u) us t)" for us t
    by (rule cfg.fold_steps) (simp add: cfg_simp reset_funds_eq)
  then show ?thesis by (simp add: wipe_all_users_def Let_def cfg_simp)
qed

lemma run_job_config: "db_config (run_job e j s) = db_config s"
proof -
  have "same_config s (run_job e j s)"
  proof (cases j)
    case EodSettle
    then show ?thesis using settle_config by (simp add: run_job_def Let_def snapshot_for_date_def cfg_simp)
  next
    case DailyReset
    have "same_config s (snd (reset_today_pnl s))" by (simp add: cfg_simp reset_today_pnl_def Let_def)
    from cfg.trans [OF this expired_config] DailyReset show ?thesis by (simp add: run_job_def Let_def)
  qed (simp_all add: run_job_def squareoff_config wipe_config)
  then show ?thesis by (simp add: cfg_simp)
qed

section \<open>Once per day\<close>

lemma read_str_cong: "db_config s = db_config t \<Longrightarrow> read_str s k x = read_str t k x"
  by (simp add: read_str_def get_config_def)

lemma read_mark_ran: "read_last_run (mark_ran j d s) i = (if i = j then d else read_last_run s i)"
  by (auto simp: read_last_run_def mark_ran_def read_str_def sched_key_def cfgs.get_put split: option.split dest: cfgs.get_key)

lemma job_name_inj: "job_name i = job_name j \<longleftrightarrow> i = j"
  by (cases i; cases j) (auto simp: job_name_def)

lemma sched_jobs_stamps:
  assumes "sched_jobs e js s = ((jobs, x), t)"
  shows "read_last_run t (job_name i) = (if i \<in> set jobs then job_stamp (se_now e) i else read_last_run s (job_name i))"
  using assms
proof (induction js arbitrary: s jobs)
  case (Cons j js)
  show ?case
  proof (cases "job_due j (se_now e) s")
    case (Inl y)
    with Cons.prems show ?thesis by auto
  next
    case (Inr b)
    show ?thesis
    proof (cases b)
      case False
      with Cons Inr show ?thesis by simp
    next
      case True
      let ?s = "mark_ran (job_name j) (job_stamp (se_now e) j) (run_job e j s)"
      obtain jobs' where l: "sched_jobs e js ?s = ((jobs', x), t)" "jobs = j # jobs'"
        using Cons.prems Inr True by (auto simp: Let_def split: prod.splits)
      have "read_last_run (run_job e j s) i = read_last_run s i" for i
        by (simp add: read_last_run_def read_str_cong [OF run_job_config])
      with Cons.IH [OF l(1)] show ?thesis by (auto simp: l(2) read_mark_ran job_name_inj)
    qed
  qed
qed simp

lemma sched_jobs_fresh:
  assumes "sched_jobs e js s = ((jobs, x), t)" "distinct js" "i \<in> set jobs"
  shows "i \<in> set js \<and> read_last_run s (job_name i) \<noteq> job_stamp (se_now e) i"
  using assms
proof (induction js arbitrary: s jobs)
  case (Cons j js)
  show ?case
  proof (cases "job_due j (se_now e) s")
    case (Inl y)
    with Cons.prems show ?thesis by auto
  next
    case (Inr b)
    show ?thesis
    proof (cases b)
      case False
      with Cons Inr show ?thesis by simp
    next
      case True
      let ?s = "mark_ran (job_name j) (job_stamp (se_now e) j) (run_job e j s)"
      obtain jobs' where l: "sched_jobs e js ?s = ((jobs', x), t)" "jobs = j # jobs'"
        using Cons.prems Inr True by (auto simp: Let_def split: prod.splits)
      have rj: "read_last_run (run_job e j s) i = read_last_run s i" for i
        by (simp add: read_last_run_def read_str_cong [OF run_job_config])
      have nr: "read_last_run s (job_name j) \<noteq> job_stamp (se_now e) j"
        using Inr True by (auto simp: job_due_def due_today_def due_weekly_def Let_def split: job.splits if_splits)
      show ?thesis
      proof (cases "i = j")
        case True
        with nr show ?thesis by simp
      next
        case False
        with Cons.prems(3) l(2) have "i \<in> set jobs'" by simp
        from Cons.IH [OF l(1) _ this] Cons.prems(2) False show ?thesis by (auto simp: read_mark_ran rj job_name_inj)
      qed
    qed
  qed
qed simp

text \<open>A scheduled job runs at most once per day (the weekly wipe: once per ISO week). Whatever a
  pass ran, a later pass with the same date, or for the wipe the same week, does not run it again,
  even if a later job of the first pass could not be evaluated.\<close>

theorem job_runs_once:
  assumes "sched_tick e s = ((jobs, x), t)" and "sched_tick e' t = ((jobs', x'), t')"
    and "j \<in> set jobs" and "job_stamp (se_now e') j = job_stamp (se_now e) j"
  shows "j \<notin> set jobs'"
proof
  assume "j \<in> set jobs'"
  have "distinct ALL_JOBS" by (simp add: ALL_JOBS_def)
  with sched_jobs_fresh [OF assms(2) [unfolded sched_tick_def]] \<open>j \<in> set jobs'\<close>
  have "read_last_run t (job_name j) \<noteq> job_stamp (se_now e') j" by blast
  with sched_jobs_stamps [OF assms(1) [unfolded sched_tick_def], of j] assms(3,4) show False by simp
qed

text \<open>Five minutes past midnight and four in the afternoon of the same day.\<close>

definition demo_sched :: "datetime \<Rightarrow> sched_env" where
  "demo_sched now = \<lparr>se_now = now, se_quote = (\<lambda>u s e. None), se_envs = (\<lambda>b i. demo_env), se_db_day = day_of\<rparr>"

lemma demo_sched_first: "fst (sched_tick (demo_sched (738 * usec_per_day + 300000000)) demo_install) = ([DailyReset], None)"
  by code_simp

theorem job_runs_once_witness:
  "DailyReset \<notin> set (fst (fst (sched_tick (demo_sched (738 * usec_per_day + 57600000000))
     (snd (sched_tick (demo_sched (738 * usec_per_day + 300000000)) demo_install)))))"
proof -
  let ?e = "demo_sched (738 * usec_per_day + 300000000)" and ?e' = "demo_sched (738 * usec_per_day + 57600000000)"
  let ?t = "snd (sched_tick ?e demo_install)"
  have a: "sched_tick ?e demo_install = (([DailyReset], None), ?t)" using demo_sched_first by (simp add: prod_eq_iff)
  have b: "sched_tick ?e' ?t = ((fst (fst (sched_tick ?e' ?t)), snd (fst (sched_tick ?e' ?t))), snd (sched_tick ?e' ?t))" by simp
  have "job_stamp (se_now ?e') DailyReset = job_stamp (se_now ?e) DailyReset"
    by (simp add: job_stamp_def demo_sched_def day_of_def usec_per_day_def)
  from job_runs_once [OF a b _ this] show ?thesis by simp
qed

text \<open>One malformed time stops the scheduler. When the first square-off time in the configuration has
  an hour or minute out of range (a write the admin endpoint accepts), every pass raises before it
  looks at any other job and changes nothing: no square-off of any bucket, no settlement, no daily
  reset and no weekly wipe runs, on this and every later day, until the value is corrected.\<close>

theorem bad_time_stops_scheduler:
  assumes "split_hm (strip (read_str s ''squareoff_nse_nfo_bse_bfo'' ''15:15'')) = Some (h, m)" and "\<not> valid_hm h m"
    and "read_last_run s ''squareoff_nse_nfo_bse_bfo'' \<noteq> isoformat (day_of (se_now e))"
  shows "sched_tick e s = (([], Some ValueError), s)"
proof -
  have n: "job_name (SquareoffJob ''nse_nfo_bse_bfo'') = ''squareoff_nse_nfo_bse_bfo''" by (simp add: job_name_def)
  have "job_due (SquareoffJob ''nse_nfo_bse_bfo'') (se_now e) s = Inl ValueError"
    using assms by (simp add: job_due_def n job_stamp_def due_today_def replace_hm_def Let_def)
  then show ?thesis by (simp add: sched_tick_def ALL_JOBS_def)
qed

theorem bad_time_stops_scheduler_witness:
  "sched_tick (demo_sched (738000 * usec_per_day)) (demo_install\<lparr>db_config := [new_config ''squareoff_nse_nfo_bse_bfo'' ''25:00'']\<rparr>) =
   (([], Some ValueError), demo_install\<lparr>db_config := [new_config ''squareoff_nse_nfo_bse_bfo'' ''25:00'']\<rparr>)"
proof -
  let ?s = "demo_install\<lparr>db_config := [new_config ''squareoff_nse_nfo_bse_bfo'' ''25:00'']\<rparr>"
  have a: "split_hm (strip (read_str ?s ''squareoff_nse_nfo_bse_bfo'' ''15:15'')) = Some (25, 0)" by code_simp
  have b: "\<not> valid_hm 25 0" by (simp add: valid_hm_def)
  have "read_last_run ?s ''squareoff_nse_nfo_bse_bfo'' = []" by code_simp
  moreover have "isoformat (day_of (se_now (demo_sched (738000 * usec_per_day)))) \<noteq> []"
    by (simp add: isoformat_def split: prod.split)
  ultimately show ?thesis using bad_time_stops_scheduler [OF a b] by metis
qed

section \<open>Resets\<close>

text \<open>A reset is private and complete. Resetting one user removes all their orders, trades, positions
  and holdings and gives them a fund row worth exactly the configured starting capital with nothing
  in use; every row and the funds of every other user are as before.\<close>

theorem reset_is_private:
  "(\<forall>r. r \<in> set (db_orders (reset_my_sandbox u s)) \<longleftrightarrow> r \<in> set (db_orders s) \<and> or_user_id r \<noteq> u) \<and>
   (\<forall>t. t \<in> set (db_trades (reset_my_sandbox u s)) \<longleftrightarrow> t \<in> set (db_trades s) \<and> tr_user_id t \<noteq> u) \<and>
   (\<forall>p. p \<in> set (db_positions (reset_my_sandbox u s)) \<longleftrightarrow> p \<in> set (db_positions s) \<and> po_user_id p \<noteq> u) \<and>
   (\<forall>h. h \<in> set (db_holdings (reset_my_sandbox u s)) \<longleftrightarrow> h \<in> set (db_holdings s) \<and> ho_user_id h \<noteq> u) \<and>
   (\<forall>v. fund_of (reset_my_sandbox u s) v =
      (if v = u then \<lparr>fd_user_id = u, fd_starting_capital = get_starting_capital s, fd_available = get_starting_capital s,
          fd_used_margin = 0, fd_realized_pnl = 0, fd_today_realized_pnl = 0, fd_unrealized_pnl = 0\<rparr>
       else fund_of s v))"
proof -
  let ?s = "s\<lparr>db_orders := filter (\<lambda>r. or_user_id r \<noteq> u) (db_orders s),
     db_trades := filter (\<lambda>t. tr_user_id t \<noteq> u) (db_trades s),
     db_positions := filter (\<lambda>p. po_user_id p \<noteq> u) (db_positions s),
     db_holdings := filter (\<lambda>h. ho_user_id h \<noteq> u) (db_holdings s)\<rparr>"
  have fo: "fund_of ?s v = fund_of s v" for v by (rule fund_of_cong) simp_all
  have c: "get_starting_capital ?s = get_starting_capital s" by (rule starting_capital_cong) simp
  have "reset_row c f = \<lparr>fd_user_id = fd_user_id f, fd_starting_capital = c, fd_available = c,
          fd_used_margin = 0, fd_realized_pnl = 0, fd_today_realized_pnl = 0, fd_unrealized_pnl = 0\<rparr>" for c f
    by (cases f) (simp add: reset_row_def)
  then have fu: "fund_of (reset_my_sandbox u s) v =
      (if v = u then \<lparr>fd_user_id = u, fd_starting_capital = get_starting_capital s, fd_available = get_starting_capital s,
          fd_used_margin = 0, fd_realized_pnl = 0, fd_today_realized_pnl = 0, fd_unrealized_pnl = 0\<rparr>
       else fund_of s v)" for v
    by (simp add: reset_my_sandbox_def fund_of_reset fo c)
  show ?thesis using fu by (simp add: reset_my_sandbox_def reset_funds_eq)
qed

section \<open>Configuration\<close>

lemma seed_fold:
  "distinct (map fst kvs) \<Longrightarrow>
   get_config k (fold (\<lambda>(j, v) t. if get_config j s = None then put_config (new_config j v) t else t) kvs t) =
     (if get_config k s = None \<and> k \<in> fst ` set kvs
      then map_option (new_config k) (map_of kvs k) else get_config k t)"
proof (induction kvs arbitrary: t)
  case (Cons kv kvs)
  obtain j v where kv: "kv = (j, v)" by fastforce
  have c: "cf_key (new_config j v) = j" by (simp add: new_config_def)
  let ?t = "if get_config j s = None then put_config (new_config j v) t else t"
  have "get_config k (fold (\<lambda>(j, v) t. if get_config j s = None then put_config (new_config j v) t else t) kvs ?t) =
     (if get_config k s = None \<and> k \<in> fst ` set kvs then map_option (new_config k) (map_of kvs k) else get_config k ?t)"
    using Cons.prems by (intro Cons.IH) simp
  moreover have "j \<notin> fst ` set kvs" using Cons.prems kv by simp
  ultimately show ?case by (auto simp: kv cfgs.get_put c)
qed simp

text \<open>Seeding fills gaps only. Afterwards every default key has a row, a key that had one keeps it
  untouched (whatever the administrator set), and seeding again changes nothing.\<close>

theorem seeding_fills_gaps:
  "(\<forall>k \<in> fst ` set DEFAULT_CONFIGS. get_config k (seed_defaults s) =
      Some (case get_config k s of Some r \<Rightarrow> r | None \<Rightarrow> new_config k (the (map_of DEFAULT_CONFIGS k)))) \<and>
   (\<forall>k. k \<notin> fst ` set DEFAULT_CONFIGS \<longrightarrow> get_config k (seed_defaults s) = get_config k s) \<and>
   seed_defaults (seed_defaults s) = seed_defaults s"
proof -
  have d: "distinct (map fst DEFAULT_CONFIGS)" by (simp add: DEFAULT_CONFIGS_def)
  have g: "get_config k (seed_defaults s) = (if get_config k s = None \<and> k \<in> fst ` set DEFAULT_CONFIGS
      then map_option (new_config k) (map_of DEFAULT_CONFIGS k) else get_config k s)" for k s
    unfolding seed_defaults_def using seed_fold [OF d, of k s s] by simp
  have all: "get_config j (seed_defaults s) \<noteq> None" if "j \<in> fst ` set DEFAULT_CONFIGS" for j
    using g [of j s] that map_of_eq_None_iff [of DEFAULT_CONFIGS j] by auto
  have noop: "fold (\<lambda>(j, v) t. if get_config j q = None then put_config (new_config j v) t else t) kvs t = t"
    if "\<forall>j \<in> fst ` set kvs. get_config j q \<noteq> None" for kvs q t
    using that by (induction kvs arbitrary: t) auto
  have "seed_defaults (seed_defaults s) = seed_defaults s"
    unfolding seed_defaults_def [of "seed_defaults s"] by (rule noop) (use all in blast)
  moreover have "get_config k (seed_defaults s) =
      Some (case get_config k s of Some r \<Rightarrow> r | None \<Rightarrow> new_config k (the (map_of DEFAULT_CONFIGS k)))"
    if "k \<in> fst ` set DEFAULT_CONFIGS" for k
    using g [of k s] that map_of_eq_None_iff [of DEFAULT_CONFIGS k] by (auto split: option.split)
  ultimately show ?thesis using g by simp
qed

theorem seeding_fills_gaps_witness:
  "get_config ''leverage_mis'' (seed_defaults demo_install) = Some (new_config ''leverage_mis'' ''5'')"
proof -
  have k: "''leverage_mis'' \<in> fst ` set DEFAULT_CONFIGS" by (simp add: DEFAULT_CONFIGS_def)
  have "get_config ''leverage_mis'' demo_install = None" "map_of DEFAULT_CONFIGS ''leverage_mis'' = Some ''5''"
    by (simp_all add: get_config_def demo_install_def empty_db_def DEFAULT_CONFIGS_def)
  with bspec [OF conjunct1 [OF seeding_fills_gaps [of demo_install]] k] show ?thesis by simp
qed

end
