(* ===== verification/Quote_Helper.thy ===== *)
theory Quote_Helper
  imports Prelude
begin

text \<open>
  LTP lookup with a broker-quote fallback and its positive and negative cache
  (\<open>src/backend/sandbox/quote_helper.py\<close>). The tick cache's answer and the broker's reply are
  arguments: \<open>cached\<close> is what \<open>MarketDataCache.get_ltp_value\<close> returned, \<open>broker\<close> what the
  resolved broker module's \<open>get_quotes\<close> did. Monotonic time is a rational number of seconds.
\<close>

definition BROKER_QUOTE_TTL :: rat where
  "BROKER_QUOTE_TTL = 5"

definition BROKER_QUOTE_FAIL_TTL :: rat where
  "BROKER_QUOTE_FAIL_TTL = 300"

type_synonym quote_key = "string \<times> string"

text \<open>\<open>(symbol, exchange) \<mapsto> (timestamp, ltp)\<close>; an \<open>ltp\<close> of \<open>None\<close> is a remembered miss.\<close>

type_synonym quote_cache = "quote_key \<rightharpoonup> (rat \<times> rat option)"

datatype cache_answer = NoEntry | NegCached | Cached rat

definition cache_get :: "quote_cache \<Rightarrow> rat \<Rightarrow> quote_key \<Rightarrow> cache_answer" where
  "cache_get c now k =
     (case c k of
        None \<Rightarrow> NoEntry
      | Some (ts, None) \<Rightarrow> if BROKER_QUOTE_FAIL_TTL < now - ts then NoEntry else NegCached
      | Some (ts, Some ltp) \<Rightarrow> if BROKER_QUOTE_TTL < now - ts then NoEntry else Cached ltp)"

definition cache_put :: "quote_cache \<Rightarrow> rat \<Rightarrow> quote_key \<Rightarrow> rat \<Rightarrow> quote_cache" where
  "cache_put c now k ltp = c(k \<mapsto> (now, Some ltp))"

definition cache_put_miss :: "quote_cache \<Rightarrow> rat \<Rightarrow> quote_key \<Rightarrow> quote_cache" where
  "cache_put_miss c now k = c(k \<mapsto> (now, None))"

text \<open>What the fallback meets outside the program: no linked broker, no such broker module, a call
  that raises, or a result, which is either not a dict or a dict with the three price fields.\<close>

datatype broker_reply =
    NoBroker
  | NoModule
  | QuoteRaises
  | NotADict
  | QuoteDict "string \<Rightarrow> jval"

definition number_of_field :: "jval \<Rightarrow> rat option" where
  "number_of_field v =
     (case v of
        JInt n \<Rightarrow> if 0 < n then Some (of_int n) else None
      | JBool b \<Rightarrow> if b then Some 1 else None
      | JFloat x \<Rightarrow> if 0 < x then Some x else None
      | JStr t \<Rightarrow> (case py_float t of Some x \<Rightarrow> if 0 < x then Some x else None | None \<Rightarrow> None)
      | JNone \<Rightarrow> None)"

definition quote_fields :: "string list" where
  "quote_fields = [''ltp'', ''last_price'', ''lastPrice'']"

text \<open>The first field with a positive number wins.\<close>

fun first_number :: "(string \<Rightarrow> jval) \<Rightarrow> string list \<Rightarrow> rat option" where
  "first_number d [] = None"
| "first_number d (k # ks) =
     (case number_of_field (d k) of Some x \<Rightarrow> Some x | None \<Rightarrow> first_number d ks)"

definition broker_quote_ltp ::
  "quote_cache \<Rightarrow> rat \<Rightarrow> broker_reply \<Rightarrow> quote_key \<Rightarrow> rat option \<times> quote_cache" where
  "broker_quote_ltp c now broker k =
     (case cache_get c now k of
        NegCached \<Rightarrow> (None, c)
      | a \<Rightarrow>
        (case (case a of Cached x \<Rightarrow> if 0 < x then Some x else None | _ \<Rightarrow> None) of
           Some x \<Rightarrow> (Some x, c)
         | None \<Rightarrow>
             (case broker of
                NoBroker \<Rightarrow> (None, c)
              | NoModule \<Rightarrow> (None, c)
              | QuoteRaises \<Rightarrow> (None, cache_put_miss c now k)
              | NotADict \<Rightarrow> (None, cache_put_miss c now k)
              | QuoteDict d \<Rightarrow>
                  (case first_number d quote_fields of
                     None \<Rightarrow> (None, cache_put_miss c now k)
                   | Some x \<Rightarrow> (Some x, cache_put c now k x)))))"

text \<open>\<open>cached\<close> is \<open>None\<close> too when the tick cache lookup raised.\<close>

definition get_ltp ::
  "quote_cache \<Rightarrow> rat \<Rightarrow> rat option \<Rightarrow> broker_reply \<Rightarrow> quote_key \<Rightarrow> rat option \<times> quote_cache" where
  "get_ltp c now cached broker k =
     (case cached of
        Some x \<Rightarrow> if 0 < x then (Some x, c) else broker_quote_ltp c now broker k
      | None \<Rightarrow> broker_quote_ltp c now broker k)"

section \<open>Facts\<close>

text \<open>Every cached price is positive; the operations keep that.\<close>

definition cache_ok :: "quote_cache \<Rightarrow> bool" where
  "cache_ok c \<longleftrightarrow> (\<forall>k ts x. c k = Some (ts, Some x) \<longrightarrow> 0 < x)"

lemma cache_ok_empty: "cache_ok Map.empty"
  by (simp add: cache_ok_def)

lemma number_of_field_pos: "number_of_field v = Some x \<Longrightarrow> 0 < x"
  by (auto simp: number_of_field_def split: jval.splits if_splits option.splits)

lemma first_number_pos: "first_number d ks = Some x \<Longrightarrow> 0 < x"
  by (induction ks) (auto split: option.splits dest: number_of_field_pos)

lemma broker_quote_cache_ok: "cache_ok c \<Longrightarrow> cache_ok (snd (broker_quote_ltp c now b k))"
  unfolding broker_quote_ltp_def
  by (auto simp: cache_ok_def cache_put_def cache_put_miss_def
      split: cache_answer.split option.split broker_reply.split dest: first_number_pos)

lemma broker_quote_pos: "fst (broker_quote_ltp c now b k) = Some x \<Longrightarrow> 0 < x"
  unfolding broker_quote_ltp_def
  by (auto split: cache_answer.splits option.splits broker_reply.splits if_splits dest: first_number_pos)

lemma get_ltp_cache_ok: "cache_ok c \<Longrightarrow> cache_ok (snd (get_ltp c now cached b k))"
  by (auto simp: get_ltp_def broker_quote_cache_ok split: option.split)

text \<open>A price the lookup returns is always positive, whatever the tick cache, the quote cache
  and the broker answered: the sandbox never fills or blocks margin on a zero or negative price.\<close>

theorem get_ltp_positive: "fst (get_ltp c now cached broker k) = Some x \<Longrightarrow> 0 < x"
  by (auto simp: get_ltp_def broker_quote_pos split: option.splits if_splits)

theorem get_ltp_positive_witness:
  "(0::rat) < 7 \<and> fst (get_ltp Map.empty 0 (Some 7) NoBroker (''NIFTY'', ''NSE'')) = Some 7"
  using get_ltp_positive [of Map.empty 0 "Some 7" NoBroker "(''NIFTY'', ''NSE'')" 7] by (simp add: get_ltp_def)

text \<open>Negative caching: once the broker had no quote for a symbol, every lookup within the next
  300 seconds that finds no live tick gives no price and leaves the cache alone, whatever the
  broker would reply, so the broker is not asked again.\<close>

theorem neg_cache_blocks:
  assumes miss: "fst (broker_quote_ltp c t b k) = None" and asked: "b \<noteq> NoBroker" "b \<noteq> NoModule"
    and age: "now - t \<le> BROKER_QUOTE_FAIL_TTL" and fresh: "cache_get c t k = NoEntry"
  shows "get_ltp (snd (broker_quote_ltp c t b k)) now None b' k = (None, snd (broker_quote_ltp c t b k))"
proof -
  have "snd (broker_quote_ltp c t b k) = c(k \<mapsto> (t, None))"
    using asked fresh miss
    by (auto simp: broker_quote_ltp_def cache_put_miss_def split: broker_reply.splits option.splits)
  moreover have "cache_get (c(k \<mapsto> (t, None))) now k = NegCached"
    using age by (simp add: cache_get_def)
  ultimately show ?thesis by (simp add: get_ltp_def broker_quote_ltp_def)
qed

theorem neg_cache_blocks_witness:
  "get_ltp (snd (broker_quote_ltp Map.empty 10 QuoteRaises (''X'', ''NFO''))) 200 None NotADict (''X'', ''NFO'') =
   (None, snd (broker_quote_ltp Map.empty 10 QuoteRaises (''X'', ''NFO'')))"
  by (rule neg_cache_blocks) (simp_all add: broker_quote_ltp_def cache_get_def BROKER_QUOTE_FAIL_TTL_def)

end
