(* ===== verification/Run_State.thy ===== *)
theory Run_State
  imports Prelude
begin

text \<open>
  The runtime state of a strategy run (\<open>src/backend/strategy/state.py\<close>): one JSON document per
  active run in Redis, with the run's profit figures, its locks and one entry per leg. The documents
  are a map from run ids; the legs of a run are a keyed table in insertion order, like the Python
  dict whose key is the text of the leg id. Optional entries that every reader reads with a default
  (\<open>leg.get("mtm") or 0.0\<close>) are stored with that default.
\<close>

section \<open>Documents\<close>

record leg_state =
  lg_leg_id :: int
  lg_position :: "string option"
  lg_lots :: "int option"
  lg_symbol :: "string option"
  lg_exchange :: "string option"
  lg_qty :: "int option"
  lg_entry_order_id :: "int option"
  lg_entry_status :: "string option"
  lg_entry_avg :: "rat option"
  lg_ltp :: "rat option"
  lg_mtm :: rat
  lg_status :: string
  lg_exit_order_id :: "int option"
  lg_exit_kind :: "string option"
  lg_effective_sl :: "rat option"
  lg_effective_target :: "rat option"
  lg_trail_active :: bool
  lg_favorable_peak :: rat
  lg_realized_pnl :: rat
  lg_current_side :: "string option"
  lg_exit_avg :: "rat option"

record run_state =
  rs_run_id :: int
  rs_strategy_id :: int
  rs_pnl_realized :: rat
  rs_pnl_unrealized :: rat
  rs_pnl_total :: rat
  rs_pnl_peak :: rat
  rs_pnl_trough :: rat
  rs_lock_armed :: bool
  rs_lock_floor :: "rat option"
  rs_trail_to_entry_active :: bool
  rs_legs :: "leg_state list"

type_synonym run_store = "int \<Rightarrow> run_state option"

text \<open>The configuration of a leg, an element of the JSON column \<open>strategy.legs\<close>; batch legs carry a
  position and a number of lots, signal legs their own instrument and quantity.\<close>

record leg_config =
  lc_id :: int
  lc_position :: "string option"
  lc_lots :: "int option"
  lc_segment :: "string option"
  lc_symbol :: string
  lc_exchange :: string
  lc_qty :: int
  lc_sl_pts :: "rat option"
  lc_target_pts :: "rat option"
  lc_trail_x :: "rat option"
  lc_trail_y :: "rat option"
  lc_expiry :: "string option"
  lc_option_type :: "string option"
  lc_strike_mode :: "string option"
  lc_atm_offset :: "string option"
  lc_strike_value :: "rat option"
  lc_side :: "string option"

text \<open>A leg of which only the id is known (\<open>{"leg_id": leg_id}\<close>).\<close>

definition bare_leg :: "int \<Rightarrow> leg_state" where
  "bare_leg i = \<lparr>lg_leg_id = i, lg_position = None, lg_lots = None, lg_symbol = None, lg_exchange = None,
     lg_qty = None, lg_entry_order_id = None, lg_entry_status = None, lg_entry_avg = None, lg_ltp = None,
     lg_mtm = 0, lg_status = '''', lg_exit_order_id = None, lg_exit_kind = None, lg_effective_sl = None,
     lg_effective_target = None, lg_trail_active = False, lg_favorable_peak = 0, lg_realized_pnl = 0,
     lg_current_side = None, lg_exit_avg = None\<rparr>"

definition fresh_run :: "int \<Rightarrow> int \<Rightarrow> leg_state list \<Rightarrow> run_state" where
  "fresh_run rid sid ls = \<lparr>rs_run_id = rid, rs_strategy_id = sid, rs_pnl_realized = 0, rs_pnl_unrealized = 0,
     rs_pnl_total = 0, rs_pnl_peak = 0, rs_pnl_trough = 0, rs_lock_armed = False, rs_lock_floor = None,
     rs_trail_to_entry_active = False, rs_legs = ls\<rparr>"

section \<open>Operations\<close>

text \<open>What the engine knows of a placed entry order when it seeds the state.\<close>

record entry_summary =
  es_leg_id :: int
  es_symbol :: string
  es_exchange :: string
  es_qty :: int
  es_order_id :: int
  es_status :: string

definition initial_leg :: "entry_summary list \<Rightarrow> leg_config \<Rightarrow> leg_state" where
  "initial_leg entries c =
     (let e = get_row es_leg_id (lc_id c) entries in
      (bare_leg (lc_id c))
        \<lparr>lg_position := lc_position c, lg_lots := lc_lots c,
         lg_symbol := map_option es_symbol e, lg_exchange := map_option es_exchange e,
         lg_qty := map_option es_qty e, lg_entry_order_id := map_option es_order_id e,
         lg_entry_status := (case e of Some x \<Rightarrow> Some (es_status x) | None \<Rightarrow> Some ''configured''),
         lg_status := (case e of None \<Rightarrow> ''configured''
                       | Some x \<Rightarrow> if es_status x = ''rejected'' then ''rejected'' else ''open'')\<rparr>)"

definition build_initial_state :: "int \<Rightarrow> int \<Rightarrow> leg_config list \<Rightarrow> entry_summary list \<Rightarrow> run_state" where
  "build_initial_state rid sid cfgs entries =
     fresh_run rid sid (fold (\<lambda>c ls. put_row lg_leg_id (initial_leg entries c) ls) cfgs [])"

definition init_run_state ::
  "int \<Rightarrow> int \<Rightarrow> leg_config list \<Rightarrow> entry_summary list \<Rightarrow> run_store \<Rightarrow> run_store" where
  "init_run_state rid sid cfgs entries st = st(rid \<mapsto> build_initial_state rid sid cfgs entries)"

definition hydrate_run_state :: "int \<Rightarrow> run_state \<Rightarrow> run_store \<Rightarrow> run_store" where
  "hydrate_run_state rid s st = st(rid \<mapsto> s\<lparr>rs_run_id := rid\<rparr>)"

definition get_run_state :: "int \<Rightarrow> run_store \<Rightarrow> run_state option" where
  "get_run_state rid st = st rid"

definition update_leg_state :: "int \<Rightarrow> int \<Rightarrow> (leg_state \<Rightarrow> leg_state) \<Rightarrow> run_store \<Rightarrow> run_store" where
  "update_leg_state rid i f st =
     (case st rid of
        None \<Rightarrow> st
      | Some s \<Rightarrow>
          let g = (case get_row lg_leg_id i (rs_legs s) of Some g \<Rightarrow> g | None \<Rightarrow> bare_leg i)
          in st(rid \<mapsto> s\<lparr>rs_legs := put_row lg_leg_id (f g) (rs_legs s)\<rparr>))"

definition mark_leg_closed :: "int \<Rightarrow> int \<Rightarrow> int \<Rightarrow> string \<Rightarrow> string \<Rightarrow> run_store \<Rightarrow> run_store" where
  "mark_leg_closed rid i exit_order_id exit_kind exit_status =
     update_leg_state rid i
       (\<lambda>g. g\<lparr>lg_status := (if exit_status \<noteq> ''rejected'' then ''closed'' else ''open''),
              lg_exit_order_id := Some exit_order_id, lg_exit_kind := Some exit_kind\<rparr>)"

definition clear_run_state :: "int \<Rightarrow> run_store \<Rightarrow> run_store" where
  "clear_run_state rid st = st(rid := None)"

section \<open>Facts\<close>

lemma bare_leg_sel [simp]:
  "lg_leg_id (bare_leg i) = i" "lg_status (bare_leg i) = ''''" "lg_mtm (bare_leg i) = 0"
  "lg_realized_pnl (bare_leg i) = 0" "lg_current_side (bare_leg i) = None" "lg_position (bare_leg i) = None"
  "lg_entry_avg (bare_leg i) = None"
  by (simp_all add: bare_leg_def)

lemma fresh_run_sel [simp]:
  "rs_run_id (fresh_run r s ls) = r" "rs_legs (fresh_run r s ls) = ls" "rs_pnl_realized (fresh_run r s ls) = 0"
  "rs_lock_armed (fresh_run r s ls) = False"
  by (simp_all add: fresh_run_def)

lemma initial_leg_id [simp]: "lg_leg_id (initial_leg es c) = lc_id c"
  by (simp add: initial_leg_def Let_def)

lemma run_store_simps [simp]:
  "get_run_state rid (hydrate_run_state rid s st) = Some (s\<lparr>rs_run_id := rid\<rparr>)"
  "r \<noteq> rid \<Longrightarrow> get_run_state r (hydrate_run_state rid s st) = get_run_state r st"
  "get_run_state rid (clear_run_state rid st) = None"
  "r \<noteq> rid \<Longrightarrow> get_run_state r (clear_run_state rid st) = get_run_state r st"
  by (simp_all add: get_run_state_def hydrate_run_state_def clear_run_state_def)

end
