(* ===== verification/Contract_Calendar.thy ===== *)
theory Contract_Calendar
  imports Run_State "HOL-Library.Product_Lexorder"
begin

text \<open>
  Expiry dates (\<open>src/backend/strategy/symbol_resolver.py\<close>): reading the two spellings of a contract
  date, \<open>DD-MMM-YY\<close> in the symbol table and \<open>DDMMMYY\<close> inside a symbol, and picking a date by its
  rank (this week, next week, this month, next month). A date is the triple of year, month and day,
  in the lexicographic order of the library, which is Python's order on dates.
\<close>

type_synonym cal_date = "int \<times> int \<times> int"

section \<open>\<open>strptime\<close>\<close>

definition months :: "string list" where
  "months = [''JAN'', ''FEB'', ''MAR'', ''APR'', ''MAY'', ''JUN'',
             ''JUL'', ''AUG'', ''SEP'', ''OCT'', ''NOV'', ''DEC'']"

fun index_from :: "int \<Rightarrow> 'a list \<Rightarrow> 'a \<Rightarrow> int option" where
  "index_from n [] x = None"
| "index_from n (y # ys) x = (if x = y then Some n else index_from (n + 1) ys x)"

definition month_number :: "string \<Rightarrow> int option" where
  "month_number m = index_from 1 months m"

definition leap_year :: "int \<Rightarrow> bool" where
  "leap_year y \<longleftrightarrow> (y mod 4 = 0 \<and> y mod 100 \<noteq> 0) \<or> y mod 400 = 0"

definition days_in_month :: "int \<Rightarrow> int \<Rightarrow> int" where
  "days_in_month y m =
     (if m = 2 then (if leap_year y then 29 else 28) else if m \<in> {4, 6, 9, 11} then 30 else 31)"

text \<open>\<open>%d\<close>: two digits, one digit, or a blank and a digit.\<close>

definition day_field :: "string \<Rightarrow> int option" where
  "day_field s =
     (case s of
        [a] \<Rightarrow> if is_digit a then Some (digit_val a) else None
      | [a, b] \<Rightarrow> if (is_digit a \<or> a = CHR '' '') \<and> is_digit b
                  then Some (if is_digit a then 10 * digit_val a + digit_val b else digit_val b) else None
      | _ \<Rightarrow> None)"

text \<open>\<open>%y\<close>: two digits, 69 to 99 in the last century.\<close>

definition year_field :: "string \<Rightarrow> int option" where
  "year_field s =
     (case s of
        [a, b] \<Rightarrow> if is_digit a \<and> is_digit b
                  then (let n = 10 * digit_val a + digit_val b in Some (if 69 \<le> n then 1900 + n else 2000 + n))
                  else None
      | _ \<Rightarrow> None)"

definition make_date :: "string \<Rightarrow> string \<Rightarrow> string \<Rightarrow> cal_date option" where
  "make_date d m y =
     (case (day_field d, month_number m, year_field y) of
        (Some dd, Some mm, Some yy) \<Rightarrow> if 1 \<le> dd \<and> dd \<le> days_in_month yy mm then Some (yy, mm, dd) else None
      | _ \<Rightarrow> None)"

text \<open>The formats \<open>%d-%b-%y\<close> and \<open>%d%b%y\<close>; month names are matched without regard to case.\<close>

definition parse_dashed :: "string \<Rightarrow> cal_date option" where
  "parse_dashed s =
     (let n = length s - 7 in
      if length s \<in> {8, 9} \<and> s ! n = CHR ''-'' \<and> s ! (n + 4) = CHR ''-''
      then make_date (take n s) (upper (take 3 (drop (n + 1) s))) (drop (n + 5) s) else None)"

definition parse_compact :: "string \<Rightarrow> cal_date option" where
  "parse_compact s =
     (let n = length s - 5 in
      if length s \<in> {6, 7} then make_date (take n s) (upper (take 3 (drop n s))) (drop (n + 3) s) else None)"

definition parse_iso_expiry :: "string \<Rightarrow> cal_date option" where
  "parse_iso_expiry t =
     (let s = upper t in case parse_dashed s of Some d \<Rightarrow> Some d | None \<Rightarrow> parse_compact s)"

text \<open>\<open>replace("-", "").upper()\<close>, and the way back in \<open>_fetch_available_strikes\<close>.\<close>

definition compact_expiry :: "string \<Rightarrow> string" where
  "compact_expiry s = upper (filter (\<lambda>c. c \<noteq> CHR ''-'') s)"

definition dashed_expiry :: "string \<Rightarrow> string" where
  "dashed_expiry s = upper (take 2 s @ ''-'' @ take 3 (drop 2 s) @ ''-'' @ drop 5 s)"

section \<open>Ranks\<close>

definition same_month :: "cal_date \<Rightarrow> cal_date \<Rightarrow> bool" where
  "same_month a b \<longleftrightarrow> fst a = fst b \<and> fst (snd a) = fst (snd b)"

definition is_last_of_calendar_month :: "cal_date \<Rightarrow> cal_date list \<Rightarrow> bool" where
  "is_last_of_calendar_month target all_dates =
     (case filter (same_month target) all_dates of
        [] \<Rightarrow> False
      | d # ds \<Rightarrow> target = fold max ds d)"

definition parsed_valid :: "string list \<Rightarrow> (cal_date \<times> string) list" where
  "parsed_valid dates = concat (map (\<lambda>s. case parse_iso_expiry s of Some d \<Rightarrow> [(d, s)] | None \<Rightarrow> []) dates)"

definition monthlies :: "string list \<Rightarrow> string list" where
  "monthlies dates =
     (let pv = parsed_valid dates
      in map snd (filter (\<lambda>(d, s). is_last_of_calendar_month d (map fst pv)) pv))"

definition week_ranks :: "string list" where "week_ranks = [''current_week'', ''weekly'']"
definition month_ranks :: "string list" where "month_ranks = [''current_month'', ''monthly'', ''current'']"
definition next_month_ranks :: "string list" where "next_month_ranks = [''next_month'', ''next'']"

definition resolve_expiry_rank :: "string \<Rightarrow> string list \<Rightarrow> string option" where
  "resolve_expiry_rank rank dates =
     (case dates of
        [] \<Rightarrow> None
      | first # rest \<Rightarrow>
          let second = (case rest of [] \<Rightarrow> first | x # _ \<Rightarrow> x) in
          if rank \<in> set week_ranks then Some first
          else if rank = ''next_week'' then Some second
          else if rank \<in> set month_ranks then
            Some (case monthlies dates of [] \<Rightarrow> first | m # _ \<Rightarrow> m)
          else if rank \<in> set next_month_ranks then
            Some (case monthlies dates of
                    [] \<Rightarrow> first
                  | [m] \<Rightarrow> (case rest of [] \<Rightarrow> m | x # _ \<Rightarrow> x)
                  | _ # m # _ \<Rightarrow> m)
          else None)"

section \<open>Facts\<close>

lemma fold_max_last: "fold max ds (d :: cal_date) \<in> set (d # ds) \<and> (\<forall>x \<in> set (d # ds). x \<le> fold max ds d)"
  using Max.set_eq_fold [of d ds] Max_in [of "set (d # ds)"] by (metis List.finite_set Max_ge list.simps(3) set_empty)

lemma is_last_iff:
  "is_last_of_calendar_month t ds \<longleftrightarrow> t \<in> set ds \<and> (\<forall>d \<in> set ds. same_month t d \<longrightarrow> d \<le> t)"
proof (cases "filter (same_month t) ds")
  case Nil
  then have "\<forall>d\<in>set ds. \<not> same_month t d" by (simp add: filter_empty_conv)
  then show ?thesis using Nil by (auto simp: is_last_of_calendar_month_def same_month_def)
next
  case (Cons e es)
  have mem: "set (e # es) = {d \<in> set ds. same_month t d}" using Cons by (metis set_filter)
  have "t = fold max es e \<longleftrightarrow> t \<in> set (e # es) \<and> (\<forall>x \<in> set (e # es). x \<le> t)"
    using fold_max_last [of es e] by (metis order_antisym)
  then show ?thesis
    using mem by (auto simp: is_last_of_calendar_month_def Cons same_month_def)
qed

text \<open>A list of dates as the calendar services give it: every text is a date, in ascending order.\<close>

definition calendar :: "string list \<Rightarrow> cal_date list \<Rightarrow> bool" where
  "calendar dates ds \<longleftrightarrow> map parse_iso_expiry dates = map Some ds \<and> sorted_wrt (<) ds"

lemma parsed_valid_calendar: "map parse_iso_expiry dates = map Some ds \<Longrightarrow> parsed_valid dates = zip ds dates"
  by (induction dates arbitrary: ds) (auto simp: parsed_valid_def map_eq_Cons_conv)

lemma monthlies_calendar:
  assumes "map parse_iso_expiry dates = map Some ds"
  shows "map parse_iso_expiry (monthlies dates) = map Some (filter (\<lambda>d. is_last_of_calendar_month d ds) ds)"
proof -
  have l: "length ds = length dates" using assms by (metis length_map)
  have "map parse_iso_expiry (map snd (filter (\<lambda>(d, s). P d) (zip xs ys))) = map Some (filter P xs)"
    if "map parse_iso_expiry ys = map Some xs" for P and xs ys
    using that by (induction ys arbitrary: xs) (auto simp: map_eq_Cons_conv)
  from this [OF assms] show ?thesis by (simp add: monthlies_def parsed_valid_calendar [OF assms] l)
qed

definition month_key :: "cal_date \<Rightarrow> int \<times> int" where
  "month_key d = (fst d, fst (snd d))"

lemma monthlies_mem: "set (monthlies dates) \<subseteq> set dates"
  by (auto simp: monthlies_def parsed_valid_def Let_def split: option.splits)

lemma month_key_simps:
  "same_month a b \<longleftrightarrow> month_key a = month_key b" "a \<le> b \<Longrightarrow> month_key a \<le> month_key b"
  "month_key a < month_key b \<Longrightarrow> a < b"
  by (auto simp: same_month_def month_key_def less_eq_prod_def less_prod_def)

definition last_days :: "cal_date list \<Rightarrow> cal_date list" where
  "last_days ds = filter (\<lambda>d. is_last_of_calendar_month d ds) ds"

lemma last_days_sorted: "sorted_wrt (<) ds \<Longrightarrow> sorted_wrt (<) (last_days ds)"
  by (simp add: last_days_def sorted_wrt_filter)

lemma last_days_mem: "x \<in> set (last_days ds) \<longleftrightarrow> x \<in> set ds \<and> (\<forall>d \<in> set ds. month_key x = month_key d \<longrightarrow> d \<le> x)"
  by (auto simp: last_days_def is_last_iff month_key_simps(1))

lemma last_days_cover:
  assumes "d \<in> set ds" obtains x where "x \<in> set (last_days ds)" "month_key x = month_key d"
proof
  let ?S = "{e \<in> set ds. month_key e = month_key d}"
  have "d \<in> ?S" using assms by simp
  then have "finite ?S" "?S \<noteq> {}" by (simp, blast)
  then have m: "Max ?S \<in> ?S" "\<forall>e \<in> ?S. e \<le> Max ?S" using Max_in Max_ge by blast+
  then show "Max ?S \<in> set (last_days ds)" by (auto simp: last_days_mem)
  show "month_key (Max ?S) = month_key d" using m by blast
qed

lemma last_days_unique:
  "x \<in> set (last_days ds) \<Longrightarrow> y \<in> set (last_days ds) \<Longrightarrow> month_key x = month_key y \<Longrightarrow> x = y"
  by (auto simp: last_days_mem intro: order_antisym)

lemma last_days_first:
  assumes "sorted_wrt (<) (d # ds)"
  obtains x xs where "last_days (d # ds) = x # xs" "month_key x = month_key d"
proof -
  obtain y where y: "y \<in> set (last_days (d # ds))" "month_key y = month_key d"
    using last_days_cover [of d "d # ds"] by auto
  then obtain x xs where x: "last_days (d # ds) = x # xs" by (cases "last_days (d # ds)") auto
  have "x \<le> y" using y last_days_sorted [OF assms] x by auto
  moreover have "d \<le> x"
    using assms last_days_mem [of x "d # ds"] x by (auto simp: less_imp_le)
  ultimately have "month_key x = month_key d" using month_key_simps(2) y(2) by (metis order_antisym)
  then show thesis using that x by blast
qed

lemma last_days_second:
  assumes "sorted_wrt (<) (d # ds)" "last_days (d # ds) = x # y # xs"
  shows "month_key y \<noteq> month_key d"
    "f \<in> set (d # ds) \<Longrightarrow> month_key f \<noteq> month_key d \<Longrightarrow> month_key f \<noteq> month_key y \<Longrightarrow> y < f"
proof -
  have s: "sorted_wrt (<) (x # y # xs)" using last_days_sorted [OF assms(1)] assms(2) by simp
  have x: "month_key x = month_key d" using last_days_first [OF assms(1)] assms(2) by (metis list.inject)
  then show "month_key y \<noteq> month_key d"
    using last_days_unique [of x "d # ds" y] s assms(2) by auto
  show "y < f" if f: "f \<in> set (d # ds)" "month_key f \<noteq> month_key d" "month_key f \<noteq> month_key y"
  proof -
    obtain z where z: "z \<in> set (x # y # xs)" "month_key z = month_key f"
      using last_days_cover [OF f(1)] assms(2) by metis
    with f x have "z \<in> set xs" by auto
    then have "y < z" using s by auto
    then have "month_key y < month_key f" using z(2) f(3) month_key_simps(2) by (metis less_imp_le order_le_less)
    then show ?thesis by (rule month_key_simps(3))
  qed
qed

lemma calendar_monthlies:
  assumes "calendar dates ds"
  shows "map parse_iso_expiry (monthlies dates) = map Some (last_days ds)"
  using monthlies_calendar assms by (simp add: calendar_def last_days_def)

lemma rank_lists_disjoint:
  "r \<in> set month_ranks \<Longrightarrow> r \<notin> set week_ranks \<and> r \<noteq> ''next_week''"
  "r \<in> set next_month_ranks \<Longrightarrow> r \<notin> set week_ranks \<and> r \<noteq> ''next_week'' \<and> r \<notin> set month_ranks"
  by (auto simp: month_ranks_def week_ranks_def next_month_ranks_def)

section \<open>Properties\<close>

text \<open>A monthly rank is the monthly contract. On an ascending list of dates, the rank of this month
  names the last date of the earliest month of the list: no date of the list is later in that month,
  and every date of another month is later. The rank of the next month, when the list reaches into
  another month, names the last date of the second month: it is not in the month of the first date,
  no date of its month is later, and every date of a further month is.\<close>

theorem monthly_rank_is_last_of_month:
  assumes "calendar dates (d # ds)"
  shows "(r \<in> set month_ranks \<longrightarrow> (\<exists>s x. resolve_expiry_rank r dates = Some s \<and> parse_iso_expiry s = Some x \<and> s \<in> set dates \<and>
       same_month d x \<and> (\<forall>f \<in> set (d # ds). if same_month x f then f \<le> x else x < f))) \<and>
    (r \<in> set next_month_ranks \<longrightarrow> (\<exists>f \<in> set ds. \<not> same_month d f) \<longrightarrow>
       (\<exists>s y. resolve_expiry_rank r dates = Some s \<and> parse_iso_expiry s = Some y \<and> s \<in> set dates \<and> \<not> same_month d y \<and>
          (\<forall>f \<in> set (d # ds). if same_month y f then f \<le> y else same_month d f \<or> y < f)))"
proof (intro conjI impI)
  have srt: "sorted_wrt (<) (d # ds)" using assms by (simp add: calendar_def)
  obtain s ss where dates: "dates = s # ss" using assms by (cases dates) (auto simp: calendar_def)
  obtain x xs where x: "last_days (d # ds) = x # xs" "month_key x = month_key d" using last_days_first [OF srt] .
  note ms = calendar_monthlies [OF assms, unfolded x]
  have later: "if same_month x f then f \<le> x else x < f" if "f \<in> set (d # ds)" for f
  proof -
    have "x \<in> set (last_days (d # ds))" by (simp add: x)
    moreover have "d \<le> f" using that srt by (auto simp: less_imp_le)
    ultimately have "month_key f = month_key x \<Longrightarrow> f \<le> x" "month_key f \<noteq> month_key x \<Longrightarrow> month_key x < month_key f"
      using that x(2) month_key_simps(2) [of d f] by (auto simp: last_days_mem)
    then show ?thesis using month_key_simps(3) [of x f] by (cases "month_key f = month_key x") (auto simp: month_key_simps(1))
  qed
  obtain m ms' where m: "monthlies dates = m # ms'" "parse_iso_expiry m = Some x" using ms by (auto simp: map_eq_Cons_conv)
  have mem: "m' \<in> set dates" if "m' \<in> set (monthlies dates)" for m' using that monthlies_mem by blast
  show "\<exists>s x. resolve_expiry_rank r dates = Some s \<and> parse_iso_expiry s = Some x \<and> s \<in> set dates \<and>
       same_month d x \<and> (\<forall>f \<in> set (d # ds). if same_month x f then f \<le> x else x < f)"
    if "r \<in> set month_ranks"
    using that rank_lists_disjoint(1) later m mem [of m] x(2)
    by (intro exI [of _ m] exI [of _ x]) (auto simp: resolve_expiry_rank_def dates month_key_simps(1))
  show "\<exists>s y. resolve_expiry_rank r dates = Some s \<and> parse_iso_expiry s = Some y \<and> s \<in> set dates \<and> \<not> same_month d y \<and>
          (\<forall>f \<in> set (d # ds). if same_month y f then f \<le> y else same_month d f \<or> y < f)"
    if r: "r \<in> set next_month_ranks" and ex: "\<exists>f \<in> set ds. \<not> same_month d f"
  proof -
    obtain f where f: "f \<in> set (d # ds)" "month_key f \<noteq> month_key d" using ex by (fastforce simp: month_key_simps(1))
    obtain z where "z \<in> set (last_days (d # ds))" "month_key z = month_key f" using last_days_cover [OF f(1)] .
    with f x obtain y ys where xs: "xs = y # ys" by (cases xs) auto
    then obtain m2 ms2 where m2: "ms' = m2 # ms2" "parse_iso_expiry m2 = Some y" using ms m by (auto simp: map_eq_Cons_conv)
    have y: "y \<in> set (last_days (d # ds))" by (simp add: x xs)
    note sec = last_days_second [OF srt x(1) [unfolded xs]]
    have "if same_month y f then f \<le> y else same_month d f \<or> y < f" if "f \<in> set (d # ds)" for f
      using sec(2) [OF that] y that
      by (cases "month_key f = month_key d"; cases "month_key f = month_key y") (auto simp: month_key_simps(1) last_days_mem)
    moreover have "\<not> same_month d y" using sec(1) by (simp add: month_key_simps(1) eq_commute)
    ultimately show ?thesis
      using r rank_lists_disjoint(2) m m2 mem [of m2]
      by (intro exI [of _ m2] exI [of _ y]) (simp add: resolve_expiry_rank_def dates)
  qed
qed

text \<open>The two spellings of an expiry agree. Taking the dashes out of a nine-character date and
  putting them back gives the same text in upper case, and the compact text reads as the same
  date.\<close>

lemma compact_expiry_eq: "compact_expiry s = filter (\<lambda>c. c \<noteq> CHR ''-'') (upper s)"
  by (simp add: compact_expiry_def upper_def filter_map comp_def)

lemma day_field_digits: "day_field [a, b] = Some n \<Longrightarrow> a \<noteq> CHR ''-'' \<and> b \<noteq> CHR ''-''"
  by (auto simp: day_field_def is_digit_def ord_chr_def split: if_splits)

lemma year_field_digits: "year_field [a, b] = Some n \<Longrightarrow> a \<noteq> CHR ''-'' \<and> b \<noteq> CHR ''-''"
  by (auto simp: year_field_def is_digit_def ord_chr_def split: if_splits)

lemma month_number_letters: "month_number m = Some n \<Longrightarrow> CHR ''-'' \<notin> set m"
  by (auto simp: month_number_def months_def split: if_splits)

text \<open>The two spellings of an expiry agree. Taking the dashes out of a nine-character date, and
  putting them back, gives the same text in upper case, and both the compact and the dashed text
  read as the same date.\<close>

theorem expiry_spellings_agree:
  assumes "parse_dashed (upper s) = Some d" "length s = 9"
  shows "parse_iso_expiry s = Some d \<and> parse_iso_expiry (compact_expiry s) = Some d \<and>
    dashed_expiry (compact_expiry s) = upper s"
proof -
  obtain a b p e f g q y z where u: "upper s = [a, b, p, e, f, g, q, y, z]"
    using assms(2) by (auto simp: upper_def length_Suc_conv numeral_eq_Suc)
  have pq: "p = CHR ''-''" "q = CHR ''-''"
    using assms(1) by (auto simp: parse_dashed_def u split: if_splits)
  have mk: "make_date [a, b] (upper [e, f, g]) [y, z] = Some d"
    using assms(1) by (simp add: parse_dashed_def u pq)
  have up: "upper [e, f, g] = [e, f, g]" "upper [a, b, e, f, g, y, z] = [a, b, e, f, g, y, z]"
    using u upper_idem [of s] by (simp_all add: upper_def)
  obtain dd mm yy where "day_field [a, b] = Some dd" "month_number [e, f, g] = Some mm" "year_field [y, z] = Some yy"
    using mk by (auto simp: make_date_def up split: option.splits)
  note nd = day_field_digits [OF this(1)] month_number_letters [OF this(2)] year_field_digits [OF this(3)]
  have c: "compact_expiry s = [a, b, e, f, g, y, z]" using nd by (auto simp: compact_expiry_eq u pq)
  have "parse_compact [a, b, e, f, g, y, z] = Some d" using mk up(1) by (simp add: parse_compact_def)
  moreover have "parse_dashed [a, b, e, f, g, y, z] = None" by (simp add: parse_dashed_def)
  moreover have "dashed_expiry [a, b, e, f, g, y, z] = upper s"
    using up unfolding u pq dashed_expiry_def by (simp add: upper_def)
  ultimately show ?thesis using assms(1) up(2) by (simp add: parse_iso_expiry_def c Let_def)
qed

theorem expiry_spellings_agree_witness: "parse_iso_expiry ''30JAN25'' = Some (2025, 1, 30)"
proof -
  have "parse_dashed (upper ''30-Jan-25'') = Some (2025, 1, 30)" "compact_expiry ''30-Jan-25'' = ''30JAN25''" by code_simp+
  then show ?thesis using expiry_spellings_agree [of "''30-Jan-25''" "(2025, 1, 30)"] by simp
qed

definition demo_dates :: "string list" where
  "demo_dates = [''23-JAN-25'', ''30-JAN-25'', ''06-FEB-25'', ''27-FEB-25'', ''27-MAR-25'']"

theorem monthly_rank_is_last_of_month_witness:
  "\<exists>s x. resolve_expiry_rank ''current_month'' demo_dates = Some s \<and> parse_iso_expiry s = Some x \<and> (2025, 1, 23) \<le> x"
proof -
  have "calendar demo_dates ((2025, 1, 23) # [(2025, 1, 30), (2025, 2, 6), (2025, 2, 27), (2025, 3, 27)])"
    "''current_month'' \<in> set month_ranks" by code_simp+
  from monthly_rank_is_last_of_month [OF this(1), of "''current_month''"] this(2)
  show ?thesis by (fastforce simp: same_month_def)
qed

end
