(* ===== verification/Py_Text.thy ===== *)
theory Py_Text
  imports Prelude
begin

text \<open>
  More of Python's text handling that the strategy module uses: \<open>lower\<close>, \<open>str\<close> of integers and of
  finite decimals, and the SQL operator \<open>LIKE\<close> of the queries. The text of an integer reads back as
  the integer.
\<close>

definition low_char :: "char \<Rightarrow> char" where
  "low_char c = (if 65 \<le> ord_chr c \<and> ord_chr c \<le> 90 then char_of (ord_chr c + 32) else c)"

definition lower :: "string \<Rightarrow> string" where
  "lower s = map low_char s"

function show_pos :: "int \<Rightarrow> string" where
  "show_pos n = (if n < 10 then [digit_chr n] else show_pos (n div 10) @ [digit_chr (n mod 10)])"
  by pat_completeness auto
termination by (relation "measure nat") (auto simp: nat_less_iff)

declare show_pos.simps [simp del]

definition show_int :: "int \<Rightarrow> string" where
  "show_int k = (if k < 0 then CHR ''-'' # show_pos (- k) else show_pos k)"

text \<open>\<open>str\<close> of a float that is a decimal of at most sixteen places: the shortest expansion, with at
  least one place.\<close>

fun decimals :: "nat \<Rightarrow> rat \<Rightarrow> string" where
  "decimals 0 x = []"
| "decimals (Suc k) x =
     (if x = 0 then [] else digit_chr \<lfloor>10 * x\<rfloor> # decimals k (10 * x - of_int \<lfloor>10 * x\<rfloor>))"

definition show_rat :: "rat \<Rightarrow> string" where
  "show_rat x =
     (let a = \<bar>x\<bar>; i = \<lfloor>a\<rfloor>; f = decimals 16 (a - of_int i)
      in (if x < 0 then ''-'' else []) @ show_pos i @ ''.'' @ (if f = [] then ''0'' else f))"

text \<open>\<open>LIKE\<close>: a percent sign stands for any text, an underscore for any character.\<close>

fun sql_like :: "string \<Rightarrow> string \<Rightarrow> bool" where
  "sql_like [] s \<longleftrightarrow> s = []"
| "sql_like (p # ps) [] \<longleftrightarrow> p = CHR ''%'' \<and> sql_like ps []"
| "sql_like (p # ps) (c # cs) \<longleftrightarrow>
     (if p = CHR ''%'' then sql_like ps (c # cs) \<or> sql_like (p # ps) cs
      else (p = CHR ''_'' \<or> p = c) \<and> sql_like ps cs)"

section \<open>Facts\<close>

lemma digit_chr_digit [simp]:
  "0 \<le> d \<Longrightarrow> d < 10 \<Longrightarrow> is_digit (digit_chr d)" "0 \<le> d \<Longrightarrow> d < 10 \<Longrightarrow> digit_val (digit_chr d) = d"
  by (simp_all add: is_digit_def digit_val_def ord_digit_chr)

lemma digits_val_append:
  "digits_val pd acc (s @ t) = (case digits_val pd acc s of None \<Rightarrow> digits_val pd acc (s @ t)
     | Some n \<Rightarrow> if s = [] then digits_val pd acc t else digits_val True n t)"
proof (induction pd acc s rule: digits_val.induct)
  case (2 pd acc c cs)
  then show ?case by (cases cs) (auto split: option.splits)
qed auto

lemma show_pos_nonempty [simp]: "show_pos n \<noteq> []"
  by (simp add: show_pos.simps [of n])

lemma digits_val_show_pos: "0 \<le> n \<Longrightarrow> digits_val False 0 (show_pos n) = Some n"
proof (induction n rule: show_pos.induct)
  case (1 n)
  show ?case
  proof (cases "n < 10")
    case True with 1(2) show ?thesis by (simp add: show_pos.simps)
  next
    case False
    then have "digits_val False 0 (show_pos (n div 10)) = Some (n div 10)" using 1 by simp
    moreover have "10 * (n div 10) + n mod 10 = n" by simp
    ultimately show ?thesis
      using False digits_val_append [of False 0 "show_pos (n div 10)" "[digit_chr (n mod 10)]"]
      by (simp add: show_pos.simps [of n])
  qed
qed

lemma show_pos_digits: "0 \<le> n \<Longrightarrow> c \<in> set (show_pos n) \<Longrightarrow> is_digit c"
proof (induction n rule: show_pos.induct)
  case (1 n)
  then show ?case by (cases "n < 10") (auto simp: show_pos.simps [of n])
qed

lemma digit_not_ws: "is_digit c \<Longrightarrow> \<not> is_ws c"
  by (auto simp: is_digit_def is_ws_def)

lemma strip_id: "(\<And>c. c \<in> set s \<Longrightarrow> \<not> is_ws c) \<Longrightarrow> strip s = s"
proof -
  assume "\<And>c. c \<in> set s \<Longrightarrow> \<not> is_ws c"
  then have "dropWhile is_ws s = s" "dropWhile is_ws (rev s) = rev s"
    using last_in_set [of s] by (cases "s = []"; auto simp: dropWhile_eq_self_iff hd_rev)+
  then show ?thesis by (simp add: strip_def)
qed

lemma sign_not_digit: "\<not> is_digit (CHR ''-'')" "\<not> is_digit (CHR ''+'')"
  by (simp_all add: is_digit_def ord_chr_def)

lemma take_sign_digits:
  assumes "s \<noteq> []" "\<And>c. c \<in> set s \<Longrightarrow> is_digit c"
  shows "take_sign s = (False, s)"
proof (cases s)
  case (Cons c cs)
  then have "c \<noteq> CHR ''-''" "c \<noteq> CHR ''+''" using assms(2) [of c] sign_not_digit by auto
  then show ?thesis by (simp add: take_sign_def Cons)
qed (use assms in simp)

lemma py_int_show_int: "py_int (show_int k) = Some k"
proof (cases "k < 0")
  case True
  have "\<not> is_ws (CHR ''-'')" by (simp add: is_ws_def ord_chr_def)
  then have "strip (show_int k) = show_int k"
    using True show_pos_digits [of "- k"] digit_not_ws by (intro strip_id) (auto simp: show_int_def)
  then show ?thesis using True by (simp add: py_int_def show_int_def take_sign_def digits_val_show_pos)
next
  case False
  have "strip (show_pos k) = show_pos k"
    using False show_pos_digits [of k] digit_not_ws by (intro strip_id) auto
  moreover have "take_sign (show_pos k) = (False, show_pos k)"
    using False take_sign_digits show_pos_digits [of k] by simp
  ultimately show ?thesis using False by (simp add: py_int_def show_int_def digits_val_show_pos)
qed

end
