(* ===== verification/Option_Symbols.thy ===== *)
theory Option_Symbols
  imports Contract_Calendar Py_Text
begin

text \<open>
  From a strategy leg to a listed contract: the option symbol service
  (\<open>src/backend/services/option_symbol_service.py\<close>), the expiry list of
  \<open>src/backend/services/market_data_service.py\<close>, the resolver of
  \<open>src/backend/strategy/symbol_resolver.py\<close> and \<open>_resolve_leg\<close> of \<open>src/backend/strategy/engine.py\<close>.
  The symbol table is the list of its rows and the queries are written out over it. The price of the
  underlying comes from a broker: it is the parameter \<open>quote\<close>. The per-call expiry cache of the
  engine only saves a repeated query and is left out; the strike cache, which outlives a call, is
  part of the state.
\<close>

section \<open>The symbol table\<close>

record contract =
  ct_symbol :: string
  ct_name :: "string option"
  ct_exchange :: string
  ct_expiry :: "string option"
  ct_strike :: "rat option"
  ct_lotsize :: "int option"
  ct_instrumenttype :: "string option"
  ct_tick_size :: "rat option"

definition is_letter :: "char \<Rightarrow> bool" where
  "is_letter c \<longleftrightarrow> 65 \<le> ord_chr c \<and> ord_chr c \<le> 90"

text \<open>The pattern of a date inside a symbol.\<close>

definition is_ddmmmyy :: "string \<Rightarrow> bool" where
  "is_ddmmmyy s \<longleftrightarrow> length s = 7 \<and> list_all is_digit (take 2 s) \<and> list_all is_letter (take 3 (drop 2 s)) \<and>
     list_all is_digit (drop 5 s)"

definition parse_underlying :: "string \<Rightarrow> string \<times> string option" where
  "parse_underlying underlying =
     (let u = upper underlying; base = takeWhile is_letter u; rest = dropWhile is_letter u
      in if base \<noteq> [] \<and> is_ddmmmyy (take 7 rest) \<and> drop 7 rest \<in> {[], ''FUT''}
         then (base, Some (take 7 rest)) else (u, None))"

definition option_exchange_for :: "string \<Rightarrow> string" where
  "option_exchange_for quote_exchange =
     (let eu = upper quote_exchange in
      if eu \<in> {''NSE'', ''NSE_INDEX''} then ''NFO''
      else if eu \<in> {''BSE'', ''BSE_INDEX''} then ''BFO''
      else if eu = ''MCX'' then ''MCX''
      else if eu = ''CDS'' then ''CDS'' else ''NFO'')"

definition quote_exchange_for :: "string \<Rightarrow> string \<Rightarrow> string" where
  "quote_exchange_for base requested =
     (let eu = upper requested in
      if eu \<in> {''NSE_INDEX'', ''BSE_INDEX'', ''NSE'', ''BSE'', ''MCX'', ''CDS''} then eu
      else if eu \<in> {''NFO'', ''BFO''} then
        (if base \<in> {''NIFTY'', ''BANKNIFTY'', ''FINNIFTY'', ''MIDCPNIFTY'', ''NIFTYNXT50'', ''INDIAVIX''} then ''NSE_INDEX''
         else if base \<in> {''SENSEX'', ''BANKEX'', ''SENSEX50''} then ''BSE_INDEX''
         else if eu = ''NFO'' then ''NSE'' else ''BSE'')
      else eu)"

section \<open>Strikes\<close>

type_synonym strikes_cache = "string \<times> string \<times> string \<times> string \<Rightarrow> rat list option"

definition strikes_key :: "string \<Rightarrow> string \<Rightarrow> string \<Rightarrow> string \<Rightarrow> string \<times> string \<times> string \<times> string" where
  "strikes_key base expiry otype exch = (upper base, upper expiry, upper otype, upper exch)"

definition query_strikes :: "contract list \<Rightarrow> string \<Rightarrow> string \<Rightarrow> string \<Rightarrow> string \<Rightarrow> rat list" where
  "query_strikes table base expiry otype exch =
     sort (remdups (concat (map (\<lambda>c. case ct_strike c of None \<Rightarrow> [] | Some k \<Rightarrow> [k])
       (filter (\<lambda>c. sql_like (base @ expiry @ ''%'') (ct_symbol c) \<and> sql_like (''%'' @ upper otype) (ct_symbol c) \<and>
                    ct_expiry c = Some (dashed_expiry expiry) \<and> ct_instrumenttype c = Some (upper otype) \<and>
                    ct_exchange c = upper exch) table))))"

definition fetch_available_strikes ::
  "contract list \<Rightarrow> string \<Rightarrow> string \<Rightarrow> string \<Rightarrow> string \<Rightarrow> strikes_cache \<Rightarrow> rat list \<times> strikes_cache" where
  "fetch_available_strikes table base expiry otype exch cache =
     (let k = strikes_key base expiry otype exch in
      case cache k of
        Some ss \<Rightarrow> (ss, cache)
      | None \<Rightarrow> (let ss = query_strikes table base expiry otype exch in (ss, cache(k \<mapsto> ss))))"

definition clear_strikes_cache :: "strikes_cache \<Rightarrow> strikes_cache" where
  "clear_strikes_cache cache = (\<lambda>_. None)"

text \<open>The strike nearest to the price, the first of the list on a tie.\<close>

definition find_atm :: "rat \<Rightarrow> rat list \<Rightarrow> rat option" where
  "find_atm ltp strikes =
     (case strikes of [] \<Rightarrow> None
      | s # ss \<Rightarrow> Some (fold (\<lambda>x b. if \<bar>x - ltp\<bar> < \<bar>b - ltp\<bar> then x else b) ss s))"

fun position_of :: "'a \<Rightarrow> 'a list \<Rightarrow> nat option" where
  "position_of x [] = None"
| "position_of x (y # ys) = (if x = y then Some 0 else map_option Suc (position_of x ys))"

text \<open>\<open>ATM\<close>, or so many strikes in or out of the money; the texts \<open>int\<close> refuses raise.\<close>

definition apply_offset :: "rat \<Rightarrow> string \<Rightarrow> string \<Rightarrow> rat list \<Rightarrow> exn + rat option" where
  "apply_offset atm offset otype strikes =
     (let off = upper offset; call = (upper otype = ''CE'') in
      case position_of atm strikes of
        None \<Rightarrow> Inr None
      | Some i \<Rightarrow>
          if off = ''ATM'' then Inr (Some atm)
          else if take 3 off = ''ITM'' \<or> take 3 off = ''OTM'' then
            (case py_int (drop 3 off) of
               None \<Rightarrow> Inl ValueError
             | Some n \<Rightarrow>
                 let t = (if (take 3 off = ''ITM'') = call then int i - n else int i + n)
                 in Inr (if t < 0 \<or> int (length strikes) \<le> t then None else Some (strikes ! nat t)))
          else Inr None)"

definition format_strike :: "rat \<Rightarrow> string" where
  "format_strike k = (if k = of_int \<lfloor>k\<rfloor> then show_int \<lfloor>k\<rfloor> else show_rat k)"

section \<open>Contracts\<close>

definition lookup_option_in_db :: "contract list \<Rightarrow> string \<Rightarrow> string \<Rightarrow> contract option" where
  "lookup_option_in_db table symb exch =
     List.find (\<lambda>c. ct_symbol c = symb \<and> ct_exchange c = upper exch) table"

text \<open>The future with the earliest expiry that has not passed; when all have, the earliest of all.\<close>

definition futures_of :: "contract list \<Rightarrow> string \<Rightarrow> string \<Rightarrow> (cal_date \<times> contract) list" where
  "futures_of table base exch =
     concat (map (\<lambda>c. case ct_expiry c of None \<Rightarrow> []
          | Some e \<Rightarrow> (case parse_dashed e of None \<Rightarrow> [] | Some d \<Rightarrow> [(d, c)]))
       (filter (\<lambda>c. sql_like (upper base @ ''%FUT'') (ct_symbol c) \<and> ct_exchange c = upper exch \<and>
                    ct_instrumenttype c = Some ''FUT'' \<and> ct_expiry c \<noteq> None \<and> ct_expiry c \<noteq> Some [] \<and>
                    (let s = upper (ct_symbol c); n = length base
                     in take n s = upper base \<and> is_ddmmmyy (take 7 (drop n s)) \<and> drop (n + 7) s = ''FUT'')) table))"

definition find_near_month_futures :: "contract list \<Rightarrow> cal_date \<Rightarrow> string \<Rightarrow> string \<Rightarrow> contract option" where
  "find_near_month_futures table today base exch =
     (let all = futures_of table base exch;
          live = filter (\<lambda>(d, c). today \<le> d) all;
          candidates = (if live = [] then all else live)
      in case sort_key fst candidates of [] \<Rightarrow> None | (d, c) # _ \<Rightarrow> Some c)"

record resolved =
  rv_symbol :: string
  rv_exchange :: string
  rv_lotsize :: "int option"
  rv_tick_size :: "rat option"
  rv_strike :: "rat option"
  rv_expiry :: "string option"

definition resolved_of :: "contract \<Rightarrow> resolved" where
  "resolved_of c = \<lparr>rv_symbol = ct_symbol c, rv_exchange = ct_exchange c, rv_lotsize = ct_lotsize c,
     rv_tick_size = ct_tick_size c, rv_strike = ct_strike c, rv_expiry = ct_expiry c\<rparr>"

datatype symbol_error =
    ExpiryRequired
  | NoPricingFuture string string
  | QuoteFailed string
  | LtpMissing string
  | NoStrikes string string string
  | OffsetOutOfRange string
  | OptionNotFound string string
  | BadExpiry string
  | BadOptionType
  | InternalError exn

datatype quote_answer = QuoteError | QuoteNoLtp | QuoteLtp rat

text \<open>Which instrument prices the underlying.\<close>

definition pricing_instrument ::
  "contract list \<Rightarrow> cal_date \<Rightarrow> string \<Rightarrow> string \<Rightarrow> string option \<Rightarrow> string \<Rightarrow> (string \<times> string) option" where
  "pricing_instrument table today underlying base embedded qexch =
     (if qexch \<in> {''NSE_INDEX'', ''BSE_INDEX'', ''NSE'', ''BSE''} then Some (base, qexch)
      else if embedded \<noteq> None then Some (upper underlying, qexch)
      else map_option (\<lambda>c. (ct_symbol c, ct_exchange c)) (find_near_month_futures table today base qexch))"

definition pick_strike ::
  "contract list \<Rightarrow> string \<Rightarrow> string \<Rightarrow> string \<Rightarrow> string \<Rightarrow> string \<Rightarrow> rat \<Rightarrow> strikes_cache \<Rightarrow>
     (symbol_error + resolved) \<times> strikes_cache" where
  "pick_strike table base expiry oexch offset otype ltp cache =
     (let (strikes, cache') = fetch_available_strikes table base expiry otype oexch cache in
      (case find_atm ltp strikes of
         None \<Rightarrow> Inl (NoStrikes base expiry oexch)
       | Some atm \<Rightarrow>
           (case apply_offset atm offset otype strikes of
              Inl x \<Rightarrow> Inl (InternalError x)
            | Inr None \<Rightarrow> Inl (OffsetOutOfRange offset)
            | Inr (Some k) \<Rightarrow>
                let symb = base @ expiry @ format_strike k @ upper otype in
                (case lookup_option_in_db table symb oexch of
                   None \<Rightarrow> Inl (OptionNotFound symb oexch)
                 | Some c \<Rightarrow> Inr (resolved_of c))), cache'))"

definition get_option_symbol ::
  "contract list \<Rightarrow> cal_date \<Rightarrow> (string \<Rightarrow> string \<Rightarrow> quote_answer) \<Rightarrow> string \<Rightarrow> string \<Rightarrow> string option \<Rightarrow> string \<Rightarrow> string \<Rightarrow>
     rat option \<Rightarrow> strikes_cache \<Rightarrow> (symbol_error + resolved) \<times> strikes_cache" where
  "get_option_symbol table today quote underlying exch expiry offset otype given_ltp cache =
     (let (base, embedded) = parse_underlying underlying;
          final = upper (case expiry of Some (c # cs) \<Rightarrow> c # cs | _ \<Rightarrow> (case embedded of Some e \<Rightarrow> e | None \<Rightarrow> []))
      in if final = [] then (Inl ExpiryRequired, cache)
         else
           let qexch = quote_exchange_for base exch; oexch = option_exchange_for qexch in
           case pricing_instrument table today underlying base embedded qexch of
             None \<Rightarrow> (Inl (NoPricingFuture base qexch), cache)
           | Some (qsym, qx) \<Rightarrow>
               (case (case given_ltp of Some l \<Rightarrow> if 0 < l then QuoteLtp l else quote qsym qx | None \<Rightarrow> quote qsym qx) of
                  QuoteError \<Rightarrow> (Inl (QuoteFailed qsym), cache)
                | QuoteNoLtp \<Rightarrow> (Inl (LtpMissing qsym), cache)
                | QuoteLtp ltp \<Rightarrow> pick_strike table base final oexch offset otype ltp cache))"

section \<open>Resolving a leg\<close>

text \<open>\<open>get_expiry_dates\<close> for options or futures; a text that is no date sorts last. Expired dates are
  not filtered out.\<close>

definition expiry_key :: "string \<Rightarrow> cal_date" where
  "expiry_key e = (case parse_dashed e of Some d \<Rightarrow> d | None \<Rightarrow> (9999, 12, 31))"

definition query_expiries :: "contract list \<Rightarrow> (contract \<Rightarrow> bool) \<Rightarrow> string \<Rightarrow> string list \<Rightarrow> string list" where
  "query_expiries table named exch itypes =
     remdups (concat (map (\<lambda>c. case ct_expiry c of None \<Rightarrow> [] | Some e \<Rightarrow> if e = [] then [] else [e])
       (filter (\<lambda>c. named c \<and> ct_exchange c = exch \<and>
                    (case ct_instrumenttype c of None \<Rightarrow> False | Some i \<Rightarrow> i \<in> set itypes)) table)))"

definition get_expiry_dates :: "contract list \<Rightarrow> string \<Rightarrow> string \<Rightarrow> string \<Rightarrow> string list" where
  "get_expiry_dates table symb exch instrument =
     (let itypes = (if instrument = ''options'' then [''CE'', ''PE''] else [''FUT'']);
          rows = query_expiries table (\<lambda>c. ct_name c = Some symb) exch itypes;
          rows' = (if rows = [] then query_expiries table (\<lambda>c. sql_like (symb @ ''%'') (ct_symbol c)) exch itypes else rows)
      in sort_key expiry_key rows')"

definition list_expiries :: "contract list \<Rightarrow> string \<Rightarrow> string \<Rightarrow> string \<Rightarrow> string list" where
  "list_expiries table underlying exch instrument =
     get_expiry_dates table (upper (strip underlying)) (option_exchange_for exch) instrument"

definition resolve_direct_strike ::
  "contract list \<Rightarrow> string \<Rightarrow> string \<Rightarrow> string \<Rightarrow> rat \<Rightarrow> string \<Rightarrow> symbol_error + resolved" where
  "resolve_direct_strike table underlying exch expiry strike otype =
     (let base = upper (strip underlying); oexch = option_exchange_for exch; e = compact_expiry expiry in
      if \<not> is_ddmmmyy e then Inl (BadExpiry expiry)
      else if upper otype \<notin> {''CE'', ''PE''} then Inl BadOptionType
      else (let symb = base @ e @ format_strike strike @ upper otype in
            case lookup_option_in_db table symb oexch of
              None \<Rightarrow> Inl (OptionNotFound symb oexch)
            | Some c \<Rightarrow> Inr (resolved_of c)))"

text \<open>The \<open>EngineError\<close>s of \<open>_resolve_leg\<close>.\<close>

datatype leg_error =
    NoExpiries string string
  | RankUnresolved string
  | FutNotListed string string
  | OptionTypeRequired int
  | BrokerAuthRequired int
  | SymbolFailure int symbol_error
  | StrikeValueRequired int
  | UnknownStrikeMode int string

definition futures_exchange :: "string \<Rightarrow> string" where
  "futures_exchange exch =
     (if exch \<in> {''NSE'', ''NSE_INDEX''} then ''NFO''
      else if exch \<in> {''BSE'', ''BSE_INDEX''} then ''BFO'' else exch)"

definition cash_leg :: "string \<Rightarrow> string \<Rightarrow> resolved" where
  "cash_leg underlying exch = \<lparr>rv_symbol = underlying, rv_exchange = exch, rv_lotsize = Some 1,
     rv_tick_size = Some (1 / 20), rv_strike = None, rv_expiry = None\<rparr>"

definition or_text :: "string option \<Rightarrow> string \<Rightarrow> string" where
  "or_text x d = (case x of Some (c # cs) \<Rightarrow> c # cs | _ \<Rightarrow> d)"

definition resolve_option_leg ::
  "contract list \<Rightarrow> cal_date \<Rightarrow> (string \<Rightarrow> string \<Rightarrow> quote_answer) \<Rightarrow> bool \<Rightarrow> leg_config \<Rightarrow> string \<Rightarrow> string \<Rightarrow> string \<Rightarrow>
     strikes_cache \<Rightarrow> (leg_error + resolved) \<times> strikes_cache" where
  "resolve_option_leg table today quote auth c underlying exch expiry cache =
     (let mode = or_text (lc_strike_mode c) ''atm''; i = lc_id c in
      case or_text (lc_option_type c) [] of
        [] \<Rightarrow> (Inl (OptionTypeRequired i), cache)
      | ot \<Rightarrow>
          if mode = ''atm'' then
            (if \<not> auth then (Inl (BrokerAuthRequired i), cache)
             else (case get_option_symbol table today quote underlying exch (Some (compact_expiry expiry))
                          (or_text (lc_atm_offset c) ''ATM'') ot None cache of
                     (Inl e, cache') \<Rightarrow> (Inl (SymbolFailure i e), cache')
                   | (Inr r, cache') \<Rightarrow> (Inr r, cache')))
          else if mode = ''strike'' then
            (case lc_strike_value c of
               None \<Rightarrow> (Inl (StrikeValueRequired i), cache)
             | Some k \<Rightarrow>
                 (case resolve_direct_strike table underlying exch expiry k ot of
                    Inl e \<Rightarrow> (Inl (SymbolFailure i e), cache)
                  | Inr r \<Rightarrow> (Inr r, cache)))
          else (Inl (UnknownStrikeMode i mode), cache))"

definition resolve_leg ::
  "contract list \<Rightarrow> cal_date \<Rightarrow> (string \<Rightarrow> string \<Rightarrow> quote_answer) \<Rightarrow> bool \<Rightarrow> leg_config \<Rightarrow> string \<Rightarrow> string \<Rightarrow>
     strikes_cache \<Rightarrow> (leg_error + resolved) \<times> strikes_cache" where
  "resolve_leg table today quote auth c underlying exch cache =
     (let segment = lc_segment c in
      if segment \<noteq> Some ''options'' \<and> segment \<noteq> Some ''futures'' then (Inr (cash_leg underlying exch), cache)
      else
        let instrument = the segment;
            dates = list_expiries table underlying exch instrument;
            rank = or_text (lc_expiry c) ''weekly''
        in if dates = [] then (Inl (NoExpiries underlying exch), cache)
           else case resolve_expiry_rank rank dates of
             None \<Rightarrow> (Inl (RankUnresolved rank), cache)
           | Some expiry \<Rightarrow>
               if instrument = ''futures'' then
                 (let symb = underlying @ compact_expiry expiry @ ''FUT''; fexch = futures_exchange exch in
                  case lookup_option_in_db table symb fexch of
                    None \<Rightarrow> (Inl (FutNotListed symb fexch), cache)
                  | Some ct \<Rightarrow> (Inr ((resolved_of ct)\<lparr>rv_strike := None\<rparr>), cache))
               else resolve_option_leg table today quote auth c underlying exch expiry cache)"

end
