(* ===== verification/Symbol_Flow.thy ===== *)
theory Symbol_Flow
  imports Option_Symbols
begin

text \<open>
  What the symbol services promise: a leg is resolved to a listed contract of its rank, the money
  offsets count strikes, the strike cache answers as the table would, and which offsets never
  resolve.
\<close>

section \<open>Facts\<close>

lemma find_atm_nearest:
  assumes "find_atm ltp strikes = Some a"
  shows "a \<in> set strikes" "\<forall>s \<in> set strikes. \<bar>a - ltp\<bar> \<le> \<bar>s - ltp\<bar>"
proof -
  let ?f = "\<lambda>x b. if \<bar>x - ltp\<bar> < \<bar>b - ltp\<bar> then x else b"
  have best: "fold ?f ss b \<in> set (b # ss) \<and> (\<forall>s \<in> set (b # ss). \<bar>fold ?f ss b - ltp\<bar> \<le> \<bar>s - ltp\<bar>)" for ss b
  proof (induction ss arbitrary: b)
    case (Cons x ss)
    from Cons.IH [of "?f x b"] show ?case by (auto split: if_splits intro: order_trans)
  qed simp
  obtain s ss where "strikes = s # ss" "a = fold ?f ss s" using assms by (auto simp: find_atm_def split: list.splits)
  with best [of ss s] show "a \<in> set strikes" "\<forall>s \<in> set strikes. \<bar>a - ltp\<bar> \<le> \<bar>s - ltp\<bar>" by auto
qed

lemma position_of_nth: "position_of x ys = Some i \<Longrightarrow> i < length ys \<and> ys ! i = x"
  by (induction ys arbitrary: i) (auto split: if_splits)

lemma position_of_mem: "position_of x ys = Some i \<Longrightarrow> x \<in> set ys"
  using position_of_nth nth_mem by fastforce

lemma query_strikes_sorted: "sorted_wrt (<) (query_strikes table base expiry otype exch)"
  unfolding query_strikes_def strict_sorted_iff by simp

lemma upper_append: "upper (s @ t) = upper s @ upper t"
  by (simp add: upper_def)

lemma up_char_digit: "is_digit c \<Longrightarrow> up_char c = c"
  by (simp add: up_char_def is_digit_def)

lemma upper_show_int: "0 \<le> n \<Longrightarrow> upper (show_int n) = show_int n"
  using show_pos_digits [of n] up_char_digit by (simp add: upper_def map_idI show_int_def)

text \<open>How many strikes lie past one position up to another.\<close>

lemma strikes_between:
  fixes ys :: "rat list"
  assumes "sorted_wrt (<) ys" "i \<le> j" "j < length ys"
  shows "card {s \<in> set ys. ys ! i < s \<and> s \<le> ys ! j} = j - i" "card {s \<in> set ys. ys ! i \<le> s \<and> s < ys ! j} = j - i"
proof -
  have lt: "ys ! a < ys ! b \<longleftrightarrow> a < b" if "a < length ys" "b < length ys" for a b
    using assms(1) that by (metis linorder_less_linear order_less_asym sorted_wrt_nth_less)
  have inj: "inj_on ((!) ys) A" if "A \<subseteq> {..<length ys}" for A
    using lt that by (intro inj_onI) (metis lessThan_iff linorder_less_linear order_less_irrefl subset_iff)
  have le: "ys ! a \<le> ys ! b \<longleftrightarrow> a \<le> b" if "a < length ys" "b < length ys" for a b
    using lt [OF that(2,1)] by (simp add: not_less [symmetric])
  have "{s \<in> set ys. ys ! i < s \<and> s \<le> ys ! j} = (!) ys ` {i<..j}" "{s \<in> set ys. ys ! i \<le> s \<and> s < ys ! j} = (!) ys ` {i..<j}"
    using assms(2,3) by (auto simp: in_set_conv_nth lt le) (metis order_le_less_trans order_less_trans)+
  then show "card {s \<in> set ys. ys ! i < s \<and> s \<le> ys ! j} = j - i" "card {s \<in> set ys. ys ! i \<le> s \<and> s < ys ! j} = j - i"
    using assms(3) by (simp_all add: card_image inj subset_eq)
qed

definition money_up :: "string \<Rightarrow> string \<Rightarrow> bool" where
  "money_up dir otype \<longleftrightarrow> (dir = ''OTM'') = (upper otype = ''CE'')"

lemma apply_offset_count:
  assumes "sorted_wrt (<) strikes" "dir = ''ITM'' \<or> dir = ''OTM''" "0 \<le> n"
    and "apply_offset atm (dir @ show_int n) otype strikes = Inr (Some k)"
  shows "k \<in> set strikes \<and>
     n = int (card {s \<in> set strikes. if money_up dir otype then atm < s \<and> s \<le> k else k \<le> s \<and> s < atm})"
proof -
  obtain i where pos: "position_of atm strikes = Some i"
    using assms(4) by (cases "position_of atm strikes") (auto simp: apply_offset_def Let_def)
  note i = position_of_nth [OF pos]
  define t where "t = (if money_up dir otype then int i + n else int i - n)"
  have up: "upper (dir @ show_int n) = dir @ show_int n"
    using assms(2) by (auto simp: upper_append upper_show_int [OF assms(3)]) (simp_all add: upper_def up_char_def ord_chr_def)
  have dir: "take 3 (dir @ show_int n) = dir" "drop 3 (dir @ show_int n) = show_int n" "dir @ show_int n \<noteq> ''ATM''"
    using assms(2) by auto
  have t: "0 \<le> t" "t < int (length strikes)" "k = strikes ! nat t"
    using assms(2,4) up dir by (auto simp: apply_offset_def Let_def pos py_int_show_int t_def money_up_def split: if_splits)
  show ?thesis
  proof (cases "money_up dir otype")
    case True
    with t have "nat t = i + nat n" "i + nat n < length strikes" using assms(3) by (auto simp: t_def)
    with strikes_between(1) [OF assms(1), of i "i + nat n"] i t True assms(3) show ?thesis by auto
  next
    case False
    with t have "i = nat t + nat n" using assms(3) by (auto simp: t_def)
    with strikes_between(2) [OF assms(1), of "nat t" i] i t False assms(3) show ?thesis by auto
  qed
qed

lemma lookup_sound:
  "lookup_option_in_db table symb exch = Some c \<Longrightarrow> c \<in> set table \<and> ct_symbol c = symb \<and> ct_exchange c = upper exch"
  by (auto simp: lookup_option_in_db_def find_Some_iff)

section \<open>Properties\<close>

text \<open>C33: the strike an offset names. When the service finds an option over a strike list in ascending
  order, the symbol is that of a listed contract, built from the base, the expiry, one of the
  strikes and the type. With the offset \<open>ATM\<close> the strike is one with the least distance to the price;
  with \<open>ITM\<close> or \<open>OTM\<close> and a number it is exactly that many strikes of the list away from one of
  least distance, on the side that is in or out of the money for the type.\<close>

theorem offset_names_strike:
  assumes "pick_strike table base expiry oexch offset otype ltp cache = (Inr r, cache')"
    and "fetch_available_strikes table base expiry otype oexch cache = (strikes, cache'')" "sorted_wrt (<) strikes"
  shows "\<exists>c \<in> set table. \<exists>atm \<in> set strikes. \<exists>k \<in> set strikes. rv_symbol r = ct_symbol c \<and> rv_exchange r = ct_exchange c \<and>
     rv_lotsize r = ct_lotsize c \<and> ct_symbol c = base @ expiry @ format_strike k @ upper otype \<and>
     (\<forall>s \<in> set strikes. \<bar>atm - ltp\<bar> \<le> \<bar>s - ltp\<bar>) \<and> (upper offset = ''ATM'' \<longrightarrow> k = atm) \<and>
     (\<forall>dir n. (dir = ''ITM'' \<or> dir = ''OTM'') \<longrightarrow> 0 \<le> n \<longrightarrow> offset = dir @ show_int n \<longrightarrow>
        n = int (card {s \<in> set strikes. if money_up dir otype then atm < s \<and> s \<le> k else k \<le> s \<and> s < atm}))"
proof -
  obtain atm k c where a: "find_atm ltp strikes = Some atm" and k: "apply_offset atm offset otype strikes = Inr (Some k)"
    and c: "lookup_option_in_db table (base @ expiry @ format_strike k @ upper otype) oexch = Some c" "r = resolved_of c"
    using assms(1,2) by (auto simp: pick_strike_def Let_def split: option.splits sum.splits)
  have "k \<in> set strikes"
    using k position_of_mem by (fastforce simp: apply_offset_def Let_def split: option.splits if_splits)
  moreover have "upper offset = ''ATM'' \<longrightarrow> k = atm" using k by (auto simp: apply_offset_def Let_def split: option.splits)
  moreover have "\<forall>dir n. (dir = ''ITM'' \<or> dir = ''OTM'') \<longrightarrow> 0 \<le> n \<longrightarrow> offset = dir @ show_int n \<longrightarrow>
      n = int (card {s \<in> set strikes. if money_up dir otype then atm < s \<and> s \<le> k else k \<le> s \<and> s < atm})"
    using apply_offset_count [OF assms(3)] k by blast
  ultimately show ?thesis
    using find_atm_nearest [OF a] lookup_sound [OF c(1)] c(2)
    by (intro bexI [of _ c] bexI [of _ atm] bexI [of _ k] conjI) (simp_all add: resolved_of_def)
qed

text \<open>An offset \<open>ATM+n\<close> or \<open>ATM-n\<close>, which the strategy schema accepts and its help text offers, never
  resolves: whatever the table, the price and the cache, the answer is an error.\<close>

theorem atm_plus_never_resolves:
  "\<exists>e. fst (get_option_symbol table today quote underlying exch expiry (''ATM'' @ [sg] @ n) otype given cache) = Inl e"
proof -
  have "apply_offset atm (''ATM'' @ [sg] @ n) ot strikes = Inr None" for atm ot strikes
    by (auto simp: apply_offset_def Let_def upper_def split: option.splits)
      (simp_all add: up_char_def ord_chr_def)
  then show ?thesis
    by (auto simp: get_option_symbol_def pick_strike_def Let_def split_beta split: option.splits quote_answer.splits)
qed

text \<open>A cache is coherent with a table when every entry is the answer of the table.\<close>

definition cache_coherent :: "contract list \<Rightarrow> strikes_cache \<Rightarrow> bool" where
  "cache_coherent table cache \<longleftrightarrow>
     (\<forall>base expiry otype exch ss. cache (strikes_key base expiry otype exch) = Some ss \<longrightarrow>
        ss = query_strikes table (upper base) (upper expiry) otype exch)"

text \<open>The strike cache is invisible while the symbol table stays. With a cache that is coherent with
  the table, a lookup of upper-case texts gives the answer an empty cache gives and leaves the cache
  coherent, and the empty cache is coherent. (Nothing clears the cache when the table is replaced.)\<close>

theorem strike_cache_invisible:
  assumes "cache_coherent table cache" "upper base = base" "upper expiry = expiry"
  shows "fst (pick_strike table base expiry oexch offset otype ltp cache) =
       fst (pick_strike table base expiry oexch offset otype ltp (clear_strikes_cache cache)) \<and>
     cache_coherent table (snd (pick_strike table base expiry oexch offset otype ltp cache)) \<and>
     cache_coherent table (clear_strikes_cache cache)"
proof -
  let ?q = "query_strikes table base expiry otype oexch"
  have q: "query_strikes table b e t x = query_strikes table b e (upper t) (upper x)" for b e t x
    by (simp add: query_strikes_def)
  have "ss = ?q" if "cache (strikes_key base expiry otype oexch) = Some ss" for ss
    using assms that unfolding cache_coherent_def by metis
  then have f: "fst (fetch_available_strikes table base expiry otype oexch cache) = ?q"
    "fst (fetch_available_strikes table base expiry otype oexch (clear_strikes_cache cache)) = ?q"
    by (auto simp: fetch_available_strikes_def clear_strikes_cache_def Let_def split: option.splits)
  have "cache_coherent table (snd (fetch_available_strikes table base expiry otype oexch cache))"
    using assms(1)
    by (auto simp: fetch_available_strikes_def Let_def cache_coherent_def strikes_key_def split: option.splits)
      (metis assms(2,3) q)
  moreover have "cache_coherent table (clear_strikes_cache cache)"
    by (simp add: cache_coherent_def clear_strikes_cache_def)
  ultimately show ?thesis unfolding pick_strike_def Let_def split_beta f by simp
qed

section \<open>A table of options\<close>

definition demo_contract :: "string \<Rightarrow> rat \<Rightarrow> contract" where
  "demo_contract symb k = \<lparr>ct_symbol = symb, ct_name = Some ''NIFTY'', ct_exchange = ''NFO'', ct_expiry = Some ''30-JAN-25'',
     ct_strike = Some k, ct_lotsize = Some 75, ct_instrumenttype = Some ''CE'', ct_tick_size = Some (1 / 20)\<rparr>"

definition demo_table :: "contract list" where
  "demo_table = [demo_contract ''NIFTY30JAN2523100CE'' 23100, demo_contract ''NIFTY30JAN2523000CE'' 23000,
     demo_contract ''NIFTY30JAN2523050CE'' 23050]"

definition demo_pick :: "(symbol_error + resolved) \<times> strikes_cache" where
  "demo_pick = pick_strike demo_table ''NIFTY'' ''30JAN25'' ''NFO'' ''OTM1'' ''CE'' 23040 (\<lambda>_. None)"

theorem offset_names_strike_witness:
  "fst demo_pick = Inr (resolved_of (demo_contract ''NIFTY30JAN2523100CE'' 23100)) \<and>
   (\<exists>k \<in> set [23000, 23050, 23100 :: rat]. ''NIFTY30JAN2523100CE'' = ''NIFTY30JAN25'' @ format_strike k @ ''CE'')"
proof -
  have r: "fst demo_pick = Inr (resolved_of (demo_contract ''NIFTY30JAN2523100CE'' 23100))" by code_simp
  obtain cache' where p: "pick_strike demo_table ''NIFTY'' ''30JAN25'' ''NFO'' ''OTM1'' ''CE'' 23040 (\<lambda>_. None) =
      (Inr (resolved_of (demo_contract ''NIFTY30JAN2523100CE'' 23100)), cache')"
    using r unfolding demo_pick_def by (metis prod.collapse)
  have q: "query_strikes demo_table ''NIFTY'' ''30JAN25'' ''CE'' ''NFO'' = [23000, 23050, 23100]" by code_simp
  obtain cache'' where f: "fetch_available_strikes demo_table ''NIFTY'' ''30JAN25'' ''CE'' ''NFO'' (\<lambda>_. None) =
      ([23000, 23050, 23100], cache'')"
    by (simp add: fetch_available_strikes_def q Let_def)
  have u: "upper ''CE'' = ''CE''" by code_simp
  have s: "sorted_wrt (<) [23000, 23050, 23100 :: rat]" by simp
  have "\<exists>k \<in> set [23000, 23050, 23100 :: rat]. rv_symbol (resolved_of (demo_contract ''NIFTY30JAN2523100CE'' 23100)) =
      ''NIFTY'' @ ''30JAN25'' @ format_strike k @ ''CE''"
    using offset_names_strike [OF p f s] unfolding u
  proof (elim bexE conjE)
    fix c atm k
    assume k: "k \<in> set [23000, 23050, 23100 :: rat]"
      and rv: "rv_symbol (resolved_of (demo_contract ''NIFTY30JAN2523100CE'' 23100)) = ct_symbol c"
      and cs: "ct_symbol c = ''NIFTY'' @ ''30JAN25'' @ format_strike k @ ''CE''"
    from rv cs have eq: "rv_symbol (resolved_of (demo_contract ''NIFTY30JAN2523100CE'' 23100)) =
        ''NIFTY'' @ ''30JAN25'' @ format_strike k @ ''CE''" by (rule trans)
    show ?thesis by (rule bexI, rule eq, rule k)
  qed
  with r show ?thesis by (simp add: resolved_of_def demo_contract_def)
qed

theorem strike_cache_invisible_witness: "fst demo_pick = fst (pick_strike demo_table ''NIFTY'' ''30JAN25'' ''NFO'' ''OTM1'' ''CE''
    23040 (clear_strikes_cache (\<lambda>_. None)))"
proof -
  have "cache_coherent demo_table (\<lambda>_. None)" "upper ''NIFTY'' = ''NIFTY''" "upper ''30JAN25'' = ''30JAN25''"
    by (simp add: cache_coherent_def) code_simp+
  from strike_cache_invisible [OF this, of "''NFO''" "''OTM1''" "''CE''" 23040] show ?thesis by (simp add: demo_pick_def)
qed

end
