(* ===== verification/Risk_Evaluator.thy ===== *)
theory Risk_Evaluator
  imports Run_State
begin

text \<open>
  Per-leg risk of the strategy engine (\<open>src/backend/strategy/risk_evaluator.py\<close>): stop loss, target
  and the two trailing stops, as the pure function the source has. Prices are rationals; the
  position of a leg is the text of its state (\<open>''B''\<close>, \<open>''S''\<close>, anything else, or none).
\<close>

section \<open>One leg, one tick\<close>

datatype trigger = SlHit | TargetHit | TrailAdvanced | TrailArmed

record risk_outcome =
  ro_leg_mtm :: rat
  ro_favorable_peak :: rat
  ro_trail_active :: bool
  ro_effective_sl :: "rat option"
  ro_effective_target :: "rat option"
  ro_triggered :: "trigger option"
  ro_sl_at :: "rat option"
  ro_target_at :: "rat option"

text \<open>The keyword arguments of \<open>evaluate_leg\<close> that describe the leg and what was recorded before.\<close>

record leg_input =
  li_position :: "string option"
  li_qty :: int
  li_entry_avg :: rat
  li_sl_pts :: "rat option"
  li_target_pts :: "rat option"
  li_trail_x :: rat
  li_trail_y :: rat
  li_prior_favorable_peak :: rat
  li_prior_trail_active :: bool
  li_prior_effective_sl :: "rat option"
  li_prior_effective_target :: "rat option"

definition is_long :: "leg_input \<Rightarrow> bool" where
  "is_long l \<longleftrightarrow> li_position l = Some ''B''"

definition is_favorable_move :: "bool \<Rightarrow> rat \<Rightarrow> rat \<Rightarrow> rat" where
  "is_favorable_move long entry_avg ltp = (if long then max 0 (ltp - entry_avg) else max 0 (entry_avg - ltp))"

definition positive_pts :: "rat option \<Rightarrow> rat option" where
  "positive_pts x = (case x of Some p \<Rightarrow> if 0 < p then Some p else None | None \<Rightarrow> None)"

text \<open>The levels of the first call: a configured distance from the entry when nothing was recorded.\<close>

definition base_sl :: "leg_input \<Rightarrow> rat option" where
  "base_sl l =
     (case (li_prior_effective_sl l, positive_pts (li_sl_pts l)) of
        (None, Some p) \<Rightarrow> Some (if is_long l then li_entry_avg l - p else li_entry_avg l + p)
      | (prior, _) \<Rightarrow> prior)"

definition base_target :: "leg_input \<Rightarrow> rat option" where
  "base_target l =
     (case (li_prior_effective_target l, positive_pts (li_target_pts l)) of
        (None, Some p) \<Rightarrow> Some (if is_long l then li_entry_avg l + p else li_entry_avg l - p)
      | (prior, _) \<Rightarrow> prior)"

text \<open>Only a move in the leg's favour replaces a stop.\<close>

definition improves :: "bool \<Rightarrow> rat option \<Rightarrow> rat \<Rightarrow> bool" where
  "improves long base trailed =
     (case base of None \<Rightarrow> True | Some b \<Rightarrow> if long then b < trailed else trailed < b)"

definition stepped_sl :: "leg_input \<Rightarrow> rat \<Rightarrow> rat" where
  "stepped_sl l peak =
     (let steps_past = \<lfloor>(peak - li_trail_x l) / li_trail_y l\<rfloor>;
          advance_pts = li_trail_y l + of_int steps_past * li_trail_y l
      in if is_long l then li_entry_avg l + advance_pts else li_entry_avg l - advance_pts)"

definition fixed_sl :: "leg_input \<Rightarrow> rat \<Rightarrow> rat" where
  "fixed_sl l peak = (if is_long l then li_entry_avg l + peak - li_trail_x l
                      else li_entry_avg l - peak + li_trail_x l)"

text \<open>The new stop, whether the trail is active, and the trail event.\<close>

definition trail_step :: "leg_input \<Rightarrow> rat \<Rightarrow> rat option \<times> bool \<times> trigger option" where
  "trail_step l peak =
     (let base = base_sl l; active = li_prior_trail_active l in
      if li_trail_x l \<le> 0 then (base, active, None)
      else if 0 < li_trail_y l then
        (if peak < li_trail_x l then (base, active, None)
         else
           let fired = (if active then None else Some TrailArmed);
               trailed = stepped_sl l peak
           in if improves (is_long l) base trailed
              then (Some trailed, True, case fired of None \<Rightarrow> Some TrailAdvanced | Some f \<Rightarrow> Some f)
              else (base, True, fired))
      else
        let fired = (if active then None else Some TrailArmed);
            trailed = fixed_sl l peak
        in (if improves (is_long l) base trailed then Some trailed else base, True, fired))"

definition sl_hit :: "leg_input \<Rightarrow> rat option \<Rightarrow> rat \<Rightarrow> bool" where
  "sl_hit l sl ltp =
     (case sl of None \<Rightarrow> False
      | Some x \<Rightarrow> (li_position l = Some ''B'' \<and> ltp \<le> x) \<or> (li_position l = Some ''S'' \<and> x \<le> ltp))"

definition target_hit :: "leg_input \<Rightarrow> rat option \<Rightarrow> rat \<Rightarrow> bool" where
  "target_hit l tg ltp =
     (case tg of None \<Rightarrow> False
      | Some x \<Rightarrow> (li_position l = Some ''B'' \<and> x \<le> ltp) \<or> (li_position l = Some ''S'' \<and> ltp \<le> x))"

definition evaluate_leg :: "leg_input \<Rightarrow> rat \<Rightarrow> risk_outcome" where
  "evaluate_leg l ltp =
     (let sign = (if is_long l then 1 else - 1);
          peak = max (li_prior_favorable_peak l) (is_favorable_move (is_long l) (li_entry_avg l) ltp);
          (new_sl, active, fired) = trail_step l peak;
          target = base_target l;
          hit = sl_hit l new_sl ltp;
          thit = target_hit l target ltp
      in \<lparr>ro_leg_mtm = (ltp - li_entry_avg l) * sign * of_int (li_qty l),
          ro_favorable_peak = peak, ro_trail_active = active, ro_effective_sl = new_sl,
          ro_effective_target = target,
          ro_triggered = (if hit then Some SlHit else if thit then Some TargetHit else fired),
          ro_sl_at = (if hit then new_sl else None),
          ro_target_at = (if thit then target else None)\<rparr>)"

section \<open>Facts\<close>

lemma evaluate_leg_sel:
  "ro_favorable_peak (evaluate_leg l ltp) = max (li_prior_favorable_peak l) (is_favorable_move (is_long l) (li_entry_avg l) ltp)"
  "ro_effective_sl (evaluate_leg l ltp) =
     fst (trail_step l (max (li_prior_favorable_peak l) (is_favorable_move (is_long l) (li_entry_avg l) ltp)))"
  "ro_trail_active (evaluate_leg l ltp) =
     fst (snd (trail_step l (max (li_prior_favorable_peak l) (is_favorable_move (is_long l) (li_entry_avg l) ltp))))"
  "ro_effective_target (evaluate_leg l ltp) = base_target l"
  by (simp_all add: evaluate_leg_def Let_def split_beta)

lemma evaluate_leg_triggered:
  "ro_triggered (evaluate_leg l ltp) = Some SlHit \<longleftrightarrow> sl_hit l (ro_effective_sl (evaluate_leg l ltp)) ltp"
proof -
  have "snd (snd (trail_step l peak)) \<noteq> Some SlHit" for peak
    by (auto simp: trail_step_def Let_def split: if_splits option.splits)
  then show ?thesis by (auto simp: evaluate_leg_def Let_def split_beta)
qed

lemma evaluate_leg_triggered_target:
  "ro_triggered (evaluate_leg l ltp) = Some TargetHit \<longleftrightarrow>
     ro_triggered (evaluate_leg l ltp) \<noteq> Some SlHit \<and> target_hit l (ro_effective_target (evaluate_leg l ltp)) ltp"
proof -
  have "snd (snd (trail_step l peak)) \<noteq> Some TargetHit" for peak
    by (auto simp: trail_step_def Let_def split: if_splits option.splits)
  then show ?thesis by (auto simp: evaluate_leg_def Let_def split_beta)
qed

text \<open>The tighter of two stops: higher for a long leg, lower for a short one.\<close>

definition tighter :: "bool \<Rightarrow> rat option \<Rightarrow> rat option \<Rightarrow> bool" where
  "tighter long old new =
     (case old of None \<Rightarrow> True
      | Some a \<Rightarrow> (case new of None \<Rightarrow> False | Some b \<Rightarrow> if long then a \<le> b else b \<le> a))"

lemma tighter_refl [simp]: "tighter long x x"
  by (simp add: tighter_def split: option.split)

lemma tighter_trans: "tighter long a b \<Longrightarrow> tighter long b c \<Longrightarrow> tighter long a c"
  by (auto simp: tighter_def split: option.splits if_splits)

lemma improves_tighter: "improves long base x \<Longrightarrow> tighter long base (Some x)"
  by (auto simp: improves_def tighter_def split: option.splits if_splits)

lemma trail_tightens: "tighter (is_long l) (base_sl l) (fst (trail_step l peak))"
  by (auto simp: trail_step_def Let_def improves_tighter)

text \<open>The stop is never looser than a reached trail level.\<close>

lemma trail_at_least:
  assumes "0 < li_trail_x l" and "\<not> 0 < li_trail_y l"
  shows "tighter (is_long l) (Some (fixed_sl l peak)) (fst (trail_step l peak))"
  using assms by (auto simp: trail_step_def Let_def tighter_def improves_def split: option.splits if_splits)

lemma stop_tightens:
  "tighter (is_long l) (base_sl l) (ro_effective_sl (evaluate_leg l ltp))"
  "tighter (is_long l) (li_prior_effective_sl l) (ro_effective_sl (evaluate_leg l ltp))"
proof -
  show b: "tighter (is_long l) (base_sl l) (ro_effective_sl (evaluate_leg l ltp))"
    by (simp add: evaluate_leg_sel trail_tightens)
  have "tighter (is_long l) (li_prior_effective_sl l) (base_sl l)"
    by (auto simp: base_sl_def tighter_def split: option.splits)
  then show "tighter (is_long l) (li_prior_effective_sl l) (ro_effective_sl (evaluate_leg l ltp))"
    using b by (rule tighter_trans)
qed

text \<open>C24: a stop never loosens. On every tick the effective stop of a leg is at least as tight as the one
  recorded before (and as the configured stop, when none was), a recorded stop never disappears,
  the favourable peak never falls, and an active trail stays active.\<close>

theorem stop_never_loosens:
  "tighter (is_long l) (li_prior_effective_sl l) (ro_effective_sl (evaluate_leg l ltp)) \<and>
   tighter (is_long l) (base_sl l) (ro_effective_sl (evaluate_leg l ltp)) \<and>
   li_prior_favorable_peak l \<le> ro_favorable_peak (evaluate_leg l ltp) \<and>
   (if li_prior_trail_active l then ro_trail_active (evaluate_leg l ltp) else True)"
  using stop_tightens by (auto simp: evaluate_leg_sel trail_step_def Let_def)

text \<open>A leg beyond its stop is always exited, before its target. For a long or short leg the tick
  triggers the stop exactly when the price has reached the effective stop computed on this very
  tick, and triggers the target exactly when the stop was not reached and the price is at or beyond
  the target.\<close>

theorem stop_and_target_exact:
  assumes "li_position l = Some ''B'' \<or> li_position l = Some ''S''"
  shows "(ro_triggered (evaluate_leg l ltp) = Some SlHit \<longleftrightarrow>
      (\<exists>x. ro_effective_sl (evaluate_leg l ltp) = Some x \<and> (if is_long l then ltp \<le> x else x \<le> ltp))) \<and>
    (ro_triggered (evaluate_leg l ltp) = Some TargetHit \<longleftrightarrow>
      ro_triggered (evaluate_leg l ltp) \<noteq> Some SlHit \<and>
      (\<exists>x. base_target l = Some x \<and> (if is_long l then x \<le> ltp else ltp \<le> x)))"
proof -
  have n: "snd (snd (trail_step l peak)) \<noteq> Some TargetHit" "snd (snd (trail_step l peak)) \<noteq> Some SlHit" for peak
    by (auto simp: trail_step_def Let_def split: if_splits option.splits)
  show ?thesis
    using assms n
    by (auto simp: evaluate_leg_def Let_def split_beta sl_hit_def target_hit_def is_long_def split: option.splits)
qed

text \<open>A fixed-distance trail gives back at most its distance. With a trail distance and no step, a
  leg that is not stopped on a tick is priced strictly within that distance of its best price so
  far.\<close>

theorem fixed_trail_bounds_giveback:
  assumes "0 < li_trail_x l" "\<not> 0 < li_trail_y l" and "li_position l = Some ''B'' \<or> li_position l = Some ''S''"
    and "ro_triggered (evaluate_leg l ltp) \<noteq> Some SlHit"
  shows "if is_long l then li_entry_avg l + ro_favorable_peak (evaluate_leg l ltp) - li_trail_x l < ltp
         else ltp < li_entry_avg l - ro_favorable_peak (evaluate_leg l ltp) + li_trail_x l"
proof -
  let ?p = "ro_favorable_peak (evaluate_leg l ltp)"
  obtain x where x: "ro_effective_sl (evaluate_leg l ltp) = Some x"
    "if is_long l then fixed_sl l ?p \<le> x else x \<le> fixed_sl l ?p"
  proof -
    have "tighter (is_long l) (Some (fixed_sl l ?p)) (ro_effective_sl (evaluate_leg l ltp))"
      using trail_at_least [OF assms(1,2), of ?p] by (simp add: evaluate_leg_sel)
    then show thesis using that by (simp add: tighter_def split: option.splits)
  qed
  have "\<not> sl_hit l (Some x) ltp" using assms(4) evaluate_leg_triggered x(1) by metis
  with assms(3) x(2) show ?thesis by (auto simp: sl_hit_def is_long_def fixed_sl_def split: if_splits)
qed

lemma floor_step:
  fixes a y :: rat
  assumes "0 < y"
  shows "of_int \<lfloor>a / y\<rfloor> * y \<le> a" "a < of_int \<lfloor>a / y\<rfloor> * y + y"
proof -
  show "of_int \<lfloor>a / y\<rfloor> * y \<le> a"
    using iffD1 [OF pos_le_divide_eq [OF assms] of_int_floor_le] .
  have "a / y < of_int \<lfloor>a / y\<rfloor> + 1" by linarith
  with assms show "a < of_int \<lfloor>a / y\<rfloor> * y + y" by (simp add: pos_divide_less_eq algebra_simps)
qed

text \<open>How far behind its peak a stepped trail runs. Once the favourable peak has reached the trigger
  \<open>X\<close>, the stop it sets locks in more than \<open>peak - X\<close> and at most \<open>peak - X + Y\<close> points. So the stop
  is behind the best price exactly as long as the step \<open>Y\<close> is at most the trigger \<open>X\<close>; with \<open>Y\<close>
  above \<open>X\<close> (the configuration allows it) the arming tick of a long leg puts the stop above the
  market and exits the leg at once.\<close>

theorem stepped_trail_gap:
  assumes "0 < li_trail_y l" "li_trail_x l \<le> peak" and "is_long l"
  shows "peak - li_trail_x l < stepped_sl l peak - li_entry_avg l \<and>
     stepped_sl l peak - li_entry_avg l \<le> peak - li_trail_x l + li_trail_y l \<and>
     (li_trail_y l \<le> li_trail_x l \<longrightarrow> stepped_sl l peak \<le> li_entry_avg l + peak) \<and>
     (0 < li_trail_x l \<longrightarrow> li_prior_effective_sl l = None \<longrightarrow> peak = li_trail_x l \<longrightarrow> li_trail_x l < li_trail_y l \<longrightarrow>
        li_prior_favorable_peak l \<le> peak \<longrightarrow>
        ro_triggered (evaluate_leg l (li_entry_avg l + peak)) = Some SlHit)"
proof -
  let ?k = "\<lfloor>(peak - li_trail_x l) / li_trail_y l\<rfloor>"
  have s: "stepped_sl l peak - li_entry_avg l = li_trail_y l + of_int ?k * li_trail_y l"
    using assms(3) by (simp add: stepped_sl_def Let_def)
  note f = floor_step [OF assms(1), of "peak - li_trail_x l"]
  have gap: "peak - li_trail_x l < stepped_sl l peak - li_entry_avg l"
    "stepped_sl l peak - li_entry_avg l \<le> peak - li_trail_x l + li_trail_y l" using f s by linarith+
  have "ro_triggered (evaluate_leg l (li_entry_avg l + peak)) = Some SlHit"
    if h: "0 < li_trail_x l" "li_prior_effective_sl l = None" "peak = li_trail_x l" "li_trail_x l < li_trail_y l"
      "li_prior_favorable_peak l \<le> peak"
  proof -
    have p: "max (li_prior_favorable_peak l) (is_favorable_move (is_long l) (li_entry_avg l) (li_entry_avg l + peak)) = peak"
      using h assms(3) by (simp add: is_favorable_move_def max_def)
    have sl: "stepped_sl l peak = li_entry_avg l + li_trail_y l" using s h(3) by simp
    note sl' = sl [unfolded h(3)]
    have "improves (is_long l) (base_sl l) (stepped_sl l peak)"
      using h assms(1,3) by (auto simp: improves_def base_sl_def sl' positive_pts_def split: option.splits if_splits)
    then have "ro_effective_sl (evaluate_leg l (li_entry_avg l + peak)) = Some (stepped_sl l peak)"
      unfolding evaluate_leg_sel p using h assms(1) by (simp add: trail_step_def Let_def)
    then show ?thesis using h assms(3) by (simp add: evaluate_leg_triggered sl_hit_def sl' is_long_def)
  qed
  with gap show ?thesis by force
qed

text \<open>A long leg of 50 bought at 100, with a trail of 10 points and no step; and one that trails in steps
  of 5 once 2 points in favour.\<close>

definition demo_leg :: leg_input where
  "demo_leg = \<lparr>li_position = Some ''B'', li_qty = 50, li_entry_avg = 100, li_sl_pts = None, li_target_pts = Some 30,
     li_trail_x = 10, li_trail_y = 0, li_prior_favorable_peak = 20, li_prior_trail_active = True,
     li_prior_effective_sl = Some 110, li_prior_effective_target = Some 130\<rparr>"

theorem stop_and_target_exact_witness: "ro_triggered (evaluate_leg demo_leg 110) = Some SlHit"
proof -
  have "ro_effective_sl (evaluate_leg demo_leg 110) = Some 110" by code_simp
  then show ?thesis using stop_and_target_exact [of demo_leg 110] by (simp add: demo_leg_def is_long_def)
qed

theorem fixed_trail_bounds_giveback_witness: "(100::rat) + 20 - 10 < 115"
proof -
  have "ro_triggered (evaluate_leg demo_leg 115) \<noteq> Some SlHit" "ro_favorable_peak (evaluate_leg demo_leg 115) = 20"
    by code_simp+
  then show ?thesis using fixed_trail_bounds_giveback [of demo_leg 115] by (simp add: demo_leg_def is_long_def)
qed

definition demo_step_leg :: leg_input where
  "demo_step_leg = demo_leg\<lparr>li_trail_x := 2, li_trail_y := 5, li_prior_favorable_peak := 0,
     li_prior_trail_active := False, li_prior_effective_sl := None\<rparr>"

theorem stepped_trail_gap_witness: "ro_triggered (evaluate_leg demo_step_leg 102) = Some SlHit"
  using stepped_trail_gap [of demo_step_leg 2] by (simp add: demo_step_leg_def demo_leg_def is_long_def)

section \<open>The legs of a run\<close>

text \<open>\<open>compute_strategy_mtm\<close> adds the booked profit of the closed legs and the paper profit of the open
  ones.\<close>

definition leg_realized :: "leg_state \<Rightarrow> rat" where
  "leg_realized g = (if lg_status g = ''closed'' then lg_realized_pnl g else 0)"

definition leg_unrealized :: "leg_state \<Rightarrow> rat" where
  "leg_unrealized g = (if lg_status g = ''open'' then lg_mtm g else 0)"

fun sum_legs :: "leg_state list \<Rightarrow> rat \<Rightarrow> rat \<Rightarrow> rat \<times> rat" where
  "sum_legs [] r u = (r, u)"
| "sum_legs (g # gs) r u =
     (if lg_status g = ''closed'' then sum_legs gs (r + lg_realized_pnl g) u
      else if lg_status g = ''open'' then sum_legs gs r (u + lg_mtm g)
      else sum_legs gs r u)"

definition compute_strategy_mtm :: "leg_state list \<Rightarrow> rat \<times> rat \<times> rat" where
  "compute_strategy_mtm gs = (let (r, u) = sum_legs gs 0 0 in (r, u, r + u))"

lemma sum_legs_eq: "sum_legs gs r u = (r + row_total leg_realized gs, u + row_total leg_unrealized gs)"
  by (induction gs r u rule: sum_legs.induct) (auto simp: leg_realized_def leg_unrealized_def)

lemma compute_strategy_mtm_eq:
  "compute_strategy_mtm gs =
     (row_total leg_realized gs, row_total leg_unrealized gs, row_total leg_realized gs + row_total leg_unrealized gs)"
  by (simp add: compute_strategy_mtm_def sum_legs_eq)

end
