(* ===== verification/Strategy_Risk.thy ===== *)
theory Strategy_Risk
  imports Risk_Evaluator
begin

text \<open>
  Strategy-level risk (\<open>src/backend/strategy/strategy_risk.py\<close>): moving the stops of the other legs to
  their entry after a stop, the profit lock (fixed and trailing), and the overall stop loss and
  target, as the pure functions the source has. Messages and severities of the events are left out;
  the numbers they carry are kept.
\<close>

section \<open>Stops to entry\<close>

text \<open>Which legs \<open>apply_trail_to_entry\<close> moves: open ones with an entry price, other than the one that was
  stopped, whose stop would not get looser.\<close>

definition moves_to_entry :: "int \<Rightarrow> leg_state \<Rightarrow> bool" where
  "moves_to_entry trig g =
     (lg_leg_id g \<noteq> trig \<and> lg_status g = ''open'' \<and>
      (case lg_entry_avg g of
         None \<Rightarrow> False
       | Some new_sl \<Rightarrow>
           (case lg_effective_sl g of
              None \<Rightarrow> True
            | Some prev \<Rightarrow> \<not> (lg_position g = Some ''B'' \<and> new_sl \<le> prev) \<and>
                           \<not> (lg_position g = Some ''S'' \<and> prev \<le> new_sl))))"

fun apply_trail_to_entry :: "leg_state list \<Rightarrow> int \<Rightarrow> leg_state list \<times> nat" where
  "apply_trail_to_entry [] trig = ([], 0)"
| "apply_trail_to_entry (g # gs) trig =
     (let (gs', moved) = apply_trail_to_entry gs trig in
      if moves_to_entry trig g then (g\<lparr>lg_effective_sl := lg_entry_avg g\<rparr> # gs', moved + 1)
      else (g # gs', moved))"

section \<open>Profit lock, overall stop and target\<close>

record lock_config =
  lk_mode :: "string option"
  lk_if_profit_reaches :: "rat option"
  lk_lock_profit :: "rat option"
  lk_trail_step :: "rat option"

datatype strategy_event =
    LockProfitArmed (ev_floor: rat)
  | LockProfitFloorAdvanced (ev_floor: rat)
  | LockProfitTriggered (ev_floor: rat)
  | OverallTargetHit (ev_level: rat)
  | OverallSlHit (ev_level: rat)

record strategy_outcome =
  so_lock_armed :: bool
  so_lock_floor :: "rat option"
  so_pnl_peak :: rat
  so_pnl_trough :: rat
  so_events :: "strategy_event list"
  so_stop_reason :: "string option"

definition floor_initial :: "lock_config \<Rightarrow> rat" where
  "floor_initial c = (case lk_lock_profit c of Some x \<Rightarrow> x | None \<Rightarrow> 0)"

text \<open>A step of zero counts as no step.\<close>

definition lock_trail_step :: "lock_config \<Rightarrow> rat option" where
  "lock_trail_step c =
     (if lk_mode c = Some ''lock_and_trail''
      then (case lk_trail_step c of Some s \<Rightarrow> if s = 0 then None else Some s | None \<Rightarrow> None) else None)"

definition reaches :: "rat option \<Rightarrow> rat \<Rightarrow> bool" where
  "reaches level x = (case level of None \<Rightarrow> False | Some a \<Rightarrow> a \<le> x)"

text \<open>Arming, and the upward ratchet of the floor on later ticks.\<close>

definition lock_step :: "lock_config \<Rightarrow> rat \<Rightarrow> rat \<Rightarrow> bool \<Rightarrow> rat option \<Rightarrow> bool \<times> rat option \<times> strategy_event list" where
  "lock_step c mtm peak armed lfloor =
     (if \<not> armed \<and> reaches (lk_if_profit_reaches c) mtm then
        (let f = (case lock_trail_step c of Some s \<Rightarrow> max (floor_initial c) (peak - s) | None \<Rightarrow> floor_initial c)
         in (True, Some f, [LockProfitArmed f]))
      else if armed then
        (case lock_trail_step c of
           None \<Rightarrow> (True, lfloor, [])
         | Some s \<Rightarrow>
             let new_floor = max (floor_initial c) (peak - s) in
             (case lfloor of
                None \<Rightarrow> (True, Some new_floor, [])
              | Some prev \<Rightarrow> if prev < new_floor then (True, Some new_floor, [LockProfitFloorAdvanced new_floor])
                             else (True, Some prev, [])))
      else (armed, lfloor, []))"

definition overall_step :: "rat \<Rightarrow> rat option \<Rightarrow> rat option \<Rightarrow> strategy_event list \<times> string option" where
  "overall_step mtm sl target =
     (if reaches target mtm then ([OverallTargetHit (the target)], Some ''overall_target'')
      else (case sl of
              None \<Rightarrow> ([], None)
            | Some s \<Rightarrow> if mtm \<le> - \<bar>s\<bar> then ([OverallSlHit \<bar>s\<bar>], Some ''overall_sl'') else ([], None)))"

definition evaluate_strategy ::
  "rat \<Rightarrow> rat \<Rightarrow> rat \<Rightarrow> rat \<Rightarrow> bool \<Rightarrow> rat option \<Rightarrow> bool \<Rightarrow> rat option \<Rightarrow> rat option \<Rightarrow> lock_config option \<Rightarrow>
     strategy_outcome" where
  "evaluate_strategy realized unrealized prior_peak prior_trough armed lfloor trail_to_entry_active sl target cfg =
     (let mtm = realized + unrealized;
          peak = max prior_peak mtm;
          trough = min prior_trough mtm;
          (armed', lfloor', evs) =
            (case cfg of None \<Rightarrow> (armed, lfloor, []) | Some c \<Rightarrow> lock_step c mtm peak armed lfloor);
          out = \<lparr>so_lock_armed = armed', so_lock_floor = lfloor', so_pnl_peak = peak, so_pnl_trough = trough,
                 so_events = evs, so_stop_reason = None\<rparr>
      in if cfg \<noteq> None \<and> armed' \<and> (case lfloor' of None \<Rightarrow> False | Some f \<Rightarrow> mtm \<le> f)
         then out\<lparr>so_events := evs @ [LockProfitTriggered (the lfloor')], so_stop_reason := Some ''lock_profit''\<rparr>
         else if trail_to_entry_active then out
         else (let (evs', reason) = overall_step mtm sl target
               in out\<lparr>so_events := evs @ evs', so_stop_reason := reason\<rparr>))"

section \<open>Facts\<close>

lemma trail_to_entry_map:
  "fst (apply_trail_to_entry gs trig) =
     map (\<lambda>g. if moves_to_entry trig g then g\<lparr>lg_effective_sl := lg_entry_avg g\<rparr> else g) gs"
  by (induction gs) (auto simp: Let_def split_beta)

text \<open>A stop moved to entry is at least as tight as before; nothing else of the leg changes.\<close>

lemma moves_to_entry_tighter:
  "moves_to_entry trig g \<Longrightarrow> lg_position g = Some ''B'' \<or> lg_position g = Some ''S'' \<Longrightarrow>
     tighter (lg_position g = Some ''B'') (lg_effective_sl g) (lg_entry_avg g)"
  by (auto simp: moves_to_entry_def tighter_def split: option.splits)

lemma evaluate_strategy_sel [simp]:
  "so_pnl_peak (evaluate_strategy r u p t a f tr sl tg cfg) = max p (r + u)"
  "so_pnl_trough (evaluate_strategy r u p t a f tr sl tg cfg) = min t (r + u)"
  by (auto simp: evaluate_strategy_def Let_def split_beta)

lemma evaluate_strategy_lock:
  "so_lock_armed (evaluate_strategy r u p t a f tr sl tg (Some c)) = fst (lock_step c (r + u) (max p (r + u)) a f)"
  "so_lock_floor (evaluate_strategy r u p t a f tr sl tg (Some c)) = fst (snd (lock_step c (r + u) (max p (r + u)) a f))"
  "so_lock_armed (evaluate_strategy r u p t a f tr sl tg None) = a"
  "so_lock_floor (evaluate_strategy r u p t a f tr sl tg None) = f"
  by (auto simp: evaluate_strategy_def Let_def split_beta)

lemma evaluate_strategy_continues:
  "so_stop_reason (evaluate_strategy r u p t a f tr sl tg cfg) = None \<longleftrightarrow>
     (cfg \<noteq> None \<longrightarrow> so_lock_armed (evaluate_strategy r u p t a f tr sl tg cfg) \<longrightarrow>
        (\<forall>x. so_lock_floor (evaluate_strategy r u p t a f tr sl tg cfg) = Some x \<longrightarrow> x < r + u)) \<and>
     (tr \<or> (\<not> reaches tg (r + u) \<and> (\<forall>s. sl = Some s \<longrightarrow> - \<bar>s\<bar> < r + u)))"
  by (cases cfg) (auto simp: evaluate_strategy_def overall_step_def Let_def split_beta split: option.splits if_splits)

text \<open>The lock, once armed, carries a floor of at least the configured profit.\<close>

definition lock_ok :: "lock_config \<Rightarrow> bool \<Rightarrow> rat option \<Rightarrow> bool" where
  "lock_ok c armed lfloor =
     (if armed then (case lfloor of None \<Rightarrow> False | Some f \<Rightarrow> floor_initial c \<le> f) else True)"

lemma lock_step_ok:
  assumes "lock_ok c a f"
  shows "lock_ok c (fst (lock_step c m p a f)) (fst (snd (lock_step c m p a f)))"
  using assms by (auto simp: lock_ok_def lock_step_def Let_def split: option.splits if_splits)

lemma lock_step_trails:
  assumes "fst (lock_step c m p a f)" and "lock_trail_step c = Some s"
  shows "\<exists>x. fst (snd (lock_step c m p a f)) = Some x \<and> p - s \<le> x"
  using assms by (auto simp: lock_step_def Let_def max_def split: option.splits if_splits)

lemma lock_step_grows: "a \<Longrightarrow> f = Some x \<Longrightarrow> \<exists>y. fst (snd (lock_step c m p a f)) = Some y \<and> x \<le> y"
  by (auto simp: lock_step_def Let_def split: option.splits)

lemma lock_step_armed: "fst (lock_step c m p a f) \<longleftrightarrow> a \<or> reaches (lk_if_profit_reaches c) m"
  by (auto simp: lock_step_def Let_def split: option.splits)

text \<open>C23: locked profit is never given back. On every tick the lock is armed after it exactly when it was
  before, or the total reached the configured level, and the floor of an armed lock never falls. If the
  tick lets the run go on while the lock is armed, the total is strictly above the floor the tick
  records, and with a trailing lock within one step of the best total the run has seen. If the floor of
  the lock, if it was armed, was at least the configured profit (as it is when the lock arms), it stays
  so, and the total of a run that goes on with the lock armed is above the configured profit.\<close>

theorem locked_profit_kept:
  fixes r u p t :: rat and a tr :: bool and f sl tg :: "rat option" and c :: lock_config
  defines "out \<equiv> evaluate_strategy r u p t a f tr sl tg (Some c)"
  shows "(so_lock_armed out \<longleftrightarrow> a \<or> reaches (lk_if_profit_reaches c) (r + u)) \<and>
    (\<forall>x. a \<longrightarrow> f = Some x \<longrightarrow> (\<exists>y. so_lock_floor out = Some y \<and> x \<le> y)) \<and>
    (so_lock_armed out \<longrightarrow> so_stop_reason out = None \<longrightarrow>
       (\<forall>y. so_lock_floor out = Some y \<longrightarrow> y < r + u) \<and>
       (\<forall>s. lock_trail_step c = Some s \<longrightarrow> so_pnl_peak out - s < r + u)) \<and>
    (lock_ok c a f \<longrightarrow> lock_ok c (so_lock_armed out) (so_lock_floor out) \<and>
       (so_lock_armed out \<longrightarrow> so_stop_reason out = None \<longrightarrow> floor_initial c < r + u))"
proof (intro conjI allI impI)
  show "so_lock_armed out \<longleftrightarrow> a \<or> reaches (lk_if_profit_reaches c) (r + u)"
    unfolding out_def evaluate_strategy_lock by (rule lock_step_armed)
  show "\<exists>y. so_lock_floor out = Some y \<and> x \<le> y" if "a" "f = Some x" for x
    unfolding out_def evaluate_strategy_lock by (rule lock_step_grows [OF that])
  show above: "x < r + u" if "so_lock_armed out" "so_stop_reason out = None" "so_lock_floor out = Some x" for x
    using that evaluate_strategy_continues [of r u p t a f tr sl tg "Some c"] by (auto simp: out_def)
  show "so_pnl_peak out - s < r + u"
    if h: "so_lock_armed out" "so_stop_reason out = None" "lock_trail_step c = Some s" for s
  proof -
    obtain x where "so_lock_floor out = Some x" "so_pnl_peak out - s \<le> x"
      using lock_step_trails [OF h(1) [unfolded out_def evaluate_strategy_lock] h(3)]
      by (auto simp: out_def evaluate_strategy_lock)
    with above h show ?thesis by force
  qed
  show ok: "lock_ok c (so_lock_armed out) (so_lock_floor out)" if "lock_ok c a f"
    unfolding out_def evaluate_strategy_lock by (rule lock_step_ok [OF that])
  show "floor_initial c < r + u" if "lock_ok c a f" "so_lock_armed out" "so_stop_reason out = None"
    using ok [OF that(1)] above that(2,3) by (force simp: lock_ok_def split: option.splits)
qed

definition demo_lock :: lock_config where
  "demo_lock = \<lparr>lk_mode = Some ''lock_and_trail'', lk_if_profit_reaches = Some 5000, lk_lock_profit = Some 2000,
     lk_trail_step = Some 1000\<rparr>"

theorem locked_profit_kept_witness:
  "so_lock_floor (evaluate_strategy 1000 5500 6000 0 True (Some 5000) False None None (Some demo_lock)) = Some 5500 \<and>
   (5500::rat) < 6500 \<and> (2000::rat) < 6500"
proof -
  let ?out = "evaluate_strategy 1000 5500 6000 0 True (Some 5000) False None None (Some demo_lock)"
  have "lock_ok demo_lock True (Some 5000)" "so_lock_armed ?out" "so_stop_reason ?out = None"
    "floor_initial demo_lock = 2000" "so_lock_floor ?out = Some 5500" by code_simp+
  then show ?thesis
    using locked_profit_kept [of 1000 5500 6000 0 True "Some 5000" False None None demo_lock] by simp
qed

end
