(* ===== verification/Tick_Processor.thy ===== *)
theory Tick_Processor
  imports Strategy_Risk
begin

text \<open>
  One tick for one run (\<open>_process_tick_for_run\<close> in \<open>src/backend/strategy/tick_processor.py\<close>): the part
  that holds the state lock. The matching open legs are priced and their stops evaluated, a stop may
  pull the other stops to entry, the run totals are summed again and the strategy rules are applied;
  what remains to be done outside the lock, the leg exits and the reason to stop the run, is the
  result. Publishing events and pushing frames to clients are left out; which events a tick publishes
  is kept.
\<close>

section \<open>The strategy row\<close>

text \<open>The columns of \<open>SmStrategy\<close> (\<open>src/backend/models/strategy_module.py\<close>) the run engine reads. Times
  of day are minutes after midnight IST.\<close>

record sm_strategy =
  ss_id :: int
  ss_user_id :: int
  ss_name :: string
  ss_strategy_kind :: string
  ss_direction :: string
  ss_strategy_type :: string
  ss_entry_time :: "int option"
  ss_exit_time :: "int option"
  ss_product :: string
  ss_pricetype :: string
  ss_legs :: "leg_config list"
  ss_overall_sl_mtm :: "rat option"
  ss_overall_target_mtm :: "rat option"
  ss_lock_profit :: "lock_config option"
  ss_trail_sl_to_entry :: bool
  ss_live_enabled :: bool
  ss_webhook_locked :: bool
  ss_status :: string
  ss_current_run_id :: "int option"
  ss_underlying :: string
  ss_underlying_exchange :: string
  ss_webhook_token_hash :: string
  ss_webhook_ip_allowlist :: "string list"

section \<open>Legs\<close>

definition find_leg_config :: "leg_config list \<Rightarrow> int \<Rightarrow> leg_config option" where
  "find_leg_config legs i = get_row lc_id i legs"

definition leg_matches :: "string \<Rightarrow> string \<Rightarrow> leg_state \<Rightarrow> bool" where
  "leg_matches exch sb g \<longleftrightarrow> lg_status g = ''open'' \<and> lg_symbol g = Some sb \<and> lg_exchange g = Some exch"

definition or_zero :: "rat option \<Rightarrow> rat" where
  "or_zero x = (case x of Some r \<Rightarrow> r | None \<Rightarrow> 0)"

definition leg_input_of :: "leg_config option \<Rightarrow> leg_state \<Rightarrow> rat \<Rightarrow> leg_input" where
  "leg_input_of c g entry_avg =
     \<lparr>li_position = lg_position g, li_qty = (case lg_qty g of Some q \<Rightarrow> q | None \<Rightarrow> 0), li_entry_avg = entry_avg,
      li_sl_pts = Option.bind c lc_sl_pts, li_target_pts = Option.bind c lc_target_pts,
      li_trail_x = or_zero (Option.bind c lc_trail_x), li_trail_y = or_zero (Option.bind c lc_trail_y),
      li_prior_favorable_peak = lg_favorable_peak g, li_prior_trail_active = lg_trail_active g,
      li_prior_effective_sl = lg_effective_sl g, li_prior_effective_target = lg_effective_target g\<rparr>"

definition leg_outcome :: "leg_config list \<Rightarrow> rat \<Rightarrow> leg_state \<Rightarrow> risk_outcome option" where
  "leg_outcome cfgs ltp g =
     map_option (\<lambda>e. evaluate_leg (leg_input_of (find_leg_config cfgs (lg_leg_id g)) g e) ltp) (lg_entry_avg g)"

definition tick_leg :: "leg_config list \<Rightarrow> rat \<Rightarrow> leg_state \<Rightarrow> leg_state" where
  "tick_leg cfgs ltp g =
     (case leg_outcome cfgs ltp g of
        None \<Rightarrow> g\<lparr>lg_ltp := Some ltp\<rparr>
      | Some out \<Rightarrow> g\<lparr>lg_ltp := Some ltp, lg_mtm := ro_leg_mtm out, lg_favorable_peak := ro_favorable_peak out,
                       lg_trail_active := ro_trail_active out, lg_effective_sl := ro_effective_sl out,
                       lg_effective_target := ro_effective_target out\<rparr>)"

definition leg_trigger :: "leg_config list \<Rightarrow> rat \<Rightarrow> leg_state \<Rightarrow> (int \<times> trigger) option" where
  "leg_trigger cfgs ltp g =
     (case leg_outcome cfgs ltp g of
        None \<Rightarrow> None
      | Some out \<Rightarrow> map_option (\<lambda>t. (lg_leg_id g, t)) (ro_triggered out))"

fun tick_legs ::
  "leg_config list \<Rightarrow> string \<Rightarrow> string \<Rightarrow> rat \<Rightarrow> leg_state list \<Rightarrow> leg_state list \<times> (int \<times> trigger) list" where
  "tick_legs cfgs exch sb ltp [] = ([], [])"
| "tick_legs cfgs exch sb ltp (g # gs) =
     (let (gs', ts) = tick_legs cfgs exch sb ltp gs in
      if leg_matches exch sb g
      then (tick_leg cfgs ltp g # gs', (case leg_trigger cfgs ltp g of None \<Rightarrow> ts | Some t \<Rightarrow> t # ts))
      else (g # gs', ts))"

fun triggered_exits :: "(int \<times> trigger) list \<Rightarrow> (int \<times> string) list" where
  "triggered_exits [] = []"
| "triggered_exits ((i, t) # ts) =
     (if t = SlHit then (i, ''exit_sl'') # triggered_exits ts
      else if t = TargetHit then (i, ''exit_target'') # triggered_exits ts
      else triggered_exits ts)"

definition sl_leg_ids :: "(int \<times> trigger) list \<Rightarrow> int list" where
  "sl_leg_ids ts = map fst (filter (\<lambda>t. snd t = SlHit) ts)"

fun trail_all_to_entry :: "int list \<Rightarrow> leg_state list \<Rightarrow> leg_state list \<times> nat" where
  "trail_all_to_entry [] gs = (gs, 0)"
| "trail_all_to_entry (i # is) gs =
     (let (gs', m) = apply_trail_to_entry gs i; (gs'', n) = trail_all_to_entry is gs' in (gs'', m + n))"

section \<open>The run\<close>

record tick_result =
  tk_state :: run_state
  tk_exits :: "(int \<times> string) list"
  tk_stop_reason :: "string option"
  tk_leg_events :: "(int \<times> trigger) list"
  tk_trailed_to_entry :: bool
  tk_events :: "strategy_event list"

definition tick_run :: "sm_strategy \<Rightarrow> string \<Rightarrow> string \<Rightarrow> rat \<Rightarrow> run_state \<Rightarrow> tick_result" where
  "tick_run strat exch sb ltp s =
     (let (legs, ts) = tick_legs (ss_legs strat) exch sb ltp (rs_legs s);
          sls = sl_leg_ids ts;
          (legs', moved) =
            (if sls \<noteq> [] \<and> ss_trail_sl_to_entry strat \<and> \<not> rs_trail_to_entry_active s
             then trail_all_to_entry sls legs else (legs, 0));
          trailing = (rs_trail_to_entry_active s \<or> 0 < moved);
          (r, u, total) = compute_strategy_mtm legs';
          out = evaluate_strategy r u (rs_pnl_peak s) (rs_pnl_trough s) (rs_lock_armed s) (rs_lock_floor s) trailing
                  (ss_overall_sl_mtm strat) (ss_overall_target_mtm strat) (ss_lock_profit strat)
      in \<lparr>tk_state = s\<lparr>rs_pnl_realized := r, rs_pnl_unrealized := u, rs_pnl_total := total,
                       rs_pnl_peak := so_pnl_peak out, rs_pnl_trough := so_pnl_trough out,
                       rs_lock_armed := so_lock_armed out, rs_lock_floor := so_lock_floor out,
                       rs_trail_to_entry_active := trailing, rs_legs := legs'\<rparr>,
          tk_exits = triggered_exits ts, tk_stop_reason = so_stop_reason out, tk_leg_events = ts,
          tk_trailed_to_entry = (0 < moved), tk_events = so_events out\<rparr>)"

text \<open>Nothing happens for an unknown strategy, a run without state, or a tick no open leg is waiting for.\<close>

definition process_tick_for_run ::
  "sm_strategy option \<Rightarrow> int \<Rightarrow> string \<Rightarrow> string \<Rightarrow> rat \<Rightarrow> run_store \<Rightarrow>
     run_store \<times> (int \<times> string) list \<times> string option" where
  "process_tick_for_run row rid exch sb ltp st =
     (case (row, get_run_state rid st) of
        (Some strat, Some s) \<Rightarrow>
          if filter (leg_matches exch sb) (rs_legs s) = [] then (st, [], None)
          else let res = tick_run strat exch sb ltp s
               in (hydrate_run_state rid (tk_state res) st, tk_exits res, tk_stop_reason res)
      | _ \<Rightarrow> (st, [], None))"

section \<open>Facts\<close>

lemma tick_legs_map:
  "fst (tick_legs cfgs exch sb ltp gs) = map (\<lambda>g. if leg_matches exch sb g then tick_leg cfgs ltp g else g) gs"
  by (induction gs) (auto simp: Let_def split_beta split: option.splits)

lemma tick_legs_triggers:
  "(i, t) \<in> set (snd (tick_legs cfgs exch sb ltp gs)) \<longleftrightarrow>
     (\<exists>g\<in>set gs. leg_matches exch sb g \<and> leg_trigger cfgs ltp g = Some (i, t))"
  by (induction gs) (auto simp: Let_def split_beta split: option.splits)

lemma leg_trigger_id: "leg_trigger cfgs ltp g = Some (i, t) \<Longrightarrow> i = lg_leg_id g"
  by (auto simp: leg_trigger_def split: option.splits)

lemma triggers_distinct: "uniq lg_leg_id gs \<Longrightarrow> distinct (map fst (snd (tick_legs cfgs exch sb ltp gs)))"
proof (induction gs)
  case (Cons g gs)
  then have "lg_leg_id g \<notin> lg_leg_id ` set gs" "distinct (map fst (snd (tick_legs cfgs exch sb ltp gs)))"
    by (auto simp: uniq_def)
  moreover have "fst ` set (snd (tick_legs cfgs exch sb ltp gs)) \<subseteq> lg_leg_id ` set gs"
    using tick_legs_triggers leg_trigger_id by fastforce
  ultimately show ?case
    by (auto simp: Let_def split_beta dest!: leg_trigger_id split: option.splits)
qed simp

lemma triggered_exits_iff:
  "(i, k) \<in> set (triggered_exits ts) \<longleftrightarrow>
     ((i, SlHit) \<in> set ts \<and> k = ''exit_sl'') \<or> ((i, TargetHit) \<in> set ts \<and> k = ''exit_target'')"
  by (induction ts rule: triggered_exits.induct) auto

lemma triggered_exits_keys: "set (map fst (triggered_exits ts)) \<subseteq> set (map fst ts)"
  by (induction ts rule: triggered_exits.induct) auto

lemma triggered_exits_distinct: "distinct (map fst ts) \<Longrightarrow> distinct (map fst (triggered_exits ts))"
proof (induction ts rule: triggered_exits.induct)
  case (2 i t ts)
  then show ?case using triggered_exits_keys [of ts] by auto
qed simp

text \<open>What a tick may do to a leg: a matching one is priced, another keeps everything but its stop; no
  stop of a long or short leg gets looser.\<close>

definition leg_after_tick :: "string \<Rightarrow> string \<Rightarrow> rat \<Rightarrow> leg_state \<Rightarrow> leg_state \<Rightarrow> bool" where
  "leg_after_tick exch sb ltp g g' \<longleftrightarrow>
     (if leg_matches exch sb g
      then lg_ltp g' = Some ltp \<and>
           g\<lparr>lg_ltp := lg_ltp g', lg_mtm := lg_mtm g', lg_favorable_peak := lg_favorable_peak g',
             lg_trail_active := lg_trail_active g', lg_effective_sl := lg_effective_sl g',
             lg_effective_target := lg_effective_target g'\<rparr> = g'
      else g\<lparr>lg_effective_sl := lg_effective_sl g'\<rparr> = g') \<and>
     (if lg_position g = Some ''B'' \<or> lg_position g = Some ''S''
      then tighter (lg_position g = Some ''B'') (lg_effective_sl g) (lg_effective_sl g') else True)"

lemma leg_outcome_tightens:
  assumes "leg_outcome cfgs ltp g = Some out"
  shows "tighter (lg_position g = Some ''B'') (lg_effective_sl g) (ro_effective_sl out)"
proof -
  obtain e where "out = evaluate_leg (leg_input_of (find_leg_config cfgs (lg_leg_id g)) g e) ltp"
    using assms by (auto simp: leg_outcome_def)
  then show ?thesis
    using stop_tightens(2) [of "leg_input_of (find_leg_config cfgs (lg_leg_id g)) g e" ltp]
    by (simp add: leg_input_of_def is_long_def)
qed

lemma leg_after_tick_priced:
  "leg_after_tick exch sb ltp g (if leg_matches exch sb g then tick_leg cfgs ltp g else g)"
  using leg_outcome_tightens [of cfgs ltp g]
  by (auto simp: leg_after_tick_def tick_leg_def split: option.split)

lemma leg_after_tick_moved:
  assumes "leg_after_tick exch sb ltp g h"
  shows "leg_after_tick exch sb ltp g (if moves_to_entry i h then h\<lparr>lg_effective_sl := lg_entry_avg h\<rparr> else h)"
proof (cases "moves_to_entry i h")
  case True
  have p: "lg_position h = lg_position g" using assms
    by (auto simp: leg_after_tick_def split: if_splits dest: arg_cong [of _ _ lg_position])
  have "tighter (lg_position g = Some ''B'') (lg_effective_sl g) (lg_entry_avg h)"
    if "lg_position g = Some ''B'' \<or> lg_position g = Some ''S''"
    using tighter_trans moves_to_entry_tighter [OF True] assms that p
    by (auto simp: leg_after_tick_def split: if_splits)
  with assms True show ?thesis
    by (cases g; cases h) (auto simp: leg_after_tick_def leg_matches_def split: if_splits)
qed (use assms in simp)

lemma list_all2_map_step:
  assumes "\<And>g h. P g h \<Longrightarrow> P g (f h)" and "list_all2 P gs hs"
  shows "list_all2 P gs (map f hs)"
  using assms(2) by (rule list_all2_mono [THEN list_all2_map2 [THEN iffD2]]) (rule assms(1))

lemma trail_all_after_tick:
  "list_all2 (leg_after_tick exch sb ltp) gs hs \<Longrightarrow>
     list_all2 (leg_after_tick exch sb ltp) gs (fst (trail_all_to_entry is hs))"
proof (induction "is" arbitrary: hs)
  case (Cons i "is")
  have "list_all2 (leg_after_tick exch sb ltp) gs (fst (apply_trail_to_entry hs i))"
    unfolding trail_to_entry_map by (rule list_all2_map_step [OF leg_after_tick_moved Cons.prems])
  from Cons.IH [OF this] show ?case by (simp add: split_beta)
qed simp

definition tick_run_legs :: "sm_strategy \<Rightarrow> string \<Rightarrow> string \<Rightarrow> rat \<Rightarrow> run_state \<Rightarrow> leg_state list" where
  "tick_run_legs strat exch sb ltp s =
     (let (legs, ts) = tick_legs (ss_legs strat) exch sb ltp (rs_legs s) in
      if sl_leg_ids ts \<noteq> [] \<and> ss_trail_sl_to_entry strat \<and> \<not> rs_trail_to_entry_active s
      then fst (trail_all_to_entry (sl_leg_ids ts) legs) else legs)"

lemma tick_run_sel:
  defines "r \<equiv> \<lambda>strat exch sb ltp s. row_total leg_realized (tick_run_legs strat exch sb ltp s)"
    and "u \<equiv> \<lambda>strat exch sb ltp s. row_total leg_unrealized (tick_run_legs strat exch sb ltp s)"
  shows "rs_legs (tk_state (tick_run strat exch sb ltp s)) = tick_run_legs strat exch sb ltp s"
    "rs_pnl_realized (tk_state (tick_run strat exch sb ltp s)) = r strat exch sb ltp s"
    "rs_pnl_unrealized (tk_state (tick_run strat exch sb ltp s)) = u strat exch sb ltp s"
    "rs_pnl_total (tk_state (tick_run strat exch sb ltp s)) = r strat exch sb ltp s + u strat exch sb ltp s"
    "rs_pnl_peak (tk_state (tick_run strat exch sb ltp s)) =
       max (rs_pnl_peak s) (r strat exch sb ltp s + u strat exch sb ltp s)"
    "rs_pnl_trough (tk_state (tick_run strat exch sb ltp s)) =
       min (rs_pnl_trough s) (r strat exch sb ltp s + u strat exch sb ltp s)"
    "tk_exits (tick_run strat exch sb ltp s) = triggered_exits (snd (tick_legs (ss_legs strat) exch sb ltp (rs_legs s)))"
  by (auto simp: tick_run_def tick_run_legs_def r_def u_def compute_strategy_mtm_eq Let_def split_beta)

lemma tick_run_outcome:
  fixes strat exch sb ltp s
  defines "res \<equiv> tick_run strat exch sb ltp s"
  defines "out \<equiv> evaluate_strategy (rs_pnl_realized (tk_state res)) (rs_pnl_unrealized (tk_state res)) (rs_pnl_peak s)
     (rs_pnl_trough s) (rs_lock_armed s) (rs_lock_floor s) (rs_trail_to_entry_active (tk_state res))
     (ss_overall_sl_mtm strat) (ss_overall_target_mtm strat) (ss_lock_profit strat)"
  shows "tk_stop_reason res = so_stop_reason out" "rs_lock_armed (tk_state res) = so_lock_armed out"
    "rs_lock_floor (tk_state res) = so_lock_floor out"
  by (auto simp: res_def out_def tick_run_def compute_strategy_mtm_eq Let_def split_beta)

section \<open>Properties\<close>

text \<open>A tick stays in its lane. The legs of a run keep their number and order; a leg that is not
  open in the ticking instrument changes in nothing but its stop; a priced leg keeps its identity,
  side, size, entry, status and booked profit; and no stop of a long or short leg ever loosens, also
  when a stop elsewhere pulls it to entry.\<close>

theorem tick_stays_in_lane:
  "list_all2 (leg_after_tick exch sb ltp) (rs_legs s) (rs_legs (tk_state (tick_run strat exch sb ltp s)))"
proof -
  have "list_all2 (leg_after_tick exch sb ltp) (rs_legs s) (fst (tick_legs (ss_legs strat) exch sb ltp (rs_legs s)))"
    unfolding tick_legs_map list_all2_map2 by (rule list.rel_refl) (rule leg_after_tick_priced)
  then show ?thesis
    using trail_all_after_tick by (auto simp: tick_run_sel tick_run_legs_def split_beta Let_def)
qed

text \<open>C26: a run that goes on is within its limits. After a tick the booked and paper profit are the sums
  over the closed and the open legs, the total is their sum and lies between the recorded trough and
  peak, which only widen. When the tick gives no reason to stop, an armed profit lock is strictly
  below the total, and, unless stops have been pulled to entry, the total is strictly below the
  overall target and strictly above the overall loss limit.\<close>

theorem continuing_run_within_limits:
  fixes strat exch sb ltp s
  defines "res \<equiv> tick_run strat exch sb ltp s"
  shows "rs_pnl_realized (tk_state res) = row_total leg_realized (rs_legs (tk_state res)) \<and>
    rs_pnl_unrealized (tk_state res) = row_total leg_unrealized (rs_legs (tk_state res)) \<and>
    rs_pnl_total (tk_state res) = rs_pnl_realized (tk_state res) + rs_pnl_unrealized (tk_state res) \<and>
    rs_pnl_trough (tk_state res) \<le> min (rs_pnl_trough s) (rs_pnl_total (tk_state res)) \<and>
    max (rs_pnl_peak s) (rs_pnl_total (tk_state res)) \<le> rs_pnl_peak (tk_state res) \<and>
    (tk_stop_reason res = None \<longrightarrow>
       (\<forall>f. ss_lock_profit strat \<noteq> None \<longrightarrow> rs_lock_armed (tk_state res) \<longrightarrow> rs_lock_floor (tk_state res) = Some f \<longrightarrow>
          f < rs_pnl_total (tk_state res)) \<and>
       (\<not> rs_trail_to_entry_active (tk_state res) \<longrightarrow>
          (\<forall>t. ss_overall_target_mtm strat = Some t \<longrightarrow> rs_pnl_total (tk_state res) < t) \<and>
          (\<forall>l. ss_overall_sl_mtm strat = Some l \<longrightarrow> - \<bar>l\<bar> < rs_pnl_total (tk_state res))))"
proof -
  have lim: "f < rs_pnl_total (tk_state res)"
    if "tk_stop_reason res = None" "ss_lock_profit strat \<noteq> None" "rs_lock_armed (tk_state res)"
      "rs_lock_floor (tk_state res) = Some f" for f
    using that unfolding res_def tick_run_outcome by (auto simp: evaluate_strategy_continues tick_run_sel)
  have "(\<forall>t. ss_overall_target_mtm strat = Some t \<longrightarrow> rs_pnl_total (tk_state res) < t) \<and>
      (\<forall>l. ss_overall_sl_mtm strat = Some l \<longrightarrow> - \<bar>l\<bar> < rs_pnl_total (tk_state res))"
    if "tk_stop_reason res = None" "\<not> rs_trail_to_entry_active (tk_state res)"
    using that unfolding res_def tick_run_outcome(1)
    by (auto simp: evaluate_strategy_continues tick_run_sel reaches_def not_le)
  with lim show ?thesis by (auto simp: res_def tick_run_sel)
qed

text \<open>C25: exactly the legs that reached their level are closed. For a long or short leg of a run whose
  legs have distinct ids, open in the ticking instrument and with a known entry, the tick orders a
  stop-loss exit exactly when the price has reached the stop this very tick computed for the leg, and
  a target exit exactly when it has not and the price has reached the target; no leg is closed
  twice, and no other leg is closed.\<close>

theorem tick_exits_exact:
  assumes "uniq lg_leg_id (rs_legs s)" "g \<in> set (rs_legs s)" "leg_matches exch sb g"
    and "lg_entry_avg g \<noteq> None" and "lg_position g = Some ''B'' \<or> lg_position g = Some ''S''"
  shows "((lg_leg_id g, ''exit_sl'') \<in> set (tk_exits (tick_run strat exch sb ltp s)) \<longleftrightarrow>
      (case lg_effective_sl (tick_leg (ss_legs strat) ltp g) of None \<Rightarrow> False
       | Some x \<Rightarrow> if lg_position g = Some ''B'' then ltp \<le> x else x \<le> ltp)) \<and>
    ((lg_leg_id g, ''exit_target'') \<in> set (tk_exits (tick_run strat exch sb ltp s)) \<longleftrightarrow>
      (lg_leg_id g, ''exit_sl'') \<notin> set (tk_exits (tick_run strat exch sb ltp s)) \<and>
      (case lg_effective_target (tick_leg (ss_legs strat) ltp g) of None \<Rightarrow> False
       | Some x \<Rightarrow> if lg_position g = Some ''B'' then x \<le> ltp else ltp \<le> x)) \<and>
    distinct (map fst (tk_exits (tick_run strat exch sb ltp s))) \<and>
    (\<forall>(i, k) \<in> set (tk_exits (tick_run strat exch sb ltp s)). \<exists>h \<in> set (rs_legs s). lg_leg_id h = i \<and> leg_matches exch sb h)"
proof -
  let ?ts = "snd (tick_legs (ss_legs strat) exch sb ltp (rs_legs s))"
  obtain e where e: "lg_entry_avg g = Some e" using assms(4) by blast
  define l where "l = leg_input_of (find_leg_config (ss_legs strat) (lg_leg_id g)) g e"
  have out: "leg_outcome (ss_legs strat) ltp g = Some (evaluate_leg l ltp)" by (simp add: leg_outcome_def e l_def)
  have pos: "li_position l = lg_position g" by (simp add: l_def leg_input_of_def)
  have trig: "(lg_leg_id g, t) \<in> set ?ts \<longleftrightarrow> ro_triggered (evaluate_leg l ltp) = Some t" for t
  proof -
    have "h = g" if "h \<in> set (rs_legs s)" "lg_leg_id h = lg_leg_id g" for h
      using that assms(1,2) by (auto simp: uniq_def distinct_map inj_on_def)
    then have "(\<exists>h\<in>set (rs_legs s). leg_matches exch sb h \<and> leg_trigger (ss_legs strat) ltp h = Some (lg_leg_id g, t))
        \<longleftrightarrow> leg_trigger (ss_legs strat) ltp g = Some (lg_leg_id g, t)"
      using assms(2,3) leg_trigger_id by metis
    then show ?thesis by (simp add: tick_legs_triggers leg_trigger_def out)
  qed
  have sl: "lg_effective_sl (tick_leg (ss_legs strat) ltp g) = ro_effective_sl (evaluate_leg l ltp)"
    "lg_effective_target (tick_leg (ss_legs strat) ltp g) = ro_effective_target (evaluate_leg l ltp)"
    by (simp_all add: tick_leg_def out)
  have "ro_triggered (evaluate_leg l ltp) = Some SlHit \<longleftrightarrow> sl_hit l (ro_effective_sl (evaluate_leg l ltp)) ltp"
    "ro_triggered (evaluate_leg l ltp) = Some TargetHit \<longleftrightarrow>
       ro_triggered (evaluate_leg l ltp) \<noteq> Some SlHit \<and> target_hit l (ro_effective_target (evaluate_leg l ltp)) ltp"
    by (rule evaluate_leg_triggered evaluate_leg_triggered_target)+
  moreover have "\<forall>(i, k) \<in> set (triggered_exits ?ts). \<exists>h \<in> set (rs_legs s). lg_leg_id h = i \<and> leg_matches exch sb h"
    by (force simp: triggered_exits_iff tick_legs_triggers dest: leg_trigger_id)
  ultimately show ?thesis
    using assms(5) triggered_exits_distinct [OF triggers_distinct [OF assms(1)]]
    by (auto simp: tick_run_sel triggered_exits_iff trig sl sl_hit_def target_hit_def pos split: option.splits)
qed

section \<open>A run of two legs\<close>

definition demo_cfg :: "int \<Rightarrow> string \<Rightarrow> leg_config" where
  "demo_cfg i pos = \<lparr>lc_id = i, lc_position = Some pos, lc_lots = Some 1, lc_segment = Some ''options'',
     lc_symbol = '''', lc_exchange = '''', lc_qty = 0, lc_sl_pts = Some 20, lc_target_pts = Some 50,
     lc_trail_x = None, lc_trail_y = None, lc_expiry = None, lc_option_type = Some ''CE'',
     lc_strike_mode = Some ''atm'', lc_atm_offset = Some ''ATM'', lc_strike_value = None, lc_side = None\<rparr>"

definition demo_strategy :: sm_strategy where
  "demo_strategy = \<lparr>ss_id = 7, ss_user_id = 1, ss_name = ''straddle'', ss_strategy_kind = ''batch'',
     ss_direction = ''both'', ss_strategy_type = ''intraday'', ss_entry_time = Some 555, ss_exit_time = Some 915,
     ss_product = ''NRML'', ss_pricetype = ''MARKET'', ss_legs = [demo_cfg 1 ''S'', demo_cfg 2 ''S''],
     ss_overall_sl_mtm = Some 5000, ss_overall_target_mtm = Some 4000, ss_lock_profit = None,
     ss_trail_sl_to_entry = True, ss_live_enabled = False, ss_webhook_locked = False, ss_status = ''running'',
     ss_current_run_id = Some 3, ss_underlying = ''NIFTY'', ss_underlying_exchange = ''NFO'',
     ss_webhook_token_hash = ''hash'', ss_webhook_ip_allowlist = []\<rparr>"

definition demo_open :: "int \<Rightarrow> string \<Rightarrow> leg_state" where
  "demo_open i sb = (bare_leg i)\<lparr>lg_position := Some ''S'', lg_symbol := Some sb, lg_exchange := Some ''NFO'',
     lg_qty := Some 50, lg_entry_avg := Some 100, lg_status := ''open'', lg_current_side := Some ''short''\<rparr>"

definition demo_run :: run_state where
  "demo_run = fresh_run 3 7 [demo_open 1 ''NIFTY24CE'', demo_open 2 ''NIFTY24PE'']"

definition demo_tick :: tick_result where
  "demo_tick = tick_run demo_strategy ''NFO'' ''NIFTY24CE'' 125 demo_run"

theorem tick_exits_exact_witness: "(1, ''exit_sl'') \<in> set (tk_exits demo_tick)"
proof -
  let ?g = "demo_open 1 ''NIFTY24CE''"
  have "uniq lg_leg_id (rs_legs demo_run)" "?g \<in> set (rs_legs demo_run)" "leg_matches ''NFO'' ''NIFTY24CE'' ?g"
    "lg_entry_avg ?g \<noteq> None" "lg_position ?g = Some ''B'' \<or> lg_position ?g = Some ''S''"
    by (simp_all add: uniq_def demo_run_def demo_open_def leg_matches_def bare_leg_def)
  note t = tick_exits_exact [OF this, of demo_strategy 125]
  have "lg_leg_id ?g = 1" "lg_position ?g = Some ''S''" "lg_effective_sl (tick_leg (ss_legs demo_strategy) 125 ?g) = Some 120"
    by code_simp+
  with t show ?thesis by (simp add: demo_tick_def)
qed

text \<open>The same legs under an armed lock, at a price that moves no stop to entry.\<close>

definition demo_locked :: sm_strategy where
  "demo_locked = demo_strategy\<lparr>ss_lock_profit := Some \<lparr>lk_mode = Some ''lock'', lk_if_profit_reaches = Some 400,
     lk_lock_profit = Some 200, lk_trail_step = None\<rparr>\<rparr>"

definition demo_gain :: tick_result where
  "demo_gain = tick_run demo_locked ''NFO'' ''NIFTY24CE'' 90 (demo_run\<lparr>rs_lock_armed := True, rs_lock_floor := Some 200\<rparr>)"

theorem continuing_run_within_limits_witness:
  "tk_stop_reason demo_gain = None \<and> \<not> rs_trail_to_entry_active (tk_state demo_gain) \<and>
   200 < rs_pnl_total (tk_state demo_gain) \<and> rs_pnl_total (tk_state demo_gain) < 4000 \<and>
   - 5000 < rs_pnl_total (tk_state demo_gain)"
proof -
  have "tk_stop_reason demo_gain = None" "\<not> rs_trail_to_entry_active (tk_state demo_gain)"
    "rs_lock_armed (tk_state demo_gain)" "rs_lock_floor (tk_state demo_gain) = Some 200"
    "ss_overall_target_mtm demo_locked = Some 4000" "ss_overall_sl_mtm demo_locked = Some 5000"
    "ss_lock_profit demo_locked \<noteq> None" by code_simp+
  then show ?thesis
    using continuing_run_within_limits [of demo_locked "''NFO''" "''NIFTY24CE''" 90
        "demo_run\<lparr>rs_lock_armed := True, rs_lock_floor := Some 200\<rparr>"]
    by (simp add: demo_gain_def)
qed

end
