(* ===== verification/Strategy_Db.thy ===== *)
theory Strategy_Db
  imports Tick_Processor Option_Symbols
begin

text \<open>
  The rows of the strategy module (\<open>src/backend/models/strategy_module.py\<close>), the repository that
  opens and closes runs and records orders (\<open>src/backend/strategy/repository.py\<close>), the tick
  subscriptions (\<open>src/backend/strategy/tick_feed.py\<close>) and the order venue behind
  \<open>src/backend/strategy/order_dispatch.py\<close>. Orders of a run are kept in the order they were placed.
  Published events, the frames pushed to clients and the rounding of the numeric columns are left
  out.
\<close>

section \<open>Rows\<close>

record sm_run =
  sr_id :: int
  sr_strategy_id :: int
  sr_mode :: string
  sr_broker :: string
  sr_stopped_at :: "datetime option"
  sr_stop_reason :: "string option"
  sr_pnl_realized :: rat
  sr_pnl_peak :: rat
  sr_pnl_trough :: rat
  sr_trigger_source :: string

record sm_order =
  mo_id :: int
  mo_run_id :: int
  mo_leg_id :: int
  mo_kind :: string
  mo_broker_order_id :: "string option"
  mo_symbol :: string
  mo_exchange :: string
  mo_action :: string
  mo_qty :: int
  mo_pricetype :: string
  mo_status :: string
  mo_filled_at :: "datetime option"
  mo_avg_fill_price :: "rat option"
  mo_filled_qty :: "int option"
  mo_reject_reason :: "string option"

text \<open>The order an engine call sends to the venue; price and trigger price are always \<open>"0"\<close>.\<close>

record order_data =
  dt_symbol :: string
  dt_exchange :: string
  dt_action :: string
  dt_quantity :: string
  dt_pricetype :: string
  dt_product :: string
  dt_strategy :: string

record placed =
  pl_ok :: bool
  pl_orderid :: "string option"
  pl_message :: string

text \<open>What a venue answers about one of its orders.\<close>

record order_truth =
  tr_status :: "string option"
  tr_average_price :: "rat option"
  tr_filled_quantity :: "int option"
  tr_timestamp :: "datetime option"

text \<open>The venue is a parameter: the sandbox service and the live brokers behind their services, over a
  state of its own. A placement or a cancel may raise, after what the venue has already committed; a
  lookup that raises or finds nothing is \<open>None\<close>. Its clock, the symbol table and the quotes are read
  from that state too.\<close>

record 'w venue =
  vn_place_sandbox :: "int \<Rightarrow> order_data \<Rightarrow> 'w \<Rightarrow> (exn + placed) \<times> 'w"
  vn_place_live :: "int \<Rightarrow> order_data \<Rightarrow> 'w \<Rightarrow> (exn + placed) \<times> 'w"
  vn_order_sandbox :: "int \<Rightarrow> string \<Rightarrow> 'w \<Rightarrow> order_truth option"
  vn_order_live :: "string \<Rightarrow> 'w \<Rightarrow> order_truth option"
  vn_cancel_sandbox :: "int \<Rightarrow> string \<Rightarrow> 'w \<Rightarrow> (exn + placed) \<times> 'w"
  vn_cancel_live :: "string \<Rightarrow> 'w \<Rightarrow> (exn + placed) \<times> 'w"
  vn_contracts :: "'w \<Rightarrow> contract list"
  vn_quote :: "'w \<Rightarrow> string \<Rightarrow> string \<Rightarrow> quote_answer"
  vn_today :: "'w \<Rightarrow> cal_date"
  vn_now :: "'w \<Rightarrow> datetime"

text \<open>The index of tick subscriptions, a relation between instruments and runs.\<close>

type_synonym tick_index = "((string \<times> string) \<times> int) list"

record 'w engine =
  en_strategies :: "sm_strategy list"
  en_runs :: "sm_run list"
  en_orders :: "sm_order list"
  en_states :: run_store
  en_subs :: tick_index
  en_next_strategy :: int
  en_next_run :: int
  en_next_order :: int
  en_strikes :: strikes_cache
  en_world :: 'w

section \<open>Dispatch\<close>

text \<open>The flag says whether the call carries a broker and a token.\<close>

definition dispatch_order ::
  "'w venue \<Rightarrow> string \<Rightarrow> int \<Rightarrow> order_data \<Rightarrow> bool \<Rightarrow> 'w \<Rightarrow> (exn + placed) \<times> 'w" where
  "dispatch_order v mode uid od auth w =
     (if mode = ''sandbox'' then vn_place_sandbox v uid od w
      else if mode = ''live'' then
        (if \<not> auth
         then (Inr \<lparr>pl_ok = False, pl_orderid = None, pl_message = ''Live mode requires broker auth context''\<rparr>, w)
         else vn_place_live v uid od w)
      else (Inr \<lparr>pl_ok = False, pl_orderid = None, pl_message = ''Unknown run mode: '' @ mode\<rparr>, w))"

section \<open>Tick subscriptions\<close>

definition add_run_subscriptions :: "int \<Rightarrow> (string \<times> string) list \<Rightarrow> tick_index \<Rightarrow> tick_index" where
  "add_run_subscriptions rid syms index = fold (\<lambda>k ix. List.insert (k, rid) ix) syms index"

definition remove_run_subscriptions :: "int \<Rightarrow> tick_index \<Rightarrow> tick_index" where
  "remove_run_subscriptions rid index = filter (\<lambda>(k, r). r \<noteq> rid) index"

definition interested_runs :: "string \<Rightarrow> string \<Rightarrow> tick_index \<Rightarrow> int list" where
  "interested_runs exch sb index = map snd (filter (\<lambda>(k, r). k = (exch, sb)) index)"

section \<open>Repository\<close>

definition repo_start_run :: "sm_strategy \<Rightarrow> string \<Rightarrow> string \<Rightarrow> string \<Rightarrow> 'w engine \<Rightarrow> sm_run \<times> 'w engine" where
  "repo_start_run strat mode broker source d =
     (let run = \<lparr>sr_id = en_next_run d, sr_strategy_id = ss_id strat, sr_mode = mode, sr_broker = broker,
                 sr_stopped_at = None, sr_stop_reason = None, sr_pnl_realized = 0, sr_pnl_peak = 0, sr_pnl_trough = 0,
                 sr_trigger_source = source\<rparr>
      in (run, d\<lparr>en_runs := en_runs d @ [run], en_next_run := en_next_run d + 1,
                 en_strategies := put_row ss_id (strat\<lparr>ss_status := ''running'', ss_current_run_id := Some (sr_id run)\<rparr>)
                                    (en_strategies d)\<rparr>))"

text \<open>Filled quantity and value on each side, per instrument, over the completed orders.\<close>

record order_agg =
  ag_key :: "string \<times> string"
  ag_buy_qty :: int
  ag_buy_value :: rat
  ag_sell_qty :: int
  ag_sell_value :: rat

definition or_int :: "int option \<Rightarrow> int \<Rightarrow> int" where
  "or_int x d = (case x of Some n \<Rightarrow> if n = 0 then d else n | None \<Rightarrow> d)"

definition fill_qty :: "sm_order \<Rightarrow> int" where
  "fill_qty x = or_int (mo_filled_qty x) (mo_qty x)"

definition counted :: "sm_order \<Rightarrow> bool" where
  "counted x \<longleftrightarrow> lower (mo_status x) = ''complete'' \<and> 0 < fill_qty x \<and> 0 < or_zero (mo_avg_fill_price x)"

definition add_order :: "sm_order \<Rightarrow> order_agg list \<Rightarrow> order_agg list" where
  "add_order x ags =
     (if \<not> counted x then ags
      else
        let k = (mo_symbol x, mo_exchange x); q = fill_qty x; val = of_int q * or_zero (mo_avg_fill_price x);
            a = (case get_row ag_key k ags of Some a \<Rightarrow> a
                 | None \<Rightarrow> \<lparr>ag_key = k, ag_buy_qty = 0, ag_buy_value = 0, ag_sell_qty = 0, ag_sell_value = 0\<rparr>)
        in put_row ag_key
             (if upper (mo_action x) = ''BUY''
              then a\<lparr>ag_buy_qty := ag_buy_qty a + q, ag_buy_value := ag_buy_value a + val\<rparr>
              else a\<lparr>ag_sell_qty := ag_sell_qty a + q, ag_sell_value := ag_sell_value a + val\<rparr>) ags)"

definition agg_realized :: "order_agg \<Rightarrow> rat" where
  "agg_realized a =
     (if ag_buy_qty a \<le> 0 \<or> ag_sell_qty a \<le> 0 then 0
      else (ag_sell_value a / of_int (ag_sell_qty a) - ag_buy_value a / of_int (ag_buy_qty a)) *
             of_int (min (ag_buy_qty a) (ag_sell_qty a)))"

definition compute_run_realized_from_orders :: "int \<Rightarrow> sm_order list \<Rightarrow> rat" where
  "compute_run_realized_from_orders rid orders =
     row_total agg_realized (fold add_order (filter (\<lambda>x. mo_run_id x = rid) orders) [])"

definition finalize_run ::
  "datetime \<Rightarrow> int \<Rightarrow> int \<Rightarrow> string \<Rightarrow> rat \<Rightarrow> rat \<Rightarrow> 'w engine \<Rightarrow> 'w engine" where
  "finalize_run now rid sid reason peak trough d =
     (let pnl = compute_run_realized_from_orders rid (en_orders d)
      in d\<lparr>en_runs := map (\<lambda>r. if sr_id r = rid
             then r\<lparr>sr_stopped_at := Some now, sr_stop_reason := Some reason, sr_pnl_realized := pnl,
                    sr_pnl_peak := peak, sr_pnl_trough := trough\<rparr> else r) (en_runs d),
           en_strategies := map (\<lambda>s. if ss_id s = sid then s\<lparr>ss_status := ''stopped'', ss_current_run_id := None\<rparr> else s)
             (en_strategies d)\<rparr>)"

definition record_order ::
  "int \<Rightarrow> int \<Rightarrow> string \<Rightarrow> order_data \<Rightarrow> int \<Rightarrow> placed \<Rightarrow> 'w engine \<Rightarrow> sm_order \<times> 'w engine" where
  "record_order rid leg_id kind od qty resp d =
     (let row = \<lparr>mo_id = en_next_order d, mo_run_id = rid, mo_leg_id = leg_id, mo_kind = kind,
                 mo_broker_order_id = pl_orderid resp, mo_symbol = dt_symbol od, mo_exchange = dt_exchange od,
                 mo_action = dt_action od, mo_qty = qty, mo_pricetype = dt_pricetype od,
                 mo_status = (if pl_ok resp then ''open'' else ''rejected''), mo_filled_at = None,
                 mo_avg_fill_price = None, mo_filled_qty = None,
                 mo_reject_reason = (if pl_ok resp then None else Some (pl_message resp))\<rparr>
      in (row, d\<lparr>en_orders := en_orders d @ [row], en_next_order := en_next_order d + 1\<rparr>))"

definition list_orders_for_run :: "int \<Rightarrow> 'w engine \<Rightarrow> sm_order list" where
  "list_orders_for_run rid d = filter (\<lambda>x. mo_run_id x = rid) (en_orders d)"

section \<open>Realized profit\<close>

definition side_total :: "bool \<Rightarrow> (sm_order \<Rightarrow> rat) \<Rightarrow> string \<times> string \<Rightarrow> sm_order list \<Rightarrow> rat" where
  "side_total buy f k orders =
     row_total (\<lambda>x. if counted x \<and> (mo_symbol x, mo_exchange x) = k \<and> (upper (mo_action x) = ''BUY'') = buy then f x else 0) orders"

definition fill_value :: "sm_order \<Rightarrow> rat" where
  "fill_value x = of_int (fill_qty x) * or_zero (mo_avg_fill_price x)"

definition agg_of :: "string \<times> string \<Rightarrow> sm_order list \<Rightarrow> order_agg \<Rightarrow> bool" where
  "agg_of k orders a \<longleftrightarrow> ag_key a = k \<and>
     of_int (ag_buy_qty a) = side_total True (\<lambda>x. of_int (fill_qty x)) k orders \<and>
     of_int (ag_sell_qty a) = side_total False (\<lambda>x. of_int (fill_qty x)) k orders \<and>
     ag_buy_value a = side_total True fill_value k orders \<and> ag_sell_value a = side_total False fill_value k orders"

lemma side_total_snoc:
  "side_total buy f k (orders @ [x]) = side_total buy f k orders +
     (if counted x \<and> (mo_symbol x, mo_exchange x) = k \<and> (upper (mo_action x) = ''BUY'') = buy then f x else 0)"
  by (simp add: side_total_def row_total_def)

definition aggs_ok :: "sm_order list \<Rightarrow> order_agg list \<Rightarrow> bool" where
  "aggs_ok orders ags \<longleftrightarrow> uniq ag_key ags \<and> (\<forall>a \<in> set ags. agg_of (ag_key a) orders a) \<and>
     (\<forall>x \<in> set orders. counted x \<longrightarrow> (mo_symbol x, mo_exchange x) \<in> ag_key ` set ags)"

definition empty_agg :: "string \<times> string \<Rightarrow> order_agg" where
  "empty_agg k = \<lparr>ag_key = k, ag_buy_qty = 0, ag_buy_value = 0, ag_sell_qty = 0, ag_sell_value = 0\<rparr>"

definition agg_for :: "string \<times> string \<Rightarrow> order_agg list \<Rightarrow> order_agg" where
  "agg_for k ags = (case get_row ag_key k ags of Some a \<Rightarrow> a | None \<Rightarrow> empty_agg k)"

definition agg_plus :: "sm_order \<Rightarrow> order_agg \<Rightarrow> order_agg" where
  "agg_plus x a =
     (if upper (mo_action x) = ''BUY''
      then a\<lparr>ag_buy_qty := ag_buy_qty a + fill_qty x, ag_buy_value := ag_buy_value a + fill_value x\<rparr>
      else a\<lparr>ag_sell_qty := ag_sell_qty a + fill_qty x, ag_sell_value := ag_sell_value a + fill_value x\<rparr>)"

lemma add_order_eq:
  "add_order x ags = (if counted x then put_row ag_key (agg_plus x (agg_for (mo_symbol x, mo_exchange x) ags)) ags else ags)"
  unfolding add_order_def agg_plus_def agg_for_def empty_agg_def fill_value_def Let_def by simp

lemma agg_plus_key [simp]: "ag_key (agg_plus x a) = ag_key a"
  by (simp add: agg_plus_def)

lemma agg_for_key [simp]: "ag_key (agg_for k ags) = k"
  by (auto simp: agg_for_def empty_agg_def dest: get_row_key split: option.split)

lemma agg_of_plus:
  "agg_of k orders a \<Longrightarrow> counted x \<Longrightarrow> (mo_symbol x, mo_exchange x) = k \<Longrightarrow> agg_of k (orders @ [x]) (agg_plus x a)"
  by (auto simp: agg_of_def agg_plus_def side_total_snoc)

lemma agg_for_ok:
  assumes "aggs_ok orders ags"
  shows "agg_of k orders (agg_for k ags)"
proof (cases "get_row ag_key k ags")
  case (Some a)
  then have "a \<in> set ags" "ag_key a = k" by (auto dest: get_row_mem get_row_key)
  with Some assms show ?thesis by (auto simp: agg_for_def aggs_ok_def)
next
  case None
  have "row_total (\<lambda>x. if counted x \<and> (mo_symbol x, mo_exchange x) = k \<and> P x then f x else 0) orders = 0" for P and f :: "sm_order \<Rightarrow> rat"
    using None assms by (intro row_total_zero) (auto simp: get_row_None aggs_ok_def)
  then show ?thesis by (simp add: agg_for_def None empty_agg_def agg_of_def side_total_def)
qed

lemma aggs_ok_add:
  assumes "aggs_ok orders ags"
  shows "aggs_ok (orders @ [x]) (add_order x ags)"
proof (cases "counted x")
  case True
  let ?k = "(mo_symbol x, mo_exchange x)"
  have "agg_of (ag_key a) (orders @ [x]) a" if "a \<in> set (put_row ag_key (agg_plus x (agg_for ?k ags)) ags)" for a
  proof (cases "ag_key a = ?k")
    case eq: True
    have "a = agg_plus x (agg_for ?k ags)"
      using get_row_uniq [OF uniq_put_row that] assms eq by (simp add: aggs_ok_def get_put_row)
    then show ?thesis using agg_of_plus [OF agg_for_ok [OF assms] True refl] eq by simp
  next
    case False
    then have "a \<in> set ags" using set_put_row [OF that] by auto
    then show ?thesis using assms False by (auto simp: aggs_ok_def agg_of_def side_total_snoc)
  qed
  with assms True show ?thesis
    by (auto simp: aggs_ok_def add_order_eq keys_put_row uniq_put_row)
next
  case False
  with assms show ?thesis by (auto simp: aggs_ok_def add_order_eq agg_of_def side_total_snoc)
qed

definition signed_value :: "sm_order \<Rightarrow> rat" where
  "signed_value x = (if counted x then if upper (mo_action x) = ''BUY'' then - fill_value x else fill_value x else 0)"

abbreviation agg_cash :: "order_agg \<Rightarrow> rat" where
  "agg_cash a \<equiv> ag_sell_value a - ag_buy_value a"

lemma agg_for_cash: "opt_weight agg_cash (get_row ag_key k ags) = agg_cash (agg_for k ags)"
  by (simp add: agg_for_def empty_agg_def split: option.split)

lemma cash_add: "row_total agg_cash (add_order x ags) = row_total agg_cash ags + signed_value x"
  using agg_for_cash [of "(mo_symbol x, mo_exchange x)" ags]
  by (simp add: add_order_eq row_total_put_row signed_value_def) (simp add: agg_plus_def)

lemma fold_add_order: "aggs_ok xs (fold add_order xs []) \<and> row_total agg_cash (fold add_order xs []) = row_total signed_value xs"
proof (induction xs rule: rev_induct)
  case Nil
  show ?case by (simp add: aggs_ok_def uniq_def)
next
  case (snoc x xs)
  then show ?case using aggs_ok_add [of xs _ x] cash_add [of x "fold add_order xs []"]
    by (simp add: row_total_def)
qed

lemma side_total_empty:
  assumes "side_total b (\<lambda>x. of_int (fill_qty x)) k xs \<le> 0"
  shows "side_total b f k xs = 0"
  unfolding side_total_def
proof (rule row_total_zero)
  fix x assume x: "x \<in> set xs"
  let ?w = "\<lambda>x. if counted x \<and> (mo_symbol x, mo_exchange x) = k \<and> (upper (mo_action x) = ''BUY'') = b
              then of_int (fill_qty x) else (0 :: rat)"
  have "?w x \<le> row_total ?w xs" by (rule row_total_member_le [OF x]) (simp add: counted_def)
  with assms have "?w x \<le> 0" by (simp add: side_total_def)
  then show "(if counted x \<and> (mo_symbol x, mo_exchange x) = k \<and> (upper (mo_action x) = ''BUY'') = b then f x else 0) = 0"
    by (auto simp: counted_def split: if_splits)
qed

text \<open>C27: the profit booked for a run is the cash it made. When every instrument of a run was bought and
  sold in equal quantity by its completed orders, the realized profit written at the end of the run,
  an average price difference per instrument, is exactly what the sales brought in less what the
  purchases cost.\<close>

theorem flat_run_realized_is_cash:
  assumes "\<And>k. side_total True (\<lambda>x. of_int (fill_qty x)) k (filter (\<lambda>x. mo_run_id x = rid) orders) =
               side_total False (\<lambda>x. of_int (fill_qty x)) k (filter (\<lambda>x. mo_run_id x = rid) orders)"
  shows "compute_run_realized_from_orders rid orders =
     row_total (\<lambda>x. if counted x then if upper (mo_action x) = ''BUY'' then - fill_value x else fill_value x else 0)
       (filter (\<lambda>x. mo_run_id x = rid) orders)"
proof -
  let ?xs = "filter (\<lambda>x. mo_run_id x = rid) orders"
  let ?ags = "fold add_order ?xs []"
  have "agg_realized a = agg_cash a" if "a \<in> set ?ags" for a
  proof -
    have a: "agg_of (ag_key a) ?xs a" using fold_add_order that by (auto simp: aggs_ok_def)
    then have "of_int (ag_buy_qty a) = (of_int (ag_sell_qty a) :: rat)" using assms [of "ag_key a"] by (simp add: agg_of_def)
    then have q: "ag_buy_qty a = ag_sell_qty a" by simp
    show ?thesis
    proof (cases "ag_sell_qty a \<le> 0")
      case True
      then have "(of_int (ag_sell_qty a) :: rat) \<le> 0" by simp
      then have "agg_cash a = 0"
        using a q side_total_empty [of _ "ag_key a" ?xs fill_value] by (simp add: agg_of_def)
      with True show ?thesis by (simp add: agg_realized_def)
    next
      case False
      then show ?thesis by (simp add: agg_realized_def q divide_simps)
    qed
  qed
  then have "row_total agg_realized ?ags = row_total agg_cash ?ags" by (rule row_total_cong)
  then show ?thesis
    using fold_add_order [of ?xs] unfolding compute_run_realized_from_orders_def signed_value_def [abs_def] by simp
qed

text \<open>A round trip of fifty units.\<close>

definition demo_order :: "string \<Rightarrow> rat \<Rightarrow> sm_order" where
  "demo_order act price = \<lparr>mo_id = 1, mo_run_id = 3, mo_leg_id = 1, mo_kind = ''entry'', mo_broker_order_id = None,
     mo_symbol = ''NIFTY24CE'', mo_exchange = ''NFO'', mo_action = act, mo_qty = 50, mo_pricetype = ''MARKET'',
     mo_status = ''complete'', mo_filled_at = None, mo_avg_fill_price = Some price, mo_filled_qty = Some 50,
     mo_reject_reason = None\<rparr>"

theorem flat_run_realized_is_cash_witness:
  "compute_run_realized_from_orders 3 [demo_order ''SELL'' 100, demo_order ''BUY'' 80] = 1000"
proof -
  let ?os = "[demo_order ''SELL'' 100, demo_order ''BUY'' 80]"
  have c: "counted (demo_order act p) \<longleftrightarrow> 0 < p" for act p
  proof -
    have "lower ''complete'' = ''complete''" by code_simp
    then show ?thesis by (simp add: counted_def demo_order_def fill_qty_def or_int_def or_zero_def)
  qed
  have u: "upper ''BUY'' = ''BUY''" "upper ''SELL'' = ''SELL''" by code_simp+
  have q: "fill_qty (demo_order act p) = 50" for act p by (simp add: demo_order_def fill_qty_def or_int_def)
  have s: "mo_action (demo_order act p) = act" "mo_run_id (demo_order act p) = 3"
    "mo_symbol (demo_order act p) = ''NIFTY24CE''" "mo_exchange (demo_order act p) = ''NFO''"
    "or_zero (mo_avg_fill_price (demo_order act p)) = p" for act p
    by (simp_all add: demo_order_def or_zero_def)
  have "side_total True (\<lambda>x. of_int (fill_qty x)) k (filter (\<lambda>x. mo_run_id x = 3) ?os) =
      side_total False (\<lambda>x. of_int (fill_qty x)) k (filter (\<lambda>x. mo_run_id x = 3) ?os)" for k
    by (simp add: side_total_def s c q u)
  from flat_run_realized_is_cash [OF this] show ?thesis by (simp add: s c q u fill_value_def)
qed

end
