(* ===== verification/Strategy_Engine.thy ===== *)
theory Strategy_Engine
  imports Strategy_Db
begin

text \<open>
  The batch engine (\<open>src/backend/strategy/engine.py\<close>): starting a run, exiting legs, stopping a run,
  closing one leg, and the reconciliation of orders with the venue. The strategy of a call is the
  row read under the row lock, found by its id. Failures of the cache or the database, which the
  source logs and passes over, do not occur in the model.
\<close>

section \<open>Reconciling an order\<close>

definition canonical_status :: "string option \<Rightarrow> string option" where
  "canonical_status raw =
     (case raw of
        None \<Rightarrow> None
      | Some [] \<Rightarrow> None
      | Some r \<Rightarrow>
          (let s = lower (strip r) in
           if s \<in> {''complete'', ''completed'', ''filled'', ''executed''} then Some ''complete''
           else if s \<in> {''rejected'', ''reject''} then Some ''rejected''
           else if s \<in> {''cancelled'', ''canceled''} then Some ''cancelled''
           else if s \<in> {''open'', ''pending'', ''submitted''} then Some ''open''
           else if s \<in> {''trigger_pending'', ''trigger pending'', ''modified''} then Some ''trigger_pending''
           else None))"

text \<open>What the answer of the venue changes on the row; \<open>live\<close> orders are stamped with the clock.\<close>

definition merge_truth :: "bool \<Rightarrow> datetime \<Rightarrow> order_truth \<Rightarrow> sm_order \<Rightarrow> sm_order" where
  "merge_truth live now t row =
     (let status = canonical_status (tr_status t);
          stamp = (if live then Some now else tr_timestamp t);
          r1 = (case status of Some s \<Rightarrow> row\<lparr>mo_status := s\<rparr> | None \<Rightarrow> row);
          r2 = (case tr_average_price t of Some p \<Rightarrow> if 0 < p then r1\<lparr>mo_avg_fill_price := Some p\<rparr> else r1 | None \<Rightarrow> r1);
          r3 = (case tr_filled_quantity t of
                  Some q \<Rightarrow> if or_int (mo_filled_qty r2) 0 \<noteq> q then r2\<lparr>mo_filled_qty := Some q\<rparr> else r2 | None \<Rightarrow> r2)
      in if status = Some ''complete'' \<and> mo_filled_at r3 = None then r3\<lparr>mo_filled_at := stamp\<rparr> else r3)"

definition reconcile_order_fill :: "'w venue \<Rightarrow> string \<Rightarrow> int \<Rightarrow> bool \<Rightarrow> sm_order \<Rightarrow> 'w engine \<Rightarrow> sm_order \<times> 'w engine" where
  "reconcile_order_fill v mode uid auth row d =
     (let w = en_world d in
      case or_text (mo_broker_order_id row) [] of
        [] \<Rightarrow> (row, d)
      | oid \<Rightarrow>
          (case (if mode = ''sandbox'' then vn_order_sandbox v uid oid w
                 else if mode = ''live'' \<and> auth then vn_order_live v oid w else None) of
             None \<Rightarrow> (row, d)
           | Some t \<Rightarrow>
               let row' = merge_truth (mode = ''live'') (vn_now v w) t row
               in (row', d\<lparr>en_orders := map (\<lambda>x. if mo_id x = mo_id row then row' else x) (en_orders d)\<rparr>)))"

lemma reconcile_frame [simp]:
  "en_strategies (snd (reconcile_order_fill v mode uid auth row d)) = en_strategies d"
  "en_runs (snd (reconcile_order_fill v mode uid auth row d)) = en_runs d"
  "en_states (snd (reconcile_order_fill v mode uid auth row d)) = en_states d"
  "en_subs (snd (reconcile_order_fill v mode uid auth row d)) = en_subs d"
  "en_world (snd (reconcile_order_fill v mode uid auth row d)) = en_world d"
  "en_strikes (snd (reconcile_order_fill v mode uid auth row d)) = en_strikes d"
  "en_next_strategy (snd (reconcile_order_fill v mode uid auth row d)) = en_next_strategy d"
  "en_next_run (snd (reconcile_order_fill v mode uid auth row d)) = en_next_run d"
  "en_next_order (snd (reconcile_order_fill v mode uid auth row d)) = en_next_order d"
  by (auto simp: reconcile_order_fill_def Let_def split: list.split option.split)

section \<open>Mirroring a fill into the run state\<close>

definition truthy :: "string option \<Rightarrow> bool" where
  "truthy x \<longleftrightarrow> x \<noteq> None \<and> x \<noteq> Some []"

definition entry_side :: "leg_config list \<Rightarrow> int \<Rightarrow> string option \<Rightarrow> string option" where
  "entry_side cfgs i current =
     (if truthy current then current
      else case get_row lc_id i cfgs of
             Some c \<Rightarrow> if lc_position c = Some ''S'' then Some ''short''
                       else if lc_position c = Some ''B'' then Some ''long'' else current
           | None \<Rightarrow> current)"

definition fill_leg :: "leg_config list \<Rightarrow> string \<Rightarrow> rat \<Rightarrow> int \<Rightarrow> leg_state \<Rightarrow> leg_state" where
  "fill_leg cfgs kind price qty g =
     (if kind = ''entry'' then
        g\<lparr>lg_entry_avg := Some price, lg_qty := Some qty, lg_status := ''open'',
          lg_current_side := entry_side cfgs (lg_leg_id g) (lg_current_side g)\<rparr>
      else
        (let sign = (if lg_current_side g = Some ''long'' then 1 else - 1 :: rat);
             booked = (case lg_entry_avg g of
                         Some e \<Rightarrow> if lg_current_side g \<in> {Some ''long'', Some ''short''}
                                   then lg_realized_pnl g + (price - e) * of_int qty * sign else lg_realized_pnl g
                       | None \<Rightarrow> lg_realized_pnl g)
         in g\<lparr>lg_realized_pnl := booked, lg_exit_avg := Some price, lg_status := ''closed'', lg_current_side := None,
             lg_mtm := 0\<rparr>))"

definition refresh_totals :: "run_state \<Rightarrow> run_state" where
  "refresh_totals s =
     (let r = row_total lg_realized_pnl (rs_legs s); u = row_total leg_unrealized (rs_legs s)
      in s\<lparr>rs_pnl_realized := r, rs_pnl_unrealized := u, rs_pnl_total := r + u,
           rs_pnl_peak := max (rs_pnl_peak s) (r + u), rs_pnl_trough := min (rs_pnl_trough s) (r + u)\<rparr>)"

definition apply_fill_to_state ::
  "int \<Rightarrow> int \<Rightarrow> string \<Rightarrow> rat \<Rightarrow> int \<Rightarrow> leg_config list \<Rightarrow> run_store \<Rightarrow> run_store" where
  "apply_fill_to_state rid i kind price qty cfgs st =
     (case get_run_state rid st of
        None \<Rightarrow> st
      | Some s \<Rightarrow>
          let g = (case get_row lg_leg_id i (rs_legs s) of Some g \<Rightarrow> g | None \<Rightarrow> (bare_leg i)\<lparr>lg_status := ''open''\<rparr>)
          in hydrate_run_state rid
               (refresh_totals (s\<lparr>rs_legs := put_row lg_leg_id (fill_leg cfgs kind price qty g) (rs_legs s)\<rparr>)) st)"

section \<open>Exiting legs\<close>

definition exit_action :: "string option \<Rightarrow> string" where
  "exit_action position = (if position = Some ''B'' then ''SELL'' else ''BUY'')"

definition entry_action :: "string option \<Rightarrow> string" where
  "entry_action position = (if position = Some ''B'' then ''BUY'' else ''SELL'')"

text \<open>What an engine call raises: an \<open>EngineError\<close>, or an exception of the venue that nobody catches.\<close>

datatype engine_error =
    InvalidMode string
  | LiveNotEnabled
  | StrategyNotFound int
  | CannotStart string
  | NoLegs
  | LegResolution int leg_error
  | BadLotsize int string
  | AllEntriesRejected
  | NoActiveRun string
  | NoSuchLeg int
  | RunNotFound
  | InvalidAction string
  | BadQuantity int
  | MissingField string
  | Raised exn

datatype leg_summary =
    Skipped (sum_leg: int) (sum_reason: string)
  | Exited (sum_leg: int) (sum_order: int) (sum_status: string)

definition or_string :: "string \<Rightarrow> string \<Rightarrow> string" where
  "or_string x d = (if x = [] then d else x)"

text \<open>The last entry of the leg, and whether the leg has an exit that was not rejected.\<close>

definition entry_of :: "sm_order list \<Rightarrow> int \<Rightarrow> sm_order option" where
  "entry_of orders i = List.find (\<lambda>x. mo_kind x = ''entry'' \<and> mo_leg_id x = i) (rev orders)"

definition has_exit :: "sm_order list \<Rightarrow> int \<Rightarrow> bool" where
  "has_exit orders i = list_ex (\<lambda>x. mo_kind x \<noteq> ''entry'' \<and> mo_status x \<noteq> ''rejected'' \<and> mo_leg_id x = i) orders"

text \<open>An exception of the venue leaves the call before anything is recorded.\<close>

definition place_and_record ::
  "'w venue \<Rightarrow> string \<Rightarrow> int \<Rightarrow> bool \<Rightarrow> int \<Rightarrow> int \<Rightarrow> string \<Rightarrow> order_data \<Rightarrow> int \<Rightarrow> 'w engine \<Rightarrow>
     (engine_error + bool \<times> sm_order) \<times> 'w engine" where
  "place_and_record v mode uid auth rid i kind od qty d =
     (case dispatch_order v mode uid od auth (en_world d) of
        (Inl x, w) \<Rightarrow> (Inl (Raised x), d\<lparr>en_world := w\<rparr>)
      | (Inr resp, w) \<Rightarrow>
          let (row, d1) = record_order rid i kind od qty resp (d\<lparr>en_world := w\<rparr>);
              (row', d2) = (if pl_ok resp then reconcile_order_fill v mode uid auth row d1 else (row, d1))
          in (Inr (pl_ok resp, row'), d2))"

text \<open>Mirroring the fill of a placed order, when the venue gave a price.\<close>

definition mirror_fill ::
  "int \<Rightarrow> int \<Rightarrow> string \<Rightarrow> bool \<Rightarrow> sm_order \<Rightarrow> int \<Rightarrow> leg_config list \<Rightarrow> run_store \<Rightarrow> run_store" where
  "mirror_fill rid i kind ok row qty cfgs st =
     (case mo_avg_fill_price row of
        Some p \<Rightarrow> if ok then apply_fill_to_state rid i kind p (or_int (mo_filled_qty row) qty) cfgs st else st
      | None \<Rightarrow> st)"

definition exit_data :: "sm_strategy \<Rightarrow> leg_config \<Rightarrow> sm_order \<Rightarrow> order_data" where
  "exit_data strat cfg entry =
     \<lparr>dt_symbol = mo_symbol entry, dt_exchange = mo_exchange entry, dt_action = exit_action (lc_position cfg),
      dt_quantity = show_int (mo_qty entry), dt_pricetype = ''MARKET'',
      dt_product = or_string (ss_product strat) ''NRML'', dt_strategy = ss_name strat\<rparr>"

definition exit_leg ::
  "'w venue \<Rightarrow> sm_strategy \<Rightarrow> sm_run \<Rightarrow> string \<Rightarrow> bool \<Rightarrow> sm_order list \<Rightarrow> int \<Rightarrow> 'w engine \<Rightarrow>
     (engine_error + leg_summary) \<times> 'w engine" where
  "exit_leg v strat run kind auth orders i d =
     (case (get_row lc_id i (rev (ss_legs strat)), entry_of orders i) of
        (Some cfg, Some entry) \<Rightarrow>
          (if mo_status entry = ''rejected'' then (Inr (Skipped i ''entry was rejected''), d)
           else if has_exit orders i then (Inr (Skipped i ''already closed''), d)
           else
             case place_and_record v (sr_mode run) (ss_user_id strat) auth (sr_id run) i kind
                    (exit_data strat cfg entry) (mo_qty entry) d of
               (Inl e, d1) \<Rightarrow> (Inl e, d1)
             | (Inr (ok, row), d1) \<Rightarrow>
                 (Inr (Exited i (mo_id row) (mo_status row)),
                  d1\<lparr>en_states := mark_leg_closed (sr_id run) i (mo_id row) kind (mo_status row)
                       (mirror_fill (sr_id run) i kind ok row (mo_qty row) (ss_legs strat) (en_states d1))\<rparr>))
      | _ \<Rightarrow> (Inr (Skipped i ''no entry order found for this leg''), d))"

fun exit_loop ::
  "'w venue \<Rightarrow> sm_strategy \<Rightarrow> sm_run \<Rightarrow> string \<Rightarrow> bool \<Rightarrow> sm_order list \<Rightarrow> int list \<Rightarrow> 'w engine \<Rightarrow>
     (engine_error + leg_summary list) \<times> 'w engine" where
  "exit_loop v strat run kind auth orders [] d = (Inr [], d)"
| "exit_loop v strat run kind auth orders (i # is) d =
     (case exit_leg v strat run kind auth orders i d of
        (Inl e, d1) \<Rightarrow> (Inl e, d1)
      | (Inr s, d1) \<Rightarrow>
          (case exit_loop v strat run kind auth orders is d1 of
             (Inl e, d2) \<Rightarrow> (Inl e, d2)
           | (Inr ss, d2) \<Rightarrow> (Inr (s # ss), d2)))"

definition exit_legs ::
  "'w venue \<Rightarrow> sm_strategy \<Rightarrow> sm_run \<Rightarrow> int list \<Rightarrow> string \<Rightarrow> bool \<Rightarrow> 'w engine \<Rightarrow>
     (engine_error + leg_summary list) \<times> 'w engine" where
  "exit_legs v strat run leg_ids kind auth d =
     exit_loop v strat run kind auth (list_orders_for_run (sr_id run) d) leg_ids d"

section \<open>Stopping\<close>

definition exit_kind_for_stop :: "string \<Rightarrow> string" where
  "exit_kind_for_stop reason =
     (case map_of [(''manual'', ''exit_close_all''), (''scheduler'', ''exit_close_all''), (''overall_sl'', ''exit_overall_sl''),
        (''overall_target'', ''exit_overall_target''), (''lock_profit'', ''exit_lock_profit''), (''eod'', ''exit_eod''),
        (''expiry'', ''exit_expiry''), (''daily_loss_limit'', ''exit_daily_loss_limit''), (''tick_stale'', ''exit_close_all''),
        (''recovery_failed'', ''exit_recovery''), (''error'', ''exit_close_all'')] reason of
        Some k \<Rightarrow> k | None \<Rightarrow> ''exit_close_all'')"

definition forget_run :: "int \<Rightarrow> 'w engine \<Rightarrow> 'w engine" where
  "forget_run rid d = d\<lparr>en_states := clear_run_state rid (en_states d), en_subs := remove_run_subscriptions rid (en_subs d)\<rparr>"

definition active_run :: "sm_strategy \<Rightarrow> 'w engine \<Rightarrow> engine_error + sm_run" where
  "active_run strat d =
     (case ss_current_run_id strat of
        Some rid \<Rightarrow> (if ss_status strat \<noteq> ''running'' then Inl (NoActiveRun (ss_status strat))
                     else case get_row sr_id rid (en_runs d) of Some run \<Rightarrow> Inr run | None \<Rightarrow> Inl RunNotFound)
      | None \<Rightarrow> Inl (NoActiveRun (ss_status strat)))"

definition stop_run ::
  "'w venue \<Rightarrow> sm_strategy \<Rightarrow> string \<Rightarrow> bool \<Rightarrow> 'w engine \<Rightarrow> (engine_error + int \<times> leg_summary list) \<times> 'w engine" where
  "stop_run v strat reason auth d =
     (case active_run strat d of
        Inl e \<Rightarrow> (Inl e, d)
      | Inr run \<Rightarrow>
          (case exit_legs v strat run (map lc_id (ss_legs strat)) (exit_kind_for_stop reason) auth d of
             (Inl e, d1) \<Rightarrow> (Inl e, d1)
           | (Inr summaries, d1) \<Rightarrow>
               (Inr (sr_id run, summaries),
                forget_run (sr_id run)
                  (finalize_run (vn_now v (en_world d1)) (sr_id run) (ss_id strat) reason 0 0 d1))))"

definition finalize_run_if_all_flat :: "'w venue \<Rightarrow> sm_strategy \<Rightarrow> sm_run \<Rightarrow> 'w engine \<Rightarrow> bool \<times> 'w engine" where
  "finalize_run_if_all_flat v strat run d =
     (if or_string (ss_strategy_kind strat) ''batch'' \<noteq> ''batch'' then (False, d)
      else case get_run_state (sr_id run) (en_states d) of
        None \<Rightarrow> (False, d)
      | Some s \<Rightarrow>
          if rs_legs s = [] \<or> list_ex (\<lambda>g. lg_status g = ''open'') (rs_legs s) then (False, d)
          else (True, forget_run (sr_id run)
                  (finalize_run (vn_now v (en_world d)) (sr_id run) (ss_id strat) ''all_legs_closed''
                     (rs_pnl_peak s) (rs_pnl_trough s) d)))"

definition close_leg ::
  "'w venue \<Rightarrow> sm_strategy \<Rightarrow> int \<Rightarrow> bool \<Rightarrow> 'w engine \<Rightarrow> (engine_error + int \<times> leg_summary list \<times> bool) \<times> 'w engine" where
  "close_leg v strat i auth d =
     (if ss_status strat \<noteq> ''running'' \<or> ss_current_run_id strat = None then (Inl (NoActiveRun (ss_status strat)), d)
      else if i \<notin> set (map lc_id (ss_legs strat)) then (Inl (NoSuchLeg i), d)
      else case active_run strat d of
        Inl e \<Rightarrow> (Inl e, d)
      | Inr run \<Rightarrow>
          (case exit_legs v strat run [i] ''exit_leg_manual'' auth d of
             (Inl e, d1) \<Rightarrow> (Inl e, d1)
           | (Inr summaries, d1) \<Rightarrow>
               (let (stopped, d2) = finalize_run_if_all_flat v strat run d1
                in (Inr (sr_id run, summaries, stopped), d2))))"

end
