(* ===== verification/Run_Start.thy ===== *)
theory Run_Start
  imports Strategy_Engine
begin

text \<open>
  Starting a batch run (\<open>start_run\<close> in \<open>src/backend/strategy/engine.py\<close>): every leg is resolved
  before any order goes out, the run is opened, the buying legs are placed before the selling ones,
  a run whose entries were all rejected is closed as an error, and the run state is seeded from the
  placed entries.
\<close>

record resolved_leg =
  rl_leg_id :: int
  rl_position :: string
  rl_lots :: int
  rl_symbol :: string
  rl_exchange :: string
  rl_lotsize :: int

definition sized_leg :: "leg_config \<Rightarrow> resolved \<Rightarrow> engine_error + resolved_leg" where
  "sized_leg c r =
     (let n = (case rv_lotsize r of Some n \<Rightarrow> n | None \<Rightarrow> 0)
      in if lc_segment c \<in> {Some ''options'', Some ''futures''} \<and> n \<le> 0 then Inl (BadLotsize (lc_id c) (rv_symbol r))
         else case (lc_position c, lc_lots c) of
           (Some p, Some lots) \<Rightarrow>
             Inr \<lparr>rl_leg_id = lc_id c, rl_position = p, rl_lots = lots, rl_symbol = rv_symbol r,
                  rl_exchange = rv_exchange r, rl_lotsize = n\<rparr>
         | (None, _) \<Rightarrow> Inl (MissingField ''position'')
         | _ \<Rightarrow> Inl (MissingField ''lots''))"

text \<open>The legs are resolved in their order, up to the first that fails.\<close>

fun resolve_legs ::
  "'w venue \<Rightarrow> string \<Rightarrow> string \<Rightarrow> bool \<Rightarrow> leg_config list \<Rightarrow> 'w engine \<Rightarrow> (engine_error + resolved_leg list) \<times> 'w engine" where
  "resolve_legs v underlying exch auth [] d = (Inr [], d)"
| "resolve_legs v underlying exch auth (c # cs) d =
     (let w = en_world d;
          (r, cache) = resolve_leg (vn_contracts v w) (vn_today v w) (vn_quote v w) auth c underlying exch (en_strikes d);
          d1 = d\<lparr>en_strikes := cache\<rparr>
      in case r of
           Inl e \<Rightarrow> (Inl (LegResolution (lc_id c) e), d1)
         | Inr x \<Rightarrow>
             (case sized_leg c x of
                Inl e \<Rightarrow> (Inl e, d1)
              | Inr l \<Rightarrow> (case resolve_legs v underlying exch auth cs d1 of
                            (Inl e, d2) \<Rightarrow> (Inl e, d2)
                          | (Inr ls, d2) \<Rightarrow> (Inr (l # ls), d2))))"

record entry_placed =
  ep_leg :: resolved_leg
  ep_qty :: int
  ep_order :: sm_order

definition place_entry ::
  "'w venue \<Rightarrow> sm_strategy \<Rightarrow> string \<Rightarrow> int \<Rightarrow> bool \<Rightarrow> resolved_leg \<Rightarrow> 'w engine \<Rightarrow>
     (engine_error + entry_placed) \<times> 'w engine" where
  "place_entry v strat mode rid auth l d =
     (let qty = rl_lots l * rl_lotsize l;
          od = \<lparr>dt_symbol = rl_symbol l, dt_exchange = rl_exchange l, dt_action = entry_action (Some (rl_position l)),
                dt_quantity = show_int qty, dt_pricetype = or_string (ss_pricetype strat) ''MARKET'',
                dt_product = or_string (ss_product strat) ''NRML'', dt_strategy = ss_name strat\<rparr>
      in case place_and_record v mode (ss_user_id strat) auth rid (rl_leg_id l) ''entry'' od qty d of
           (Inl e, d1) \<Rightarrow> (Inl e, d1)
         | (Inr (ok, row), d1) \<Rightarrow> (Inr \<lparr>ep_leg = l, ep_qty = qty, ep_order = row\<rparr>, d1))"

fun place_entries ::
  "'w venue \<Rightarrow> sm_strategy \<Rightarrow> string \<Rightarrow> int \<Rightarrow> bool \<Rightarrow> resolved_leg list \<Rightarrow> 'w engine \<Rightarrow>
     (engine_error + entry_placed list) \<times> 'w engine" where
  "place_entries v strat mode rid auth [] d = (Inr [], d)"
| "place_entries v strat mode rid auth (l # ls) d =
     (case place_entry v strat mode rid auth l d of
        (Inl x, d1) \<Rightarrow> (Inl x, d1)
      | (Inr e, d1) \<Rightarrow>
          (case place_entries v strat mode rid auth ls d1 of
             (Inl x, d2) \<Rightarrow> (Inl x, d2)
           | (Inr es, d2) \<Rightarrow> (Inr (e # es), d2)))"

definition buy_before_sell :: "resolved_leg list \<Rightarrow> resolved_leg list" where
  "buy_before_sell ls =
     filter (\<lambda>l. rl_position l = ''B'') ls @ filter (\<lambda>l. rl_position l = ''S'') ls"

definition rejected :: "entry_placed \<Rightarrow> bool" where
  "rejected e \<longleftrightarrow> mo_status (ep_order e) = ''rejected''"

definition summary_of :: "entry_placed \<Rightarrow> entry_summary" where
  "summary_of e = \<lparr>es_leg_id = rl_leg_id (ep_leg e), es_symbol = rl_symbol (ep_leg e), es_exchange = rl_exchange (ep_leg e),
     es_qty = ep_qty e, es_order_id = mo_id (ep_order e), es_status = mo_status (ep_order e)\<rparr>"

text \<open>The state is seeded from the entries, then mirrors the fills; a later entry of the same leg wins.\<close>

definition seed_state :: "sm_strategy \<Rightarrow> int \<Rightarrow> entry_placed list \<Rightarrow> run_store \<Rightarrow> run_store" where
  "seed_state strat rid es st =
     fold (\<lambda>e s. mirror_fill rid (rl_leg_id (ep_leg e)) ''entry'' (\<not> rejected e) (ep_order e) (mo_qty (ep_order e)) (ss_legs strat) s)
       es (init_run_state rid (ss_id strat) (ss_legs strat) (rev (map summary_of es)) st)"

definition entry_symbols :: "entry_placed list \<Rightarrow> (string \<times> string) list" where
  "entry_symbols es =
     remdups (map (\<lambda>e. (rl_exchange (ep_leg e), rl_symbol (ep_leg e)))
       (filter (\<lambda>e. \<not> rejected e \<and> rl_symbol (ep_leg e) \<noteq> [] \<and> rl_exchange (ep_leg e) \<noteq> []) es))"

definition open_run ::
  "'w venue \<Rightarrow> sm_strategy \<Rightarrow> string \<Rightarrow> string \<Rightarrow> string \<Rightarrow> bool \<Rightarrow> resolved_leg list \<Rightarrow> 'w engine \<Rightarrow>
     (engine_error + int \<times> entry_placed list) \<times> 'w engine" where
  "open_run v strat mode broker source auth legs d =
     (let (run, d1) = repo_start_run strat mode broker source d;
          rid = sr_id run
      in case place_entries v strat mode rid auth (buy_before_sell legs) d1 of
           (Inl e, d2) \<Rightarrow> (Inl e, d2)
         | (Inr es, d2) \<Rightarrow>
             if list_all rejected es
             then (Inl AllEntriesRejected, finalize_run (vn_now v (en_world d2)) rid (ss_id strat) ''error'' 0 0 d2)
             else (Inr (rid, es),
                   d2\<lparr>en_states := seed_state strat rid es (en_states d2),
                      en_subs := add_run_subscriptions rid (entry_symbols es) (en_subs d2)\<rparr>))"

text \<open>The code looks at \<open>live_enabled\<close> on the caller's copy of the strategy and reads everything else from
  the row it locks next. A call is one step here, so the caller's copy is the row, and one lookup serves
  both.\<close>

definition start_run ::
  "'w venue \<Rightarrow> int \<Rightarrow> string \<Rightarrow> string \<Rightarrow> string \<Rightarrow> bool \<Rightarrow> 'w engine \<Rightarrow>
     (engine_error + int \<times> entry_placed list) \<times> 'w engine" where
  "start_run v sid mode broker source auth d =
     (if mode \<notin> {''live'', ''sandbox''} then (Inl (InvalidMode mode), d)
      else case get_row ss_id sid (en_strategies d) of
        None \<Rightarrow> (Inl (StrategyNotFound sid), d)
      | Some strat \<Rightarrow>
          if mode = ''live'' \<and> \<not> ss_live_enabled strat then (Inl LiveNotEnabled, d)
          else if ss_status strat \<noteq> ''stopped'' then (Inl (CannotStart (ss_status strat)), d)
          else if ss_legs strat = [] then (Inl NoLegs, d)
          else case resolve_legs v (ss_underlying strat) (ss_underlying_exchange strat) auth (ss_legs strat) d of
            (Inl e, d1) \<Rightarrow> (Inl e, d1)
          | (Inr legs, d1) \<Rightarrow> open_run v strat mode broker source auth legs d1)"

end
