(* ===== verification/Signal_Engine.thy ===== *)
theory Signal_Engine
  imports Strategy_Engine
begin

text \<open>
  The signal engine (\<open>src/backend/strategy/engine.py\<close>): legs that are entered and left one by one on
  signals, the squaring of all of them at the end of the day, and the kill switch. The row lock makes
  a call see the strategy row by its id; the state of the run is read at the start of a call and
  written back whole.
\<close>

section \<open>Signals\<close>

definition signal_leg_state :: "int \<Rightarrow> leg_state list \<Rightarrow> leg_state" where
  "signal_leg_state i legs =
     (case get_row lg_leg_id i legs of Some g \<Rightarrow> g | None \<Rightarrow> (bare_leg i)\<lparr>lg_status := ''configured''\<rparr>)"

definition entry_action_side :: "string \<Rightarrow> string option" where
  "entry_action_side a = map_of [(''long_entry'', ''long''), (''short_entry'', ''short'')] a"

definition entry_action_broker :: "string \<Rightarrow> string" where
  "entry_action_broker a = (if a = ''long_entry'' then ''BUY'' else ''SELL'')"

definition exit_action_side :: "string \<Rightarrow> string option" where
  "exit_action_side a = map_of [(''long_exit'', ''long''), (''short_exit'', ''short'')] a"

definition exit_action_broker :: "string \<Rightarrow> string" where
  "exit_action_broker a = (if a = ''long_exit'' then ''SELL'' else ''BUY'')"

definition direction_admits_entry :: "string \<Rightarrow> string \<Rightarrow> bool" where
  "direction_admits_entry direction action =
     (if direction = ''both'' then True
      else if direction = ''long_only'' then action \<in> {''long_entry'', ''long_exit''}
      else if direction = ''short_only'' then action \<in> {''short_entry'', ''short_exit''}
      else False)"

text \<open>The trading window, at a time of day in IST minutes.\<close>

definition intraday_window_status :: "sm_strategy \<Rightarrow> int \<Rightarrow> string" where
  "intraday_window_status strat now_t =
     (if ss_strategy_type strat \<noteq> ''intraday'' then ''no_window''
      else case (ss_entry_time strat, ss_exit_time strat) of
        (Some en, Some ex) \<Rightarrow>
          if now_t < en then ''outside_entry'' else if ex \<le> now_t then ''outside_trading'' else ''active''
      | _ \<Rightarrow> ''no_window'')"

text \<open>The minute of the day of the venue's clock; the times of the strategy are whole minutes.\<close>

definition minute_of_day :: "datetime \<Rightarrow> int" where
  "minute_of_day t = (t mod usec_per_day) div 60000000"

datatype signal_outcome =
    Placed int int
  | Rejected int int
  | LegExited int int
  | AlreadyInPosition int
  | PositionConflict int
  | NoMatchingPosition int
  | DirectionBlocked int
  | OutsideEntryWindow int
  | OutsideTradingWindow int

section \<open>Entering a leg\<close>

text \<open>The active run of the strategy, or a new one.\<close>

definition get_or_create_signal_run :: "sm_strategy \<Rightarrow> string \<Rightarrow> string \<Rightarrow> string \<Rightarrow> 'w engine \<Rightarrow> sm_run \<times> 'w engine" where
  "get_or_create_signal_run strat mode broker source d =
     (case Option.bind (ss_current_run_id strat) (\<lambda>rid. get_row sr_id rid (en_runs d)) of
        Some run \<Rightarrow> if sr_stopped_at run = None then (run, d) else repo_start_run strat mode broker source d
      | None \<Rightarrow> repo_start_run strat mode broker source d)"

definition signal_state :: "sm_run \<Rightarrow> sm_strategy \<Rightarrow> run_store \<Rightarrow> run_state" where
  "signal_state run strat st =
     (case get_run_state (sr_id run) st of Some s \<Rightarrow> s | None \<Rightarrow> fresh_run (sr_id run) (ss_id strat) [])"

definition signal_instrument ::
  "'w venue \<Rightarrow> leg_config \<Rightarrow> bool \<Rightarrow> 'w engine \<Rightarrow> (engine_error + string \<times> string) \<times> 'w engine" where
  "signal_instrument v c auth d =
     (if lc_segment c \<in> {Some ''futures'', Some ''options''} then
        (let w = en_world d;
             (r, cache) = resolve_leg (vn_contracts v w) (vn_today v w) (vn_quote v w) auth c (lc_symbol c) (lc_exchange c) (en_strikes d)
         in (case r of Inl e \<Rightarrow> Inl (LegResolution (lc_id c) e) | Inr x \<Rightarrow> Inr (rv_symbol x, rv_exchange x), d\<lparr>en_strikes := cache\<rparr>))
      else (Inr (lc_symbol c, lc_exchange c), d))"

text \<open>The leg as the call leaves it in the state it read.\<close>

definition entered_leg :: "string \<Rightarrow> int \<Rightarrow> string \<Rightarrow> string \<Rightarrow> sm_order \<Rightarrow> bool \<Rightarrow> leg_state \<Rightarrow> leg_state" where
  "entered_leg side qty symb exch row ok g =
     (if ok then
        (let g' = g\<lparr>lg_current_side := Some side, lg_qty := Some qty, lg_symbol := Some symb, lg_exchange := Some exch,
                    lg_entry_order_id := Some (mo_id row), lg_status := ''open'', lg_exit_order_id := None\<rparr>
         in case mo_avg_fill_price row of Some p \<Rightarrow> g'\<lparr>lg_entry_avg := Some p\<rparr> | None \<Rightarrow> g')
      else g\<lparr>lg_status := ''rejected''\<rparr>)"

definition place_signal_entry ::
  "'w venue \<Rightarrow> sm_strategy \<Rightarrow> sm_run \<Rightarrow> string \<Rightarrow> bool \<Rightarrow> leg_config \<Rightarrow> string \<Rightarrow> run_state \<Rightarrow> 'w engine \<Rightarrow>
     (engine_error + signal_outcome) \<times> 'w engine" where
  "place_signal_entry v strat run mode auth c action s d =
     (let i = lc_id c; qty = lc_qty c; g = signal_leg_state i (rs_legs s); rid = sr_id run in
      if qty \<le> 0 then (Inl (BadQuantity i), d)
      else case signal_instrument v c auth d of
        (Inl e, d1) \<Rightarrow> (Inl e, d1)
      | (Inr (symb, exch), d1) \<Rightarrow>
          let od = \<lparr>dt_symbol = symb, dt_exchange = exch, dt_action = entry_action_broker action,
                    dt_quantity = show_int qty, dt_pricetype = or_string (ss_pricetype strat) ''MARKET'',
                    dt_product = or_string (ss_product strat) ''MIS'', dt_strategy = ss_name strat\<rparr>
          in (case place_and_record v mode (ss_user_id strat) auth rid i ''entry'' od qty d1 of
                (Inl e, d2) \<Rightarrow> (Inl e, d2)
              | (Inr (ok, row), d2) \<Rightarrow>
                  let g' = entered_leg (the (entry_action_side action)) qty symb exch row ok g;
                      st1 = hydrate_run_state rid (s\<lparr>rs_legs := put_row lg_leg_id g' (rs_legs s)\<rparr>) (en_states d2);
                      subs = (if ok then add_run_subscriptions rid [(exch, symb)] (en_subs d2) else en_subs d2)
                  in (Inr (if ok then Placed i (mo_id row) else Rejected i (mo_id row)),
                      d2\<lparr>en_states := mirror_fill rid i ''entry'' ok row qty (ss_legs strat) st1, en_subs := subs\<rparr>)))"

definition enter_leg ::
  "'w venue \<Rightarrow> int \<Rightarrow> leg_config \<Rightarrow> string \<Rightarrow> string \<Rightarrow> string \<Rightarrow> bool \<Rightarrow> 'w engine \<Rightarrow>
     (engine_error + signal_outcome) \<times> 'w engine" where
  "enter_leg v sid c action mode broker auth d =
     (case entry_action_side action of
        None \<Rightarrow> (Inl (InvalidAction action), d)
      | Some side \<Rightarrow>
          (case get_row ss_id sid (en_strategies d) of
             None \<Rightarrow> (Inl (StrategyNotFound sid), d)
           | Some strat \<Rightarrow>
               let i = lc_id c; window = intraday_window_status strat (minute_of_day (vn_now v (en_world d))) in
               if \<not> direction_admits_entry (or_string (ss_direction strat) ''both'') action then (Inr (DirectionBlocked i), d)
               else if window = ''outside_entry'' then (Inr (OutsideEntryWindow i), d)
               else if window = ''outside_trading'' then (Inr (OutsideTradingWindow i), d)
               else
                 let (run, d1) = get_or_create_signal_run strat mode broker ''webhook'' d;
                     s = signal_state run strat (en_states d1);
                     g = signal_leg_state i (rs_legs s)
                 in if lg_current_side g = Some side then
                      (Inr (AlreadyInPosition i),
                       d1\<lparr>en_states := hydrate_run_state (sr_id run) (s\<lparr>rs_legs := put_row lg_leg_id g (rs_legs s)\<rparr>) (en_states d1)\<rparr>)
                    else if lg_current_side g \<noteq> None then (Inr (PositionConflict i), d1)
                    else place_signal_entry v strat run mode auth c action s d1))"

section \<open>Leaving a leg\<close>

text \<open>The order, its fill mirrored into the stored state, then the state read before written back with
  the leg closed.\<close>

definition place_signal_exit ::
  "'w venue \<Rightarrow> sm_strategy \<Rightarrow> sm_run \<Rightarrow> string \<Rightarrow> bool \<Rightarrow> leg_config \<Rightarrow> string \<Rightarrow> run_state \<Rightarrow> leg_state \<Rightarrow> 'w engine \<Rightarrow>
     (engine_error + signal_outcome) \<times> 'w engine" where
  "place_signal_exit v strat run mode auth c action s g d =
     (let i = lc_id c; qty = or_int (lg_qty g) (lc_qty c); rid = sr_id run in
      if qty \<le> 0 then (Inl (BadQuantity i), d)
      else
        let od = \<lparr>dt_symbol = or_text (lg_symbol g) (lc_symbol c), dt_exchange = or_text (lg_exchange g) (lc_exchange c),
                  dt_action = exit_action_broker action, dt_quantity = show_int qty, dt_pricetype = ''MARKET'',
                  dt_product = or_string (ss_product strat) ''MIS'', dt_strategy = ss_name strat\<rparr>
        in (case place_and_record v mode (ss_user_id strat) auth rid i ''exit_signal'' od qty d of
              (Inl e, d1) \<Rightarrow> (Inl e, d1)
            | (Inr (ok, row), d1) \<Rightarrow>
                let st1 = mirror_fill rid i ''exit_signal'' ok row qty (ss_legs strat) (en_states d1);
                    g' = g\<lparr>lg_current_side := None, lg_status := ''closed'', lg_exit_order_id := Some (mo_id row)\<rparr>;
                    st2 = (if ok then hydrate_run_state rid (s\<lparr>rs_legs := put_row lg_leg_id g' (rs_legs s)\<rparr>) st1 else st1)
                in (Inr (if ok then LegExited i (mo_id row) else Rejected i (mo_id row)), d1\<lparr>en_states := st2\<rparr>)))"

definition exit_leg_by_signal ::
  "'w venue \<Rightarrow> int \<Rightarrow> leg_config \<Rightarrow> string \<Rightarrow> string \<Rightarrow> bool \<Rightarrow> bool \<Rightarrow> 'w engine \<Rightarrow>
     (engine_error + signal_outcome) \<times> 'w engine" where
  "exit_leg_by_signal v sid c action mode auth bypass_window d =
     (case exit_action_side action of
        None \<Rightarrow> (Inl (InvalidAction action), d)
      | Some side \<Rightarrow>
          (case get_row ss_id sid (en_strategies d) of
             None \<Rightarrow> (Inl (StrategyNotFound sid), d)
           | Some strat \<Rightarrow>
               let i = lc_id c; window = intraday_window_status strat (minute_of_day (vn_now v (en_world d))) in
               if \<not> direction_admits_entry (or_string (ss_direction strat) ''both'') action then (Inr (DirectionBlocked i), d)
               else if \<not> bypass_window \<and> window = ''outside_trading'' then (Inr (OutsideTradingWindow i), d)
               else case Option.bind (ss_current_run_id strat) (\<lambda>rid. get_row sr_id rid (en_runs d)) of
                 None \<Rightarrow> (Inr (NoMatchingPosition i), d)
               | Some run \<Rightarrow>
                   if sr_stopped_at run \<noteq> None then (Inr (NoMatchingPosition i), d)
                   else case get_run_state (sr_id run) (en_states d) of
                     None \<Rightarrow> (Inr (NoMatchingPosition i), d)
                   | Some s \<Rightarrow>
                       (case get_row lg_leg_id i (rs_legs s) of
                          None \<Rightarrow> (Inr (NoMatchingPosition i), d)
                        | Some g \<Rightarrow>
                            if lg_current_side g \<noteq> Some side then (Inr (NoMatchingPosition i), d)
                            else place_signal_exit v strat run mode auth c action s g d)))"

section \<open>Squaring and the kill switch\<close>

definition open_signal_legs :: "leg_state list \<Rightarrow> (int \<times> string) list" where
  "open_signal_legs legs =
     concat (map (\<lambda>g. if lg_current_side g = Some ''long'' then [(lg_leg_id g, ''long_exit'')]
                       else if lg_current_side g = Some ''short'' then [(lg_leg_id g, ''short_exit'')] else []) legs)"

fun square_loop ::
  "'w venue \<Rightarrow> int \<Rightarrow> leg_config list \<Rightarrow> string \<Rightarrow> bool \<Rightarrow> (int \<times> string) list \<Rightarrow> 'w engine \<Rightarrow>
     (int \<times> (engine_error + signal_outcome)) list \<times> 'w engine" where
  "square_loop v sid cfgs mode auth [] d = ([], d)"
| "square_loop v sid cfgs mode auth ((i, action) # ls) d =
     (case get_row lc_id i (rev cfgs) of
        None \<Rightarrow> square_loop v sid cfgs mode auth ls d
      | Some c \<Rightarrow>
          let (r, d1) = exit_leg_by_signal v sid c action mode auth True d;
              (rs, d2) = square_loop v sid cfgs mode auth ls d1
          in ((i, r) # rs, d2))"

datatype square_outcome = NoActive | AlreadyStopped | Squared int "(int \<times> (engine_error + signal_outcome)) list"

definition signal_auto_square ::
  "'w venue \<Rightarrow> int \<Rightarrow> string \<Rightarrow> bool \<Rightarrow> 'w engine \<Rightarrow> (engine_error + square_outcome) \<times> 'w engine" where
  "signal_auto_square v sid mode auth d =
     (case get_row ss_id sid (en_strategies d) of
        None \<Rightarrow> (Inl (StrategyNotFound sid), d)
      | Some strat \<Rightarrow>
          (case ss_current_run_id strat of
             None \<Rightarrow> (Inr NoActive, d)
           | Some rid \<Rightarrow>
               (case get_row sr_id rid (en_runs d) of
                  None \<Rightarrow> (Inr AlreadyStopped, d)
                | Some run \<Rightarrow>
                    if sr_stopped_at run \<noteq> None then (Inr AlreadyStopped, d)
                    else
                      let legs = (case get_run_state rid (en_states d) of Some s \<Rightarrow> rs_legs s | None \<Rightarrow> []);
                          (rs, d1) = square_loop v sid (ss_legs strat) mode auth (open_signal_legs legs) d;
                          d2 = finalize_run (vn_now v (en_world d1)) rid sid ''eod'' 0 0 d1
                      in (Inr (Squared rid rs), forget_run rid d2))))"

text \<open>Cancelling what is not final: an order without a venue id is passed over, a refused cancel leaves
  the status and notes the reason, one that raises leaves the row.\<close>

definition cancel_one :: "'w venue \<Rightarrow> string \<Rightarrow> int \<Rightarrow> bool \<Rightarrow> sm_order \<Rightarrow> 'w engine \<Rightarrow> 'w engine" where
  "cancel_one v mode uid auth row d =
     (case or_text (mo_broker_order_id row) [] of
        [] \<Rightarrow> d
      | oid \<Rightarrow>
          if lower (mo_status row) \<in> {''complete'', ''rejected'', ''cancelled''} then d
          else if mode \<noteq> ''sandbox'' \<and> \<not> auth then d
          else
            (case (if mode = ''sandbox'' then vn_cancel_sandbox v uid oid (en_world d)
                   else vn_cancel_live v oid (en_world d)) of
               (Inl x, w) \<Rightarrow> d\<lparr>en_world := w\<rparr>
             | (Inr resp, w) \<Rightarrow>
                 let row' = (if pl_ok resp then row\<lparr>mo_status := ''cancelled'', mo_reject_reason := None\<rparr>
                             else row\<lparr>mo_reject_reason := Some (pl_message resp)\<rparr>)
                 in d\<lparr>en_world := w, en_orders := map (\<lambda>x. if mo_id x = mo_id row then row' else x) (en_orders d)\<rparr>))"

definition cancel_pending_orders_for_run :: "'w venue \<Rightarrow> sm_run \<Rightarrow> sm_strategy \<Rightarrow> bool \<Rightarrow> 'w engine \<Rightarrow> 'w engine" where
  "cancel_pending_orders_for_run v run strat auth d =
     fold (\<lambda>row. cancel_one v (sr_mode run) (ss_user_id strat) auth row) (list_orders_for_run (sr_id run) d) d"

definition lock_webhook :: "int \<Rightarrow> bool \<Rightarrow> 'w engine \<Rightarrow> 'w engine" where
  "lock_webhook sid b d =
     d\<lparr>en_strategies := map (\<lambda>s. if ss_id s = sid then s\<lparr>ss_webhook_locked := b\<rparr> else s) (en_strategies d)\<rparr>"

definition kill_strategy :: "'w venue \<Rightarrow> int \<Rightarrow> bool \<Rightarrow> 'w engine \<Rightarrow> (engine_error + bool) \<times> 'w engine" where
  "kill_strategy v sid auth d =
     (case get_row ss_id sid (en_strategies d) of
        None \<Rightarrow> (Inl (StrategyNotFound sid), d)
      | Some strat \<Rightarrow>
          let d3 =
            (case Option.bind (ss_current_run_id strat) (\<lambda>rid. get_row sr_id rid (en_runs d)) of
               None \<Rightarrow> d
             | Some run \<Rightarrow>
                 if sr_stopped_at run \<noteq> None then d
                 else
                   let d1 = cancel_pending_orders_for_run v run strat auth d in
                   if or_string (ss_strategy_kind strat) ''batch'' = ''signal''
                   then snd (signal_auto_square v sid (sr_mode run) auth d1)
                   else snd (stop_run v strat ''manual'' auth d1))
          in (Inr (ss_webhook_locked strat), lock_webhook sid True d3))"

definition unlock_webhook :: "int \<Rightarrow> 'w engine \<Rightarrow> (engine_error + bool) \<times> 'w engine" where
  "unlock_webhook sid d =
     (case get_row ss_id sid (en_strategies d) of
        None \<Rightarrow> (Inl (StrategyNotFound sid), d)
      | Some strat \<Rightarrow> if ss_webhook_locked strat then (Inr False, lock_webhook sid False d) else (Inr True, d))"

end
