(* ===== verification/Run_Ticks.thy ===== *)
theory Run_Ticks
  imports Strategy_Engine
begin

text \<open>
  What a tick sets off (\<open>src/backend/strategy/tick_processor.py\<close>): the tick goes to every run that
  subscribed to its instrument, each run is evaluated under its lock, and then the legs that hit a
  stop or target are exited and, when a strategy rule fired, the run is stopped. The credentials of
  a live run are looked up for every exit; \<open>auth\<close> says for which runs they are found. An exception
  is logged and passed over, so what was done before it stays.
\<close>

definition load_strategy_for_run :: "int \<Rightarrow> 'w engine \<Rightarrow> sm_strategy option" where
  "load_strategy_for_run rid d =
     Option.bind (get_row sr_id rid (en_runs d)) (\<lambda>r. get_row ss_id (sr_strategy_id r) (en_strategies d))"

text \<open>An unstopped run with its strategy, unless it is live and without credentials.\<close>

definition active_pair :: "(sm_run \<Rightarrow> bool) \<Rightarrow> int \<Rightarrow> 'w engine \<Rightarrow> (sm_run \<times> sm_strategy) option" where
  "active_pair auth rid d =
     (case (get_row sr_id rid (en_runs d), load_strategy_for_run rid d) of
        (Some run, Some strat) \<Rightarrow>
          if sr_stopped_at run \<noteq> None \<or> (sr_mode run = ''live'' \<and> \<not> auth run) then None else Some (run, strat)
      | _ \<Rightarrow> None)"

definition run_auth :: "(sm_run \<Rightarrow> bool) \<Rightarrow> sm_run \<Rightarrow> bool" where
  "run_auth auth run \<longleftrightarrow> sr_mode run = ''live'' \<and> auth run"

definition trigger_exit :: "'w venue \<Rightarrow> (sm_run \<Rightarrow> bool) \<Rightarrow> int \<Rightarrow> int \<times> string \<Rightarrow> 'w engine \<Rightarrow> 'w engine" where
  "trigger_exit v auth rid x d =
     (case active_pair auth rid d of
        None \<Rightarrow> d
      | Some (run, strat) \<Rightarrow>
          (case exit_legs v strat run [fst x] (snd x) (run_auth auth run) d of
             (Inl e, d1) \<Rightarrow> d1
           | (Inr ss, d1) \<Rightarrow> snd (finalize_run_if_all_flat v strat run d1)))"

definition trigger_run_stop :: "'w venue \<Rightarrow> (sm_run \<Rightarrow> bool) \<Rightarrow> int \<Rightarrow> string \<Rightarrow> 'w engine \<Rightarrow> 'w engine" where
  "trigger_run_stop v auth rid reason d =
     (case active_pair auth rid d of
        None \<Rightarrow> d
      | Some (run, strat) \<Rightarrow>
          if ss_status strat \<noteq> ''running'' then d else snd (stop_run v strat reason (run_auth auth run) d))"

definition tick_one_run ::
  "'w venue \<Rightarrow> (sm_run \<Rightarrow> bool) \<Rightarrow> string \<Rightarrow> string \<Rightarrow> rat \<Rightarrow> int \<Rightarrow> 'w engine \<Rightarrow> 'w engine" where
  "tick_one_run v auth exch sb ltp rid d =
     (let (st, exits, reason) = process_tick_for_run (load_strategy_for_run rid d) rid exch sb ltp (en_states d);
          d1 = fold (trigger_exit v auth rid) exits (d\<lparr>en_states := st\<rparr>)
      in case reason of None \<Rightarrow> d1 | Some r \<Rightarrow> trigger_run_stop v auth rid r d1)"

definition process_tick ::
  "'w venue \<Rightarrow> (sm_run \<Rightarrow> bool) \<Rightarrow> string \<Rightarrow> string \<Rightarrow> rat \<Rightarrow> int list \<Rightarrow> 'w engine \<Rightarrow> 'w engine" where
  "process_tick v auth exch sb ltp rids d = fold (tick_one_run v auth exch sb ltp) rids d"

text \<open>A tick of the cache reaches the runs subscribed when it arrives.\<close>

definition deliver_tick ::
  "'w venue \<Rightarrow> (sm_run \<Rightarrow> bool) \<Rightarrow> string \<Rightarrow> string \<Rightarrow> rat \<Rightarrow> 'w engine \<Rightarrow> 'w engine" where
  "deliver_tick v auth exch sb ltp d =
     (if sb = [] \<or> exch = [] then d else process_tick v auth exch sb ltp (interested_runs exch sb (en_subs d)) d)"

end
