(* ===== verification/Engine_Frame.thy ===== *)
theory Engine_Frame
  imports Run_Start Signal_Engine Run_Ticks
begin

text \<open>
  How the engine's calls are put together, as two interfaces. \<open>exit_frame\<close> is for the calls that
  place orders and write run state, \<open>engine_frame\<close> adds the opening and closing of runs: a relation
  between engine states that holds of each primitive step of the engine holds of every call. The
  first is interpreted here on what placing orders leaves alone, the strategies and the runs.
\<close>

section \<open>Placing orders\<close>

locale exit_frame = step_preorder R for R :: "'w engine \<Rightarrow> 'w engine \<Rightarrow> bool" +
  fixes v :: "'w venue"
  assumes place: "R d (snd (place_and_record v mode uid auth rid i kind od qty d))"
    and states: "R d (d\<lparr>en_states := st\<rparr>)"
    and subs: "R d (d\<lparr>en_subs := ix\<rparr>)"
    and strikes: "R d (d\<lparr>en_strikes := cache\<rparr>)"
begin

lemma via: "R d e \<Longrightarrow> R e f \<Longrightarrow> R d f"
  by (rule trans)

lemma place_case:
  assumes "place_and_record v mode uid auth rid i kind od qty d = (r, e)"
  shows "R d e"
  using place [of d mode uid auth rid i kind od qty] assms by simp

lemma exit_leg: "R d (snd (exit_leg v strat run kind auth orders i d))"
  by (auto simp: exit_leg_def refl dest!: place_case intro: via [OF _ states] split: option.split prod.split sum.split)

lemma exit_leg_case: "exit_leg v strat run kind auth orders i d = (r, e) \<Longrightarrow> R d e"
  using exit_leg [of d strat run kind auth orders i] by simp

lemma exit_loop: "R d (snd (exit_loop v strat run kind auth orders is d))"
proof (induction "is" arbitrary: d)
  case (Cons i "is")
  show ?case
  proof (cases "exit_leg v strat run kind auth orders i d")
    case (Pair r e)
    then show ?thesis
      using exit_leg_case [OF Pair] Cons [of e] via by (auto split: sum.split prod.split)
  qed
qed (simp add: refl)

lemma exit_legs: "R d (snd (exit_legs v strat run is kind auth d))"
  by (simp add: exit_legs_def exit_loop)

lemma exit_legs_case: "exit_legs v strat run is kind auth d = (r, e) \<Longrightarrow> R d e"
  using exit_legs [of d strat run "is" kind auth] by simp

lemma resolve_legs: "R d (snd (resolve_legs v und exch auth cs d))"
proof (induction cs arbitrary: d)
  case (Cons c cs)
  obtain r cache where p: "resolve_leg (vn_contracts v (en_world d)) (vn_today v (en_world d)) (vn_quote v (en_world d)) auth c
      und exch (en_strikes d) = (r, cache)" by fastforce
  show ?case
    using strikes [of d cache] Cons [of "d\<lparr>en_strikes := cache\<rparr>"] via
    by (auto simp: p Let_def split: sum.split prod.split)
qed (simp add: refl)

lemma place_entry: "R d (snd (place_entry v strat mode rid auth l d))"
  by (auto simp: place_entry_def Let_def dest!: place_case split: prod.split sum.split)

lemma place_entries: "R d (snd (place_entries v strat mode rid auth ls d))"
proof (induction ls arbitrary: d)
  case (Cons l ls)
  show ?case
  proof (cases "place_entry v strat mode rid auth l d")
    case (Pair r e)
    then show ?thesis
      using place_entry [of d strat mode rid auth l] Cons [of e] via by (auto split: sum.split prod.split)
  qed
qed (simp add: refl)

lemma place_entries_case: "place_entries v strat mode rid auth ls d = (r, e) \<Longrightarrow> R d e"
  using place_entries [of d strat mode rid auth ls] by simp

lemma signal_instrument: "R d (snd (signal_instrument v c auth d))"
  by (auto simp: signal_instrument_def Let_def refl strikes split: prod.split)

lemma signal_instrument_case: "signal_instrument v c auth d = (r, e) \<Longrightarrow> R d e"
  using signal_instrument [of d c auth] by simp

lemma two_fields: "R d (d\<lparr>en_states := st, en_subs := ix\<rparr>)"
  using via [OF states [of d st] subs [of "d\<lparr>en_states := st\<rparr>" ix]] by simp

lemma place_signal_entry: "R d (snd (place_signal_entry v strat run mode auth c action s d))"
  by (auto simp: place_signal_entry_def Let_def refl dest!: place_case signal_instrument_case
      intro: via via [OF via two_fields] via [OF via states] split: prod.split sum.split)

lemma place_signal_exit: "R d (snd (place_signal_exit v strat run mode auth c action s g d))"
  by (auto simp: place_signal_exit_def Let_def refl dest!: place_case
      intro: via [OF _ states] split: prod.split sum.split)

lemma exit_leg_by_signal: "R d (snd (exit_leg_by_signal v sid c action mode auth bypass d))"
  by (simp add: exit_leg_by_signal_def Let_def refl place_signal_exit split: option.split)

lemma square_loop: "R d (snd (square_loop v sid cfgs mode auth ls d))"
proof (induction ls arbitrary: d)
  case (Cons x ls)
  obtain i action where x: "x = (i, action)" by (cases x)
  show ?case
  proof (cases "get_row lc_id i (rev cfgs)")
    case (Some c)
    then show ?thesis
      using exit_leg_by_signal [of d sid c action mode auth True] Cons via
      by (auto simp: x Let_def split: prod.split) fastforce
  qed (simp add: x Cons)
qed (simp add: refl)

end

section \<open>Strategies and runs stay while orders are placed\<close>

definition same_rows :: "'w engine \<Rightarrow> 'w engine \<Rightarrow> bool" where
  "same_rows d e \<longleftrightarrow> en_strategies e = en_strategies d \<and> en_runs e = en_runs d \<and> en_next_run e = en_next_run d \<and>
     en_next_strategy e = en_next_strategy d"

lemma place_rows: "same_rows d (snd (place_and_record v mode uid auth rid i kind od qty d))"
  by (auto simp: place_and_record_def record_order_def Let_def split_beta same_rows_def split: prod.split sum.split)

interpretation rows: exit_frame same_rows v for v
  by unfold_locales (auto simp: same_rows_def place_rows [unfolded same_rows_def])

lemma cancel_rows: "same_rows d (cancel_one v mode uid auth row d)"
  by (auto simp: cancel_one_def same_rows_def Let_def split: list.split prod.split sum.split)

section \<open>Opening and closing runs\<close>

text \<open>The run is the current one of the strategy, or an unstopped one of it.\<close>

definition live_pair :: "int \<Rightarrow> int \<Rightarrow> 'w engine \<Rightarrow> bool" where
  "live_pair rid sid d \<longleftrightarrow>
     (case get_row ss_id sid (en_strategies d) of Some s \<Rightarrow> ss_current_run_id s = Some rid | None \<Rightarrow> False) \<or>
     (case get_row sr_id rid (en_runs d) of Some r \<Rightarrow> sr_strategy_id r = sid \<and> sr_stopped_at r = None | None \<Rightarrow> False)"

definition current_run :: "sm_strategy \<Rightarrow> 'w engine \<Rightarrow> sm_run option" where
  "current_run strat d = Option.bind (ss_current_run_id strat) (\<lambda>rid. get_row sr_id rid (en_runs d))"

definition startable :: "sm_strategy \<Rightarrow> 'w engine \<Rightarrow> bool" where
  "startable strat d \<longleftrightarrow> get_row ss_id (ss_id strat) (en_strategies d) = Some strat \<and>
     (ss_status strat = ''stopped'' \<or> (case current_run strat d of Some r \<Rightarrow> sr_stopped_at r \<noteq> None | None \<Rightarrow> True))"

lemma live_pair_rows: "same_rows d e \<Longrightarrow> live_pair rid sid e = live_pair rid sid d"
  by (simp add: same_rows_def live_pair_def)

locale engine_frame = exit_frame R v for R :: "'w engine \<Rightarrow> 'w engine \<Rightarrow> bool" and v +
  assumes open_step: "startable strat d \<Longrightarrow> R d (snd (repo_start_run strat mode broker source d))"
    and close_step: "live_pair rid sid d \<Longrightarrow> R d (finalize_run now rid sid reason peak trough d)"
    and cancel_step: "R d (cancel_one v mode uid auth row d)"
    and lock_step: "R d (lock_webhook sid b d)"
begin

lemma forget: "R d (forget_run rid d)"
  by (simp add: forget_run_def two_fields)

lemma close_forget: "live_pair rid sid d \<Longrightarrow> R d (forget_run rid (finalize_run now rid sid reason peak trough d))"
  using close_step forget via by blast

lemma stop_run:
  assumes "get_row ss_id (ss_id strat) (en_strategies d) = Some strat"
  shows "R d (snd (stop_run v strat reason auth d))"
proof (cases "active_run strat d")
  case (Inr run)
  then have live: "live_pair (sr_id run) (ss_id strat) d"
    using assms by (auto simp: active_run_def live_pair_def dest: get_row_key split: option.splits if_splits)
  obtain r e where e: "exit_legs v strat run (map lc_id (ss_legs strat)) (exit_kind_for_stop reason) auth d = (r, e)"
    by fastforce
  have "live_pair (sr_id run) (ss_id strat) e" using live live_pair_rows [OF rows.exit_legs_case [OF e]] by simp
  with Inr e exit_legs_case [OF e] show ?thesis
    by (auto simp: stop_run_def intro: via [OF _ close_forget] split: sum.split)
qed (simp add: stop_run_def refl)

lemma finalize_if_flat:
  "live_pair (sr_id run) (ss_id strat) d \<Longrightarrow> R d (snd (finalize_run_if_all_flat v strat run d))"
  by (auto simp: finalize_run_if_all_flat_def refl close_forget split: option.split)

lemma finalize_if_flat_case:
  "finalize_run_if_all_flat v strat run d = (b, e) \<Longrightarrow> live_pair (sr_id run) (ss_id strat) d \<Longrightarrow> R d e"
  using finalize_if_flat [of run strat d] by simp

lemma exit_then_finalize:
  assumes "exit_legs v strat run is kind auth d = (Inr ss, e)" and "live_pair (sr_id run) (ss_id strat) d"
  shows "R d (snd (finalize_run_if_all_flat v strat run e))"
  using via [OF exit_legs_case [OF assms(1)] finalize_if_flat] live_pair_rows [OF rows.exit_legs_case [OF assms(1)]]
    assms(2) by blast

lemma close_leg:
  assumes "get_row ss_id (ss_id strat) (en_strategies d) = Some strat"
  shows "R d (snd (close_leg v strat i auth d))"
proof (cases "active_run strat d")
  case (Inr run)
  then have live: "live_pair (sr_id run) (ss_id strat) d"
    using assms by (auto simp: active_run_def live_pair_def dest: get_row_key split: option.splits if_splits)
  obtain r e where e: "exit_legs v strat run [i] ''exit_leg_manual'' auth d = (r, e)" by fastforce
  have "R d f" if "r = Inr ss" "finalize_run_if_all_flat v strat run e = (b, f)" for ss b f
    using exit_then_finalize [OF e [unfolded that(1)] live] that(2) by simp
  with Inr e exit_legs_case [OF e] show ?thesis
    by (auto simp: close_leg_def refl split: sum.split prod.split)
qed (simp add: close_leg_def refl)

lemma start_run: "R d (snd (start_run v sid mode broker source auth d))"
proof (cases "get_row ss_id sid (en_strategies d)")
  case (Some strat)
  then have id: "ss_id strat = sid" by (rule get_row_key)
  have run: "R d (snd (open_run v strat mode broker source auth legs d1))"
    if res: "resolve_legs v (ss_underlying strat) (ss_underlying_exchange strat) auth (ss_legs strat) d = (Inr legs, d1)" and st: "ss_status strat = ''stopped''" for legs d1
  proof -
    have r1: "R d d1" "same_rows d d1"
      using resolve_legs [of d "ss_underlying strat" "ss_underlying_exchange strat" auth "ss_legs strat"]
        rows.resolve_legs [of d v "ss_underlying strat" "ss_underlying_exchange strat" auth "ss_legs strat"] res by simp_all
    have "startable strat d1" using Some st r1(2) by (simp add: startable_def same_rows_def id)
    then have r2: "R d1 (snd (repo_start_run strat mode broker source d1))" by (rule open_step)
    obtain run d2 where s: "repo_start_run strat mode broker source d1 = (run, d2)" by fastforce
    obtain es d3 where p: "place_entries v strat mode (sr_id run) auth (buy_before_sell legs) d2 = (es, d3)" by fastforce
    have "live_pair (sr_id run) (ss_id strat) d2"
      using s by (auto simp: repo_start_run_def Let_def live_pair_def get_put_row)
    then have live: "live_pair (sr_id run) (ss_id strat) d3"
      using live_pair_rows [of d2 d3] rows.place_entries_case [OF p] by simp
    have r3: "R d d3" using r1(1) r2 s place_entries_case [OF p] via by (metis snd_conv)
    then show ?thesis
      using live by (auto simp: open_run_def Let_def s p intro: via [OF _ close_step] via [OF _ two_fields] split: sum.split)
  qed
  show ?thesis
    using Some run resolve_legs [of d "ss_underlying strat" "ss_underlying_exchange strat" auth "ss_legs strat"]
    by (auto simp: start_run_def refl split: prod.split sum.split)
qed (simp add: start_run_def refl)

lemma signal_run:
  assumes "get_row ss_id (ss_id strat) (en_strategies d) = Some strat"
  shows "R d (snd (get_or_create_signal_run strat mode broker source d))"
  using assms
  by (auto simp: get_or_create_signal_run_def refl startable_def current_run_def intro!: open_step split: option.split)

lemma enter_leg: "R d (snd (enter_leg v sid c action mode broker auth d))"
proof (cases "get_row ss_id sid (en_strategies d)")
  case (Some strat)
  then have "get_row ss_id (ss_id strat) (en_strategies d) = Some strat" using get_row_key by fastforce
  then have "R d e" if "get_or_create_signal_run strat mode broker ''webhook'' d = (run, e)" for run e
    using signal_run [of strat d mode broker "''webhook''"] that by simp
  then show ?thesis
    using Some by (auto simp: enter_leg_def Let_def refl intro: via [OF _ states] via [OF _ place_signal_entry]
        split: option.split prod.split)
qed (simp add: enter_leg_def refl split: option.split)

lemma signal_auto_square: "R d (snd (signal_auto_square v sid mode auth d))"
proof (cases "get_row ss_id sid (en_strategies d)")
  case (Some strat)
  have "R d (forget_run rid (finalize_run now rid sid reason 0 0 e))"
    if "square_loop v sid cfgs mode auth ls d = (r, e)" "ss_current_run_id strat = Some rid" for cfgs ls r e rid now reason
  proof -
    have "R d e" "same_rows d e"
      using that square_loop [of d sid cfgs mode auth ls] rows.square_loop [of d v sid cfgs mode auth ls] by simp_all
    moreover have "live_pair rid sid d" using Some that(2) by (simp add: live_pair_def)
    ultimately show ?thesis using live_pair_rows via close_forget by metis
  qed
  with Some show ?thesis
    by (auto simp: signal_auto_square_def Let_def refl split: option.split prod.split)
qed (simp add: signal_auto_square_def refl)

lemma cancel_pending: "R d (cancel_pending_orders_for_run v run strat auth d)"
  unfolding cancel_pending_orders_for_run_def by (rule fold_steps) (rule cancel_step)

lemma kill_strategy: "R d (snd (kill_strategy v sid auth d))"
proof (cases "get_row ss_id sid (en_strategies d)")
  case (Some strat)
  have flat: "R d (snd (stop_run v strat reason auth e)) \<and> R d (snd (signal_auto_square v sid mode auth e))"
    if "e = cancel_pending_orders_for_run v run strat auth d" for e run reason mode
  proof -
    have "same_rows d e" unfolding that cancel_pending_orders_for_run_def by (rule rows.fold_steps) (rule cancel_rows)
    then have "get_row ss_id (ss_id strat) (en_strategies e) = Some strat"
      using Some get_row_key [OF Some] by (simp add: same_rows_def)
    then show ?thesis using cancel_pending that stop_run signal_auto_square via by blast
  qed
  show ?thesis
    using Some flat by (auto simp: kill_strategy_def Let_def intro: lock_step via [OF _ lock_step] split: option.split)
qed (simp add: kill_strategy_def refl)

lemma unlock_webhook: "R d (snd (unlock_webhook sid d))"
  by (auto simp: unlock_webhook_def refl lock_step split: option.split)

section \<open>Ticks\<close>

lemma active_pair_live:
  assumes "active_pair auth rid d = Some (run, strat)"
  shows "live_pair (sr_id run) (ss_id strat) d" "get_row ss_id (ss_id strat) (en_strategies d) = Some strat"
proof -
  have p: "get_row sr_id rid (en_runs d) = Some run" "sr_stopped_at run = None"
    "get_row ss_id (sr_strategy_id run) (en_strategies d) = Some strat"
    using assms
    by (auto simp: active_pair_def load_strategy_for_run_def bind_eq_Some_conv split: option.splits if_splits)
  have k: "sr_id run = rid" "ss_id strat = sr_strategy_id run"
    using get_row_key [OF p(1)] get_row_key [OF p(3)] by simp_all
  show "live_pair (sr_id run) (ss_id strat) d" "get_row ss_id (ss_id strat) (en_strategies d) = Some strat"
    using p by (simp_all add: k live_pair_def)
qed

lemma trigger_exit: "R d (trigger_exit v auth rid x d)"
proof (cases "active_pair auth rid d")
  case (Some p)
  obtain run strat where p: "p = (run, strat)" by (cases p)
  note live = active_pair_live(1) [OF Some [unfolded p]]
  obtain r e where e: "exit_legs v strat run [fst x] (snd x) (run_auth auth run) d = (r, e)" by fastforce
  have "R d (snd (finalize_run_if_all_flat v strat run e))" if "r = Inr ss" for ss
    using exit_then_finalize [OF e [unfolded that] live] .
  with exit_legs_case [OF e] show ?thesis by (auto simp: trigger_exit_def Some p e split: sum.split)
qed (simp add: trigger_exit_def refl)

lemma trigger_run_stop: "R d (trigger_run_stop v auth rid reason d)"
  by (auto simp: trigger_run_stop_def refl intro: stop_run dest: active_pair_live(2) split: option.split)

lemma tick_one_run: "R d (tick_one_run v auth exch sb ltp rid d)"
proof -
  have "R d (fold (trigger_exit v auth rid) xs (d\<lparr>en_states := st\<rparr>))" for xs st
    by (rule via [OF states]) (rule fold_steps, rule trigger_exit)
  then show ?thesis
    by (auto simp: tick_one_run_def Let_def intro: via [OF _ trigger_run_stop] split: prod.split option.split)
qed

lemma deliver_tick: "R d (deliver_tick v auth exch sb ltp d)"
  by (auto simp: deliver_tick_def process_tick_def refl intro: fold_steps tick_one_run)

end

section \<open>The engine as a transition system\<close>

inductive engine_step :: "'w venue \<Rightarrow> 'w engine \<Rightarrow> 'w engine \<Rightarrow> bool" for v where
  start: "engine_step v d (snd (start_run v sid mode broker source auth d))"
| stop: "get_row ss_id (ss_id strat) (en_strategies d) = Some strat \<Longrightarrow>
    engine_step v d (snd (stop_run v strat reason auth d))"
| close: "get_row ss_id (ss_id strat) (en_strategies d) = Some strat \<Longrightarrow>
    engine_step v d (snd (close_leg v strat i auth d))"
| enter: "engine_step v d (snd (enter_leg v sid c action mode broker auth d))"
| leave: "engine_step v d (snd (exit_leg_by_signal v sid c action mode auth bypass d))"
| square: "engine_step v d (snd (signal_auto_square v sid mode auth d))"
| kill: "engine_step v d (snd (kill_strategy v sid auth d))"
| unlock: "engine_step v d (snd (unlock_webhook sid d))"
| tick: "engine_step v d (deliver_tick v rauth exch sb ltp d)"

context engine_frame
begin

lemma step: "engine_step v d e \<Longrightarrow> R d e"
  by (induction rule: engine_step.induct)
    (simp_all add: start_run stop_run close_leg enter_leg exit_leg_by_signal signal_auto_square kill_strategy
      unlock_webhook deliver_tick)

end

end
