(* ===== verification/Strategy_Crud.thy ===== *)
theory Strategy_Crud
  imports Strategy_Db
begin

text \<open>
  Creating, editing and deleting strategies (\<open>src/backend/strategy/repository.py\<close>). A request has
  passed the schemas of \<open>src/backend/schemas/strategy_module.py\<close>, which name the columns a patch may
  touch; \<open>keep_columns\<close> puts the others back. A form carries the hash of the webhook token drawn for it;
  scheduler jobs are left out.
\<close>

datatype repo_error = NotFound | Conflict string | Integrity

definition name_taken :: "int \<Rightarrow> string \<Rightarrow> sm_strategy list \<Rightarrow> bool" where
  "name_taken uid nm rows = list_ex (\<lambda>s. ss_user_id s = uid \<and> ss_name s = nm) rows"

definition hash_taken :: "string \<Rightarrow> sm_strategy list \<Rightarrow> bool" where
  "hash_taken h rows = list_ex (\<lambda>s. ss_webhook_token_hash s = h) rows"

definition new_strategy :: "int \<Rightarrow> int \<Rightarrow> sm_strategy \<Rightarrow> sm_strategy" where
  "new_strategy i uid form =
     form\<lparr>ss_id := i, ss_user_id := uid, ss_name := strip (ss_name form),
          ss_underlying := upper (strip (ss_underlying form)),
          ss_underlying_exchange := upper (strip (ss_underlying_exchange form)), ss_live_enabled := False,
          ss_webhook_locked := False, ss_status := ''stopped'', ss_current_run_id := None\<rparr>"

definition create_strategy :: "int \<Rightarrow> sm_strategy \<Rightarrow> 'w engine \<Rightarrow> (repo_error + sm_strategy) \<times> 'w engine" where
  "create_strategy uid form d =
     (let row = new_strategy (en_next_strategy d) uid form in
      if name_taken uid (ss_name row) (en_strategies d)
      then (Inl (Conflict ''A strategy with this name already exists''), d)
      else if hash_taken (ss_webhook_token_hash row) (en_strategies d) then (Inl Integrity, d)
      else (Inr row, d\<lparr>en_strategies := en_strategies d @ [row], en_next_strategy := en_next_strategy d + 1\<rparr>))"

definition get_strategy :: "int \<Rightarrow> int \<Rightarrow> 'w engine \<Rightarrow> repo_error + sm_strategy" where
  "get_strategy uid sid d =
     (case get_row ss_id sid (en_strategies d) of
        None \<Rightarrow> Inl NotFound
      | Some row \<Rightarrow> if ss_user_id row = uid then Inr row else Inl NotFound)"

definition keep_columns :: "sm_strategy \<Rightarrow> sm_strategy \<Rightarrow> sm_strategy" where
  "keep_columns row new =
     new\<lparr>ss_id := ss_id row, ss_user_id := ss_user_id row, ss_name := strip (ss_name new),
         ss_underlying := upper (strip (ss_underlying new)), ss_underlying_exchange := upper (strip (ss_underlying_exchange new)),
         ss_webhook_token_hash := ss_webhook_token_hash row,
         ss_strategy_kind := ss_strategy_kind row, ss_live_enabled := ss_live_enabled row,
         ss_webhook_locked := ss_webhook_locked row, ss_status := ss_status row,
         ss_current_run_id := ss_current_run_id row\<rparr>"

definition update_strategy ::
  "int \<Rightarrow> int \<Rightarrow> (sm_strategy \<Rightarrow> sm_strategy) \<Rightarrow> 'w engine \<Rightarrow> (repo_error + sm_strategy) \<times> 'w engine" where
  "update_strategy uid sid patch d =
     (case get_strategy uid sid d of
        Inl e \<Rightarrow> (Inl e, d)
      | Inr row \<Rightarrow>
          if ss_status row \<noteq> ''stopped'' then (Inl (Conflict (''Cannot edit a strategy that is currently '' @ ss_status row)), d)
          else
            let new = keep_columns row (patch row) in
            if name_taken uid (ss_name new) (filter (\<lambda>s. ss_id s \<noteq> sid) (en_strategies d))
            then (Inl (Conflict ''A strategy with this name already exists''), d)
            else (Inr new, d\<lparr>en_strategies := put_row ss_id new (en_strategies d)\<rparr>))"

text \<open>Deleting cascades to the runs and their orders.\<close>

definition delete_strategy :: "int \<Rightarrow> int \<Rightarrow> 'w engine \<Rightarrow> (repo_error + unit) \<times> 'w engine" where
  "delete_strategy uid sid d =
     (case get_strategy uid sid d of
        Inl e \<Rightarrow> (Inl e, d)
      | Inr row \<Rightarrow>
          if ss_status row \<noteq> ''stopped'' then (Inl (Conflict (''Cannot delete a strategy that is currently '' @ ss_status row)), d)
          else
            let gone = map sr_id (filter (\<lambda>r. sr_strategy_id r = sid) (en_runs d)) in
            (Inr (), d\<lparr>en_strategies := filter (\<lambda>s. ss_id s \<noteq> sid) (en_strategies d),
                       en_runs := filter (\<lambda>r. sr_strategy_id r \<noteq> sid) (en_runs d),
                       en_orders := filter (\<lambda>x. mo_run_id x \<notin> set gone) (en_orders d)\<rparr>))"

definition rotate_webhook_token :: "int \<Rightarrow> int \<Rightarrow> string \<Rightarrow> 'w engine \<Rightarrow> (repo_error + sm_strategy) \<times> 'w engine" where
  "rotate_webhook_token uid sid hash d =
     (case get_strategy uid sid d of
        Inl e \<Rightarrow> (Inl e, d)
      | Inr row \<Rightarrow>
          if hash_taken hash (filter (\<lambda>s. ss_id s \<noteq> sid) (en_strategies d)) then (Inl Integrity, d)
          else let new = row\<lparr>ss_webhook_token_hash := hash\<rparr> in (Inr new, d\<lparr>en_strategies := put_row ss_id new (en_strategies d)\<rparr>))"

definition find_strategy_by_webhook_token :: "(string \<Rightarrow> string) \<Rightarrow> string \<Rightarrow> 'w engine \<Rightarrow> sm_strategy option" where
  "find_strategy_by_webhook_token hash token d = List.find (\<lambda>s. ss_webhook_token_hash s = hash token) (en_strategies d)"

definition set_live_enabled :: "int \<Rightarrow> bool \<Rightarrow> 'w engine \<Rightarrow> 'w engine" where
  "set_live_enabled sid b d =
     d\<lparr>en_strategies := map (\<lambda>s. if ss_id s = sid then s\<lparr>ss_live_enabled := b\<rparr> else s) (en_strategies d)\<rparr>"

end
