(* ===== verification/Engine_System.thy ===== *)
theory Engine_System
  imports Engine_Frame Strategy_Crud
begin

text \<open>
  The engine with its strategies as one transition system: the calls of the engine and the editing of
  strategies. In every reachable state a strategy has at most one open run, and it is running exactly
  when it has one.
\<close>

inductive edit_step :: "'w engine \<Rightarrow> 'w engine \<Rightarrow> bool" where
  create: "edit_step d (snd (create_strategy uid form d))"
| update: "edit_step d (snd (update_strategy uid sid patch d))"
| delete: "edit_step d (snd (delete_strategy uid sid d))"
| rotate: "edit_step d (snd (rotate_webhook_token uid sid hash d))"
| live: "edit_step d (set_live_enabled sid b d)"

text \<open>No strategy yet; the venue is in any state.\<close>

definition empty_engine :: "'w \<Rightarrow> 'w engine" where
  "empty_engine w = \<lparr>en_strategies = [], en_runs = [], en_orders = [], en_states = (\<lambda>_. None), en_subs = [],
     en_next_strategy = 1, en_next_run = 1, en_next_order = 1, en_strikes = (\<lambda>_. None), en_world = w\<rparr>"

text \<open>The venue moves on its own between the calls: \<open>drift\<close> says how.\<close>

inductive engine_reachable :: "('w \<Rightarrow> 'w \<Rightarrow> bool) \<Rightarrow> 'w venue \<Rightarrow> 'w \<Rightarrow> 'w engine \<Rightarrow> bool" for drift v w0 where
  init: "engine_reachable drift v w0 (empty_engine w0)"
| edit: "engine_reachable drift v w0 d \<Longrightarrow> edit_step d e \<Longrightarrow> engine_reachable drift v w0 e"
| call: "engine_reachable drift v w0 d \<Longrightarrow> engine_step v d e \<Longrightarrow> engine_reachable drift v w0 e"
| drift: "engine_reachable drift v w0 d \<Longrightarrow> drift (en_world d) w \<Longrightarrow> engine_reachable drift v w0 (d\<lparr>en_world := w\<rparr>)"

section \<open>Strategies and runs\<close>

abbreviation strategy_at :: "'w engine \<Rightarrow> int \<Rightarrow> sm_strategy option" where
  "strategy_at d i \<equiv> get_row ss_id i (en_strategies d)"

abbreviation run_at :: "'w engine \<Rightarrow> int \<Rightarrow> sm_run option" where
  "run_at d j \<equiv> get_row sr_id j (en_runs d)"

definition open_run_of :: "'w engine \<Rightarrow> int \<Rightarrow> int \<Rightarrow> bool" where
  "open_run_of d i j \<longleftrightarrow> (\<exists>r. run_at d j = Some r \<and> sr_strategy_id r = i \<and> sr_stopped_at r = None)"

text \<open>A strategy is running with its current run open, or stopped without one; an open run is the
  current run of its strategy.\<close>

definition strategy_ok :: "(int \<Rightarrow> int \<Rightarrow> bool) \<Rightarrow> int \<Rightarrow> sm_strategy \<Rightarrow> bool" where
  "strategy_ok opened i s \<longleftrightarrow>
     (case ss_current_run_id s of
        None \<Rightarrow> ss_status s = ''stopped''
      | Some j \<Rightarrow> ss_status s = ''running'' \<and> opened i j)"

definition runs_ok :: "'w engine \<Rightarrow> bool" where
  "runs_ok d \<longleftrightarrow> uniq ss_id (en_strategies d) \<and> uniq sr_id (en_runs d) \<and>
     (\<forall>i \<in> ss_id ` set (en_strategies d). i < en_next_strategy d) \<and>
     (\<forall>j \<in> sr_id ` set (en_runs d). j < en_next_run d) \<and>
     (\<forall>i s. strategy_at d i = Some s \<longrightarrow> strategy_ok (open_run_of d) i s) \<and>
     (\<forall>i j. open_run_of d i j \<longrightarrow> (\<exists>s. strategy_at d i = Some s \<and> ss_current_run_id s = Some j))"

lemma runs_okD:
  assumes "runs_ok d"
  shows "uniq ss_id (en_strategies d)" "uniq sr_id (en_runs d)"
    "strategy_at d i = Some s \<Longrightarrow> ss_current_run_id s = None \<Longrightarrow> ss_status s = ''stopped''"
    "strategy_at d i = Some s \<Longrightarrow> ss_current_run_id s = Some j \<Longrightarrow> ss_status s = ''running'' \<and> open_run_of d i j"
    "open_run_of d i j \<Longrightarrow> strategy_at d i = Some s \<Longrightarrow> ss_current_run_id s = Some j"
    "open_run_of d i j \<Longrightarrow> \<exists>s. strategy_at d i = Some s \<and> ss_current_run_id s = Some j"
    "strategy_at d (en_next_strategy d) = None" "run_at d (en_next_run d) = None"
  using assms unfolding runs_ok_def strategy_ok_def by (auto simp: get_row_None) fastforce+

definition keeps_runs_ok :: "'w engine \<Rightarrow> 'w engine \<Rightarrow> bool" where
  "keeps_runs_ok d e \<longleftrightarrow> (if runs_ok d then runs_ok e else True)"

lemma open_run_cong: "en_runs e = en_runs d \<Longrightarrow> open_run_of e = open_run_of d"
  by (simp add: open_run_of_def fun_eq_iff)

lemma same_rows_ok: "same_rows d e \<Longrightarrow> runs_ok e = runs_ok d"
  using open_run_cong [of e d] by (simp add: same_rows_def runs_ok_def)

lemma keeps_same: "same_rows d e \<Longrightarrow> keeps_runs_ok d e"
  by (simp add: keeps_runs_ok_def same_rows_ok)

lemma get_row_append: "get_row key k (xs @ ys) = (case get_row key k xs of Some r \<Rightarrow> Some r | None \<Rightarrow> get_row key k ys)"
  by (induction xs) auto

lemma open_run_ok:
  assumes ok: "runs_ok d" and "startable strat d"
  shows "runs_ok (snd (repo_start_run strat mode broker source d))"
proof -
  let ?e = "snd (repo_start_run strat mode broker source d)" and ?n = "en_next_run d" and ?i = "ss_id strat"
  have strat: "strategy_at d ?i = Some strat" using assms(2) by (simp add: startable_def)
  have none: "ss_current_run_id strat = None"
  proof (cases "ss_current_run_id strat")
    case (Some j)
    then show ?thesis
      using runs_okD(4) [OF ok strat Some] assms(2)
      by (auto simp: startable_def current_run_def open_run_of_def)
  qed simp
  have s: "strategy_at ?e i = (if i = ?i then Some (strat\<lparr>ss_status := ''running'', ss_current_run_id := Some ?n\<rparr>) else strategy_at d i)" for i
    by (simp add: repo_start_run_def Let_def get_put_row)
  have r: "open_run_of ?e i j \<longleftrightarrow> open_run_of d i j \<or> (i = ?i \<and> j = ?n)" for i j
    using runs_okD(8) [OF ok]
    by (auto simp: repo_start_run_def Let_def open_run_of_def get_row_append split: option.splits)
  have "uniq sr_id (en_runs ?e)" "\<forall>j \<in> sr_id ` set (en_runs ?e). j < en_next_run ?e"
    using ok by (auto simp: repo_start_run_def Let_def runs_ok_def uniq_def)
  moreover have "uniq ss_id (en_strategies ?e)" "\<forall>i \<in> ss_id ` set (en_strategies ?e). i < en_next_strategy ?e"
    using ok get_row_mem [OF strat]
    by (auto simp: repo_start_run_def Let_def runs_ok_def uniq_put_row dest!: set_put_row)
  moreover have "strategy_ok (open_run_of ?e) i t" if "strategy_at ?e i = Some t" for i t
    using that runs_okD(3,4) [OF ok] by (auto simp: s r strategy_ok_def split: if_splits option.split)
  moreover have "\<exists>t. strategy_at ?e i = Some t \<and> ss_current_run_id t = Some j" if "open_run_of ?e i j" for i j
    using that runs_okD(6) [OF ok, of i j] strat none by (auto simp: s r)
  ultimately show ?thesis by (simp add: runs_ok_def)
qed

lemma close_run_ok:
  assumes ok: "runs_ok d" and "live_pair rid sid d"
  shows "runs_ok (finalize_run now rid sid reason peak trough d)"
proof -
  let ?e = "finalize_run now rid sid reason peak trough d"
  have live: "open_run_of d sid rid"
  proof (cases "strategy_at d sid")
    case (Some s)
    then show ?thesis
      using assms(2) runs_okD(4) [OF ok Some, of rid] by (auto simp: live_pair_def open_run_of_def split: option.splits)
  qed (use assms(2) in \<open>auto simp: live_pair_def open_run_of_def split: option.splits\<close>)
  have s: "strategy_at ?e i = (if i = sid then map_option (\<lambda>s. s\<lparr>ss_status := ''stopped'', ss_current_run_id := None\<rparr>) (strategy_at d i)
      else strategy_at d i)" for i
    by (auto simp: finalize_run_def Let_def get_row_map dest: get_row_key split: option.split)
       (cases "strategy_at d i"; auto dest: get_row_key)+
  have "run_at ?e j = map_option (\<lambda>r. if sr_id r = rid then r\<lparr>sr_stopped_at := Some now, sr_stop_reason := Some reason,
      sr_pnl_realized := compute_run_realized_from_orders rid (en_orders d), sr_pnl_peak := peak, sr_pnl_trough := trough\<rparr> else r)
      (run_at d j)" for j
    by (simp add: finalize_run_def Let_def get_row_map)
  then have r: "open_run_of ?e i j \<longleftrightarrow> open_run_of d i j \<and> j \<noteq> rid" for i j
    using get_row_key [of sr_id j "en_runs d"] by (cases "run_at d j") (auto simp: open_run_of_def)
  have other: "i = sid" if "open_run_of d i rid" for i
    using that live by (auto simp: open_run_of_def)
  have only: "j = rid" if "open_run_of d sid j" for j
    using runs_okD(6) [OF ok that] runs_okD(6) [OF ok live] by auto
  have "uniq sr_id (en_runs ?e)" "\<forall>j \<in> sr_id ` set (en_runs ?e). j < en_next_run ?e"
    "uniq ss_id (en_strategies ?e)" "\<forall>i \<in> ss_id ` set (en_strategies ?e). i < en_next_strategy ?e"
    using ok by (auto simp: finalize_run_def Let_def runs_ok_def uniq_map)
  moreover have "strategy_ok (open_run_of ?e) i t" if "strategy_at ?e i = Some t" for i t
    using that runs_okD(3,4) [OF ok] other by (auto simp: s r strategy_ok_def split: if_splits option.split)
  moreover have "\<exists>t. strategy_at ?e i = Some t \<and> ss_current_run_id t = Some j" if "open_run_of ?e i j" for i j
    using that runs_okD(6) [OF ok, of i j] only by (auto simp: s r)
  ultimately show ?thesis by (simp add: runs_ok_def)
qed

text \<open>Changes of the strategies and runs that open or close no run.\<close>

lemma edit_runs_ok:
  assumes ok: "runs_ok d"
    and u: "uniq ss_id (en_strategies e)" "\<And>i. i \<in> ss_id ` set (en_strategies e) \<Longrightarrow> i < en_next_strategy e"
      "uniq sr_id (en_runs e)" "\<And>j. j \<in> sr_id ` set (en_runs e) \<Longrightarrow> j < en_next_run e"
    and s: "\<And>i s. strategy_at e i = Some s \<Longrightarrow>
        (\<exists>t. strategy_at d i = Some t \<and> ss_status s = ss_status t \<and> ss_current_run_id s = ss_current_run_id t) \<or>
        (strategy_at d i = None \<and> ss_status s = ''stopped'' \<and> ss_current_run_id s = None)"
    and r: "\<And>i j. open_run_of e i j \<longleftrightarrow> open_run_of d i j"
    and k: "\<And>i j. open_run_of d i j \<Longrightarrow> \<exists>s. strategy_at e i = Some s"
  shows "runs_ok e"
proof -
  have re: "open_run_of e = open_run_of d" using r by (simp add: fun_eq_iff)
  have "strategy_ok (open_run_of e) i x" if "strategy_at e i = Some x" for i x
    using s [OF that]
  proof
    assume "\<exists>t. strategy_at d i = Some t \<and> ss_status x = ss_status t \<and> ss_current_run_id x = ss_current_run_id t"
    then obtain t where "strategy_at d i = Some t" "ss_status x = ss_status t" "ss_current_run_id x = ss_current_run_id t"
      by blast
    moreover from this have "strategy_ok P i x = strategy_ok P i t" for P by (simp add: strategy_ok_def split: option.split)
    ultimately show ?thesis using ok by (simp add: runs_ok_def re)
  qed (simp add: strategy_ok_def)
  moreover have "\<exists>x. strategy_at e i = Some x \<and> ss_current_run_id x = Some j" if "open_run_of e i j" for i j
  proof -
    have d: "open_run_of d i j" using that r by simp
    obtain x where x: "strategy_at e i = Some x" using k [OF d] by blast
    from s [OF x] runs_okD(6) [OF ok d] x show ?thesis by auto
  qed
  ultimately show ?thesis using u by (simp add: runs_ok_def)
qed

lemma map_strategies_ok:
  assumes "\<And>s. ss_id (f s) = ss_id s \<and> ss_status (f s) = ss_status s \<and> ss_current_run_id (f s) = ss_current_run_id s"
    and ok: "runs_ok d"
  shows "runs_ok (d\<lparr>en_strategies := map f (en_strategies d)\<rparr>)"
proof (rule edit_runs_ok [OF ok])
  have g: "get_row ss_id i (map f (en_strategies d)) = map_option f (strategy_at d i)" for i
    using assms(1) by (simp add: get_row_map)
  show "\<exists>s. strategy_at (d\<lparr>en_strategies := map f (en_strategies d)\<rparr>) i = Some s" if "open_run_of d i j" for i j
    using runs_okD(6) [OF ok that] by (auto simp: g)
  show "(\<exists>t. strategy_at d i = Some t \<and> ss_status s = ss_status t \<and> ss_current_run_id s = ss_current_run_id t) \<or>
      (strategy_at d i = None \<and> ss_status s = ''stopped'' \<and> ss_current_run_id s = None)"
    if "strategy_at (d\<lparr>en_strategies := map f (en_strategies d)\<rparr>) i = Some s" for i s
    using that assms(1) by (auto simp: g)
qed (use ok assms(1) in \<open>auto simp: runs_ok_def uniq_map open_run_of_def\<close>)

interpretation runs: engine_frame keeps_runs_ok v for v
proof unfold_locales
  show "keeps_runs_ok d e \<Longrightarrow> keeps_runs_ok e f \<Longrightarrow> keeps_runs_ok d f" for d e f :: "'a engine"
    by (auto simp: keeps_runs_ok_def split: if_splits)
qed (auto simp: keeps_runs_ok_def open_run_ok close_run_ok lock_webhook_def map_strategies_ok
    intro: same_rows_ok [THEN iffD2] place_rows cancel_rows rows.states rows.subs rows.strikes)

section \<open>Editing\<close>

lemma create_ok: "keeps_runs_ok d (snd (create_strategy uid form d))"
proof (cases "name_taken uid (strip (ss_name form)) (en_strategies d) \<or> hash_taken (ss_webhook_token_hash form) (en_strategies d) \<or> \<not> runs_ok d")
  case False
  then have ok: "runs_ok d" by simp
  define e where "e = snd (create_strategy uid form d)"
  let ?n = "new_strategy (en_next_strategy d) uid form"
  have e: "e = d\<lparr>en_strategies := en_strategies d @ [?n], en_next_strategy := en_next_strategy d + 1\<rparr>"
    using False by (simp add: e_def create_strategy_def Let_def new_strategy_def)
  have n: "ss_id ?n = en_next_strategy d" "ss_current_run_id ?n = None" "ss_status ?n = ''stopped''"
    by (simp_all add: new_strategy_def)
  have o: "open_run_of e = open_run_of d" by (rule open_run_cong) (simp add: e)
  have "runs_ok e"
  proof (rule edit_runs_ok [OF ok])
    show "uniq ss_id (en_strategies e)"
      using runs_okD(1,7) [OF ok] n(1) by (simp add: e uniq_def get_row_None)
    show "\<exists>s. strategy_at e i = Some s" if "open_run_of d i j" for i j
      using runs_okD(6) [OF ok that] by (auto simp: e get_row_append)
  qed (use ok n in \<open>auto simp: e o [unfolded e] runs_ok_def get_row_append split: option.splits if_splits\<close>)
  then show ?thesis by (simp add: keeps_runs_ok_def e_def)
qed (auto simp: create_strategy_def Let_def new_strategy_def keeps_runs_ok_def)

lemma get_strategy_row: "get_strategy uid sid d = Inr row \<Longrightarrow> strategy_at d sid = Some row"
  by (auto simp: get_strategy_def split: option.splits if_splits)

lemma put_strategy_ok:
  assumes ok: "runs_ok d" and row: "strategy_at d sid = Some row"
    and n: "ss_id n = sid" "ss_status n = ss_status row" "ss_current_run_id n = ss_current_run_id row"
  shows "runs_ok (d\<lparr>en_strategies := put_row ss_id n (en_strategies d)\<rparr>)"
proof (rule edit_runs_ok [OF ok])
  note key = get_row_key [OF row]
  show "i < en_next_strategy (d\<lparr>en_strategies := put_row ss_id n (en_strategies d)\<rparr>)"
    if "i \<in> ss_id ` set (en_strategies (d\<lparr>en_strategies := put_row ss_id n (en_strategies d)\<rparr>))" for i
    using that ok get_row_mem [OF row] key by (auto simp: keys_put_row n runs_ok_def)
  show "\<exists>s. strategy_at (d\<lparr>en_strategies := put_row ss_id n (en_strategies d)\<rparr>) i = Some s"
    if "open_run_of d i j" for i j
    using runs_okD(6) [OF ok that] by (auto simp: get_put_row)
qed (use ok row in \<open>auto simp: runs_ok_def uniq_put_row get_put_row n open_run_of_def split: if_splits\<close>)

lemma update_ok: "keeps_runs_ok d (snd (update_strategy uid sid patch d))"
proof (cases "get_strategy uid sid d")
  case (Inr row)
  note row = get_strategy_row [OF Inr] and key = get_row_key [OF get_strategy_row [OF Inr]]
  let ?n = "keep_columns row (patch row)"
  have n: "ss_id ?n = sid" "ss_status ?n = ss_status row" "ss_current_run_id ?n = ss_current_run_id row"
    using key by (simp_all add: keep_columns_def)
  have "runs_ok (d\<lparr>en_strategies := put_row ss_id ?n (en_strategies d)\<rparr>)" if ok: "runs_ok d"
    by (rule put_strategy_ok [OF ok row n])
  then show ?thesis by (auto simp: update_strategy_def Inr keeps_runs_ok_def Let_def)
qed (simp add: update_strategy_def keeps_runs_ok_def)

lemma rotate_ok: "keeps_runs_ok d (snd (rotate_webhook_token uid sid hash d))"
proof (cases "get_strategy uid sid d")
  case (Inr row)
  note row = get_strategy_row [OF Inr] and key = get_row_key [OF get_strategy_row [OF Inr]]
  let ?n = "row\<lparr>ss_webhook_token_hash := hash\<rparr>"
  have "runs_ok (d\<lparr>en_strategies := put_row ss_id ?n (en_strategies d)\<rparr>)" if ok: "runs_ok d"
    using put_strategy_ok [OF ok row, of ?n] key by simp
  then show ?thesis by (auto simp: rotate_webhook_token_def Inr keeps_runs_ok_def Let_def)
qed (simp add: rotate_webhook_token_def keeps_runs_ok_def)

lemma delete_ok: "keeps_runs_ok d (snd (delete_strategy uid sid d))"
proof (cases "get_strategy uid sid d")
  case (Inr row)
  note row = get_strategy_row [OF Inr]
  let ?e = "snd (delete_strategy uid sid d)"
  have "runs_ok ?e" if ok: "runs_ok d" and st: "ss_status row = ''stopped''"
  proof -
    have "ss_current_run_id row = None" using runs_okD(4) [OF ok row] st by (cases "ss_current_run_id row") auto
    then have no: "\<not> open_run_of d sid j" for j using runs_okD(6) [OF ok, of sid j] row by auto
    have s: "strategy_at ?e i = (if i = sid then None else strategy_at d i)" for i
      using runs_okD(1) [OF ok]
      by (auto simp: delete_strategy_def Inr st Let_def get_row_filter dest: get_row_key split: option.split)
    have r: "run_at ?e j = (case run_at d j of Some r \<Rightarrow> if sr_strategy_id r \<noteq> sid then Some r else None | None \<Rightarrow> None)" for j
      using runs_okD(2) [OF ok] by (simp add: delete_strategy_def Inr st Let_def get_row_filter)
    have o: "open_run_of ?e i j \<longleftrightarrow> open_run_of d i j" for i j
      using no [of j] by (auto simp: open_run_of_def r split: option.splits if_splits)
    show ?thesis
    proof (rule edit_runs_ok [OF ok])
      show "\<exists>x. strategy_at ?e i = Some x" if "open_run_of d i j" for i j
        using runs_okD(6) [OF ok that] no that by (auto simp: s)
    qed (use ok in \<open>auto simp: s o, auto simp: delete_strategy_def Inr st Let_def runs_ok_def uniq_filter split: if_splits\<close>)
  qed
  then show ?thesis by (auto simp: keeps_runs_ok_def delete_strategy_def Inr)
qed (simp add: delete_strategy_def keeps_runs_ok_def)

lemma edit_ok: "edit_step d e \<Longrightarrow> keeps_runs_ok d e"
  by (induction rule: edit_step.induct)
    (simp_all add: create_ok update_ok rotate_ok delete_ok, simp add: keeps_runs_ok_def set_live_enabled_def map_strategies_ok)

lemma reachable_runs_ok: "engine_reachable drift v w0 d \<Longrightarrow> runs_ok d"
proof (induction rule: engine_reachable.induct)
  case (drift d w)
  then show ?case using same_rows_ok [of d "d\<lparr>en_world := w\<rparr>"] by (simp add: same_rows_def)
qed (auto simp: runs_ok_def empty_engine_def uniq_def open_run_of_def keeps_runs_ok_def
    dest!: edit_ok runs.step split: if_splits)

end
