(* ===== verification/Engine_Orders.thy ===== *)
theory Engine_Orders
  imports Engine_System
begin

text \<open>
  The order rows of the strategy engine: placing only adds rows, a leg that has been exited is not
  exited again, and a start places all or nothing, buying before selling.
\<close>

section \<open>Rows are only added\<close>

definition ids_fresh :: "'w engine \<Rightarrow> bool" where
  "ids_fresh d \<longleftrightarrow> (\<forall>x \<in> set (en_orders d). mo_id x < en_next_order d)"

definition adds_rows :: "'w engine \<Rightarrow> 'w engine \<Rightarrow> bool" where
  "adds_rows d e \<longleftrightarrow> (if ids_fresh d then ids_fresh e \<and> take (length (en_orders d)) (en_orders e) = en_orders d else True)"

lemma adds_rowsE:
  assumes "adds_rows d e" and "ids_fresh d"
  obtains rows where "en_orders e = en_orders d @ rows" "ids_fresh e"
  using assms append_take_drop_id [of "length (en_orders d)" "en_orders e"] unfolding adds_rows_def by metis

text \<open>What is kept of a recorded row when the venue is asked about it.\<close>

definition row_frame :: "sm_order \<Rightarrow> sm_order \<Rightarrow> bool" where
  "row_frame x y \<longleftrightarrow> y = x\<lparr>mo_status := mo_status y, mo_filled_at := mo_filled_at y,
     mo_avg_fill_price := mo_avg_fill_price y, mo_filled_qty := mo_filled_qty y\<rparr>"

lemma row_frame_refl: "row_frame x x"
  by (simp add: row_frame_def)

lemma row_frame_sel:
  assumes "row_frame x y"
  shows "mo_id y = mo_id x" "mo_run_id y = mo_run_id x" "mo_leg_id y = mo_leg_id x" "mo_kind y = mo_kind x"
    "mo_symbol y = mo_symbol x" "mo_exchange y = mo_exchange x" "mo_action y = mo_action x" "mo_qty y = mo_qty x"
    "mo_broker_order_id y = mo_broker_order_id x" "mo_pricetype y = mo_pricetype x"
  using assms by (metis row_frame_def sm_order.select_convs sm_order.update_convs sm_order.surjective)+

lemma merge_truth_frame: "row_frame x (merge_truth live now t x)"
  by (cases x) (auto simp: row_frame_def merge_truth_def Let_def split: option.split)

text \<open>A placement that returns adds one row, the one it answers with.\<close>

lemma place_adds:
  assumes "place_and_record v mode uid auth rid i kind od qty d = (Inr (ok, row), e)" and "ids_fresh d"
  shows "en_orders e = en_orders d @ [row]" "ids_fresh e" "mo_id row = en_next_order d" "mo_run_id row = rid"
    "mo_leg_id row = i" "mo_kind row = kind" "mo_symbol row = dt_symbol od" "mo_exchange row = dt_exchange od"
    "mo_action row = dt_action od" "mo_qty row = qty" "\<not> ok \<Longrightarrow> mo_status row = ''rejected''"
proof -
  obtain resp w where w: "dispatch_order v mode uid od auth (en_world d) = (Inr resp, w)"
    using assms(1) by (auto simp: place_and_record_def split: prod.splits sum.splits)
  obtain x d1 where x: "record_order rid i kind od qty resp (d\<lparr>en_world := w\<rparr>) = (x, d1)" by fastforce
  have xs: "mo_id x = en_next_order d" "mo_run_id x = rid" "mo_leg_id x = i" "mo_kind x = kind" "mo_symbol x = dt_symbol od"
    "mo_exchange x = dt_exchange od" "mo_action x = dt_action od" "mo_qty x = qty"
    "\<not> pl_ok resp \<Longrightarrow> mo_status x = ''rejected''"
    and d1: "en_orders d1 = en_orders d @ [x]" "en_next_order d1 = en_next_order d + 1"
    using x by (auto simp: record_order_def Let_def)
  have old: "map (\<lambda>y. if mo_id y = mo_id x then z else y) (en_orders d) = en_orders d" for z
    using assms(2) by (auto simp: ids_fresh_def xs intro!: map_idI)
  have ok: "ok = pl_ok resp"
    and row: "row_frame x row \<and> en_orders e = en_orders d @ [row] \<and> en_next_order e = en_next_order d + 1"
    using assms(1) w x d1 old merge_truth_frame row_frame_refl
    by (auto simp: place_and_record_def reconcile_order_fill_def Let_def split: prod.splits if_splits list.splits option.splits)
  from row row_frame_sel [of x row] xs assms(2)
  show "en_orders e = en_orders d @ [row]" "ids_fresh e" "mo_id row = en_next_order d" "mo_run_id row = rid"
    "mo_leg_id row = i" "mo_kind row = kind" "mo_symbol row = dt_symbol od" "mo_exchange row = dt_exchange od"
    "mo_action row = dt_action od" "mo_qty row = qty"
    by (auto simp: ids_fresh_def)
  assume "\<not> ok"
  with assms(1) w x show "mo_status row = ''rejected''" using xs(9) ok
    by (auto simp: place_and_record_def Let_def split: prod.splits if_splits)
qed

lemma place_raises:
  assumes "place_and_record v mode uid auth rid i kind od qty d = (Inl x, e)"
  shows "en_orders e = en_orders d" "en_next_order e = en_next_order d" "en_states e = en_states d"
  using assms by (auto simp: place_and_record_def Let_def split: prod.splits sum.splits)

interpretation rows_added: exit_frame adds_rows v for v
proof unfold_locales
  show "adds_rows d e \<Longrightarrow> adds_rows e f \<Longrightarrow> adds_rows d f" for d e f :: "'a engine"
  proof (cases "ids_fresh d")
    case True
    assume a: "adds_rows d e" "adds_rows e f"
    from a(1) True obtain r1 where r1: "en_orders e = en_orders d @ r1" "ids_fresh e" by (rule adds_rowsE)
    from a(2) r1(2) obtain r2 where "en_orders f = en_orders e @ r2" "ids_fresh f" by (rule adds_rowsE)
    with r1 show ?thesis by (simp add: adds_rows_def)
  qed (simp add: adds_rows_def)
  show "adds_rows d (snd (place_and_record v mode uid auth rid i kind od qty d))"
    for v :: "'a venue" and d mode uid auth rid i kind od qty
  proof (cases "place_and_record v mode uid auth rid i kind od qty d")
    case (Pair r e)
    then show ?thesis
    proof (cases r)
      case (Inl x)
      then show ?thesis using place_raises [OF Pair [unfolded Inl]] by (simp add: Pair adds_rows_def ids_fresh_def)
    next
      case (Inr p)
      obtain ok row where "p = (ok, row)" by (cases p)
      with Pair Inr place_adds [of v mode uid auth rid i kind od qty d ok row e] show ?thesis
        by (simp add: adds_rows_def)
    qed
  qed
qed (auto simp: adds_rows_def ids_fresh_def)

section \<open>A leg is exited once\<close>

definition skips :: "sm_strategy \<Rightarrow> sm_order list \<Rightarrow> int \<Rightarrow> bool" where
  "skips strat orders i \<longleftrightarrow>
     (case (get_row lc_id i (rev (ss_legs strat)), entry_of orders i) of
        (Some cfg, Some entry) \<Rightarrow> mo_status entry = ''rejected'' \<or> has_exit orders i
      | _ \<Rightarrow> True)"

definition is_skipped :: "leg_summary \<Rightarrow> bool" where
  "is_skipped x = (case x of Skipped i r \<Rightarrow> True | Exited i oid st \<Rightarrow> False)"

text \<open>The exit was not turned down.\<close>

definition accepted :: "leg_summary \<Rightarrow> bool" where
  "accepted x = (case x of Skipped i r \<Rightarrow> True | Exited i oid st \<Rightarrow> st \<noteq> ''rejected'')"

lemma exit_leg_skips:
  "skips strat orders i \<Longrightarrow> \<exists>r. exit_leg v strat run kind auth orders i d = (Inr (Skipped i r), d)"
  by (auto simp: skips_def exit_leg_def split: option.splits)

lemma exit_leg_row:
  assumes "exit_leg v strat run kind auth orders i d = (Inr x, e)" and "ids_fresh d" and "\<not> skips strat orders i"
  shows "\<exists>row. en_orders e = en_orders d @ [row] \<and> ids_fresh e \<and> mo_run_id row = sr_id run \<and> mo_kind row = kind \<and>
     mo_leg_id row = i \<and> x = Exited i (mo_id row) (mo_status row)"
proof -
  obtain cfg entry where c: "get_row lc_id i (rev (ss_legs strat)) = Some cfg" "entry_of orders i = Some entry"
    "mo_status entry \<noteq> ''rejected''" "\<not> has_exit orders i"
    using assms(3) by (auto simp: skips_def split: option.splits)
  obtain ok row e1 where p: "place_and_record v (sr_mode run) (ss_user_id strat) auth (sr_id run) i kind
      (exit_data strat cfg entry) (mo_qty entry) d = (Inr (ok, row), e1)"
    using assms(1) c by (auto simp: exit_leg_def split: prod.splits sum.splits)
  have e: "en_orders e = en_orders e1" "en_next_order e = en_next_order e1" "x = Exited i (mo_id row) (mo_status row)"
    using assms(1) c p by (auto simp: exit_leg_def)
  from place_adds [OF p assms(2)] e show ?thesis by (auto simp: ids_fresh_def)
qed

lemma exit_loop_rows:
  assumes "exit_loop v strat run kind auth orders is d = (Inr ss, e)" and "ids_fresh d"
  shows "\<exists>rows. en_orders e = en_orders d @ rows \<and> ids_fresh e \<and> (\<forall>r \<in> set rows. mo_run_id r = sr_id run \<and> mo_kind r = kind) \<and>
     (\<forall>i \<in> set is. skips strat orders i \<or> (\<exists>r \<in> set rows. mo_leg_id r = i \<and> Exited i (mo_id r) (mo_status r) \<in> set ss))"
  using assms
proof (induction "is" arbitrary: d ss)
  case (Cons i "is")
  obtain x d1 xs where x: "exit_leg v strat run kind auth orders i d = (Inr x, d1)"
    and xs: "exit_loop v strat run kind auth orders is d1 = (Inr xs, e)" "ss = x # xs"
    using Cons.prems(1) by (auto split: prod.splits sum.splits)
  have step: "\<exists>rs. en_orders d1 = en_orders d @ rs \<and> ids_fresh d1 \<and> (\<forall>r \<in> set rs. mo_run_id r = sr_id run \<and> mo_kind r = kind) \<and>
      (skips strat orders i \<or> (\<exists>r \<in> set rs. mo_leg_id r = i \<and> Exited i (mo_id r) (mo_status r) = x))"
  proof (cases "skips strat orders i")
    case True
    then show ?thesis using exit_leg_skips [OF True, of v run kind auth d] x Cons.prems(2) by (intro exI [of _ "[]"]) auto
  next
    case False
    from exit_leg_row [OF x Cons.prems(2) False] show ?thesis by force
  qed
  then obtain rs where rs: "en_orders d1 = en_orders d @ rs" "ids_fresh d1" "\<forall>r \<in> set rs. mo_run_id r = sr_id run \<and> mo_kind r = kind"
    "skips strat orders i \<or> (\<exists>r \<in> set rs. mo_leg_id r = i \<and> Exited i (mo_id r) (mo_status r) = x)" by blast
  from Cons.IH [OF xs(1) rs(2)] obtain rows where "en_orders e = en_orders d1 @ rows" "ids_fresh e"
    "\<forall>r \<in> set rows. mo_run_id r = sr_id run \<and> mo_kind r = kind"
    "\<forall>i \<in> set is. skips strat orders i \<or> (\<exists>r \<in> set rows. mo_leg_id r = i \<and> Exited i (mo_id r) (mo_status r) \<in> set xs)" by blast
  with rs xs(2) show ?case by (intro exI [of _ "rs @ rows"]) auto
qed auto

lemma find_append: "List.find P (xs @ ys) = (case List.find P xs of Some x \<Rightarrow> Some x | None \<Rightarrow> List.find P ys)"
  by (induction xs) auto

lemma entry_of_append:
  assumes "\<And>r. r \<in> set rows \<Longrightarrow> mo_kind r \<noteq> ''entry''"
  shows "entry_of (orders @ rows) i = entry_of orders i"
proof -
  have "List.find (\<lambda>x. mo_kind x = ''entry'' \<and> mo_leg_id x = i) (rev rows) = None"
    using assms by (auto simp: find_None_iff)
  then show ?thesis by (simp add: entry_of_def find_append)
qed

lemma skips_append:
  assumes "\<And>r. r \<in> set rows \<Longrightarrow> mo_kind r \<noteq> ''entry''" and "skips strat orders i \<or> has_exit rows i"
  shows "skips strat (orders @ rows) i"
  using assms by (auto simp: skips_def entry_of_append has_exit_def split: option.split)

lemma exit_loop_all_skip:
  "(\<And>i. i \<in> set is \<Longrightarrow> skips strat orders i) \<Longrightarrow>
     \<exists>ss. exit_loop v strat run kind auth orders is d = (Inr ss, d) \<and> list_all is_skipped ss"
proof (induction "is")
  case (Cons i "is")
  then obtain ss r where "exit_loop v strat run kind auth orders is d = (Inr ss, d)" "list_all is_skipped ss"
    "exit_leg v strat run kind auth orders i d = (Inr (Skipped i r), d)"
    using exit_leg_skips [of strat orders i v run kind auth d] by fastforce
  moreover have "is_skipped (Skipped i r)" by (simp add: is_skipped_def)
  ultimately show ?case by simp
qed simp

text \<open>C5: an exit is placed once. After a call that exited or passed over some legs of a run, none of
  its orders turned down, any later call over the same legs or some of them, whatever rule sent it,
  finds nothing to do: every leg is passed over and nothing changes, neither the rows nor the run
  state nor the venue.\<close>

theorem exits_are_placed_once:
  assumes "exit_legs v strat run is kind auth d = (Inr ss, e)" and "ids_fresh d" and "kind \<noteq> ''entry''"
    and "list_all accepted ss" and "set js \<subseteq> set is"
  shows "\<exists>ts. exit_legs v strat run js kind' auth' e = (Inr ts, e) \<and> list_all is_skipped ts"
proof -
  let ?o = "list_orders_for_run (sr_id run)"
  obtain rows where r: "en_orders e = en_orders d @ rows" "\<forall>r \<in> set rows. mo_run_id r = sr_id run \<and> mo_kind r = kind"
    "\<forall>i \<in> set is. skips strat (?o d) i \<or> (\<exists>r \<in> set rows. mo_leg_id r = i \<and> Exited i (mo_id r) (mo_status r) \<in> set ss)"
    using exit_loop_rows [OF assms(1) [unfolded exit_legs_def] assms(2)] by blast
  have o: "?o e = ?o d @ rows" using r(1,2) by (simp add: list_orders_for_run_def)
  have "skips strat (?o e) i" if "i \<in> set js" for i
  proof -
    have "skips strat (?o d) i \<or> has_exit rows i"
      using r(2,3) that assms(3,4,5) by (fastforce simp: has_exit_def list_ex_iff list_all_iff accepted_def)
    then show ?thesis unfolding o using r(2) assms(3) by (intro skips_append) auto
  qed
  then show ?thesis unfolding exit_legs_def by (rule exit_loop_all_skip)
qed

section \<open>A start places every leg or nothing\<close>

definition same_leg :: "leg_config \<Rightarrow> resolved_leg \<Rightarrow> bool" where
  "same_leg c l \<longleftrightarrow> rl_leg_id l = lc_id c \<and> lc_position c = Some (rl_position l) \<and> lc_lots c = Some (rl_lots l)"

lemma resolve_legs_same:
  "resolve_legs v und exch auth cs d = (r, e) \<Longrightarrow>
     e = d\<lparr>en_strikes := en_strikes e\<rparr> \<and>
     (case r of Inl x \<Rightarrow> x \<noteq> AllEntriesRejected \<and> (\<forall>y. x \<noteq> Raised y) | Inr ls \<Rightarrow> list_all2 same_leg cs ls)"
proof (induction cs arbitrary: d r e)
  case (Cons c cs)
  obtain r1 cache where r1: "resolve_leg (vn_contracts v (en_world d)) (vn_today v (en_world d)) (vn_quote v (en_world d)) auth c und exch
      (en_strikes d) = (r1, cache)" by fastforce
  let ?d1 = "d\<lparr>en_strikes := cache\<rparr>"
  show ?case
  proof (cases r1)
    case (Inr x)
    show ?thesis
    proof (cases "sized_leg c x")
      case (Inl y)
      then show ?thesis using Cons.prems r1 Inr
        by (auto simp: sized_leg_def Let_def split: if_splits option.splits)
    next
      case s: (Inr l)
      obtain r2 d2 where r2: "resolve_legs v und exch auth cs ?d1 = (r2, d2)" by fastforce
      have "same_leg c l" using s by (auto simp: sized_leg_def Let_def same_leg_def split: if_splits option.splits)
      with Cons.IH [OF r2] Cons.prems r1 Inr s r2 show ?thesis by (auto split: sum.splits)
    qed
  qed (use Cons.prems r1 in auto)
qed auto

definition entry_row :: "int \<Rightarrow> resolved_leg \<Rightarrow> entry_placed \<Rightarrow> bool" where
  "entry_row rid l p \<longleftrightarrow> ep_leg p = l \<and> mo_run_id (ep_order p) = rid \<and> mo_kind (ep_order p) = ''entry'' \<and>
     mo_leg_id (ep_order p) = rl_leg_id l \<and> mo_action (ep_order p) = entry_action (Some (rl_position l)) \<and>
     mo_qty (ep_order p) = rl_lots l * rl_lotsize l \<and> mo_symbol (ep_order p) = rl_symbol l"

lemma place_entries_rows:
  "place_entries v strat mode rid auth ls d = (Inr es, e) \<Longrightarrow> ids_fresh d \<Longrightarrow>
     en_orders e = en_orders d @ map ep_order es \<and> list_all2 (entry_row rid) ls es"
proof (induction ls arbitrary: d es)
  case (Cons l ls)
  obtain p d1 ps where p: "place_entry v strat mode rid auth l d = (Inr p, d1)"
    and ps: "place_entries v strat mode rid auth ls d1 = (Inr ps, e)" "es = p # ps"
    using Cons.prems(1) by (auto split: prod.splits sum.splits)
  obtain od ok row where row: "place_and_record v mode (ss_user_id strat) auth rid (rl_leg_id l) ''entry'' od
      (rl_lots l * rl_lotsize l) d = (Inr (ok, row), d1)"
    and p': "p = \<lparr>ep_leg = l, ep_qty = rl_lots l * rl_lotsize l, ep_order = row\<rparr>"
    and od: "dt_action od = entry_action (Some (rl_position l))" "dt_symbol od = rl_symbol l"
    using p by (auto simp: place_entry_def Let_def split: prod.splits sum.splits)
  note rows = place_adds [OF row Cons.prems(2)]
  from Cons.IH [OF ps(1) rows(2)] rows p' od ps(2) show ?case by (simp add: entry_row_def)
qed auto

lemma place_entries_raises:
  "place_entries v strat mode rid auth ls d = (Inl x, e) \<Longrightarrow> \<exists>y. x = Raised y"
  by (induction ls arbitrary: d)
    (auto simp: place_entry_def place_and_record_def Let_def split: prod.splits sum.splits)

text \<open>The entries recorded before an exception of the venue.\<close>

lemma place_entries_before:
  "place_entries v strat mode rid auth ls d = (Inl x, e) \<Longrightarrow> ids_fresh d \<Longrightarrow>
     \<exists>es n. n < length ls \<and> en_orders e = en_orders d @ map ep_order es \<and> list_all2 (entry_row rid) (take n ls) es"
proof (induction ls arbitrary: d)
  case (Cons l ls)
  obtain q d1 where q: "place_entry v strat mode rid auth l d = (q, d1)" by fastforce
  show ?case
  proof (cases q)
    case (Inl y)
    then have "en_orders e = en_orders d"
      using Cons.prems(1) q by (auto simp: place_entry_def place_and_record_def Let_def split: prod.splits sum.splits)
    then have "0 < length (l # ls) \<and> en_orders e = en_orders d @ map ep_order [] \<and> list_all2 (entry_row rid) (take 0 (l # ls)) []"
      by simp
    then show ?thesis by blast
  next
    case (Inr p)
    have one: "place_entries v strat mode rid auth [l] d = (Inr [p], d1)" using q Inr by simp
    note row = place_entries_rows [OF one Cons.prems(2)]
    have fresh: "ids_fresh d1"
      using q Inr by (auto simp: place_entry_def Let_def dest: place_adds(2) [OF _ Cons.prems(2)] split: prod.splits sum.splits)
    have "place_entries v strat mode rid auth ls d1 = (Inl x, e)"
      using Cons.prems(1) q Inr by (auto split: prod.splits sum.splits)
    from Cons.IH [OF this fresh] obtain es n where
      "n < length ls" "en_orders e = en_orders d1 @ map ep_order es" "list_all2 (entry_row rid) (take n ls) es" by blast
    with row have "Suc n < length (l # ls) \<and> en_orders e = en_orders d @ map ep_order (p # es) \<and>
        list_all2 (entry_row rid) (take (Suc n) (l # ls)) (p # es)" by simp
    then show ?thesis by blast
  qed
qed simp

lemma place_keeps_states:
  assumes "place_and_record v mode uid auth rid i kind od qty d = (r, e)"
  shows "en_states e = en_states d \<and> en_subs e = en_subs d"
proof -
  have "en_states (snd (place_and_record v mode uid auth rid i kind od qty d)) = en_states d"
    "en_subs (snd (place_and_record v mode uid auth rid i kind od qty d)) = en_subs d"
    by (auto simp: place_and_record_def record_order_def Let_def split_beta split: prod.split sum.split)
  with assms show ?thesis by simp
qed

lemma entries_keep_states:
  "place_entries v strat mode rid auth ls d = (r, e) \<Longrightarrow> en_states e = en_states d \<and> en_subs e = en_subs d"
proof (induction ls arbitrary: d r)
  case (Cons l ls)
  obtain q d1 where q: "place_entry v strat mode rid auth l d = (q, d1)" by fastforce
  have "en_states d1 = en_states d \<and> en_subs d1 = en_subs d"
    using q by (auto simp: place_entry_def Let_def dest!: place_keeps_states split: prod.splits sum.splits)
  with Cons q show ?case by (auto split: sum.splits prod.splits)
qed auto

abbreviation leg_sides :: "sm_order list \<Rightarrow> (int \<times> string) list" where
  "leg_sides rows \<equiv> map (\<lambda>x. (mo_leg_id x, mo_action x)) rows"

definition planned_sides :: "leg_config list \<Rightarrow> (int \<times> string) list" where
  "planned_sides cs = map (\<lambda>c. (lc_id c, ''BUY'')) (filter (\<lambda>c. lc_position c = Some ''B'') cs) @
     map (\<lambda>c. (lc_id c, ''SELL'')) (filter (\<lambda>c. lc_position c = Some ''S'') cs)"

lemma side_sides:
  "list_all2 same_leg cs ls \<Longrightarrow>
     map (\<lambda>l. (rl_leg_id l, entry_action (Some (rl_position l)))) (filter (\<lambda>l. rl_position l = p) ls) =
     map (\<lambda>c. (lc_id c, entry_action (Some p))) (filter (\<lambda>c. lc_position c = Some p) cs)"
  by (induction rule: list_all2_induct) (auto simp: same_leg_def)

lemma entry_sides:
  "list_all2 (entry_row rid) ls es \<Longrightarrow>
     leg_sides (map ep_order es) = map (\<lambda>l. (rl_leg_id l, entry_action (Some (rl_position l)))) ls"
  by (induction rule: list_all2_induct) (auto simp: entry_row_def)

lemma entry_kinds:
  "list_all2 (entry_row rid) ls es \<Longrightarrow> p \<in> set es \<Longrightarrow> mo_run_id (ep_order p) = rid \<and> mo_kind (ep_order p) = ''entry''"
  by (induction rule: list_all2_induct) (auto simp: entry_row_def)

lemma planned_legs:
  "list_all2 same_leg cs ls \<Longrightarrow>
     planned_sides cs = map (\<lambda>l. (rl_leg_id l, entry_action (Some (rl_position l)))) (buy_before_sell ls)"
  using side_sides [of cs ls "''B''"] side_sides [of cs ls "''S''"]
  by (simp add: buy_before_sell_def planned_sides_def entry_action_def)

lemma entries_planned:
  assumes "list_all2 same_leg cs ls" and "list_all2 (entry_row rid) (buy_before_sell ls) es"
  shows "leg_sides (map ep_order es) = planned_sides cs"
  using entry_sides [OF assms(2)] planned_legs [OF assms(1)] by simp

definition start_answer :: "int \<Rightarrow> 'w engine \<Rightarrow> engine_error + int \<times> entry_placed list \<Rightarrow> 'w engine \<Rightarrow> bool" where
  "start_answer sid d r e \<longleftrightarrow>
     (case r of
        Inr (rid, es) \<Rightarrow>
          (\<exists>strat. get_row ss_id sid (en_strategies d) = Some strat \<and> ss_status strat = ''stopped'' \<and>
             en_orders e = en_orders d @ map ep_order es \<and> leg_sides (map ep_order es) = planned_sides (ss_legs strat) \<and>
             (\<forall>p \<in> set es. mo_run_id (ep_order p) = rid \<and> mo_kind (ep_order p) = ''entry'') \<and> \<not> list_all rejected es \<and>
             get_row ss_id sid (en_strategies e) = Some (strat\<lparr>ss_status := ''running'', ss_current_run_id := Some rid\<rparr>))
      | Inl AllEntriesRejected \<Rightarrow>
          (\<exists>strat rows. get_row ss_id sid (en_strategies d) = Some strat \<and> en_orders e = en_orders d @ rows \<and>
             leg_sides rows = planned_sides (ss_legs strat) \<and> (\<forall>x \<in> set rows. mo_status x = ''rejected'') \<and>
             get_row ss_id sid (en_strategies e) = Some (strat\<lparr>ss_status := ''stopped'', ss_current_run_id := None\<rparr>) \<and>
             en_states e = en_states d \<and> en_subs e = en_subs d)
      | Inl (Raised x) \<Rightarrow>
          (\<exists>strat rid rows n. get_row ss_id sid (en_strategies d) = Some strat \<and> ss_status strat = ''stopped'' \<and>
             en_orders e = en_orders d @ rows \<and> n < length (planned_sides (ss_legs strat)) \<and>
             leg_sides rows = take n (planned_sides (ss_legs strat)) \<and>
             (\<forall>x \<in> set rows. mo_run_id x = rid \<and> mo_kind x = ''entry'') \<and>
             get_row ss_id sid (en_strategies e) = Some (strat\<lparr>ss_status := ''running'', ss_current_run_id := Some rid\<rparr>) \<and>
             en_states e = en_states d \<and> en_subs e = en_subs d)
      | Inl x \<Rightarrow> e = d\<lparr>en_strikes := en_strikes e\<rparr>)"

lemma open_run_answer:
  assumes "open_run v strat mode broker source auth legs d = (r, e)" and "ids_fresh d"
    and "list_all2 same_leg (ss_legs strat) legs" and "get_row ss_id sid (en_strategies d) = Some strat"
    and "ss_status strat = ''stopped''"
  shows "start_answer sid d r e"
proof -
  have id: "ss_id strat = sid" using assms(4) by (rule get_row_key)
  obtain run d1 where run: "repo_start_run strat mode broker source d = (run, d1)" by fastforce
  have d1: "en_orders d1 = en_orders d" "en_states d1 = en_states d" "en_subs d1 = en_subs d" "ids_fresh d1"
    "en_strategies d1 = put_row ss_id (strat\<lparr>ss_status := ''running'', ss_current_run_id := Some (sr_id run)\<rparr>) (en_strategies d)"
    using run assms(2) by (auto simp: repo_start_run_def Let_def ids_fresh_def)
  obtain q d2 where q: "place_entries v strat mode (sr_id run) auth (buy_before_sell legs) d1 = (q, d2)" by fastforce
  have s2: "get_row ss_id sid (en_strategies d2) = Some (strat\<lparr>ss_status := ''running'', ss_current_run_id := Some (sr_id run)\<rparr>)"
    using rows.place_entries_case [OF q] d1(5) by (simp add: same_rows_def get_put_row id)
  show ?thesis
  proof (cases q)
    case (Inl x)
    obtain y where "x = Raised y" using place_entries_raises [OF q [unfolded Inl]] by blast
    with assms(1) run q Inl have r: "r = Inl (Raised y)" "e = d2" by (simp_all add: open_run_def Let_def)
    obtain es n where es: "n < length (buy_before_sell legs)" "en_orders d2 = en_orders d1 @ map ep_order es"
      "list_all2 (entry_row (sr_id run)) (take n (buy_before_sell legs)) es"
      using place_entries_before [OF q [unfolded Inl] d1(4)] by blast
    have sides: "leg_sides (map ep_order es) = take n (planned_sides (ss_legs strat))"
      "length (planned_sides (ss_legs strat)) = length (buy_before_sell legs)"
      using entry_sides [OF es(3)] by (simp_all add: take_map planned_legs [OF assms(3)])
    have kinds: "mo_run_id (ep_order p) = sr_id run \<and> mo_kind (ep_order p) = ''entry''" if "p \<in> set es" for p
      using entry_kinds [OF es(3) that] .
    have states: "en_states d2 = en_states d" "en_subs d2 = en_subs d"
      using entries_keep_states [OF q] d1 by simp_all
    show ?thesis
      using es sides kinds s2 states assms(4,5) d1(1) by (auto simp: start_answer_def r)
  next
    case (Inr es)
    note rows = place_entries_rows [OF q [unfolded Inr] d1(4)]
    have sides: "leg_sides (map ep_order es) = planned_sides (ss_legs strat)"
      using entries_planned [OF assms(3)] rows by blast
    have kinds: "mo_run_id (ep_order p) = sr_id run \<and> mo_kind (ep_order p) = ''entry''" if "p \<in> set es" for p
      using rows entry_kinds that by blast
    have states: "en_states d2 = en_states d \<and> en_subs d2 = en_subs d"
      using entries_keep_states q d1 by metis
    show ?thesis
    proof (cases "list_all rejected es")
      case True
      then have e: "r = Inl AllEntriesRejected" "e = finalize_run (vn_now v (en_world d2)) (sr_id run) sid ''error'' 0 0 d2"
        using assms(1) run q Inr by (simp_all add: open_run_def Let_def id)
      have "get_row ss_id sid (en_strategies e) = Some (strat\<lparr>ss_status := ''stopped'', ss_current_run_id := None\<rparr>)"
        using s2 by (simp add: e finalize_run_def Let_def get_row_map id)
      moreover have "\<forall>x \<in> set (map ep_order es). mo_status x = ''rejected''"
        using True by (auto simp: list_all_iff rejected_def)
      moreover have "en_orders e = en_orders d @ map ep_order es" "en_states e = en_states d" "en_subs e = en_subs d"
        using rows d1(1) states by (simp_all add: e finalize_run_def Let_def)
      ultimately show ?thesis using assms(4) sides by (auto simp: start_answer_def e(1))
    next
      case False
      with assms(1) run q Inr have "r = Inr (sr_id run, es)" "en_orders e = en_orders d2" "en_strategies e = en_strategies d2"
        by (auto simp: open_run_def Let_def)
      with False rows d1(1) sides kinds s2 assms(4,5) show ?thesis by (simp add: start_answer_def)
    qed
  qed
qed

lemma start_answer_refused [simp]:
  "start_answer sid d (Inl (InvalidMode m)) d" "start_answer sid d (Inl LiveNotEnabled) d"
  "start_answer sid d (Inl (CannotStart st)) d" "start_answer sid d (Inl NoLegs) d"
  "start_answer sid d (Inl (StrategyNotFound i)) d"
  by (simp_all add: start_answer_def)

lemma start_answer_strikes: "start_answer sid (d\<lparr>en_strikes := c\<rparr>) r e \<Longrightarrow> start_answer sid d r e"
proof (cases r)
  case (Inl x)
  then show "start_answer sid (d\<lparr>en_strikes := c\<rparr>) r e \<Longrightarrow> start_answer sid d r e"
    by (cases x) (simp_all add: start_answer_def)
qed (auto simp: start_answer_def)

text \<open>C6: what a start leaves behind, for each of its answers. When it succeeds, the new orders are one
  entry of the new run for each leg of the strategy with a side, all buying legs first, in the order of
  the legs; at least one of them was taken and the strategy, stopped before, is running on that run. When
  the venue turned down all of them the same orders are on record as rejected, the strategy is stopped
  without a run, and no run state or subscription is left. After any other error of the engine (wrong
  mode, unknown or running strategy, a leg that does not resolve) not one order was sent and nothing
  changed but the strike cache. When the venue raises in the middle, the entries placed before are on
  record, a strict part of the plan from its beginning, and the strategy stays running on the new run,
  without a run state and without ticks.\<close>

theorem start_all_or_nothing:
  assumes "start_run v sid mode broker source auth d = (r, e)" and "ids_fresh d"
  shows "start_answer sid d r e"
proof (cases "get_row ss_id sid (en_strategies d)")
  case (Some strat)
  obtain q d1 where q: "resolve_legs v (ss_underlying strat) (ss_underlying_exchange strat) auth (ss_legs strat) d = (q, d1)" by fastforce
  note res = resolve_legs_same [OF q]
  have opened: "start_answer sid d r e"
    if "q = Inr legs" "open_run v strat mode broker source auth legs d1 = (r, e)" "ss_status strat = ''stopped''" for legs
  proof -
    obtain c where d1: "d1 = d\<lparr>en_strikes := c\<rparr>" using res by blast
    have "start_answer sid d1 r e"
      using that res Some assms(2) by (intro open_run_answer [OF that(2)]) (auto simp: ids_fresh_def d1)
    then show ?thesis unfolding d1 by (rule start_answer_strikes)
  qed
  have unresolved: "start_answer sid d (Inl x) d1" if "q = Inl x" for x
    using res that by (cases x) (simp_all add: start_answer_def)
  show ?thesis
  proof (cases "mode \<notin> {''live'', ''sandbox''} \<or> (mode = ''live'' \<and> \<not> ss_live_enabled strat) \<or> ss_status strat \<noteq> ''stopped'' \<or> ss_legs strat = []")
    case True
    with assms(1) Some show ?thesis by (auto simp: start_run_def split: if_split_asm)
  next
    case False
    show ?thesis
    proof (cases q)
      case (Inl x)
      with False assms(1) Some q unresolved show ?thesis by (simp add: start_run_def split: if_split_asm)
    next
      case (Inr legs)
      with False assms(1) Some q opened show ?thesis by (simp add: start_run_def split: if_split_asm)
    qed
  qed
next
  case None
  with assms(1) show ?thesis by (auto simp: start_run_def split: if_split_asm)
qed

section \<open>A venue that fills everything\<close>

definition paper_venue :: "unit venue" where
  "paper_venue =
     (let taken = (Inr \<lparr>pl_ok = True, pl_orderid = Some ''1'', pl_message = []\<rparr>, ());
          filled = Some \<lparr>tr_status = Some ''complete'', tr_average_price = Some 100, tr_filled_quantity = None, tr_timestamp = None\<rparr>
      in \<lparr>vn_place_sandbox = (\<lambda>_ _ _. taken), vn_place_live = (\<lambda>_ _ _. taken), vn_order_sandbox = (\<lambda>_ _ _. filled),
          vn_order_live = (\<lambda>_ _. filled), vn_cancel_sandbox = (\<lambda>_ _ _. taken), vn_cancel_live = (\<lambda>_ _. taken),
          vn_contracts = (\<lambda>_. [\<lparr>ct_symbol = ''NIFTY30JAN25FUT'', ct_name = Some ''NIFTY'', ct_exchange = ''NFO'',
             ct_expiry = Some ''30-JAN-25'', ct_strike = None, ct_lotsize = Some 75, ct_instrumenttype = Some ''FUT'',
             ct_tick_size = None\<rparr>]),
          vn_quote = (\<lambda>_ _ _. QuoteError), vn_today = (\<lambda>_. (2025, 1, 20)), vn_now = (\<lambda>_. 0)\<rparr>)"

definition paper_strategy :: sm_strategy where
  "paper_strategy = demo_strategy\<lparr>ss_status := ''stopped'', ss_current_run_id := None,
     ss_legs := map (\<lambda>(i, p). (demo_cfg i p)\<lparr>lc_segment := Some ''futures'', lc_expiry := Some ''current_month''\<rparr>)
       [(1, ''S''), (2, ''B'')]\<rparr>"

definition paper_engine :: "unit engine" where
  "paper_engine = (empty_engine ())\<lparr>en_strategies := [paper_strategy], en_next_strategy := 8\<rparr>"

definition paper_start :: "(engine_error + int \<times> entry_placed list) \<times> unit engine" where
  "paper_start = start_run paper_venue 7 ''sandbox'' [] ''manual'' False paper_engine"

lemma paper_start_shape: "case fst paper_start of Inl x \<Rightarrow> False | Inr p \<Rightarrow> True"
  by code_simp

theorem start_all_or_nothing_witness:
  "leg_sides (en_orders (snd paper_start)) = [(2, ''BUY''), (1, ''SELL'')]"
proof -
  obtain p where p: "start_run paper_venue 7 ''sandbox'' [] ''manual'' False paper_engine = (Inr p, snd paper_start)"
    using paper_start_shape unfolding paper_start_def by (cases "start_run paper_venue 7 ''sandbox'' [] ''manual'' False paper_engine") (auto split: sum.splits)
  have "ids_fresh paper_engine" "en_orders paper_engine = []" "get_row ss_id 7 (en_strategies paper_engine) = Some paper_strategy"
    by (simp_all add: ids_fresh_def paper_engine_def empty_engine_def paper_strategy_def demo_strategy_def)
  moreover have "planned_sides (ss_legs paper_strategy) = [(2, ''BUY''), (1, ''SELL'')]" by code_simp
  ultimately show ?thesis
    using start_all_or_nothing [OF p] by (auto simp: start_answer_def)
qed

definition paper_run :: sm_run where
  "paper_run = \<lparr>sr_id = 1, sr_strategy_id = 7, sr_mode = ''sandbox'', sr_broker = [], sr_stopped_at = None, sr_stop_reason = None,
     sr_pnl_realized = 0, sr_pnl_peak = 0, sr_pnl_trough = 0, sr_trigger_source = ''manual''\<rparr>"

definition paper_entry :: "int \<Rightarrow> string \<Rightarrow> sm_order" where
  "paper_entry i action = \<lparr>mo_id = i, mo_run_id = 1, mo_leg_id = i, mo_kind = ''entry'', mo_broker_order_id = Some ''1'',
     mo_symbol = ''NIFTY30JAN25FUT'', mo_exchange = ''NFO'', mo_action = action, mo_qty = 75, mo_pricetype = ''MARKET'',
     mo_status = ''complete'', mo_filled_at = None, mo_avg_fill_price = Some 100, mo_filled_qty = None, mo_reject_reason = None\<rparr>"

definition paper_open :: "unit engine" where
  "paper_open = paper_engine\<lparr>en_orders := [paper_entry 1 ''SELL'', paper_entry 2 ''BUY''], en_next_order := 3\<rparr>"

definition paper_exit :: "(engine_error + leg_summary list) \<times> unit engine" where
  "paper_exit = exit_legs paper_venue paper_strategy paper_run [1, 2] ''exit_close_all'' False paper_open"

lemma paper_exit_shape:
  "case fst paper_exit of Inl x \<Rightarrow> False | Inr ss \<Rightarrow> list_all accepted ss \<and> length (en_orders (snd paper_exit)) = 4"
  by code_simp

theorem exits_are_placed_once_witness:
  "length (en_orders (snd paper_exit)) = 4 \<and>
   (\<exists>ts. exit_legs paper_venue paper_strategy paper_run [2] ''exit_sl'' False (snd paper_exit) = (Inr ts, snd paper_exit) \<and>
      list_all is_skipped ts)"
proof -
  obtain ss where f: "fst paper_exit = Inr ss" "list_all accepted ss" and len: "length (en_orders (snd paper_exit)) = 4"
    using paper_exit_shape by (cases "fst paper_exit") auto
  have s: "exit_legs paper_venue paper_strategy paper_run [1, 2] ''exit_close_all'' False paper_open = (Inr ss, snd paper_exit)"
    using f(1) by (simp add: prod_eq_iff paper_exit_def)
  have "ids_fresh paper_open" by (simp add: ids_fresh_def paper_open_def paper_entry_def)
  from exits_are_placed_once [OF s this _ f(2), of "[2]" "''exit_sl''" False] len
  show ?thesis by simp
qed

end
