(* ===== verification/Signal_Flow.thy ===== *)
theory Signal_Flow
  imports Engine_Orders
begin

text \<open>
  Signals on one leg: a repeated entry places nothing, what an exit books into the run state, and
  the stops of legs entered by signal.
\<close>

section \<open>An accepted entry\<close>

lemma fill_leg_entry_sel [simp]:
  "lg_leg_id (fill_leg cfgs k p q g) = lg_leg_id g" "lg_position (fill_leg cfgs k p q g) = lg_position g"
  by (simp_all add: fill_leg_def Let_def)

lemma fill_leg_side: "lg_current_side g = Some (c # cs) \<Longrightarrow> lg_current_side (fill_leg cfgs ''entry'' p q g) = Some (c # cs)"
  by (simp add: fill_leg_def entry_side_def truthy_def)

lemma refresh_totals_legs [simp]: "rs_legs (refresh_totals s) = rs_legs s"
  by (simp add: refresh_totals_def Let_def)

text \<open>Mirroring a fill touches one leg of one run.\<close>

lemma mirror_fill_legs:
  assumes "get_run_state rid st = Some s"
  shows "\<exists>s'. get_run_state rid (mirror_fill rid i k ok row q cfgs st) = Some s' \<and>
     (rs_legs s' = rs_legs s \<or>
      (\<exists>p n g. (get_row lg_leg_id i (rs_legs s) = Some g \<or> (get_row lg_leg_id i (rs_legs s) = None \<and> g = (bare_leg i)\<lparr>lg_status := ''open''\<rparr>)) \<and>
         rs_legs s' = put_row lg_leg_id (fill_leg cfgs k p n g) (rs_legs s)))"
  using assms
  by (auto simp: mirror_fill_def apply_fill_to_state_def Let_def split: option.split)

lemma entry_sides_some: "entry_action_side action = Some side \<Longrightarrow> \<exists>c cs. side = c # cs"
  by (auto simp: entry_action_side_def split: if_splits)

lemma entered_leg_sel:
  "lg_leg_id (entered_leg side q symb exch row ok g) = lg_leg_id g"
  "lg_position (entered_leg side q symb exch row ok g) = lg_position g"
  "lg_current_side (entered_leg side q symb exch row True g) = Some side"
  by (auto simp: entered_leg_def Let_def split: option.split)

lemma signal_leg_id: "lg_leg_id (signal_leg_state i gs) = i"
  by (auto simp: signal_leg_state_def dest: get_row_key split: option.split)

lemma signal_instrument_frame:
  assumes "signal_instrument v c auth d = (r, e)"
  shows "en_states e = en_states d \<and> en_orders e = en_orders d \<and> same_rows d e"
  using assms by (auto simp: signal_instrument_def same_rows_def Let_def split: if_splits prod.splits)

lemma place_signal_entry_placed:
  assumes "place_signal_entry v strat run mode auth c action s d = (Inr (Placed i oid), e)"
    and "entry_action_side action = Some side" and "signal_state run strat (en_states d) = s"
  shows "same_rows d e \<and> i = lc_id c \<and>
    (\<exists>s' g'. get_run_state (sr_id run) (en_states e) = Some s' \<and> get_row lg_leg_id i (rs_legs s') = Some g' \<and>
       lg_current_side g' = Some side \<and>
       (\<forall>h \<in> set (rs_legs s'). lg_position h = None \<or> lg_position h \<in> lg_position ` set (rs_legs s)))"
proof -
  let ?i = "lc_id c" and ?rid = "sr_id run"
  obtain symb exch d1 where inst: "signal_instrument v c auth d = (Inr (symb, exch), d1)"
    using assms(1) by (auto simp: place_signal_entry_def Let_def split: if_splits sum.splits prod.splits)
  define od where "od = \<lparr>dt_symbol = symb, dt_exchange = exch, dt_action = entry_action_broker action,
      dt_quantity = show_int (lc_qty c), dt_pricetype = or_string (ss_pricetype strat) ''MARKET'',
      dt_product = or_string (ss_product strat) ''MIS'', dt_strategy = ss_name strat\<rparr>"
  obtain row d2 where p: "place_and_record v mode (ss_user_id strat) auth ?rid ?i ''entry'' od (lc_qty c) d1 = (Inr (True, row), d2)"
    using assms(1) inst
    by (auto simp: place_signal_entry_def Let_def od_def split: if_splits sum.splits prod.splits)
  define g' where "g' = entered_leg side (lc_qty c) symb exch row True (signal_leg_state ?i (rs_legs s))"
  define st1 where "st1 = hydrate_run_state ?rid (s\<lparr>rs_legs := put_row lg_leg_id g' (rs_legs s)\<rparr>) (en_states d2)"
  have e: "e = d2\<lparr>en_states := mirror_fill ?rid ?i ''entry'' True row (lc_qty c) (ss_legs strat) st1,
      en_subs := add_run_subscriptions ?rid [(exch, symb)] (en_subs d2)\<rparr>" and i: "i = ?i"
    using assms(1,2) inst p
    by (auto simp: place_signal_entry_def Let_def od_def g'_def st1_def split: if_splits)
  have rows: "same_rows d e"
    using signal_instrument_frame [OF inst] rows.place_case [OF p] by (simp add: e same_rows_def)
  have id: "lg_leg_id g' = ?i" by (simp add: g'_def entered_leg_sel signal_leg_id)
  have side: "lg_current_side g' = Some side" by (simp add: g'_def entered_leg_sel)
  have pos: "lg_position g' = None \<or> lg_position g' \<in> lg_position ` set (rs_legs s)"
    by (auto simp: g'_def entered_leg_sel signal_leg_state_def dest: get_row_mem split: option.split)
  have s1: "get_run_state ?rid st1 = Some (s\<lparr>rs_legs := put_row lg_leg_id g' (rs_legs s), rs_run_id := ?rid\<rparr>)"
    by (simp add: st1_def)
  have g1: "get_row lg_leg_id ?i (put_row lg_leg_id g' (rs_legs s)) = Some g'" by (simp add: get_put_row id)
  have legs: "\<forall>h \<in> set (put_row lg_leg_id g' (rs_legs s)). lg_position h = None \<or> lg_position h \<in> lg_position ` set (rs_legs s)"
    using pos by (auto dest!: set_put_row)
  obtain s' where s': "get_run_state ?rid (en_states e) = Some s'"
    and l: "rs_legs s' = put_row lg_leg_id g' (rs_legs s) \<or>
      (\<exists>p n. rs_legs s' = put_row lg_leg_id (fill_leg (ss_legs strat) ''entry'' p n g') (put_row lg_leg_id g' (rs_legs s)))"
    using mirror_fill_legs [OF s1, of ?i "''entry''" True row "lc_qty c" "ss_legs strat"] g1 by (auto simp: e)
  obtain h where h: "get_row lg_leg_id i (rs_legs s') = Some h" "lg_current_side h = Some side"
    using l g1 side entry_sides_some [OF assms(2)] id i fill_leg_side by (auto simp: get_put_row)
  have "\<forall>h \<in> set (rs_legs s'). lg_position h = None \<or> lg_position h \<in> lg_position ` set (rs_legs s)"
    using l legs pos by (auto dest!: set_put_row)
  with rows i s' h show ?thesis by blast
qed

text \<open>The run an entry works on is the open run of the strategy afterwards.\<close>

lemma signal_run_current:
  assumes "runs_ok d" and "strategy_at d sid = Some strat"
    and "get_or_create_signal_run strat mode broker source d = (run, e)"
  shows "sr_stopped_at run = None" "run_at e (sr_id run) = Some run" "en_states e = en_states d" "en_orders e = en_orders d" "en_world e = en_world d"
    "\<exists>t. strategy_at e sid = Some t \<and> ss_current_run_id t = Some (sr_id run) \<and>
       t = strat\<lparr>ss_status := ss_status t, ss_current_run_id := ss_current_run_id t\<rparr>"
proof -
  note id = get_row_key [OF assms(2)]
  have "sr_stopped_at run = None \<and> run_at e (sr_id run) = Some run \<and> en_states e = en_states d \<and> en_orders e = en_orders d \<and>
      en_world e = en_world d \<and> (\<exists>t. strategy_at e sid = Some t \<and> ss_current_run_id t = Some (sr_id run) \<and>
        t = strat\<lparr>ss_status := ss_status t, ss_current_run_id := ss_current_run_id t\<rparr>)"
  proof (cases "Option.bind (ss_current_run_id strat) (run_at d)")
    case (Some r)
    then have "run_at d (sr_id r) = Some r" "ss_current_run_id strat = Some (sr_id r)"
      by (auto simp: bind_eq_Some_conv dest: get_row_key)
    with Some show ?thesis
      using assms runs_okD(8) [OF assms(1)] id
      by (auto simp: get_or_create_signal_run_def repo_start_run_def Let_def get_put_row get_row_append split: if_splits)
  next
    case None
    with assms id runs_okD(8) [OF assms(1)] show ?thesis
      by (auto simp: get_or_create_signal_run_def repo_start_run_def Let_def get_put_row get_row_append)
  qed
  then show "sr_stopped_at run = None" "run_at e (sr_id run) = Some run" "en_states e = en_states d" "en_orders e = en_orders d" "en_world e = en_world d"
    "\<exists>t. strategy_at e sid = Some t \<and> ss_current_run_id t = Some (sr_id run) \<and>
       t = strat\<lparr>ss_status := ss_status t, ss_current_run_id := ss_current_run_id t\<rparr>" by blast+
qed

lemma enter_leg_placed:
  assumes "enter_leg v sid c action mode broker auth d = (Inr (Placed i oid), e)" and "runs_ok d"
  obtains strat run side d1 s' g' t where "strategy_at d sid = Some strat" "entry_action_side action = Some side"
    "get_or_create_signal_run strat mode broker ''webhook'' d = (run, d1)" "i = lc_id c"
    "get_run_state (sr_id run) (en_states e) = Some s'" "get_row lg_leg_id i (rs_legs s') = Some g'" "lg_current_side g' = Some side"
    "\<forall>h \<in> set (rs_legs s'). lg_position h = None \<or> lg_position h \<in> lg_position ` set (rs_legs (signal_state run strat (en_states d)))"
    "strategy_at e sid = Some t" "ss_current_run_id t = Some (sr_id run)" "run_at e (sr_id run) = Some run" "sr_stopped_at run = None"
    "ss_direction t = ss_direction strat"
proof -
  obtain side where side: "entry_action_side action = Some side"
    using assms(1) by (auto simp: enter_leg_def split: option.splits)
  obtain strat where strat: "strategy_at d sid = Some strat"
    using assms(1) side by (auto simp: enter_leg_def split: option.splits)
  obtain run d1 where run: "get_or_create_signal_run strat mode broker ''webhook'' d = (run, d1)" by fastforce
  have p: "place_signal_entry v strat run mode auth c action (signal_state run strat (en_states d1)) d1 = (Inr (Placed i oid), e)"
    using assms(1) side strat run by (auto simp: enter_leg_def Let_def split: if_splits)
  note r = signal_run_current [OF assms(2) strat run]
  note q = place_signal_entry_placed [OF p side refl]
  obtain t where t: "strategy_at d1 sid = Some t" "ss_current_run_id t = Some (sr_id run)"
    "t = strat\<lparr>ss_status := ss_status t, ss_current_run_id := ss_current_run_id t\<rparr>" using r(6) by blast
  have "ss_direction t = ss_direction strat" by (subst t(3)) simp
  moreover have "strategy_at e sid = Some t" "run_at e (sr_id run) = Some run"
    using q t(1) r(2) by (simp_all add: same_rows_def)
  ultimately show thesis using that strat side run q t(2) r(1,3) by metis
qed

section \<open>Properties\<close>

text \<open>An entry is placed once. When a signal has entered a leg, the same signal sent again, through
  any mode or broker, places no order: the order rows and the venue are as before and the answer is
  never that an order was placed, whatever the clock of the venue says.\<close>

theorem repeated_entry_places_nothing:
  assumes "engine_reachable drift v w0 d"
    and "enter_leg v sid c action mode broker auth d = (Inr (Placed i oid), e)"
    and "enter_leg v sid c action mode' broker' auth' e = (r, f)"
  shows "en_orders f = en_orders e \<and> en_world f = en_world e \<and>
    (r = Inr (AlreadyInPosition i) \<or> r = Inr (OutsideEntryWindow i) \<or> r = Inr (OutsideTradingWindow i) \<or> r = Inr (DirectionBlocked i))"
proof -
  obtain strat run side d1 s' g' t where h: "strategy_at d sid = Some strat" "entry_action_side action = Some side"
    "get_or_create_signal_run strat mode broker ''webhook'' d = (run, d1)" "i = lc_id c"
    "get_run_state (sr_id run) (en_states e) = Some s'" "get_row lg_leg_id i (rs_legs s') = Some g'" "lg_current_side g' = Some side"
    "strategy_at e sid = Some t" "ss_current_run_id t = Some (sr_id run)" "run_at e (sr_id run) = Some run" "sr_stopped_at run = None"
    by (rule enter_leg_placed [OF assms(2) reachable_runs_ok [OF assms(1)]]) blast
  have "get_or_create_signal_run t mode' broker' ''webhook'' e = (run, e)"
    using h by (simp add: get_or_create_signal_run_def)
  with assms(3) h show ?thesis
    by (auto simp: enter_leg_def Let_def signal_state_def signal_leg_state_def split: if_splits)
qed

text \<open>C37: a signal exit forgets its profit. The exit writes back the run state it read before the order
  went out: whatever the fill of the exit booked, afterwards the booked profit of the run and of
  every leg is what it was before the exit, although the leg is closed.\<close>

theorem signal_exit_forgets_profit:
  assumes "exit_leg_by_signal v sid c action mode auth bypass d = (Inr (LegExited i oid), e)"
  shows "\<exists>rid s s'. get_run_state rid (en_states d) = Some s \<and> get_run_state rid (en_states e) = Some s' \<and>
    rs_pnl_realized s' = rs_pnl_realized s \<and> rs_pnl_total s' = rs_pnl_total s \<and>
    (\<exists>g g'. get_row lg_leg_id i (rs_legs s) = Some g \<and> get_row lg_leg_id i (rs_legs s') = Some g' \<and>
       lg_status g' = ''closed'' \<and> lg_realized_pnl g' = lg_realized_pnl g \<and> lg_exit_avg g' = lg_exit_avg g)"
proof -
  obtain run s g strat where h: "get_run_state (sr_id run) (en_states d) = Some s" "get_row lg_leg_id (lc_id c) (rs_legs s) = Some g"
    "place_signal_exit v strat run mode auth c action s g d = (Inr (LegExited i oid), e)"
    using assms by (auto simp: exit_leg_by_signal_def Let_def split: option.splits if_splits)
  note id = get_row_key [OF h(2)]
  have "\<exists>(row :: sm_order) d1 st. i = lc_id c \<and> e = d1\<lparr>en_states := hydrate_run_state (sr_id run)
      (s\<lparr>rs_legs := put_row lg_leg_id (g\<lparr>lg_current_side := None, lg_status := ''closed'', lg_exit_order_id := Some (mo_id row)\<rparr>) (rs_legs s)\<rparr>) st\<rparr>"
    using h(3)
    by (auto simp: place_signal_exit_def Let_def split: if_splits sum.splits prod.splits)
  then obtain row :: sm_order and d1 st where e: "i = lc_id c" "e = d1\<lparr>en_states := hydrate_run_state (sr_id run)
      (s\<lparr>rs_legs := put_row lg_leg_id (g\<lparr>lg_current_side := None, lg_status := ''closed'', lg_exit_order_id := Some (mo_id row)\<rparr>) (rs_legs s)\<rparr>) st\<rparr>"
    by blast
  show ?thesis
    by (rule exI [of _ "sr_id run"], rule exI [of _ s]) (simp add: e h(1,2) id get_put_row)
qed

lemma no_position_no_hit:
  "li_position l = None \<Longrightarrow> ro_triggered (evaluate_leg l x) \<noteq> Some SlHit \<and> ro_triggered (evaluate_leg l x) \<noteq> Some TargetHit"
  using evaluate_leg_triggered [of l x] evaluate_leg_triggered_target [of l x]
  by (auto simp: sl_hit_def target_hit_def split: option.splits)

lemma no_position_no_exit:
  "\<forall>g \<in> set gs. lg_position g = None \<Longrightarrow> triggered_exits (snd (tick_legs cfgs exch sb ltp gs)) = []"
proof (induction gs)
  case (Cons g gs)
  then have g: "lg_position g = None" by simp
  have "t \<noteq> SlHit \<and> t \<noteq> TargetHit" if t: "leg_trigger cfgs ltp g = Some (j, t)" for j t
  proof -
    obtain e where "ro_triggered (evaluate_leg (leg_input_of (find_leg_config cfgs (lg_leg_id g)) g e) ltp) = Some t"
      using t by (cases "lg_entry_avg g") (auto simp: leg_trigger_def leg_outcome_def)
    moreover have "li_position (leg_input_of (find_leg_config cfgs (lg_leg_id g)) g e) = None" by (simp add: leg_input_of_def g)
    ultimately show ?thesis using no_position_no_hit by fastforce
  qed
  with Cons show ?case by (auto simp: split_beta Let_def split: option.split)
qed simp

text \<open>Legs entered by signal are unprotected. A signal never records the side under the name the
  tick reads (the leg state has a current side but no position). In a run whose legs were all entered
  by signals, after one more entry, no tick at any price, with any stop, target or trail configured,
  orders the exit of a leg.\<close>

theorem signal_legs_unprotected:
  assumes "engine_reachable drift v w0 d"
    and "enter_leg v sid c action mode broker auth d = (Inr (Placed i oid), e)"
    and "\<And>rid s g. get_run_state rid (en_states d) = Some s \<Longrightarrow> g \<in> set (rs_legs s) \<Longrightarrow> lg_position g = None"
  shows "\<exists>rid s. get_run_state rid (en_states e) = Some s \<and> get_row lg_leg_id i (rs_legs s) \<noteq> None \<and>
    (\<forall>strat exch sb ltp. tk_exits (tick_run strat exch sb ltp s) = [])"
proof -
  obtain strat run s' g' where h: "get_run_state (sr_id run) (en_states e) = Some s'" "get_row lg_leg_id i (rs_legs s') = Some g'"
    "\<forall>h \<in> set (rs_legs s'). lg_position h = None \<or> lg_position h \<in> lg_position ` set (rs_legs (signal_state run strat (en_states d)))"
    by (rule enter_leg_placed [OF assms(2) reachable_runs_ok [OF assms(1)]]) blast
  have "lg_position g = None" if "g \<in> set (rs_legs (signal_state run strat (en_states d)))" for g
    using that assms(3) by (auto simp: signal_state_def split: option.splits)
  with h(3) have "\<forall>h \<in> set (rs_legs s'). lg_position h = None" by auto
  then have "tk_exits (tick_run strat exch sb ltp s') = []" for strat exch sb ltp
    by (simp add: tick_run_sel(7) no_position_no_exit)
  with h(1,2) show ?thesis by blast
qed

section \<open>One share on the paper venue\<close>

definition share_leg :: leg_config where
  "share_leg = (demo_cfg 1 ''B'')\<lparr>lc_segment := Some ''equity'', lc_symbol := ''SBIN'', lc_exchange := ''NSE'', lc_qty := 10\<rparr>"

definition signal_engine :: "unit engine" where
  "signal_engine = snd (create_strategy 7
     (paper_strategy\<lparr>ss_strategy_kind := ''signal'', ss_strategy_type := ''positional'', ss_legs := [share_leg]\<rparr>) (empty_engine ()))"

definition signal_entry :: "(engine_error + signal_outcome) \<times> unit engine" where
  "signal_entry = enter_leg paper_venue 1 share_leg ''long_entry'' ''sandbox'' [] False signal_engine"

lemma signal_engine_reachable: "engine_reachable (\<lambda>_ _. False) paper_venue () signal_engine"
  unfolding signal_engine_def by (rule engine_reachable.edit [OF engine_reachable.init edit_step.create])

lemma signal_entry_placed:
  "enter_leg paper_venue 1 share_leg ''long_entry'' ''sandbox'' [] False signal_engine = (Inr (Placed 1 1), snd signal_entry)"
proof -
  have "fst signal_entry = Inr (Placed 1 1)" by code_simp
  then show ?thesis by (simp add: prod_eq_iff signal_entry_def)
qed

lemma signal_entry_rows: "length (en_orders (snd signal_entry)) = 1"
  by code_simp

theorem repeated_entry_places_nothing_witness:
  "length (en_orders (snd (enter_leg paper_venue 1 share_leg ''long_entry'' ''live'' [] True (snd signal_entry)))) = 1"
  using repeated_entry_places_nothing [OF signal_engine_reachable signal_entry_placed,
      of "''live''" "[]" True "fst (enter_leg paper_venue 1 share_leg ''long_entry'' ''live'' [] True (snd signal_entry))"
      "snd (enter_leg paper_venue 1 share_leg ''long_entry'' ''live'' [] True (snd signal_entry))"]
    signal_entry_rows by simp

definition signal_exit :: "(engine_error + signal_outcome) \<times> unit engine" where
  "signal_exit = exit_leg_by_signal (paper_venue\<lparr>vn_order_sandbox := (\<lambda>_ _ _. Some \<lparr>tr_status = Some ''complete'',
      tr_average_price = Some 150, tr_filled_quantity = None, tr_timestamp = None\<rparr>)\<rparr>)
     1 share_leg ''long_exit'' ''sandbox'' False False (snd signal_entry)"

theorem signal_exit_forgets_profit_witness:
  "map (\<lambda>x. (mo_action x, mo_avg_fill_price x)) (en_orders (snd signal_exit)) = [(''BUY'', Some 100), (''SELL'', Some 150)] \<and>
   (\<exists>rid s s'. get_run_state rid (en_states (snd signal_entry)) = Some s \<and> get_run_state rid (en_states (snd signal_exit)) = Some s' \<and>
     rs_pnl_realized s' = rs_pnl_realized s)"
proof -
  have "fst signal_exit = Inr (LegExited 1 2)" by code_simp
  then have "exit_leg_by_signal (paper_venue\<lparr>vn_order_sandbox := (\<lambda>_ _ _. Some \<lparr>tr_status = Some ''complete'',
      tr_average_price = Some 150, tr_filled_quantity = None, tr_timestamp = None\<rparr>)\<rparr>)
     1 share_leg ''long_exit'' ''sandbox'' False False (snd signal_entry) = (Inr (LegExited 1 2), snd signal_exit)"
    by (simp add: prod_eq_iff signal_exit_def)
  from signal_exit_forgets_profit [OF this]
  have "\<exists>rid s s'. get_run_state rid (en_states (snd signal_entry)) = Some s \<and> get_run_state rid (en_states (snd signal_exit)) = Some s' \<and>
     rs_pnl_realized s' = rs_pnl_realized s" by blast
  moreover have "map (\<lambda>x. (mo_action x, mo_avg_fill_price x)) (en_orders (snd signal_exit)) = [(''BUY'', Some 100), (''SELL'', Some 150)]"
    by code_simp
  ultimately show ?thesis by blast
qed

theorem signal_legs_unprotected_witness:
  "\<exists>rid s. get_run_state rid (en_states (snd signal_entry)) = Some s \<and>
     (\<forall>ltp. tk_exits (tick_run (paper_strategy\<lparr>ss_legs := [share_leg]\<rparr>) ''NSE'' ''SBIN'' ltp s) = []) \<and> lc_sl_pts share_leg = Some 20"
proof -
  have "get_run_state rid (en_states signal_engine) = None" for rid
    by (simp add: signal_engine_def create_strategy_def empty_engine_def name_taken_def get_run_state_def Let_def)
  from signal_legs_unprotected [OF signal_engine_reachable signal_entry_placed] this
  have "\<exists>rid s. get_run_state rid (en_states (snd signal_entry)) = Some s \<and>
      (\<forall>strat exch sb ltp. tk_exits (tick_run strat exch sb ltp s) = [])" by fastforce
  moreover have "lc_sl_pts share_leg = Some 20" by (simp add: share_leg_def demo_cfg_def)
  ultimately show ?thesis by blast
qed

end
