(* ===== verification/Sandbox_Venue.thy ===== *)
theory Sandbox_Venue
  imports Engine_System Sandbox_System
begin

text \<open>
  The venue of the strategy engine that is the sandbox: \<open>dispatch_order\<close> hands the order dictionary to
  \<open>sandbox_service.place_order\<close>, \<open>_reconcile_sandbox_order\<close> reads the order row back, and the kill
  switch cancels through \<open>sandbox_service.cancel_order\<close>. The world is the sandbox database and the
  number of calls made so far, which picks the clock and the ids of the next one. The live brokers
  are parameters that leave the sandbox alone.
\<close>

record sandbox_world =
  sw_db :: db
  sw_calls :: nat

record outside =
  ou_envs :: "nat \<Rightarrow> env"
  ou_text :: "message \<Rightarrow> string"
  ou_place :: "nat \<Rightarrow> int \<Rightarrow> order_data \<Rightarrow> exn + placed"
  ou_order :: "nat \<Rightarrow> string \<Rightarrow> order_truth option"
  ou_cancel :: "nat \<Rightarrow> string \<Rightarrow> exn + placed"
  ou_contracts :: "contract list"
  ou_quote :: "nat \<Rightarrow> string \<Rightarrow> string \<Rightarrow> quote_answer"
  ou_today :: "nat \<Rightarrow> cal_date"

definition next_call :: "db \<Rightarrow> sandbox_world \<Rightarrow> sandbox_world" where
  "next_call s w = w\<lparr>sw_db := s, sw_calls := Suc (sw_calls w)\<rparr>"

definition order_request :: "order_data \<Rightarrow> order_req" where
  "order_request od =
     \<lparr>rq_symbol = dt_symbol od, rq_exchange = dt_exchange od, rq_action = dt_action od,
      rq_quantity = JStr (dt_quantity od), rq_pricetype = dt_pricetype od, rq_product = dt_product od,
      rq_price = JStr ''0'', rq_trigger_price = JStr ''0'', rq_strategy = dt_strategy od, rq_position_size = None\<rparr>"

definition placed_of :: "(message \<Rightarrow> string) \<Rightarrow> response \<Rightarrow> placed" where
  "placed_of txt r = \<lparr>pl_ok = rs_ok r, pl_orderid = rs_orderid r,
     pl_message = (case rs_message r of Some m \<Rightarrow> txt m | None \<Rightarrow> ''rejected'')\<rparr>"

definition status_text :: "order_status \<Rightarrow> string" where
  "status_text st =
     (case st of SOpen \<Rightarrow> ''open'' | STriggerPending \<Rightarrow> ''trigger_pending'' | SComplete \<Rightarrow> ''complete''
      | SCancelled \<Rightarrow> ''cancelled'' | SRejected \<Rightarrow> ''rejected'')"

definition truth_of_order :: "order \<Rightarrow> order_truth" where
  "truth_of_order r = \<lparr>tr_status = Some (status_text (or_status r)), tr_average_price = Some (or_average_price r),
     tr_filled_quantity = Some (or_filled_quantity r), tr_timestamp = Some (or_order_timestamp r)\<rparr>"

definition sandbox_place :: "outside \<Rightarrow> int \<Rightarrow> order_data \<Rightarrow> sandbox_world \<Rightarrow> (exn + placed) \<times> sandbox_world" where
  "sandbox_place out uid od w =
     (case place_order (ou_envs out (sw_calls w)) uid (order_request od) (sw_db w) of
        (Inl x, s) \<Rightarrow> (Inl x, next_call s w)
      | (Inr r, s) \<Rightarrow> (Inr (placed_of (ou_text out) r), next_call s w))"

definition sandbox_cancel :: "outside \<Rightarrow> int \<Rightarrow> string \<Rightarrow> sandbox_world \<Rightarrow> (exn + placed) \<times> sandbox_world" where
  "sandbox_cancel out uid oid w =
     (let (r, s) = svc_cancel_order uid oid (sw_db w) in (Inr (placed_of (ou_text out) r), next_call s w))"

definition sandbox_venue :: "outside \<Rightarrow> sandbox_world venue" where
  "sandbox_venue out =
     \<lparr>vn_place_sandbox = sandbox_place out,
      vn_place_live = (\<lambda>uid od w. (ou_place out (sw_calls w) uid od, next_call (sw_db w) w)),
      vn_order_sandbox = (\<lambda>uid oid w. map_option truth_of_order (get_order (sw_db w) uid oid)),
      vn_order_live = (\<lambda>oid w. ou_order out (sw_calls w) oid),
      vn_cancel_sandbox = sandbox_cancel out,
      vn_cancel_live = (\<lambda>oid w. (ou_cancel out (sw_calls w) oid, next_call (sw_db w) w)),
      vn_contracts = (\<lambda>w. ou_contracts out),
      vn_quote = (\<lambda>w. ou_quote out (sw_calls w)),
      vn_today = (\<lambda>w. ou_today out (sw_calls w)),
      vn_now = (\<lambda>w. ev_now (ou_envs out (sw_calls w)))\<rparr>"

section \<open>The engine works the sandbox through its operations\<close>

abbreviation sandbox_ops :: "sandbox_world engine \<Rightarrow> sandbox_world engine \<Rightarrow> bool" where
  "sandbox_ops d e \<equiv> op_step\<^sup>*\<^sup>* (sw_db (en_world d)) (sw_db (en_world e))"

lemma place_world: "sandbox_ops d (snd (place_and_record (sandbox_venue out) mode uid auth rid i kind od qty d))"
proof -
  have "op_step\<^sup>*\<^sup>* (sw_db w) (sw_db (snd (dispatch_order (sandbox_venue out) mode uid od auth w)))" for w
    using op_step.book [OF book_step.place [of "sw_db w" "ou_envs out (sw_calls w)" uid "order_request od"]]
    by (auto simp: dispatch_order_def sandbox_venue_def sandbox_place_def next_call_def split: prod.split sum.split)
  from this [of "en_world d"] show ?thesis
    by (auto simp: place_and_record_def record_order_def Let_def split_beta split: prod.split sum.split)
qed

lemma cancel_world: "sandbox_ops d (cancel_one (sandbox_venue out) mode uid auth row d)"
  using op_step.book [OF book_step.cancel [of "sw_db (en_world d)" uid "or_text (mo_broker_order_id row) []"]]
  by (auto simp: cancel_one_def sandbox_venue_def sandbox_cancel_def next_call_def Let_def
      split: list.split prod.split sum.split)

interpretation world: engine_frame sandbox_ops "sandbox_venue out" for out
proof unfold_locales
  show "sandbox_ops d e \<Longrightarrow> sandbox_ops e f \<Longrightarrow> sandbox_ops d f" for d e f :: "sandbox_world engine"
    by (rule rtranclp_trans)
qed (auto simp: place_world cancel_world repo_start_run_def finalize_run_def lock_webhook_def Let_def)

lemma edit_world: "edit_step d e \<Longrightarrow> en_world e = en_world d"
  by (induction rule: edit_step.induct)
    (auto simp: create_strategy_def update_strategy_def delete_strategy_def rotate_webhook_token_def set_live_enabled_def Let_def
      split: sum.split)

text \<open>Between the engine's calls the sandbox is used by its own clients and jobs.\<close>

definition sandbox_drift :: "sandbox_world \<Rightarrow> sandbox_world \<Rightarrow> bool" where
  "sandbox_drift w x \<longleftrightarrow> op_step (sw_db w) (sw_db x) \<or> reset_step (sw_db w) (sw_db x)"

lemma ops_reachable: "op_step\<^sup>*\<^sup>* s t \<Longrightarrow> reachable s \<Longrightarrow> reachable t"
  by (induction rule: rtranclp_induct) (auto intro: reachable.operate)

lemma engine_sandbox_reachable:
  assumes "engine_reachable sandbox_drift (sandbox_venue out) w0 d" and "reachable (sw_db w0)"
  shows "reachable (sw_db (en_world d))"
  using assms
proof (induction rule: engine_reachable.induct)
  case (call d e)
  then show ?case using ops_reachable world.step by blast
next
  case (drift d w)
  then show ?case by (auto simp: sandbox_drift_def intro: reachable.operate reachable.reset)
qed (simp_all add: empty_engine_def edit_world)

end
