(* ===== verification/Engine_Flow.thy ===== *)
theory Engine_Flow
  imports Sandbox_Venue Order_Flow Engine_Orders
begin

text \<open>
  The strategy engine on the sandbox: at most one open run per strategy, and order rows that mirror the
  sandbox's.
\<close>

section \<open>One open run\<close>

abbreviation open_runs :: "'w engine \<Rightarrow> int \<Rightarrow> int list" where
  "open_runs d i \<equiv> map sr_id (filter (\<lambda>r. sr_strategy_id r = i \<and> sr_stopped_at r = None) (en_runs d))"

lemma distinct_single: "distinct xs \<Longrightarrow> set xs = {x} \<Longrightarrow> xs = [x]"
proof (cases xs)
  case (Cons y ys)
  moreover assume "distinct xs" "set xs = {x}"
  ultimately have "y = x" "set ys \<subseteq> {x}" "x \<notin> set ys" by auto
  then have "ys = []" by (cases ys) auto
  with Cons \<open>y = x\<close> show ?thesis by simp
qed simp

lemma open_runs_iff: "uniq sr_id (en_runs d) \<Longrightarrow> j \<in> set (open_runs d i) \<longleftrightarrow> open_run_of d i j"
  using get_row_uniq [of sr_id "en_runs d"]
  by (auto simp: open_run_of_def image_iff dest: get_row_mem get_row_key)

text \<open>C4: a strategy has one run at a time. In every state the engine reaches, whatever the venue
  answers and does on its own, and whatever strategies are created, edited and deleted meanwhile, the
  runs of a strategy that are not stopped are exactly its current run, if it has one; the strategy is
  running when it has one and stopped when it has none.\<close>

theorem one_active_run:
  assumes "engine_reachable drift v w0 d" and "strategy_at d i = Some s"
  shows "open_runs d i = (case ss_current_run_id s of Some j \<Rightarrow> [j] | None \<Rightarrow> []) \<and>
    ss_status s = (if ss_current_run_id s = None then ''stopped'' else ''running'')"
proof -
  note ok = reachable_runs_ok [OF assms(1)]
  note u = runs_okD(2) [OF ok]
  have c: "j \<in> set (open_runs d i) \<longleftrightarrow> ss_current_run_id s = Some j" for j
    unfolding open_runs_iff [OF u] using runs_okD(4,5) [OF ok] assms(2) by blast
  have "distinct (open_runs d i)" using u by (simp add: uniq_def distinct_map_filter)
  then have "open_runs d i = (case ss_current_run_id s of Some j \<Rightarrow> [j] | None \<Rightarrow> [])"
  proof (cases "ss_current_run_id s")
    case None
    have "set (open_runs d i) = {}" using c None by (intro equals0I) simp
    then have "open_runs d i = []" by (rule set_empty [THEN iffD1])
    with None show ?thesis by simp
  next
    case (Some j)
    have "set (open_runs d i) = {j}" unfolding set_eq_iff c Some by auto
    with \<open>distinct (open_runs d i)\<close> have "open_runs d i = [j]" by (rule distinct_single)
    with Some show ?thesis by simp
  qed
  then show ?thesis
    using runs_okD(3,4) [OF ok assms(2)] by (cases "ss_current_run_id s") auto
qed

section \<open>The sandbox behind the engine\<close>

section \<open>Rows mirror the sandbox\<close>

lemma venue_fill_sel [simp]:
  "or_key (fill_row q x r) = or_key r" "or_symbol (fill_row q x r) = or_symbol r" "or_exchange (fill_row q x r) = or_exchange r"
  "or_action (fill_row q x r) = or_action r" "or_quantity (fill_row q x r) = or_quantity r"
  by (simp_all add: fill_row_def or_key_def Let_def)

lemma try_fill_row:
  assumes "try_fill_order now tid r x s = (Inr b, s')" and "get_order_row (or_key r) s = Some r"
  shows "\<exists>r'. get_order_row (or_key r) s' = Some r' \<and> (r' = r \<or> (\<exists>q p. r' = fill_row q p r))"
proof (cases "fill_price r x")
  case None
  with assms show ?thesis by (simp add: try_fill_order_def)
next
  case (Some p)
  obtain q s1 where f: "fill now tid (or_user_id r) (or_orderid r) p None s = (Inr q, s1)"
    using assms(1) Some by (auto simp: try_fill_order_def split: sum.splits prod.splits)
  have g: "get_order_row (or_key r) s' = get_order_row (or_key r) s1"
    using try_fill_orders [OF assms(1)] Some f by (intro get_order_row_cong) simp
  show ?thesis
  proof (cases q)
    case None
    with f assms(2) g show ?thesis using fill_none(1) by fastforce
  next
    case (Some a)
    obtain r' td where "a = (r', td)" by (cases a)
    with f Some obtain r0 where r: "get_order_row (or_key r) s = Some r0" "r' = fill_row (or_quantity r0 - or_filled_quantity r0) p r0"
      "s1 = (put_order r' s)\<lparr>db_trades := db_trades s @ [td]\<rparr>"
      by (auto simp: or_key_def elim: fill_rest)
    with assms(2) have "r0 = r" by simp
    with r have "get_order_row (or_key r) s1 = Some r'"
      by (simp add: get_order_row_def put_order_def get_put_row)
    with g r(2) \<open>r0 = r\<close> show ?thesis by auto
  qed
qed

lemma placed_row:
  assumes "place_order e u q s = (Inr resp, t)" and "rs_ok resp"
  shows "rs_orderid resp = Some (ev_orderid e)"
    "\<exists>r. get_order t u (ev_orderid e) = Some r \<and> or_symbol r = rq_symbol q \<and> or_exchange r = rq_exchange q \<and>
       or_action r = upper (rq_action q) \<and> or_quantity r = parse_int (rq_quantity q)"
proof -
  obtain margin where a: "accept_order e u q margin s = (Inr resp, t)"
    using assms by (auto simp: place_order_def reject_request_def Let_def resp_err_def split: sum.splits prod.splits option.splits)
  let ?row = "request_row e u q margin (initial_status (upper (rq_pricetype q))) None"
  have "\<exists>err s1. block_margin s u margin = ((True, err), s1)"
    using a assms(2) by (auto simp: accept_order_def reject_request_def resp_err_def split: sum.splits prod.splits bool.splits)
  then obtain err s1 where b: "block_margin s u margin = ((True, err), s1)" by blast
  obtain row s2 where c: "create_order ?row s1 = (Inr row, s2)"
    using a b by (auto simp: accept_order_def split: sum.splits prod.splits)
  have fill: "rs_orderid resp = Some (or_orderid row) \<and>
      (t = s2 \<or> (\<exists>ltp b. try_fill_order (ev_now e) (ev_tradeid e) row ltp s2 = (Inr b, t)))"
    using a b c by (auto simp: accept_order_def resp_ok_def split: sum.splits prod.splits option.splits if_splits)
  have row: "row = ?row" "s2 = put_order row s1"
    using c create_order_appends(1) by (auto simp: create_order_def split: if_splits)
  have key: "or_key row = (u, ev_orderid e)" by (simp add: row request_row_def new_order_def or_key_def)
  have at: "get_order_row (or_key row) s2 = Some row" by (simp add: row(2) get_order_row_def put_order_def get_put_row)
  obtain r' where "get_order_row (or_key row) t = Some r'" "r' = row \<or> (\<exists>q p. r' = fill_row q p row)"
    using fill at try_fill_row [OF _ at] by blast
  then show "rs_orderid resp = Some (ev_orderid e)"
    "\<exists>r. get_order t u (ev_orderid e) = Some r \<and> or_symbol r = rq_symbol q \<and> or_exchange r = rq_exchange q \<and>
       or_action r = upper (rq_action q) \<and> or_quantity r = parse_int (rq_quantity q)"
    using fill key by (auto simp: get_order_def row(1) request_row_def new_order_def upper_idem or_key_def)
qed

definition mirrors :: "sm_order \<Rightarrow> order \<Rightarrow> bool" where
  "mirrors row r \<longleftrightarrow> or_symbol r = mo_symbol row \<and> or_exchange r = mo_exchange row \<and> or_action r = upper (mo_action row) \<and>
     or_quantity r = mo_qty row \<and> mo_status row = status_text (or_status r) \<and>
     or_int (mo_filled_qty row) 0 = or_filled_quantity r \<and>
     mo_avg_fill_price row = (if 0 < or_average_price r then Some (or_average_price r) else None) \<and>
     mo_filled_at row = (if or_status r = SComplete then Some (or_order_timestamp r) else None)"

lemma canonical_text: "canonical_status (Some (status_text st)) = Some (status_text st)"
proof -
  have "canonical_status (Some ''open'') = Some ''open''" "canonical_status (Some ''trigger_pending'') = Some ''trigger_pending''"
    "canonical_status (Some ''complete'') = Some ''complete''" "canonical_status (Some ''cancelled'') = Some ''cancelled''"
    "canonical_status (Some ''rejected'') = Some ''rejected''" by code_simp+
  then show ?thesis by (simp add: status_text_def split: order_status.split)
qed

lemma complete_text: "status_text st = ''complete'' \<longleftrightarrow> st = SComplete"
  by (simp add: status_text_def split: order_status.split)

lemma merged_mirrors:
  assumes "mo_filled_at row = None" "mo_avg_fill_price row = None" "mo_filled_qty row = None"
    and "or_symbol r = mo_symbol row" "or_exchange r = mo_exchange row" "or_action r = upper (mo_action row)"
    "or_quantity r = mo_qty row"
  shows "mirrors (merge_truth False now (truth_of_order r) row) r"
  using assms
  by (auto simp: mirrors_def merge_truth_def truth_of_order_def canonical_text complete_text Let_def or_int_def)

text \<open>C22: the engine's book agrees with the sandbox's. When the engine places an order in sandbox mode
  and it is taken, the row it keeps carries the id of a row of the user in the sandbox order book,
  and right after the call the two agree: symbol, exchange, side, quantity (which went over as
  text), status, filled quantity, average price and the time of the fill. (An order id is not the
  empty text.)\<close>

theorem engine_row_mirrors_sandbox:
  assumes "place_and_record (sandbox_venue out) ''sandbox'' uid auth rid i kind od qty d = (Inr (True, row), e)"
    and "dt_quantity od = show_int qty" and "ev_orderid (ou_envs out (sw_calls (en_world d))) \<noteq> []"
  shows "\<exists>oid r. mo_broker_order_id row = Some oid \<and> get_order (sw_db (en_world e)) uid oid = Some r \<and> mirrors row r"
proof -
  let ?w = "en_world d"
  let ?e = "ou_envs out (sw_calls ?w)"
  obtain resp t where p: "place_order ?e uid (order_request od) (sw_db ?w) = (Inr resp, t)" and ok: "rs_ok resp"
    using assms(1)
    by (auto simp: place_and_record_def dispatch_order_def sandbox_venue_def sandbox_place_def placed_of_def Let_def
        split: prod.splits sum.splits)
  from placed_row [OF p ok] obtain r where oid: "rs_orderid resp = Some (ev_orderid ?e)"
    and r: "get_order t uid (ev_orderid ?e) = Some r" "or_symbol r = dt_symbol od" "or_exchange r = dt_exchange od"
      "or_action r = upper (dt_action od)" "or_quantity r = qty"
    by (auto simp: order_request_def parse_int_def int_of_jval_def assms(2) py_int_show_int)
  let ?d = "d\<lparr>en_world := next_call t ?w\<rparr>"
  obtain x d1 where x: "record_order rid i kind od qty (placed_of (ou_text out) resp) ?d = (x, d1)" by fastforce
  have xs: "mo_broker_order_id x = Some (ev_orderid ?e)" "mo_filled_at x = None" "mo_avg_fill_price x = None"
    "mo_filled_qty x = None" "mo_symbol x = dt_symbol od" "mo_exchange x = dt_exchange od" "mo_action x = dt_action od"
    "mo_qty x = qty" "en_world d1 = next_call t ?w"
    using x oid by (auto simp: record_order_def placed_of_def Let_def)
  have "reconcile_order_fill (sandbox_venue out) ''sandbox'' uid auth x d1 = (row, e)"
    using assms(1) p ok x
    by (auto simp: place_and_record_def dispatch_order_def sandbox_venue_def sandbox_place_def placed_of_def split: prod.splits)
  then have "row = merge_truth False (ev_now (ou_envs out (Suc (sw_calls ?w)))) (truth_of_order r) x" "en_world e = next_call t ?w"
    using xs r(1) assms(3)
    by (auto simp: reconcile_order_fill_def or_text_def sandbox_venue_def next_call_def Let_def split: list.splits)
  then show ?thesis
    using r xs merged_mirrors [of x r] row_frame_sel(9) [OF merge_truth_frame] by (auto simp: next_call_def)
qed

section \<open>A concrete run\<close>

text \<open>One strategy trades one share by signals in the sandbox; every quote is 100.\<close>

definition demo_outside :: outside where
  "demo_outside = \<lparr>ou_envs = (\<lambda>n. \<lparr>ev_now = 36000000000, ev_orderid = ''26010100000101'', ev_tradeid = ''T1'',
       ev_quote_ref = (\<lambda>u s e. Some 100), ev_quote_fill = (\<lambda>u s e. Some 100)\<rparr>),
     ou_text = (\<lambda>m. ''error''), ou_place = (\<lambda>n u od. Inl ValueError), ou_order = (\<lambda>n oid. None),
     ou_cancel = (\<lambda>n oid. Inl ValueError), ou_contracts = [], ou_quote = (\<lambda>n s e. QuoteError), ou_today = (\<lambda>n. (2025, 1, 20))\<rparr>"

definition demo_world :: sandbox_world where
  "demo_world = \<lparr>sw_db = demo_install, sw_calls = 0\<rparr>"

definition demo_signal_leg :: leg_config where
  "demo_signal_leg = (demo_cfg 1 ''B'')\<lparr>lc_segment := Some ''equity'', lc_symbol := ''SBIN'', lc_exchange := ''NSE'', lc_qty := 10\<rparr>"

definition demo_signal_engine :: "sandbox_world engine" where
  "demo_signal_engine = snd (create_strategy 7
     (demo_strategy\<lparr>ss_strategy_kind := ''signal'', ss_strategy_type := ''positional'', ss_product := ''MIS'', ss_legs := [demo_signal_leg]\<rparr>)
     (empty_engine demo_world))"

definition demo_entered :: "sandbox_world engine" where
  "demo_entered = snd (enter_leg (sandbox_venue demo_outside) 1 demo_signal_leg ''long_entry'' ''sandbox'' [] False demo_signal_engine)"

lemma demo_signal_reachable: "engine_reachable sandbox_drift (sandbox_venue demo_outside) demo_world demo_signal_engine"
  unfolding demo_signal_engine_def by (rule engine_reachable.edit [OF engine_reachable.init edit_step.create])

lemma demo_entered_facts:
  "map or_status (db_orders (sw_db (en_world demo_entered))) = [SComplete]"
  "map ss_current_run_id (en_strategies demo_entered) = [Some 1]" "map ss_id (en_strategies demo_entered) = [1]"
  by code_simp+

theorem one_active_run_witness: "open_runs demo_entered 1 = [1]"
proof -
  have "engine_reachable sandbox_drift (sandbox_venue demo_outside) demo_world demo_entered"
    unfolding demo_entered_def by (rule engine_reachable.call [OF demo_signal_reachable engine_step.enter])
  moreover obtain s where "strategy_at demo_entered 1 = Some s" "ss_current_run_id s = Some 1"
    using demo_entered_facts(2,3) by (cases "en_strategies demo_entered") auto
  ultimately show ?thesis using one_active_run by fastforce
qed

definition demo_od :: order_data where
  "demo_od = \<lparr>dt_symbol = ''SBIN'', dt_exchange = ''NSE'', dt_action = ''BUY'', dt_quantity = show_int 10, dt_pricetype = ''MARKET'',
     dt_product = ''MIS'', dt_strategy = []\<rparr>"

definition demo_record :: "(engine_error + bool \<times> sm_order) \<times> sandbox_world engine" where
  "demo_record = place_and_record (sandbox_venue demo_outside) ''sandbox'' 7 False 1 1 ''entry'' demo_od 10 (empty_engine demo_world)"

lemma demo_record_taken: "case fst demo_record of Inl x \<Rightarrow> False | Inr (ok, row) \<Rightarrow> ok"
  by code_simp

theorem engine_row_mirrors_sandbox_witness:
  "\<exists>row oid r. fst demo_record = Inr (True, row) \<and> mo_broker_order_id row = Some oid \<and>
     get_order (sw_db (en_world (snd demo_record))) 7 oid = Some r \<and> mirrors row r"
proof -
  obtain row where f: "fst demo_record = Inr (True, row)"
    using demo_record_taken by (cases "fst demo_record") auto
  have "place_and_record (sandbox_venue demo_outside) ''sandbox'' 7 False 1 1 ''entry'' demo_od 10 (empty_engine demo_world) =
      (Inr (True, row), snd demo_record)"
    using f by (simp add: prod_eq_iff demo_record_def)
  from engine_row_mirrors_sandbox [OF this] f show ?thesis
    by (simp add: demo_od_def demo_outside_def)
qed

end
