(* ===== verification/Py_Json.thy ===== *)
theory Py_Json
  imports Prelude
begin

text \<open>
  Values of parsed JSON texts and what the handlers do with them: reading a key of an object, truth, and
  the integer and the text of a value.
\<close>

datatype json = JVal jval | JArr "json list" | JObj "(string \<times> json) list"

abbreviation JNull :: json where "JNull \<equiv> JVal JNone"

abbreviation JText :: "string \<Rightarrow> json" where "JText t \<equiv> JVal (JStr t)"

definition get_field :: "string \<Rightarrow> (string \<times> json) list \<Rightarrow> json" where
  "get_field k kvs = (case map_of kvs k of Some v \<Rightarrow> v | None \<Rightarrow> JNull)"

definition json_truthy :: "json \<Rightarrow> bool" where
  "json_truthy v =
     (case v of
        JVal w \<Rightarrow> (case w of JNone \<Rightarrow> False | JBool b \<Rightarrow> b | JInt n \<Rightarrow> n \<noteq> 0 | JFloat x \<Rightarrow> x \<noteq> 0 | JStr t \<Rightarrow> t \<noteq> [])
      | JArr xs \<Rightarrow> xs \<noteq> [] | JObj kvs \<Rightarrow> kvs \<noteq> [])"

text \<open>Membership in a frozen set: a list or an object cannot be hashed.\<close>

definition json_member :: "json \<Rightarrow> string list \<Rightarrow> exn + bool" where
  "json_member v xs = (case v of JVal (JStr t) \<Rightarrow> Inr (t \<in> set xs) | JVal w \<Rightarrow> Inr False | _ \<Rightarrow> Inl TypeError)"

definition json_text :: "(json \<Rightarrow> string) \<Rightarrow> json \<Rightarrow> string" where
  "json_text str v = (case v of JVal (JStr t) \<Rightarrow> t | _ \<Rightarrow> str v)"

definition json_int :: "json \<Rightarrow> int option" where
  "json_int v =
     (case v of
        JVal (JInt n) \<Rightarrow> Some n
      | JVal (JBool b) \<Rightarrow> Some (if b then 1 else 0)
      | JVal (JFloat x) \<Rightarrow> Some (if 0 \<le> x then \<lfloor>x\<rfloor> else - \<lfloor>- x\<rfloor>)
      | JVal (JStr t) \<Rightarrow> py_int t
      | _ \<Rightarrow> None)"

end
