(* ===== verification/Webhook.thy ===== *)
theory Webhook
  imports Engine_System Py_Json
begin

text \<open>
  Webhooks of charting services (\<open>src/backend/strategy/webhook_handler.py\<close>, the redaction of
  \<open>src/backend/strategy/security.py\<close> and the receiver \<open>src/backend/routers/strategy_webhook.py\<close>):
  the validation of a request gate by gate, the audit rows, the duplicate windows and the rate limit
  kept in the shared cache, and the dispatch to the engine. Decoding the body, parsing addresses and
  the digest of a token are the standard library's and come in with the request or the environment;
  of an answer the status code and the label are kept. A failing cache or database connection does
  not occur, nor does the NUL character, which the database refuses in any text; a row that does not fit
  its columns raises.
\<close>

section \<open>Requests\<close>

record webhook_request =
  wr_token :: string
  wr_size :: int
  wr_body :: "json option"
  wr_ip :: "string option"
  wr_agent :: "string option"

type_synonym ip_addr = "bool \<times> int"

type_synonym ip_net = "bool \<times> int \<times> int"

text \<open>The environment of one request: clock, the active broker of a user, whether a session with a broker
  is valid, the digest, the readings of an address and of a network (version 6 or not, number, length
  of the prefix), whether the database takes a text as an address, and the text of a JSON value that is
  no string.\<close>

record webhook_env =
  hv_now :: datetime
  hv_broker :: "int \<Rightarrow> string option"
  hv_auth :: "int \<Rightarrow> string \<Rightarrow> bool"
  hv_hash :: "string \<Rightarrow> string"
  hv_ip :: "string \<Rightarrow> ip_addr option"
  hv_net :: "string \<Rightarrow> ip_net option"
  hv_inet :: "string \<Rightarrow> bool"
  hv_str :: "json \<Rightarrow> string"

text \<open>The keys of the duplicate windows, for start and stop and for the signals of a leg.\<close>

datatype dedupe_key = BatchKey int string "string option" | SignalKey int string int

record webhook_event =
  hk_strategy_id :: "int option"
  hk_action :: "string option"
  hk_mode :: "string option"
  hk_payload :: "json option"
  hk_ip :: "string option"
  hk_agent :: "string option"
  hk_result :: string

record webhook_outcome =
  wo_status :: int
  wo_label :: string

record 'w webhook =
  hs_engine :: "'w engine"
  hs_events :: "webhook_event list"
  hs_keys :: "dedupe_key \<Rightarrow> datetime option"
  hs_rate :: "int \<times> int \<Rightarrow> int"

type_synonym 'w handled = "(exn + webhook_outcome) \<times> 'w webhook"

definition usec_per_sec :: int where "usec_per_sec = 1000000"

definition max_body_bytes :: int where "max_body_bytes = 8 * 1024"

definition dedupe_ttl :: int where "dedupe_ttl = 60 * usec_per_sec"

definition cooling_off :: int where "cooling_off = 30 * usec_per_sec"

definition rate_limit_per_min :: int where "rate_limit_per_min = 60"

definition batch_actions :: "string list" where "batch_actions = [''start'', ''stop'']"

definition signal_actions :: "string list" where
  "signal_actions = [''long_entry'', ''long_exit'', ''short_entry'', ''short_exit'']"

definition entry_signals :: "string list" where "entry_signals = [''long_entry'', ''short_entry'']"

definition allowed_modes :: "string list" where "allowed_modes = [''live'', ''sandbox'']"

section \<open>Secrets\<close>

definition redact_keys :: "string list" where
  "redact_keys = [''secret'', ''token'', ''api_key'', ''apikey'', ''password'', ''authorization'', ''webhook_token'',
     ''webhook_secret'', ''auth_token'']"

fun redact_payload :: "json \<Rightarrow> json" where
  "redact_payload (JVal v) = JVal v"
| "redact_payload (JArr xs) = JArr (map redact_payload xs)"
| "redact_payload (JObj kvs) =
     JObj (map (\<lambda>(k, v). (k, if lower k \<in> set redact_keys then JText ''[REDACTED]'' else redact_payload v)) kvs)"

section \<open>Gates\<close>

definition in_net :: "ip_addr \<Rightarrow> ip_net \<Rightarrow> bool" where
  "in_net ip net =
     (case (ip, net) of
        ((v6, a), (w6, n, p)) \<Rightarrow> v6 = w6 \<and> (let h = 2 ^ nat ((if w6 then 128 else 32) - p) in a div h = n div h))"

definition ip_in_allowlist :: "webhook_env \<Rightarrow> string option \<Rightarrow> string list \<Rightarrow> bool" where
  "ip_in_allowlist e ip allow =
     (if allow = [] then True
      else case ip of
        None \<Rightarrow> False
      | Some t \<Rightarrow>
          if t = [] then False
          else case hv_ip e t of
            None \<Rightarrow> False
          | Some a \<Rightarrow> list_ex (\<lambda>c. c \<noteq> [] \<and> (case hv_net e c of Some n \<Rightarrow> in_net a n | None \<Rightarrow> False)) allow)"

definition rate_limited :: "datetime \<Rightarrow> int \<Rightarrow> 'w webhook \<Rightarrow> bool \<times> 'w webhook" where
  "rate_limited now sid s =
     (let k = (sid, now div (60 * usec_per_sec)); n = hs_rate s k + 1
      in (rate_limit_per_min < n, s\<lparr>hs_rate := (hs_rate s)(k := n)\<rparr>))"

definition live_key :: "datetime \<Rightarrow> dedupe_key \<Rightarrow> 'w webhook \<Rightarrow> bool" where
  "live_key now k s = (case hs_keys s k of Some t \<Rightarrow> now < t | None \<Rightarrow> False)"

definition dedupe_seen :: "datetime \<Rightarrow> dedupe_key \<Rightarrow> 'w webhook \<Rightarrow> bool \<times> 'w webhook" where
  "dedupe_seen now k s =
     (if live_key now k s then (True, s) else (False, s\<lparr>hs_keys := (hs_keys s)(k \<mapsto> now + dedupe_ttl)\<rparr>))"

definition dedupe_release :: "dedupe_key \<Rightarrow> 'w webhook \<Rightarrow> 'w webhook" where
  "dedupe_release k s = s\<lparr>hs_keys := (hs_keys s)(k := None)\<rparr>"

text \<open>The latest stop of the strategy's runs, if any, within the last thirty seconds.\<close>

definition cooling_off_active :: "datetime \<Rightarrow> int \<Rightarrow> 'w engine \<Rightarrow> bool" where
  "cooling_off_active now sid d =
     (case rev (sort (List.map_filter sr_stopped_at (filter (\<lambda>r. sr_strategy_id r = sid) (en_runs d)))) of
        [] \<Rightarrow> False
      | t # _ \<Rightarrow> now - cooling_off \<le> t)"

definition direction_allows :: "string \<Rightarrow> string \<Rightarrow> bool" where
  "direction_allows direction action =
     (if direction = ''both'' then True
      else if direction = ''long_only'' then action \<in> {''long_entry'', ''long_exit''}
      else if direction = ''short_only'' then action \<in> {''short_entry'', ''short_exit''}
      else False)"

definition leg_side_allows :: "string option \<Rightarrow> string \<Rightarrow> bool" where
  "leg_side_allows side action =
     (case side of
        None \<Rightarrow> True
      | Some t \<Rightarrow>
          if t = [] \<or> t = ''both'' then True
          else if t = ''long'' then action \<in> {''long_entry'', ''long_exit''}
          else if t = ''short'' then action \<in> {''short_entry'', ''short_exit''}
          else False)"

definition resolve_signal_leg :: "webhook_env \<Rightarrow> leg_config list \<Rightarrow> (string \<times> json) list \<Rightarrow> leg_config option" where
  "resolve_signal_leg e legs payload =
     (if get_field ''leg_id'' payload \<noteq> JNull then
        (case json_int (get_field ''leg_id'' payload) of
           None \<Rightarrow> None
         | Some i \<Rightarrow> List.find (\<lambda>c. lc_id c = i) legs)
      else
        let symb = get_field ''symbol'' payload; exch = get_field ''exchange'' payload in
        if json_truthy symb \<and> json_truthy exch then
          (let s = upper (strip (json_text (hv_str e) symb)); x = upper (strip (json_text (hv_str e) exch))
           in List.find (\<lambda>c. upper (lc_symbol c) = s \<and> upper (lc_exchange c) = x) legs)
        else None)"

section \<open>Audit\<close>

text \<open>A text column takes null and texts up to its length.\<close>

definition text_column :: "nat \<Rightarrow> json \<Rightarrow> exn + string option" where
  "text_column n v =
     (case v of
        JVal JNone \<Rightarrow> Inr None
      | JVal (JStr t) \<Rightarrow> if length t \<le> n then Inr (Some t) else Inl DataError
      | _ \<Rightarrow> Inl DataError)"

text \<open>The caller's address has to be one the database reads, the user agent at most 255 characters long.\<close>

definition caller_fits :: "webhook_env \<Rightarrow> webhook_request \<Rightarrow> bool" where
  "caller_fits e q \<longleftrightarrow>
     (case wr_ip q of None \<Rightarrow> True | Some t \<Rightarrow> hv_inet e t) \<and>
     (case wr_agent q of None \<Rightarrow> True | Some t \<Rightarrow> length t \<le> 255)"

definition record_event ::
  "webhook_env \<Rightarrow> webhook_request \<Rightarrow> int option \<Rightarrow> json \<Rightarrow> json \<Rightarrow> json option \<Rightarrow> string \<Rightarrow> 'w webhook \<Rightarrow>
     (exn + unit) \<times> 'w webhook" where
  "record_event e q sid action mode payload label s =
     (case (text_column 20 action, text_column 10 mode) of
        (Inr a, Inr m) \<Rightarrow>
          if \<not> caller_fits e q then (Inl DataError, s)
          else
            (Inr (), s\<lparr>hs_events := hs_events s @
               [\<lparr>hk_strategy_id = sid, hk_action = a, hk_mode = m, hk_payload = map_option redact_payload payload,
                 hk_ip = wr_ip q, hk_agent = wr_agent q, hk_result = label\<rparr>]\<rparr>)
      | _ \<Rightarrow> (Inl DataError, s))"

text \<open>One audit row, then the answer; most answers carry the label of the row.\<close>

definition audited_answer ::
  "webhook_env \<Rightarrow> webhook_request \<Rightarrow> int option \<Rightarrow> json \<Rightarrow> json \<Rightarrow> json option \<Rightarrow> string \<Rightarrow> int \<Rightarrow> string \<Rightarrow> 'w webhook \<Rightarrow> 'w handled" where
  "audited_answer e q sid action mode payload row_label code label s =
     (case record_event e q sid action mode payload row_label s of
        (Inl x, t) \<Rightarrow> (Inl x, t)
      | (Inr _, t) \<Rightarrow> (Inr \<lparr>wo_status = code, wo_label = label\<rparr>, t))"

abbreviation refuse ::
  "webhook_env \<Rightarrow> webhook_request \<Rightarrow> int option \<Rightarrow> json \<Rightarrow> json \<Rightarrow> json option \<Rightarrow> int \<Rightarrow> string \<Rightarrow> 'w webhook \<Rightarrow> 'w handled" where
  "refuse e q sid action mode payload code label s \<equiv> audited_answer e q sid action mode payload label code label s"

text \<open>The same, then the duplicate key is released.\<close>

definition refuse_release ::
  "dedupe_key \<Rightarrow> webhook_env \<Rightarrow> webhook_request \<Rightarrow> int \<Rightarrow> json \<Rightarrow> json \<Rightarrow> json \<Rightarrow> int \<Rightarrow> string \<Rightarrow> 'w webhook \<Rightarrow> 'w handled" where
  "refuse_release k e q sid action mode payload code label s =
     (case refuse e q (Some sid) action mode (Some payload) code label s of
        (Inl x, t) \<Rightarrow> (Inl x, t)
      | (Inr out, t) \<Rightarrow> (Inr out, dedupe_release k t))"

text \<open>An engine error is told to the caller with status 200, any other exception with 500.\<close>

definition error_code :: "engine_error \<Rightarrow> int" where
  "error_code x = (case x of Raised y \<Rightarrow> 500 | MissingField f \<Rightarrow> 500 | _ \<Rightarrow> 200)"

section \<open>Dispatch of a signal\<close>

text \<open>The broker of the run and whether the call carries a session; \<open>None\<close> refuses a live signal.\<close>

definition webhook_broker :: "webhook_env \<Rightarrow> int \<Rightarrow> string \<Rightarrow> (string \<times> bool) option" where
  "webhook_broker e uid mode =
     (case hv_broker e uid of
        None \<Rightarrow> if mode = ''live'' then None else Some (''webhook-sandbox'', False)
      | Some b \<Rightarrow>
          if b = [] then (if mode = ''live'' then None else Some (''webhook-sandbox'', False))
          else if mode = ''live'' then (if hv_auth e uid b then Some (b, True) else None)
          else Some (b, b \<noteq> ''webhook-sandbox'' \<and> hv_auth e uid b))"

definition signal_answer :: "signal_outcome \<Rightarrow> int \<times> string" where
  "signal_answer r =
     (case r of
        Placed i oid \<Rightarrow> (200, ''ok'')
      | LegExited i oid \<Rightarrow> (200, ''ok'')
      | AlreadyInPosition i \<Rightarrow> (200, ''rejected_no_match'')
      | NoMatchingPosition i \<Rightarrow> (200, ''rejected_no_match'')
      | PositionConflict i \<Rightarrow> (409, ''rejected_position_conflict'')
      | DirectionBlocked i \<Rightarrow> (403, ''rejected_direction_blocked'')
      | OutsideEntryWindow i \<Rightarrow> (200, ''rejected_outside_window'')
      | OutsideTradingWindow i \<Rightarrow> (200, ''rejected_outside_window'')
      | Rejected i oid \<Rightarrow> (200, ''rejected_engine_error''))"

definition run_signal ::
  "'w venue \<Rightarrow> int \<Rightarrow> leg_config \<Rightarrow> string \<Rightarrow> string \<Rightarrow> string \<Rightarrow> bool \<Rightarrow> 'w engine \<Rightarrow>
     (engine_error + signal_outcome) \<times> 'w engine" where
  "run_signal v sid c action mode broker auth d =
     (if action \<in> set entry_signals then enter_leg v sid c action mode broker auth d
      else exit_leg_by_signal v sid c action mode auth False d)"

definition dispatch_signal ::
  "'w venue \<Rightarrow> webhook_env \<Rightarrow> webhook_request \<Rightarrow> int \<Rightarrow> leg_config \<Rightarrow> string \<Rightarrow> string \<Rightarrow> json \<Rightarrow> 'w webhook \<Rightarrow> 'w handled" where
  "dispatch_signal v e q sid c action mode payload s =
     (let k = SignalKey sid action (lc_id c); a = JText action; m = JText mode in
      case get_row ss_id sid (en_strategies (hs_engine s)) of
        None \<Rightarrow> refuse_release k e q sid a m payload 500 ''rejected_engine_error'' s
      | Some strat \<Rightarrow>
          (case webhook_broker e (ss_user_id strat) mode of
             None \<Rightarrow> refuse_release k e q sid a m payload 403 ''rejected_engine_error'' s
           | Some (broker, auth) \<Rightarrow>
               let (r, d) = run_signal v sid c action mode broker auth (hs_engine s); t = s\<lparr>hs_engine := d\<rparr> in
               case r of
                 Inl x \<Rightarrow> refuse_release k e q sid a m payload (error_code x) ''rejected_engine_error'' t
               | Inr out \<Rightarrow>
                   let (code, label) = signal_answer out in
                   if label = ''ok'' then refuse e q (Some sid) a m (Some payload) code label t
                   else refuse_release k e q sid a m payload code label t))"

definition handle_signal_webhook ::
  "'w venue \<Rightarrow> webhook_env \<Rightarrow> webhook_request \<Rightarrow> sm_strategy \<Rightarrow> string \<Rightarrow> (string \<times> json) list \<Rightarrow> 'w webhook \<Rightarrow> 'w handled" where
  "handle_signal_webhook v e q strat action payload s =
     (let sid = ss_id strat; a = JText action; p = JObj payload;
          mode = (if json_truthy (get_field ''mode'' payload) then get_field ''mode'' payload else JText ''sandbox'')
      in if \<not> direction_allows (or_string (ss_direction strat) ''both'') action
         then refuse e q (Some sid) a mode (Some p) 403 ''rejected_direction_blocked'' s
         else case resolve_signal_leg e (ss_legs strat) payload of
           None \<Rightarrow> refuse e q (Some sid) a mode (Some p) 400 ''rejected_no_leg'' s
         | Some c \<Rightarrow>
             if \<not> leg_side_allows (lc_side c) action then refuse e q (Some sid) a mode (Some p) 400 ''rejected_side_mismatch'' s
             else case json_member mode allowed_modes of
               Inl x \<Rightarrow> (Inl x, s)
             | Inr False \<Rightarrow>
                 refuse e q (Some sid) a (JText (json_text (hv_str e) mode)) (Some p) 400 ''rejected_invalid_mode'' s
             | Inr True \<Rightarrow>
                 let m = json_text (hv_str e) mode in
                 if m = ''live'' \<and> \<not> ss_live_enabled strat
                 then refuse e q (Some sid) a mode (Some p) 403 ''rejected_live_disabled'' s
                 else
                   let (seen, t) = dedupe_seen (hv_now e) (SignalKey sid action (lc_id c)) s in
                   if seen then refuse e q (Some sid) a mode (Some p) 200 ''rejected_dedupe'' t
                   else dispatch_signal v e q sid c action m p t)"

section \<open>Dispatch of start and stop\<close>

text \<open>After the accepted request was recorded: what an exception of the engine leads to.\<close>

definition batch_failure ::
  "dedupe_key \<Rightarrow> webhook_env \<Rightarrow> webhook_request \<Rightarrow> int \<Rightarrow> json \<Rightarrow> json \<Rightarrow> json \<Rightarrow> engine_error \<Rightarrow> 'w webhook \<Rightarrow> 'w handled" where
  "batch_failure k e q sid a m payload x s = refuse_release k e q sid a m payload (error_code x) ''rejected_engine_error'' s"

definition ok_answer :: "'w webhook \<Rightarrow> 'w handled" where
  "ok_answer s = (Inr \<lparr>wo_status = 200, wo_label = ''ok''\<rparr>, s)"

definition webhook_start ::
  "'w venue \<Rightarrow> webhook_env \<Rightarrow> webhook_request \<Rightarrow> sm_strategy \<Rightarrow> json \<Rightarrow> json \<Rightarrow> 'w webhook \<Rightarrow> 'w handled" where
  "webhook_start v e q strat mode payload s =
     (let sid = ss_id strat; m = json_text (hv_str e) mode; k = BatchKey sid ''start'' (Some m) in
      if ss_status strat = ''running'' then ok_answer s
      else case webhook_broker e (ss_user_id strat) m of
        None \<Rightarrow> refuse_release k e q sid (JText ''start'') mode payload 403 ''rejected_engine_error'' s
      | Some (broker, auth) \<Rightarrow>
          let (r, d) = start_run v sid m broker ''webhook'' auth (hs_engine s); t = s\<lparr>hs_engine := d\<rparr> in
          case r of
            Inl x \<Rightarrow> batch_failure k e q sid (JText ''start'') mode payload x t
          | Inr _ \<Rightarrow> ok_answer t)"

text \<open>A live run that cannot be stopped for want of a session is told so, without a second row.\<close>

definition webhook_stop ::
  "'w venue \<Rightarrow> webhook_env \<Rightarrow> webhook_request \<Rightarrow> sm_strategy \<Rightarrow> json \<Rightarrow> json \<Rightarrow> 'w webhook \<Rightarrow> 'w handled" where
  "webhook_stop v e q strat mode payload s =
     (let sid = ss_id strat; k = BatchKey sid ''stop'' None in
      if ss_status strat \<noteq> ''running'' then ok_answer s
      else
        let live = (case Option.bind (ss_current_run_id strat) (\<lambda>i. get_row sr_id i (en_runs (hs_engine s))) of
                      Some run \<Rightarrow> if sr_mode run = ''live'' then Some run else None | None \<Rightarrow> None)
        in if (case live of Some run \<Rightarrow> \<not> hv_auth e (ss_user_id strat) (sr_broker run) | None \<Rightarrow> False)
           then (Inr \<lparr>wo_status = 403, wo_label = ''rejected_engine_error''\<rparr>, dedupe_release k s)
           else
             let (r, d) = stop_run v strat ''webhook'' (live \<noteq> None) (hs_engine s); t = s\<lparr>hs_engine := d\<rparr> in
             case r of
               Inl x \<Rightarrow> batch_failure k e q sid (JText ''stop'') mode payload x t
             | Inr _ \<Rightarrow> ok_answer t)"

definition dispatch_batch ::
  "'w venue \<Rightarrow> webhook_env \<Rightarrow> webhook_request \<Rightarrow> int \<Rightarrow> string \<Rightarrow> json \<Rightarrow> json \<Rightarrow> 'w webhook \<Rightarrow> 'w handled" where
  "dispatch_batch v e q sid action mode payload s =
     (case get_row ss_id sid (en_strategies (hs_engine s)) of
        None \<Rightarrow> refuse e q (Some sid) (JText action) mode (Some payload) 500 ''rejected_engine_error'' s
      | Some strat \<Rightarrow>
          (case record_event e q (Some sid) (JText action) mode (Some payload) ''ok'' s of
             (Inl x, t) \<Rightarrow> (Inl x, t)
           | (Inr _, t) \<Rightarrow>
               if action = ''start'' then webhook_start v e q strat mode payload t
               else webhook_stop v e q strat mode payload t))"

definition handle_batch_webhook ::
  "'w venue \<Rightarrow> webhook_env \<Rightarrow> webhook_request \<Rightarrow> sm_strategy \<Rightarrow> string \<Rightarrow> (string \<times> json) list \<Rightarrow> 'w webhook \<Rightarrow> 'w handled" where
  "handle_batch_webhook v e q strat action payload s =
     (let sid = ss_id strat; a = JText action; mode = get_field ''mode'' payload; p = JObj payload;
          m = json_text (hv_str e) mode; starts = (action = ''start'')
      in case (if starts then json_member mode allowed_modes else Inr True) of
           Inl x \<Rightarrow> (Inl x, s)
         | Inr False \<Rightarrow>
             audited_answer e q (Some sid) a (if json_truthy mode then JText m else JNull) (Some p)
               (if json_truthy mode then ''rejected_invalid_mode'' else ''rejected_invalid_action'') 400 ''rejected_invalid_mode'' s
         | Inr True \<Rightarrow>
             if starts \<and> m = ''live'' \<and> \<not> ss_live_enabled strat
             then refuse e q (Some sid) a mode (Some p) 403 ''rejected_live_disabled'' s
             else
               let (seen, t) = dedupe_seen (hv_now e) (BatchKey sid action (if starts then Some m else None)) s in
               if seen then refuse e q (Some sid) a mode (Some p) 200 ''rejected_dedupe'' t
               else if starts \<and> cooling_off_active (hv_now e) sid (hs_engine t)
               then refuse e q (Some sid) a mode (Some p) 200 ''rejected_cooling_off'' t
               else dispatch_batch v e q sid action mode p t)"

section \<open>The entry point\<close>

text \<open>After the strategy of the token and the object of the body are known.\<close>

definition handle_known ::
  "'w venue \<Rightarrow> webhook_env \<Rightarrow> webhook_request \<Rightarrow> sm_strategy \<Rightarrow> (string \<times> json) list \<Rightarrow> 'w webhook \<Rightarrow> 'w handled" where
  "handle_known v e q strat payload s =
     (let sid = ss_id strat; action = get_field ''action'' payload; mode = get_field ''mode'' payload; p = JObj payload in
      if \<not> ip_in_allowlist e (wr_ip q) (ss_webhook_ip_allowlist strat)
      then refuse e q (Some sid) action mode (Some p) 401 ''rejected_ip'' s
      else
        let (limited, t) = rate_limited (hv_now e) sid s in
        if limited then refuse e q (Some sid) action mode (Some p) 429 ''rate_limited'' t
        else if ss_webhook_locked strat then refuse e q (Some sid) action mode (Some p) 403 ''rejected_locked'' t
        else
          let kind = or_string (ss_strategy_kind strat) ''batch'' in
          case json_member action (if kind = ''signal'' then signal_actions else batch_actions) of
            Inl x \<Rightarrow> (Inl x, t)
          | Inr False \<Rightarrow>
              refuse e q (Some sid) (if json_truthy action then JText (json_text (hv_str e) action) else JNull) mode (Some p)
                400 ''rejected_invalid_action'' t
          | Inr True \<Rightarrow>
              let a = json_text (hv_str e) action in
              if kind = ''signal'' then handle_signal_webhook v e q strat a payload t
              else handle_batch_webhook v e q strat a payload t)"

definition handle_webhook :: "'w venue \<Rightarrow> webhook_env \<Rightarrow> webhook_request \<Rightarrow> 'w webhook \<Rightarrow> 'w handled" where
  "handle_webhook v e q s =
     (if max_body_bytes < wr_size q
      then audited_answer e q None JNull JNull (Some (JObj [(''_oversize_bytes'', JVal (JInt (wr_size q)))])) ''rejected_token'' 413 ''rejected_token'' s
      else case find_strategy_by_webhook_token (hv_hash e) (wr_token q) (hs_engine s) of
        None \<Rightarrow> refuse e q None JNull JNull None 401 ''rejected_token'' s
      | Some strat \<Rightarrow>
          (case wr_body q of
             Some (JObj payload) \<Rightarrow> handle_known v e q strat payload s
           | _ \<Rightarrow> refuse e q (Some (ss_id strat)) JNull JNull None 400 ''rejected_invalid_body'' s))"

text \<open>The receiver turns away a token of fewer than 10 or more than 128 characters, and takes the leftmost
  entry of \<open>X-Forwarded-For\<close>, when it has one, for the caller's address.\<close>

definition until_comma :: "string \<Rightarrow> string" where
  "until_comma t = takeWhile (\<lambda>c. c \<noteq> CHR '','') t"

definition receive_webhook ::
  "'w venue \<Rightarrow> webhook_env \<Rightarrow> string \<Rightarrow> int \<Rightarrow> json option \<Rightarrow> string option \<Rightarrow> string option \<Rightarrow> string option \<Rightarrow> 'w webhook \<Rightarrow> 'w handled" where
  "receive_webhook v e token nbytes body peer fwd agent s =
     (if length token < 10 \<or> 128 < length token then (Inr \<lparr>wo_status = 422, wo_label = []\<rparr>, s)
      else
        let ip = (case fwd of
                    Some f \<Rightarrow> if f \<noteq> [] \<and> strip (until_comma f) \<noteq> [] then Some (strip (until_comma f)) else peer
                  | None \<Rightarrow> peer)
        in handle_webhook v e \<lparr>wr_token = token, wr_size = nbytes, wr_body = body, wr_ip = ip, wr_agent = agent\<rparr> s)"

end
