(* ===== verification/Webhook_Flow.thy ===== *)
theory Webhook_Flow
  imports Webhook Signal_Flow
begin

text \<open>
  What the webhook pipeline guarantees: which requests reach the engine, how often, what is audited,
  and how the lock of the kill switch holds.
\<close>

section \<open>Answers leave the engine alone\<close>

lemma answer_frame [simp]:
  "hs_engine (snd (audited_answer e q sid a m p rl c l s)) = hs_engine s"
  "hs_keys (snd (audited_answer e q sid a m p rl c l s)) = hs_keys s"
  "hs_rate (snd (audited_answer e q sid a m p rl c l s)) = hs_rate s"
  by (auto simp: audited_answer_def record_event_def split: sum.split prod.split)

lemma refuse_release_frame [simp]:
  "hs_engine (snd (refuse_release k e q sid a m p c l s)) = hs_engine s"
  "hs_rate (snd (refuse_release k e q sid a m p c l s)) = hs_rate s"
proof -
  obtain r t where r: "refuse e q (Some sid) a m (Some p) c l s = (r, t)" by fastforce
  with answer_frame [of e q "Some sid" a m "Some p" l c l s] have "hs_engine t = hs_engine s" "hs_rate t = hs_rate s" by simp_all
  with r show "hs_engine (snd (refuse_release k e q sid a m p c l s)) = hs_engine s"
    "hs_rate (snd (refuse_release k e q sid a m p c l s)) = hs_rate s"
    by (simp_all add: refuse_release_def dedupe_release_def split: sum.split)
qed

lemma state_frame [simp]:
  "hs_engine (snd (dedupe_seen now k s)) = hs_engine s" "hs_events (snd (dedupe_seen now k s)) = hs_events s"
  "hs_rate (snd (dedupe_seen now k s)) = hs_rate s"
  "hs_engine (snd (rate_limited now sid s)) = hs_engine s" "hs_events (snd (rate_limited now sid s)) = hs_events s"
  "hs_keys (snd (rate_limited now sid s)) = hs_keys s"
  "hs_engine (dedupe_release k s) = hs_engine s" "hs_events (dedupe_release k s) = hs_events s"
  "hs_rate (dedupe_release k s) = hs_rate s"
  "snd (ok_answer s) = s" "fst (ok_answer s) = Inr \<lparr>wo_status = 200, wo_label = ''ok''\<rparr>"
  by (simp_all add: dedupe_seen_def rate_limited_def dedupe_release_def ok_answer_def Let_def)

section \<open>One engine call at most\<close>

definition touches :: "'w venue \<Rightarrow> 'w webhook \<Rightarrow> 'w webhook \<Rightarrow> bool" where
  "touches v s t \<longleftrightarrow> hs_engine t = hs_engine s \<or> engine_step v (hs_engine s) (hs_engine t)"

lemma touches_idle: "hs_engine t = hs_engine s \<Longrightarrow> touches v s t"
  by (simp add: touches_def)

lemma touches_via: "hs_engine t = hs_engine s \<Longrightarrow> touches v t u \<Longrightarrow> touches v s u"
  by (simp add: touches_def)

text \<open>A predicate that holds of every way out of a decision holds of the decision.\<close>

lemma branches:
  "\<lbrakk>P \<Longrightarrow> Q a; \<not> P \<Longrightarrow> Q b\<rbrakk> \<Longrightarrow> Q (if P then a else b)"
  "\<lbrakk>Q a'; \<And>x. m = Some x \<Longrightarrow> Q (f x)\<rbrakk> \<Longrightarrow> Q (case m of None \<Rightarrow> a' | Some x \<Rightarrow> f x)"
  "\<lbrakk>\<And>x. r = Inl x \<Longrightarrow> Q (g x); \<And>y. r = Inr y \<Longrightarrow> Q (h y)\<rbrakk> \<Longrightarrow> Q (case r of Inl x \<Rightarrow> g x | Inr y \<Rightarrow> h y)"
  "\<lbrakk>c \<Longrightarrow> Q a; \<not> c \<Longrightarrow> Q b\<rbrakk> \<Longrightarrow> Q (case c of True \<Rightarrow> a | False \<Rightarrow> b)"
  "\<lbrakk>\<And>x y. p = (x, y) \<Longrightarrow> Q (k x y)\<rbrakk> \<Longrightarrow> Q (case p of (x, y) \<Rightarrow> k x y)"
  by (auto split: option.split sum.split bool.split prod.split)

lemmas touches_branches = branches [where Q = "\<lambda>h. touches v s (snd h)" for v s]

lemma pair_state [dest]:
  "dedupe_seen now k s = (b, t) \<Longrightarrow> hs_engine t = hs_engine s" "rate_limited now sid s = (b, t) \<Longrightarrow> hs_engine t = hs_engine s"
  by (metis state_frame(1) snd_conv) (metis state_frame(4) snd_conv)

lemma run_signal_step: "engine_step v d (snd (run_signal v sid c action mode broker auth d))"
  by (simp add: run_signal_def engine_step.enter engine_step.leave)

lemma dispatch_signal_touches: "touches v s (snd (dispatch_signal v e q sid c action mode p s))"
proof -
  have "touches v s (s\<lparr>hs_engine := snd (run_signal v sid c action mode broker auth (hs_engine s))\<rparr>)" for broker auth
    by (simp add: touches_def run_signal_step)
  then show ?thesis
    by (auto simp: dispatch_signal_def Let_def touches_def split_beta split: option.split sum.split prod.split)
qed

lemma webhook_start_touches: "touches v s (snd (webhook_start v e q strat mode p s))"
proof -
  have "touches v s (s\<lparr>hs_engine := snd (start_run v sid m broker src auth (hs_engine s))\<rparr>)" for sid m broker src auth
    by (simp add: touches_def engine_step.start)
  then show ?thesis
    by (auto simp: webhook_start_def batch_failure_def Let_def touches_def split_beta split: option.split sum.split prod.split)
qed

lemma webhook_stop_touches:
  assumes "get_row ss_id (ss_id strat) (en_strategies (hs_engine s)) = Some strat"
  shows "touches v s (snd (webhook_stop v e q strat mode p s))"
proof -
  have "touches v s (s\<lparr>hs_engine := snd (stop_run v strat reason auth (hs_engine s))\<rparr>)" for reason auth
    using assms by (simp add: touches_def engine_step.stop)
  then show ?thesis
    by (auto simp: webhook_stop_def batch_failure_def Let_def touches_def split_beta split: option.split sum.split prod.split)
qed

lemma record_event_cases:
  assumes "record_event e q sid a m p l s = (r, t)"
  shows "hs_engine t = hs_engine s" "hs_keys t = hs_keys s" "hs_rate t = hs_rate s"
  using assms by (auto simp: record_event_def split: sum.splits if_splits)

lemma dispatch_batch_touches: "touches v s (snd (dispatch_batch v e q sid action mode p s))"
proof (cases "get_row ss_id sid (en_strategies (hs_engine s))")
  case (Some strat)
  obtain r t where r: "record_event e q (Some sid) (JText action) mode (Some p) ''ok'' s = (r, t)" by fastforce
  have t: "hs_engine t = hs_engine s" using r by (rule record_event_cases)
  then have "get_row ss_id (ss_id strat) (en_strategies (hs_engine t)) = Some strat" using Some get_row_key [OF Some] by simp
  then have "touches v t (snd (webhook_start v e q strat mode p t))" "touches v t (snd (webhook_stop v e q strat mode p t))"
    by (simp_all add: webhook_start_touches webhook_stop_touches)
  moreover have "dispatch_batch v e q sid action mode p s =
      (case r of Inl x \<Rightarrow> (Inl x, t)
       | Inr _ \<Rightarrow> if action = ''start'' then webhook_start v e q strat mode p t else webhook_stop v e q strat mode p t)"
    by (simp only: dispatch_batch_def Some r option.case prod.case)
  ultimately show ?thesis using t by (cases r) (auto intro: touches_via [OF t] touches_idle)
qed (simp add: dispatch_batch_def touches_idle)

lemma handle_signal_touches: "touches v s (snd (handle_signal_webhook v e q strat action payload s))"
  unfolding handle_signal_webhook_def Let_def
  by (intro touches_branches; auto intro: touches_idle touches_via [OF _ dispatch_signal_touches] dest!: pair_state)

lemma handle_batch_touches: "touches v s (snd (handle_batch_webhook v e q strat action payload s))"
  unfolding handle_batch_webhook_def Let_def
  by (intro touches_branches; auto intro: touches_idle touches_via [OF _ dispatch_batch_touches] dest!: pair_state)

lemma handle_known_touches: "touches v s (snd (handle_known v e q strat payload s))"
  unfolding handle_known_def Let_def
  by (intro touches_branches; auto intro: touches_idle touches_via [OF _ handle_signal_touches] touches_via [OF _ handle_batch_touches]
      dest!: pair_state)

text \<open>A webhook is one call of the engine. Whatever a request carries, handling it either leaves the
  engine as it was or changes it by exactly one of the engine's own calls; so all that holds of the
  states the engine reaches, one open run per strategy among it, holds under webhooks.\<close>

theorem webhook_is_one_call:
  "hs_engine (snd (handle_webhook v e q s)) = hs_engine s \<or>
   engine_step v (hs_engine s) (hs_engine (snd (handle_webhook v e q s)))"
  using handle_known_touches [of v s e q]
  by (auto simp: handle_webhook_def touches_def split: option.split json.split)

section \<open>Who reaches the engine\<close>

text \<open>The duplicate key of an admitted request; the conditions of the gates, and those of each branch.\<close>

definition request_action :: "webhook_env \<Rightarrow> (string \<times> json) list \<Rightarrow> string" where
  "request_action e payload = json_text (hv_str e) (get_field ''action'' payload)"

definition request_mode :: "webhook_env \<Rightarrow> (string \<times> json) list \<Rightarrow> string" where
  "request_mode e payload = json_text (hv_str e) (get_field ''mode'' payload)"

definition request_key :: "webhook_env \<Rightarrow> sm_strategy \<Rightarrow> (string \<times> json) list \<Rightarrow> dedupe_key option" where
  "request_key e strat payload =
     (if or_string (ss_strategy_kind strat) ''batch'' = ''signal''
      then map_option (\<lambda>c. SignalKey (ss_id strat) (request_action e payload) (lc_id c)) (resolve_signal_leg e (ss_legs strat) payload)
      else Some (BatchKey (ss_id strat) (request_action e payload)
             (if request_action e payload = ''start'' then Some (request_mode e payload) else None)))"

definition live_request :: "webhook_env \<Rightarrow> sm_strategy \<Rightarrow> (string \<times> json) list \<Rightarrow> bool" where
  "live_request e strat payload \<longleftrightarrow>
     get_field ''mode'' payload = JText ''live'' \<and>
     (or_string (ss_strategy_kind strat) ''batch'' = ''signal'' \<or> request_action e payload = ''start'')"

definition signal_fits :: "webhook_env \<Rightarrow> sm_strategy \<Rightarrow> (string \<times> json) list \<Rightarrow> bool" where
  "signal_fits e strat payload \<longleftrightarrow>
     (case resolve_signal_leg e (ss_legs strat) payload of
        None \<Rightarrow> False
      | Some c \<Rightarrow> c \<in> set (ss_legs strat) \<and> leg_side_allows (lc_side c) (request_action e payload) \<and>
          direction_allows (or_string (ss_direction strat) ''both'') (request_action e payload))"

definition admitted :: "webhook_env \<Rightarrow> webhook_request \<Rightarrow> 'w webhook \<Rightarrow> sm_strategy \<Rightarrow> (string \<times> json) list \<Rightarrow> bool" where
  "admitted e q s strat payload \<longleftrightarrow>
     wr_size q \<le> max_body_bytes \<and> wr_body q = Some (JObj payload) \<and>
     strat \<in> set (en_strategies (hs_engine s)) \<and> ss_webhook_token_hash strat = hv_hash e (wr_token q) \<and>
     ip_in_allowlist e (wr_ip q) (ss_webhook_ip_allowlist strat) \<and> \<not> ss_webhook_locked strat \<and>
     hs_rate s (ss_id strat, hv_now e div (60 * usec_per_sec)) < rate_limit_per_min \<and>
     (live_request e strat payload \<longrightarrow> ss_live_enabled strat) \<and>
     (if or_string (ss_strategy_kind strat) ''batch'' = ''signal''
      then request_action e payload \<in> set signal_actions \<and> signal_fits e strat payload
      else request_action e payload \<in> set batch_actions \<and>
        (request_action e payload = ''start'' \<longrightarrow> request_mode e payload \<in> set allowed_modes \<and> \<not> cooling_off_active (hv_now e) (ss_id strat) (hs_engine s))) \<and>
     (\<exists>k. request_key e strat payload = Some k \<and> \<not> live_key (hv_now e) k s)"

lemma find_SomeD: "List.find P xs = Some x \<Longrightarrow> x \<in> set xs \<and> P x"
  by (induction xs) (auto split: if_splits)

lemma resolve_leg_mem: "resolve_signal_leg e legs payload = Some c \<Longrightarrow> c \<in> set legs"
  by (auto simp: resolve_signal_leg_def Let_def dest!: find_SomeD split: if_splits option.splits)

lemma json_member_true: "json_member v xs = Inr True \<Longrightarrow> json_text str v \<in> set xs \<and> (\<exists>t. v = JText t)"
  by (auto simp: json_member_def json_text_def split: json.splits jval.splits)

lemma signal_reaches:
  assumes "hs_engine (snd (handle_signal_webhook v e q strat a payload s)) \<noteq> hs_engine s"
    and "a = request_action e payload" and "or_string (ss_strategy_kind strat) ''batch'' = ''signal''"
  shows "signal_fits e strat payload \<and> (live_request e strat payload \<longrightarrow> ss_live_enabled strat) \<and>
    (\<exists>k. request_key e strat payload = Some k \<and> \<not> live_key (hv_now e) k s)"
proof -
  obtain c where c: "resolve_signal_leg e (ss_legs strat) payload = Some c" "leg_side_allows (lc_side c) a"
    "direction_allows (or_string (ss_direction strat) ''both'') a"
    using assms(1) by (auto simp: handle_signal_webhook_def Let_def split: if_splits option.splits)
  define mode where "mode = (if json_truthy (get_field ''mode'' payload) then get_field ''mode'' payload else JText ''sandbox'')"
  have rest: "\<not> (json_text (hv_str e) mode = ''live'' \<and> \<not> ss_live_enabled strat)"
    "\<not> live_key (hv_now e) (SignalKey (ss_id strat) a (lc_id c)) s"
    using assms(1) c
    by (auto simp: handle_signal_webhook_def Let_def dedupe_seen_def simp flip: mode_def split: if_splits sum.splits bool.splits prod.splits)
  have "json_text (hv_str e) mode = ''live''" if "live_request e strat payload"
    using that by (simp add: live_request_def mode_def json_truthy_def json_text_def)
  with rest c assms(2,3) resolve_leg_mem [OF c(1)] show ?thesis by (auto simp: signal_fits_def request_key_def)
qed

lemma batch_reaches:
  assumes "hs_engine (snd (handle_batch_webhook v e q strat a payload s)) \<noteq> hs_engine s"
    and "a = request_action e payload" and "or_string (ss_strategy_kind strat) ''batch'' \<noteq> ''signal''"
  shows "(a = ''start'' \<longrightarrow> request_mode e payload \<in> set allowed_modes \<and> \<not> cooling_off_active (hv_now e) (ss_id strat) (hs_engine s)) \<and>
    (live_request e strat payload \<longrightarrow> ss_live_enabled strat) \<and>
    (\<exists>k. request_key e strat payload = Some k \<and> \<not> live_key (hv_now e) k s)"
proof -
  define m where "m = json_text (hv_str e) (get_field ''mode'' payload)"
  obtain seen t where t: "dedupe_seen (hv_now e) (BatchKey (ss_id strat) a (if a = ''start'' then Some m else None)) s = (seen, t)"
    by fastforce
  have "seen = live_key (hv_now e) (BatchKey (ss_id strat) a (if a = ''start'' then Some m else None)) s" "hs_engine t = hs_engine s"
    using t pair_state(1) [OF t] by (auto simp: dedupe_seen_def split: if_splits)
  moreover have "\<not> seen \<and> (a = ''start'' \<longrightarrow> json_member (get_field ''mode'' payload) allowed_modes = Inr True \<and>
      \<not> (m = ''live'' \<and> \<not> ss_live_enabled strat) \<and> \<not> cooling_off_active (hv_now e) (ss_id strat) (hs_engine t))"
    using assms(1) t pair_state(1) [OF t]
    by (auto simp: handle_batch_webhook_def Let_def simp flip: m_def split: if_splits sum.splits bool.splits)
  ultimately show ?thesis
    using assms(2,3) json_member_true [of "get_field ''mode'' payload" allowed_modes "hv_str e"]
    by (auto simp: request_key_def request_mode_def live_request_def json_text_def m_def)
qed

lemma reaching:
  assumes "hs_engine (snd (handle_webhook v e q s)) \<noteq> hs_engine s"
  shows "\<exists>strat payload. find_strategy_by_webhook_token (hv_hash e) (wr_token q) (hs_engine s) = Some strat \<and> admitted e q s strat payload"
proof -
  obtain strat payload where h: "wr_size q \<le> max_body_bytes" "find_strategy_by_webhook_token (hv_hash e) (wr_token q) (hs_engine s) = Some strat"
    "wr_body q = Some (JObj payload)" "hs_engine (snd (handle_known v e q strat payload s)) \<noteq> hs_engine s"
    using assms by (auto simp: handle_webhook_def split: if_splits option.splits json.splits)
  let ?a = "get_field ''action'' payload" and ?kind = "or_string (ss_strategy_kind strat) ''batch''"
  obtain limited t where t: "rate_limited (hv_now e) (ss_id strat) s = (limited, t)" by fastforce
  have tk: "hs_engine t = hs_engine s" "hs_keys t = hs_keys s"
    "limited \<longleftrightarrow> rate_limit_per_min \<le> hs_rate s (ss_id strat, hv_now e div (60 * usec_per_sec))"
    using t by (auto simp: rate_limited_def Let_def)
  have g: "ip_in_allowlist e (wr_ip q) (ss_webhook_ip_allowlist strat)" "\<not> limited" "\<not> ss_webhook_locked strat"
    "json_member ?a (if ?kind = ''signal'' then signal_actions else batch_actions) = Inr True"
    "?kind = ''signal'' \<Longrightarrow> hs_engine (snd (handle_signal_webhook v e q strat (request_action e payload) payload t)) \<noteq> hs_engine t"
    "?kind \<noteq> ''signal'' \<Longrightarrow> hs_engine (snd (handle_batch_webhook v e q strat (request_action e payload) payload t)) \<noteq> hs_engine t"
    using h(4) t tk(1)
    by (auto simp: handle_known_def Let_def request_action_def split: if_splits sum.splits bool.splits)
  have key: "live_key (hv_now e) k t = live_key (hv_now e) k s" for k by (simp add: live_key_def tk(2))
  have mem: "strat \<in> set (en_strategies (hs_engine s))" "ss_webhook_token_hash strat = hv_hash e (wr_token q)"
    using h(2) by (auto simp: find_strategy_by_webhook_token_def dest: find_SomeD)
  have act: "request_action e payload \<in> set (if ?kind = ''signal'' then signal_actions else batch_actions)"
    using json_member_true [OF g(4), of "hv_str e"] by (simp add: request_action_def)
  have "admitted e q s strat payload"
    using signal_reaches [OF g(5) refl] batch_reaches [OF g(6) refl] h(1,3) mem act g(1-3) tk key
    by (auto simp: admitted_def split: if_splits)
  with h(2) show ?thesis by blast
qed

text \<open>C7: only admitted requests reach the engine. If handling a request changes anything of the engine,
  its body is within the size limit and an object, the digest of its token is that of a strategy, the
  caller's address passes that strategy's allow-list, the strategy is not locked, fewer than sixty
  requests came before it in this minute, its action belongs to the strategy's kind, a live order is
  asked only of a strategy with live trading enabled, a signal names a leg of the strategy and fits the
  directions of strategy and leg, a start is not within thirty seconds of a stop, and the same
  request was not taken within its sixty seconds.\<close>

theorem only_admitted_requests_act:
  assumes "hs_engine (snd (handle_webhook v e q s)) \<noteq> hs_engine s"
  shows "\<exists>strat payload. admitted e q s strat payload"
  using reaching [OF assms] by blast

section \<open>The lock\<close>

definition handle_all :: "'w venue \<Rightarrow> (webhook_env \<times> webhook_request) list \<Rightarrow> 'w webhook \<Rightarrow> 'w webhook" where
  "handle_all v xs s = fold (\<lambda>(e, q) t. snd (handle_webhook v e q t)) xs s"

lemma kill_locks:
  assumes "kill_strategy v sid auth d = (Inr b, e)" and "s \<in> set (en_strategies e)" and "ss_id s = sid"
  shows "ss_webhook_locked s"
proof -
  have "\<exists>d3. lock_webhook sid True d3 = e"
  proof (cases "get_row ss_id sid (en_strategies d)")
    case (Some a)
    with assms(1) show ?thesis unfolding kill_strategy_def Let_def by (simp only: option.case prod.inject) blast
  qed (use assms(1) in \<open>simp add: kill_strategy_def\<close>)
  then obtain d3 where "e = lock_webhook sid True d3" by blast
  then have "s \<in> (\<lambda>x. if ss_id x = sid then x\<lparr>ss_webhook_locked := True\<rparr> else x) ` set (en_strategies d3)"
    using assms(2) by (simp add: lock_webhook_def)
  then obtain x where "s = (if ss_id x = sid then x\<lparr>ss_webhook_locked := True\<rparr> else x)" by (rule imageE)
  with assms(3) show ?thesis by (cases "ss_id x = sid") simp_all
qed

text \<open>C8: the kill switch isolates the strategy. Once it has been pulled, whatever the venue answered to
  its cancels and exits, no sequence of webhooks that carry a token of the strategy, from any address,
  at any time, with any body, changes anything of the engine, until the strategy is unlocked.\<close>

theorem kill_switch_isolates:
  assumes "kill_strategy v sid auth d = (Inr b, hs_engine s)"
    and "\<forall>(e, q) \<in> set xs. \<forall>strat. find_strategy_by_webhook_token (hv_hash e) (wr_token q) (hs_engine s) = Some strat \<longrightarrow> ss_id strat = sid"
  shows "hs_engine (handle_all v xs s) = hs_engine s"
  using assms
proof (induction xs arbitrary: s)
  case (Cons x xs)
  obtain e q where x: "x = (e, q)" by (cases x)
  have "hs_engine (snd (handle_webhook v e q s)) = hs_engine s"
  proof (rule ccontr)
    assume change: "hs_engine (snd (handle_webhook v e q s)) \<noteq> hs_engine s"
    then obtain strat where f: "find_strategy_by_webhook_token (hv_hash e) (wr_token q) (hs_engine s) = Some strat"
      "\<not> ss_webhook_locked strat"
      using reaching by (fastforce simp: admitted_def)
    then have "ss_id strat = sid" "strat \<in> set (en_strategies (hs_engine s))"
      using Cons.prems(2) x by (auto simp: find_strategy_by_webhook_token_def dest: find_SomeD)
    then show False using kill_locks [OF Cons.prems(1)] f(2) by blast
  qed
  with Cons.IH [of "snd (handle_webhook v e q s)"] Cons.prems x show ?case by (simp add: handle_all_def)
qed (simp add: handle_all_def)

section \<open>Once per window\<close>

lemma answer_keeps_keys:
  "audited_answer e q sid a m p rl c l s = (r, t) \<Longrightarrow> hs_keys t = hs_keys s"
  using answer_frame(2) [of e q sid a m p rl c l s] by simp

lemma release_not_ok:
  "refuse_release k e q sid a m p c l s = (Inr out, t) \<Longrightarrow> wo_label out = l"
  by (auto simp: refuse_release_def audited_answer_def split: prod.splits sum.splits)

lemma signal_ok_keeps_key:
  assumes "dispatch_signal v e q sid c action mode p s = (Inr out, t)" and "wo_label out = ''ok''"
  shows "hs_keys t = hs_keys s"
proof -
  obtain strat broker auth where b: "get_row ss_id sid (en_strategies (hs_engine s)) = Some strat"
    "webhook_broker e (ss_user_id strat) mode = Some (broker, auth)"
    using assms by (auto simp: dispatch_signal_def Let_def dest: release_not_ok split: option.splits)
  obtain r d where r: "run_signal v sid c action mode broker auth (hs_engine s) = (r, d)" by fastforce
  then obtain o1 where o1: "r = Inr o1"
    using assms b by (cases r) (auto simp: dispatch_signal_def Let_def dest: release_not_ok)
  obtain code label where cl: "signal_answer o1 = (code, label)" by fastforce
  have "label = ''ok''"
    using assms b r o1 cl by (auto simp: dispatch_signal_def Let_def dest: release_not_ok split: if_splits)
  with assms(1) b r o1 cl show ?thesis
    by (auto simp: dispatch_signal_def Let_def dest!: answer_keeps_keys)
qed

lemma batch_ok_keeps_key:
  assumes "dispatch_batch v e q sid action mode p s = (Inr out, t)" and "wo_label out = ''ok''"
  shows "hs_keys t = hs_keys s"
proof -
  obtain strat u where b: "get_row ss_id sid (en_strategies (hs_engine s)) = Some strat"
    "record_event e q (Some sid) (JText action) mode (Some p) ''ok'' s = (Inr (), u)"
    using assms by (auto simp: dispatch_batch_def audited_answer_def split: option.splits prod.splits sum.splits)
  have "hs_keys t = hs_keys u"
    using assms b
    by (auto simp: dispatch_batch_def webhook_start_def webhook_stop_def batch_failure_def ok_answer_def Let_def
        dest: release_not_ok split: if_splits option.splits prod.splits sum.splits)
  with record_event_cases(2) [OF b(2)] show ?thesis by simp
qed

lemma ok_marks_key:
  assumes "handle_webhook v e q s = (Inr out, t)" and "wo_label out = ''ok''"
    and "find_strategy_by_webhook_token (hv_hash e) (wr_token q) (hs_engine s) = Some strat"
    and "wr_body q = Some (JObj payload)"
  shows "\<exists>k. request_key e strat payload = Some k \<and> hs_keys t k = Some (hv_now e + dedupe_ttl)"
proof -
  let ?kind = "or_string (ss_strategy_kind strat) ''batch''" and ?a = "get_field ''action'' payload"
  obtain limited s1 where s1: "rate_limited (hv_now e) (ss_id strat) s = (limited, s1)" by fastforce
  have k: "handle_known v e q strat payload s = (Inr out, t)"
    using assms by (auto simp: handle_webhook_def audited_answer_def split: if_splits prod.splits sum.splits)
  have g: "json_member ?a (if ?kind = ''signal'' then signal_actions else batch_actions) = Inr True"
    "?kind = ''signal'' \<Longrightarrow> handle_signal_webhook v e q strat (request_action e payload) payload s1 = (Inr out, t)"
    "?kind \<noteq> ''signal'' \<Longrightarrow> handle_batch_webhook v e q strat (request_action e payload) payload s1 = (Inr out, t)"
    using k s1 assms(2)
    by (auto simp: handle_known_def audited_answer_def Let_def request_action_def split: if_splits prod.splits sum.splits bool.splits)
  have fresh: "hs_keys u k = Some (now + dedupe_ttl)" if "dedupe_seen now k s1 = (False, u)" for now k u
    using that by (auto simp: dedupe_seen_def split: if_splits)
  show ?thesis
  proof (cases "?kind = ''signal''")
    case True
    obtain c m u where c: "resolve_signal_leg e (ss_legs strat) payload = Some c"
      "dedupe_seen (hv_now e) (SignalKey (ss_id strat) (request_action e payload) (lc_id c)) s1 = (False, u)"
      "dispatch_signal v e q (ss_id strat) c (request_action e payload) m (JObj payload) u = (Inr out, t)"
      using g(2) [OF True] assms(2)
      by (auto simp: handle_signal_webhook_def audited_answer_def Let_def split: if_splits option.splits prod.splits sum.splits bool.splits)
    with True fresh [OF c(2)] signal_ok_keeps_key [OF c(3) assms(2)] show ?thesis by (simp add: request_key_def)
  next
    case False
    define starts where "starts = (request_action e payload = ''start'')"
    obtain u where u: "dedupe_seen (hv_now e) (BatchKey (ss_id strat) (request_action e payload)
        (if starts then Some (request_mode e payload) else None)) s1 = (False, u)"
      "dispatch_batch v e q (ss_id strat) (request_action e payload) (get_field ''mode'' payload) (JObj payload) u = (Inr out, t)"
      using g(3) [OF False] assms(2)
      by (auto simp: handle_batch_webhook_def audited_answer_def Let_def request_mode_def simp flip: starts_def
          split: if_splits prod.splits sum.splits bool.splits)
    with False fresh [OF u(1)] batch_ok_keeps_key [OF u(2) assms(2)] show ?thesis by (simp add: request_key_def starts_def)
  qed
qed

text \<open>C9: a webhook acts once a minute. After a request was answered \<open>ok\<close>, and as long as its duplicate
  key is not released, the same request (the same start or stop, or the same signal for the same leg),
  sent again within sixty seconds by any caller, changes nothing of the engine, whatever happened in
  between.\<close>

theorem webhook_acts_once:
  assumes "handle_webhook v e q s = (Inr out, t)" and "wo_label out = ''ok''"
    and "find_strategy_by_webhook_token (hv_hash e) (wr_token q) (hs_engine s) = Some strat" and "wr_body q = Some (JObj payload)"
    and "find_strategy_by_webhook_token (hv_hash e') (wr_token q') (hs_engine u) = Some strat'" and "wr_body q' = Some (JObj payload')"
    and "request_key e' strat' payload' = request_key e strat payload"
    and "\<forall>k. request_key e strat payload = Some k \<longrightarrow> hs_keys u k = hs_keys t k"
    and "hv_now e' < hv_now e + dedupe_ttl"
  shows "hs_engine (snd (handle_webhook v e' q' u)) = hs_engine u"
proof (rule ccontr)
  assume "hs_engine (snd (handle_webhook v e' q' u)) \<noteq> hs_engine u"
  then obtain strat2 payload2 where f: "find_strategy_by_webhook_token (hv_hash e') (wr_token q') (hs_engine u) = Some strat2"
    "admitted e' q' u strat2 payload2" using reaching by blast
  then have "strat2 = strat'" "payload2 = payload'" using assms(5,6) by (auto simp: admitted_def)
  with f(2) obtain k where "request_key e' strat' payload' = Some k" "\<not> live_key (hv_now e') k u"
    by (auto simp: admitted_def)
  moreover obtain k' where "request_key e strat payload = Some k'" "hs_keys t k' = Some (hv_now e + dedupe_ttl)"
    using ok_marks_key [OF assms(1-4)] by blast
  ultimately show False using assms(7,8,9) by (simp add: live_key_def)
qed

text \<open>A refused start is swallowed afterwards. A start refused because the strategy stopped less than
  thirty seconds ago has already taken its duplicate key: sent again at any time within sixty seconds,
  also when the thirty have passed, it changes nothing of the engine.\<close>

theorem cooling_off_swallows_retry:
  assumes "handle_batch_webhook v e q strat ''start'' payload s = (Inr \<lparr>wo_status = 200, wo_label = ''rejected_cooling_off''\<rparr>, t)"
    and "request_action e' payload = ''start''" and "or_string (ss_strategy_kind strat) ''batch'' \<noteq> ''signal''"
    and "request_mode e' payload = request_mode e payload"
    and "find_strategy_by_webhook_token (hv_hash e') (wr_token q') (hs_engine t) = Some strat" and "wr_body q' = Some (JObj payload)"
    and "hv_now e' < hv_now e + dedupe_ttl"
  shows "hs_engine (snd (handle_webhook v e' q' t)) = hs_engine t"
proof (rule ccontr)
  let ?k = "BatchKey (ss_id strat) ''start'' (Some (request_mode e payload))"
  obtain u where u: "dedupe_seen (hv_now e) ?k s = (False, u)"
    "refuse e q (Some (ss_id strat)) (JText ''start'') (get_field ''mode'' payload) (Some (JObj payload)) 200 ''rejected_cooling_off'' u =
       (Inr \<lparr>wo_status = 200, wo_label = ''rejected_cooling_off''\<rparr>, t) \<or>
     dispatch_batch v e q (ss_id strat) ''start'' (get_field ''mode'' payload) (JObj payload) u =
       (Inr \<lparr>wo_status = 200, wo_label = ''rejected_cooling_off''\<rparr>, t)"
    using assms(1)
    by (auto simp: handle_batch_webhook_def audited_answer_def Let_def request_mode_def split: if_splits prod.splits sum.splits bool.splits)
  have "fst (dispatch_batch v e q (ss_id strat) ''start'' m p u) \<noteq> Inr \<lparr>wo_status = 200, wo_label = ''rejected_cooling_off''\<rparr>" for m p
    by (auto simp: dispatch_batch_def webhook_start_def batch_failure_def ok_answer_def audited_answer_def refuse_release_def Let_def
        split: option.splits prod.splits sum.splits if_splits)
  with u(2) have "hs_keys t = hs_keys u" by (auto dest: answer_keeps_keys) (metis fst_conv)
  then have key: "hs_keys t ?k = Some (hv_now e + dedupe_ttl)"
    using u(1) by (auto simp: dedupe_seen_def split: if_splits)
  assume "hs_engine (snd (handle_webhook v e' q' t)) \<noteq> hs_engine t"
  then obtain strat2 payload2 where "find_strategy_by_webhook_token (hv_hash e') (wr_token q') (hs_engine t) = Some strat2"
    "admitted e' q' t strat2 payload2" using reaching by blast
  then have "\<not> live_key (hv_now e') ?k t" using assms(2-6) by (auto simp: admitted_def request_key_def)
  with key assms(7) show False by (simp add: live_key_def)
qed

section \<open>Every answer is audited\<close>

fun no_secrets :: "json \<Rightarrow> bool" where
  "no_secrets (JVal v) = True"
| "no_secrets (JArr xs) = list_all no_secrets xs"
| "no_secrets (JObj kvs) = list_all (\<lambda>(k, v). if lower k \<in> set redact_keys then v = JText ''[REDACTED]'' else no_secrets v) kvs"

lemma redact_clean: "no_secrets (redact_payload x)"
proof (induction x rule: redact_payload.induct)
  case (3 kvs)
  then show ?case by (fastforce simp: list_all_iff)
qed (auto simp: list_all_iff)

definition clean_row :: "webhook_event \<Rightarrow> bool" where
  "clean_row r \<longleftrightarrow> (case hk_payload r of None \<Rightarrow> True | Some p \<Rightarrow> no_secrets p)"

definition audited :: "webhook_env \<Rightarrow> webhook_request \<Rightarrow> 'w webhook \<Rightarrow> 'w handled \<Rightarrow> bool" where
  "audited e q s h \<longleftrightarrow>
     (case h of
        (Inl x, t) \<Rightarrow> hs_events t = hs_events s \<and> (caller_fits e q \<longrightarrow> hs_engine t = hs_engine s)
      | (Inr out, t) \<Rightarrow> (\<exists>rows. hs_events t = hs_events s @ rows \<and> 1 \<le> length rows \<and> length rows \<le> 2 \<and> list_all clean_row rows))"

lemma recorded:
  assumes "record_event e q sid a m p l s = (Inr u, t)"
  shows "\<exists>row. hs_events t = hs_events s @ [row] \<and> clean_row row"
proof -
  obtain a' m' where "hs_events t = hs_events s @ [\<lparr>hk_strategy_id = sid, hk_action = a', hk_mode = m',
      hk_payload = map_option redact_payload p, hk_ip = wr_ip q, hk_agent = wr_agent q, hk_result = l\<rparr>]"
    using assms by (auto simp: record_event_def split: sum.splits if_splits)
  moreover have "clean_row \<lparr>hk_strategy_id = sid, hk_action = a', hk_mode = m',
      hk_payload = map_option redact_payload p, hk_ip = wr_ip q, hk_agent = wr_agent q, hk_result = l\<rparr>"
    using redact_clean by (cases p) (auto simp: clean_row_def)
  ultimately show ?thesis by blast
qed

lemma audited_answer_audited: "audited e q s (audited_answer e q sid a m p rl c l s)"
proof (cases "record_event e q sid a m p rl s")
  case (Pair r t)
  then show ?thesis
  proof (cases r)
    case (Inl x)
    with Pair have "t = s" by (auto simp: record_event_def split: sum.splits if_splits)
    with Pair Inl show ?thesis by (simp add: audited_def audited_answer_def)
  next
    case (Inr u)
    with recorded [of e q sid a m p rl s u t] Pair show ?thesis by (auto simp: audited_def audited_answer_def)
  qed
qed

lemma refuse_release_audited: "audited e q s (refuse_release k e q sid a m p c l s)"
  using audited_answer_audited [of e q s "Some sid" a m "Some p" l c l]
  by (auto simp: refuse_release_def audited_def split: prod.splits sum.splits)

text \<open>Nothing is recorded of a caller that does not fit.\<close>

lemma unfit:
  assumes "\<not> caller_fits e q"
  shows "record_event e q sid a m p l s = (Inl DataError, s)"
    and "audited_answer e q sid a m p l c l' s = (Inl DataError, s)"
    and "refuse_release k e q sid' a m p' c l s = (Inl DataError, s)"
  using assms by (auto simp: refuse_release_def audited_answer_def record_event_def split: sum.split)

text \<open>A row for a recognised action in an allowed mode always fits its columns.\<close>

lemma refuse_release_fits:
  assumes "length action \<le> 20" and "length mode \<le> 10" and "caller_fits e q"
  shows "\<exists>out t row. refuse_release k e q sid (JText action) (JText mode) p c l s = (Inr out, t) \<and> hs_events t = hs_events s @ [row] \<and> clean_row row"
  using assms redact_clean
  by (auto simp: refuse_release_def audited_answer_def record_event_def text_column_def clean_row_def)

lemma refuse_fits:
  assumes "length action \<le> 20" and "length mode \<le> 10" and "caller_fits e q"
  shows "\<exists>out t row. refuse e q sid (JText action) (JText mode) (Some p) c l s = (Inr out, t) \<and> hs_events t = hs_events s @ [row] \<and> clean_row row"
  using assms redact_clean by (auto simp: audited_answer_def record_event_def text_column_def clean_row_def)

lemma audited_new_row:
  "\<exists>out u row. h = (Inr out, u) \<and> hs_events u = hs_events t @ [row] \<and> clean_row row \<Longrightarrow> hs_events t = hs_events s \<Longrightarrow> audited e q s h"
  by (auto simp: audited_def)

lemma dispatch_signal_audited:
  assumes "length action \<le> 20" and "length mode \<le> 10"
  shows "audited e q s (dispatch_signal v e q sid c action mode p s)"
proof (cases "get_row ss_id sid (en_strategies (hs_engine s))")
  case (Some strat)
  show ?thesis
  proof (cases "webhook_broker e (ss_user_id strat) mode")
    case b: (Some x)
    obtain broker auth where x: "x = (broker, auth)" by (cases x)
    obtain r d where r: "run_signal v sid c action mode broker auth (hs_engine s) = (r, d)" by fastforce
    have rr: "audited e q s (refuse_release k e q sid (JText action) (JText mode) p code l (s\<lparr>hs_engine := d\<rparr>))" for k code l
      by (cases "caller_fits e q") (rule audited_new_row [OF refuse_release_fits [OF assms]], simp_all add: unfit audited_def)
    have rf: "audited e q s (refuse e q (Some sid) (JText action) (JText mode) (Some p) code l (s\<lparr>hs_engine := d\<rparr>))" for code l
      by (cases "caller_fits e q") (rule audited_new_row [OF refuse_fits [OF assms]], simp_all add: unfit audited_def)
    have "audited e q s (case r of Inl x \<Rightarrow> refuse_release k e q sid (JText action) (JText mode) p (error_code x) l (s\<lparr>hs_engine := d\<rparr>)
        | Inr out \<Rightarrow> let (code, label) = signal_answer out in
            if label = ''ok'' then refuse e q (Some sid) (JText action) (JText mode) (Some p) code label (s\<lparr>hs_engine := d\<rparr>)
            else refuse_release k e q sid (JText action) (JText mode) p code label (s\<lparr>hs_engine := d\<rparr>))" for k l
      by (simp add: rr rf Let_def split: sum.split prod.split)
    with Some b x r show ?thesis unfolding dispatch_signal_def Let_def by simp
  qed (use Some in \<open>simp add: dispatch_signal_def Let_def refuse_release_audited\<close>)
qed (simp add: dispatch_signal_def Let_def refuse_release_audited)

lemmas audited_branches = branches [where Q = "audited e q s" for e q s]

lemma audited_via: "hs_events t = hs_events s \<Longrightarrow> hs_engine t = hs_engine s \<Longrightarrow> audited e q t h \<Longrightarrow> audited e q s h"
  by (cases h; cases "fst h") (simp_all add: audited_def)

lemma pair_events:
  "dedupe_seen now k s = (b, t) \<Longrightarrow> hs_events t = hs_events s" "rate_limited now sid s = (b, t) \<Longrightarrow> hs_events t = hs_events s"
  by (metis state_frame(2) snd_conv) (metis state_frame(5) snd_conv)

lemma audited_idle: "hs_events t = hs_events s \<Longrightarrow> hs_engine t = hs_engine s \<Longrightarrow> audited e q s (Inl x, t)"
  by (simp add: audited_def)

lemmas audited_pass = audited_via [OF pair_events(1) pair_state(1)] audited_via [OF pair_events(2) pair_state(2)]

lemma short_words: "x \<in> set signal_actions \<union> set batch_actions \<Longrightarrow> length x \<le> 20" "x \<in> set allowed_modes \<Longrightarrow> length x \<le> 10"
  by (auto simp: signal_actions_def batch_actions_def allowed_modes_def)

lemma handle_signal_audited:
  assumes "a \<in> set signal_actions"
  shows "audited e q s (handle_signal_webhook v e q strat a payload s)"
proof -
  have *: "audited e q t (dispatch_signal v e q sid c a m p t)" if "m \<in> set allowed_modes" for t sid c m p
    using that assms short_words by (intro dispatch_signal_audited) auto
  have "audited e q s (dispatch_signal v e q sid c a (json_text (hv_str e) m) p t)"
    if "json_member m allowed_modes = Inr True" "dedupe_seen n k s = (x, t)" for m n k x t sid c p
    by (rule audited_pass(1) [OF that(2,2) *]) (use that(1) json_member_true in blast)
  then show ?thesis
    unfolding handle_signal_webhook_def Let_def
    by (intro audited_branches) (auto intro: audited_answer_audited audited_idle audited_pass)
qed

text \<open>A row that was recorded once fits again.\<close>

definition one_more :: "'w webhook \<Rightarrow> 'w handled \<Rightarrow> bool" where
  "one_more s h \<longleftrightarrow> (\<exists>out t rows. h = (Inr out, t) \<and> hs_events t = hs_events s @ rows \<and> length rows \<le> 1 \<and> list_all clean_row rows)"

lemma fits_again:
  assumes "record_event e q sid a m p l s = (Inr u, t)"
  shows "one_more s1 (refuse_release k e q sid' a m p' c l' s1)"
proof -
  obtain w t' where r: "record_event e q (Some sid') a m (Some p') l' s1 = (Inr w, t')"
    using assms by (auto simp: record_event_def split: sum.splits if_splits)
  with recorded [OF r] show ?thesis by (auto simp: one_more_def refuse_release_def audited_answer_def dedupe_release_def)
qed

lemma one_more_idle: "hs_events t = hs_events s \<Longrightarrow> one_more s (ok_answer t)" "hs_events t = hs_events s \<Longrightarrow> one_more s (Inr out, t)"
  by (auto simp: one_more_def ok_answer_def)

lemma one_more_via: "hs_events t = hs_events s \<Longrightarrow> one_more t h \<Longrightarrow> one_more s h"
  by (simp add: one_more_def)

lemma webhook_start_adds:
  assumes "record_event e q sid (JText ''start'') m p l s = (Inr u, t)"
  shows "one_more t (webhook_start v e q strat m p' t)"
  by (auto simp: webhook_start_def batch_failure_def Let_def
      intro: one_more_idle fits_again [OF assms] one_more_via [OF _ fits_again [OF assms]] split: option.split prod.split sum.split)

lemma webhook_stop_adds:
  assumes "record_event e q sid (JText ''stop'') m p l s = (Inr u, t)"
  shows "one_more t (webhook_stop v e q strat m p' t)"
  by (auto simp: webhook_stop_def batch_failure_def Let_def dedupe_release_def
      intro: one_more_idle fits_again [OF assms] one_more_via [OF _ fits_again [OF assms]] split: option.split prod.split sum.split)

lemma dispatch_batch_audited:
  assumes "a \<in> set batch_actions"
  shows "audited e q s (dispatch_batch v e q sid a m p s)"
proof (cases "get_row ss_id sid (en_strategies (hs_engine s))")
  case (Some strat)
  obtain r t where r: "record_event e q (Some sid) (JText a) m (Some p) ''ok'' s = (r, t)" by fastforce
  show ?thesis
  proof (cases r)
    case (Inl x)
    with r Some show ?thesis by (auto simp: dispatch_batch_def audited_def record_event_def split: sum.splits if_splits)
  next
    case (Inr u)
    with recorded [of e q "Some sid" "JText a" m "Some p" "''ok''" s u t] r
    obtain row where row: "hs_events t = hs_events s @ [row]" "clean_row row" by blast
    have "one_more t (if a = ''start'' then webhook_start v e q strat m p t else webhook_stop v e q strat m p t)"
      using r Inr assms by (auto simp: batch_actions_def intro: webhook_start_adds webhook_stop_adds)
    with r Inr Some row show ?thesis by (fastforce simp: dispatch_batch_def audited_def one_more_def)
  qed
qed (simp add: dispatch_batch_def audited_answer_audited)

lemma handle_batch_audited:
  assumes "a \<in> set batch_actions"
  shows "audited e q s (handle_batch_webhook v e q strat a payload s)"
proof -
  have "audited e q s (dispatch_batch v e q sid a m p t)" if "dedupe_seen n k s = (x, t)" for m n k x t sid p
    using that assms by (auto intro: audited_pass dispatch_batch_audited)
  then show ?thesis
    unfolding handle_batch_webhook_def Let_def
    by (intro audited_branches) (auto intro: audited_answer_audited audited_idle audited_pass)
qed

lemma handle_known_audited: "audited e q s (handle_known v e q strat payload s)"
proof -
  obtain limited t where R: "rate_limited (hv_now e) (ss_id strat) s = (limited, t)" by fastforce
  note pass = audited_pass(2) [OF R R]
  have ans: "audited e q s (audited_answer e q sid a m p rl c l t)" for sid a m p rl c l by (rule pass) (rule audited_answer_audited)
  have idle: "audited e q s (Inl x, t)" for x by (rule pass) (simp add: audited_idle)
  have signal: "audited e q s (handle_signal_webhook v e q strat (json_text (hv_str e) a) payload t)"
    if "json_member a signal_actions = Inr True" for a
    using that json_member_true by (blast intro: pass handle_signal_audited)
  have batch: "audited e q s (handle_batch_webhook v e q strat (json_text (hv_str e) a) payload t)"
    if "json_member a batch_actions = Inr True" for a
    using that json_member_true by (blast intro: pass handle_batch_audited)
  show ?thesis
    unfolding handle_known_def Let_def R prod.case
    by (intro audited_branches) (auto simp: audited_answer_audited ans idle signal batch)
qed

lemma handle_audited: "audited e q s (handle_webhook v e q s)"
  unfolding handle_webhook_def
  by (intro audited_branches) (auto intro: audited_answer_audited handle_known_audited split: option.split json.split)

text \<open>Every answer is audited. A request that is answered has added one row to the webhook events of
  the strategy, or two when the engine failed after a start or stop was accepted; the earlier rows are
  kept, and no payload of a new row shows the value of a secret. A request that raises has added no row,
  and has not touched the engine either when the caller fits its columns.\<close>

theorem every_webhook_audited:
  "case handle_webhook v e q s of
     (Inl x, t) \<Rightarrow> hs_events t = hs_events s \<and> (caller_fits e q \<longrightarrow> hs_engine t = hs_engine s)
   | (Inr out, t) \<Rightarrow>
       (\<exists>rows. hs_events t = hs_events s @ rows \<and> 1 \<le> length rows \<and> length rows \<le> 2 \<and> list_all clean_row rows)"
  using handle_audited [of e q s v] by (simp only: audited_def)

section \<open>Callers that cannot be recorded\<close>

definition silent :: "'w webhook \<Rightarrow> 'w handled \<Rightarrow> bool" where
  "silent s h \<longleftrightarrow> isl (fst h) \<and> hs_events (snd h) = hs_events s"

lemmas silent_branches = branches [where Q = "silent s" for s]

lemma silent_answers:
  assumes "\<not> caller_fits e q"
  shows "hs_events t = hs_events s \<Longrightarrow> silent s (audited_answer e q sid a m p rl c l t)" "silent s (Inl x, s)"
  using assms by (simp_all add: silent_def unfit)

lemma silent_dispatch:
  assumes "\<not> caller_fits e q"
  shows "hs_events t = hs_events s \<Longrightarrow> silent s (dispatch_signal v e q sid c a m p t)"
    and "hs_events t = hs_events s \<Longrightarrow> silent s (dispatch_batch v e q sid a m' p t)"
    and "hs_engine (snd (dispatch_batch v e q sid a m' p t)) = hs_engine t"
  using assms by (auto simp: silent_def unfit dispatch_signal_def dispatch_batch_def Let_def split: option.split prod.split sum.split)

lemma silent_handlers:
  assumes "\<not> caller_fits e q"
  shows "silent s (handle_signal_webhook v e q strat a payload s)" and "silent s (handle_batch_webhook v e q strat a payload s)"
  unfolding handle_signal_webhook_def handle_batch_webhook_def Let_def
  by (intro silent_branches; auto intro: silent_answers [OF assms] silent_dispatch [OF assms] dest!: pair_events(1))+

lemma batch_handler_waits:
  assumes "\<not> caller_fits e q"
  shows "hs_engine (snd (handle_batch_webhook v e q strat a payload s)) = hs_engine s"
  unfolding handle_batch_webhook_def Let_def
  by (intro branches [where Q = "\<lambda>h. hs_engine (snd h) = hs_engine s"])
    (auto simp: silent_dispatch(3) [OF assms] dest!: pair_state(1))

lemma silent_via: "hs_events t = hs_events s \<Longrightarrow> silent t h \<Longrightarrow> silent s h"
  by (simp add: silent_def)

lemma silent_webhook:
  assumes "\<not> caller_fits e q"
  shows "silent s (handle_webhook v e q s)"
proof -
  have known: "silent s (handle_known v e q strat payload s)" for strat payload
    unfolding handle_known_def Let_def
    by (intro silent_branches; auto intro: silent_answers [OF assms] silent_via [OF _ silent_answers(2) [OF assms]]
        silent_via [OF _ silent_handlers(1) [OF assms]] silent_via [OF _ silent_handlers(2) [OF assms]] dest!: pair_events(2))
  show ?thesis
    unfolding handle_webhook_def
    by (intro silent_branches) (auto intro: silent_answers [OF assms] known split: option.split json.split)
qed


section \<open>The rate limit\<close>

definition same_rate :: "'w webhook \<Rightarrow> 'w handled \<Rightarrow> bool" where
  "same_rate s h \<longleftrightarrow> hs_rate (snd h) = hs_rate s"

lemmas rate_branches = branches [where Q = "same_rate s" for s]

lemma seen_rate: "dedupe_seen n k s = (b, t) \<Longrightarrow> hs_rate t = hs_rate s"
  using state_frame(3) [of n k s] by simp

lemma same_rate_via: "dedupe_seen n k s = (b, t) \<Longrightarrow> same_rate t h \<Longrightarrow> same_rate s h"
  using seen_rate [of n k s b t] by (simp add: same_rate_def)

lemma answer_same_rate: "same_rate s (audited_answer e q sid a m p rl c l s)" "same_rate s (Inl x, s)"
  by (simp_all add: same_rate_def)

lemma dispatches_same_rate:
  "same_rate s (dispatch_signal v e q sid c a m p s)" "same_rate s (dispatch_batch v e q sid a mode p s)"
  by (auto simp: same_rate_def dispatch_signal_def dispatch_batch_def webhook_start_def webhook_stop_def batch_failure_def
      record_event_def Let_def split: option.split prod.split sum.split)

lemma handle_signal_same_rate: "same_rate s (handle_signal_webhook v e q strat a payload s)"
  unfolding handle_signal_webhook_def Let_def
  by (intro rate_branches; auto intro: same_rate_via dispatches_same_rate answer_same_rate)

lemma handle_batch_same_rate: "same_rate s (handle_batch_webhook v e q strat a payload s)"
  unfolding handle_batch_webhook_def Let_def
  by (intro rate_branches; auto intro: same_rate_via dispatches_same_rate answer_same_rate)

abbreviation minute_of :: "webhook_env \<Rightarrow> int" where "minute_of e \<equiv> hv_now e div (60 * usec_per_sec)"

text \<open>The requests of a strategy in a minute that change the engine.\<close>

fun acting :: "'w venue \<Rightarrow> int \<Rightarrow> int \<Rightarrow> (webhook_env \<times> webhook_request) list \<Rightarrow> 'w webhook \<Rightarrow> nat" where
  "acting v sid minute [] s = 0"
| "acting v sid minute ((e, q) # xs) s =
     (let t = snd (handle_webhook v e q s) in
      (if hs_engine t \<noteq> hs_engine s \<and> minute_of e = minute \<and>
          map_option ss_id (find_strategy_by_webhook_token (hv_hash e) (wr_token q) (hs_engine s)) = Some sid then 1 else 0)
      + acting v sid minute xs t)"

lemma known_rate:
  "hs_rate (snd (handle_known v e q strat payload s)) =
     (if ip_in_allowlist e (wr_ip q) (ss_webhook_ip_allowlist strat)
      then (hs_rate s)((ss_id strat, minute_of e) := hs_rate s (ss_id strat, minute_of e) + 1) else hs_rate s)"
proof -
  obtain limited t where R: "rate_limited (hv_now e) (ss_id strat) s = (limited, t)" by fastforce
  then have t: "hs_rate t = (hs_rate s)((ss_id strat, minute_of e) := hs_rate s (ss_id strat, minute_of e) + 1)"
    by (auto simp: rate_limited_def Let_def)
  have "same_rate t
     (if limited then refuse e q (Some (ss_id strat)) (get_field ''action'' payload) (get_field ''mode'' payload) (Some (JObj payload)) 429 ''rate_limited'' t
      else if ss_webhook_locked strat
      then refuse e q (Some (ss_id strat)) (get_field ''action'' payload) (get_field ''mode'' payload) (Some (JObj payload)) 403 ''rejected_locked'' t
      else case json_member (get_field ''action'' payload)
             (if or_string (ss_strategy_kind strat) ''batch'' = ''signal'' then signal_actions else batch_actions) of
          Inl x \<Rightarrow> (Inl x, t)
        | Inr False \<Rightarrow>
            refuse e q (Some (ss_id strat)) (if json_truthy (get_field ''action'' payload)
              then JText (json_text (hv_str e) (get_field ''action'' payload)) else JNull) (get_field ''mode'' payload) (Some (JObj payload))
              400 ''rejected_invalid_action'' t
        | Inr True \<Rightarrow>
            if or_string (ss_strategy_kind strat) ''batch'' = ''signal''
            then handle_signal_webhook v e q strat (json_text (hv_str e) (get_field ''action'' payload)) payload t
            else handle_batch_webhook v e q strat (json_text (hv_str e) (get_field ''action'' payload)) payload t)"
    by (intro rate_branches answer_same_rate handle_signal_same_rate handle_batch_same_rate)
  then show ?thesis
    unfolding handle_known_def Let_def R prod.case using t by (simp add: same_rate_def)
qed

lemma webhook_rate:
  "hs_rate (snd (handle_webhook v e q s)) k = hs_rate s k \<or>
   hs_rate (snd (handle_webhook v e q s)) k = hs_rate s k + 1"
  by (auto simp: handle_webhook_def known_rate split: option.split json.split)

lemma acting_counts:
  assumes "hs_engine (snd (handle_webhook v e q s)) \<noteq> hs_engine s"
    and "find_strategy_by_webhook_token (hv_hash e) (wr_token q) (hs_engine s) = Some strat"
  shows "hs_rate s (ss_id strat, minute_of e) < rate_limit_per_min"
    and "hs_rate (snd (handle_webhook v e q s)) (ss_id strat, minute_of e) = hs_rate s (ss_id strat, minute_of e) + 1"
proof -
  obtain strat' payload where f: "find_strategy_by_webhook_token (hv_hash e) (wr_token q) (hs_engine s) = Some strat'"
    "admitted e q s strat' payload" using reaching [OF assms(1)] by blast
  then show "hs_rate s (ss_id strat, minute_of e) < rate_limit_per_min" using assms(2) by (simp add: admitted_def)
  show "hs_rate (snd (handle_webhook v e q s)) (ss_id strat, minute_of e) = hs_rate s (ss_id strat, minute_of e) + 1"
    using f assms(2) by (simp add: admitted_def handle_webhook_def known_rate)
qed

text \<open>C10: sixty a minute. Of any sequence of webhook requests, with any tokens, times and bodies, at most
  sixty that carry a strategy's token change the engine within a clock minute: those counted before and
  those that act never exceed the limit.\<close>

theorem sixty_a_minute:
  "int (acting v sid minute xs s) \<le> max 0 (rate_limit_per_min - hs_rate s (sid, minute))"
proof (induction xs arbitrary: s)
  case (Cons x xs)
  obtain e q where x: "x = (e, q)" by (cases x)
  let ?t = "snd (handle_webhook v e q s)"
  show ?case
  proof (cases "hs_engine ?t \<noteq> hs_engine s \<and> minute_of e = minute \<and>
      map_option ss_id (find_strategy_by_webhook_token (hv_hash e) (wr_token q) (hs_engine s)) = Some sid")
    case True
    then obtain strat where f: "find_strategy_by_webhook_token (hv_hash e) (wr_token q) (hs_engine s) = Some strat" "ss_id strat = sid"
      by auto
    with True acting_counts [of v e q s strat] Cons.IH [of ?t] show ?thesis by (simp add: x Let_def)
  next
    case False
    with Cons.IH [of ?t] webhook_rate [of v e q s "(sid, minute)"] show ?thesis by (auto simp: x Let_def)
  qed
qed simp

section \<open>Requests that raise\<close>

lemma long_mode_answer:
  assumes "10 < length m"
  shows "audited_answer e q sid a (JText m) p rl c l s = (Inl DataError, s)"
  using assms by (auto simp: audited_answer_def record_event_def text_column_def split: sum.split)

text \<open>An over-long mode is neither obeyed nor recorded. A request of a known strategy whose \<open>mode\<close> is a
  text of more than ten characters raises, whatever else it carries: a stop is not carried out, and no
  row is written.\<close>

theorem long_mode_raises:
  assumes "find_strategy_by_webhook_token (hv_hash e) (wr_token q) (hs_engine s) = Some strat"
    and "wr_size q \<le> max_body_bytes" and "wr_body q = Some (JObj payload)"
    and "get_field ''mode'' payload = JText m" and "10 < length m" and "caller_fits e q"
  shows "\<exists>x t. handle_webhook v e q s = (Inl x, t) \<and> hs_engine t = hs_engine s \<and> hs_events t = hs_events s"
proof -
  have nil: "m \<noteq> []" "m \<notin> set allowed_modes" using assms(5) by (auto simp: allowed_modes_def)
  have signal: "isl (fst (handle_signal_webhook v e q strat a payload u))" for a u
    unfolding handle_signal_webhook_def Let_def assms(4)
    by (intro branches [where Q = "\<lambda>h. isl (fst h)"])
      (use nil in \<open>auto simp: long_mode_answer [OF assms(5)] json_truthy_def json_member_def json_text_def\<close>)
  have dispatch: "isl (fst (dispatch_batch v e q sid a (JText m) p u))" for sid a p u
    using assms(5) by (auto simp: dispatch_batch_def long_mode_answer record_event_def text_column_def split: option.split sum.split)
  have batch: "isl (fst (handle_batch_webhook v e q strat a payload u))" for a u
    unfolding handle_batch_webhook_def Let_def assms(4)
    by (intro branches [where Q = "\<lambda>h. isl (fst h)"])
      (use nil in \<open>auto simp: long_mode_answer [OF assms(5)] dispatch json_truthy_def json_member_def json_text_def\<close>)
  have "isl (fst (handle_known v e q strat payload s))"
    unfolding handle_known_def Let_def assms(4)
    by (intro branches [where Q = "\<lambda>h. isl (fst h)"]) (simp_all add: long_mode_answer [OF assms(5)] signal batch)
  then have "isl (fst (handle_webhook v e q s))" using assms by (simp add: handle_webhook_def)
  with handle_audited [of e q s v] assms(6) show ?thesis
    by (cases "handle_webhook v e q s"; cases "fst (handle_webhook v e q s)") (auto simp: audited_def)
qed

text \<open>With a forwarding header, the address the allow-list is asked about is the one the caller wrote.\<close>

lemma forwarded_address_trusted:
  assumes "f \<noteq> []" and "strip (until_comma f) \<noteq> []" and "10 \<le> length tok" and "length tok \<le> 128"
  shows "receive_webhook v e tok n body peer (Some f) agent s =
    handle_webhook v e \<lparr>wr_token = tok, wr_size = n, wr_body = body, wr_ip = Some (strip (until_comma f)), wr_agent = agent\<rparr> s"
  using assms by (simp add: receive_webhook_def)

section \<open>Examples\<close>

definition hook_env :: "datetime \<Rightarrow> webhook_env" where
  "hook_env t = \<lparr>hv_now = t, hv_broker = (\<lambda>_. None), hv_auth = (\<lambda>_ _. False), hv_hash = (\<lambda>x. x), hv_ip = (\<lambda>_. None),
     hv_net = (\<lambda>_. None), hv_inet = (\<lambda>_. True), hv_str = (\<lambda>_. [])\<rparr>"

definition hook_request :: "(string \<times> json) list \<Rightarrow> webhook_request" where
  "hook_request payload = \<lparr>wr_token = ''hash'', wr_size = 40, wr_body = Some (JObj payload), wr_ip = None, wr_agent = None\<rparr>"

definition long_entry_body :: "(string \<times> json) list" where
  "long_entry_body = [(''action'', JText ''long_entry''), (''leg_id'', JVal (JInt 1))]"

definition start_body :: "(string \<times> json) list" where
  "start_body = [(''action'', JText ''start''), (''mode'', JText ''sandbox'')]"

definition hook_state :: "unit engine \<Rightarrow> unit webhook" where
  "hook_state d = \<lparr>hs_engine = d, hs_events = [], hs_keys = (\<lambda>_. None), hs_rate = (\<lambda>_. 0)\<rparr>"

definition signal_strategy :: sm_strategy where
  "signal_strategy = paper_strategy\<lparr>ss_strategy_kind := ''signal'', ss_strategy_type := ''positional'', ss_legs := [share_leg]\<rparr>"

definition hook_signal :: "unit webhook" where
  "hook_signal = hook_state ((empty_engine ())\<lparr>en_strategies := [signal_strategy], en_next_strategy := 8\<rparr>)"

definition hook_entered :: "unit handled" where
  "hook_entered = handle_webhook paper_venue (hook_env 0) (hook_request long_entry_body) hook_signal"

lemma hook_entered_facts:
  "fst hook_entered = Inr \<lparr>wo_status = 200, wo_label = ''ok''\<rparr>" "length (en_orders (hs_engine (snd hook_entered))) = 1"
  "map (\<lambda>s. (ss_id s, ss_webhook_token_hash s)) (en_strategies (hs_engine (snd hook_entered))) = [(7, ''hash'')]"
  by code_simp+

lemma hook_found: "find_strategy_by_webhook_token (\<lambda>x. x) ''hash'' (hs_engine hook_signal) = Some signal_strategy"
  by (simp add: hook_signal_def hook_state_def find_strategy_by_webhook_token_def signal_strategy_def paper_strategy_def demo_strategy_def)

theorem only_admitted_requests_act_witness:
  "length (en_orders (hs_engine (snd (handle_webhook paper_venue (hook_env 0) (hook_request long_entry_body) hook_signal)))) = 1 \<and>
   (\<exists>strat payload. admitted (hook_env 0) (hook_request long_entry_body) hook_signal strat payload)"
proof -
  have "en_orders (hs_engine hook_signal) = []" by (simp add: hook_signal_def hook_state_def empty_engine_def)
  then have "hs_engine (snd hook_entered) \<noteq> hs_engine hook_signal" using hook_entered_facts(2) by auto
  with only_admitted_requests_act [of paper_venue "hook_env 0" "hook_request long_entry_body" hook_signal] hook_entered_facts(2)
  show ?thesis by (simp add: hook_entered_def)
qed

theorem webhook_acts_once_witness:
  "hs_engine (snd (handle_webhook paper_venue (hook_env 59000000) (hook_request long_entry_body) (snd hook_entered))) = hs_engine (snd hook_entered)"
proof -
  have acted: "handle_webhook paper_venue (hook_env 0) (hook_request long_entry_body) hook_signal =
      (Inr \<lparr>wo_status = 200, wo_label = ''ok''\<rparr>, snd hook_entered)"
    using hook_entered_facts(1) by (simp add: hook_entered_def prod_eq_iff)
  obtain s' where s': "en_strategies (hs_engine (snd hook_entered)) = [s']" "ss_id s' = 7" "ss_webhook_token_hash s' = ''hash''"
    using hook_entered_facts(3) by auto
  have same: "ss_strategy_kind s' = ''signal''" "ss_legs s' = [share_leg]"
  proof -
    have "map (\<lambda>s. (ss_strategy_kind s, ss_legs s = [share_leg])) (en_strategies (hs_engine (snd hook_entered))) = [(''signal'', True)]"
      by code_simp
    then show "ss_strategy_kind s' = ''signal''" "ss_legs s' = [share_leg]" using s'(1) by auto
  qed
  show ?thesis
  proof (rule webhook_acts_once [OF acted, where strat = signal_strategy and strat' = s' and payload = long_entry_body and payload' = long_entry_body])
    show "request_key (hook_env 59000000) s' long_entry_body = request_key (hook_env 0) signal_strategy long_entry_body"
      using s' same by (simp add: request_key_def signal_strategy_def paper_strategy_def demo_strategy_def hook_env_def request_action_def
          request_mode_def resolve_signal_leg_def long_entry_body_def get_field_def)
  qed (use s' hook_found in \<open>simp_all add: hook_env_def hook_request_def find_strategy_by_webhook_token_def dedupe_ttl_def usec_per_sec_def\<close>)
qed

definition hook_killed :: "(engine_error + bool) \<times> unit engine" where
  "hook_killed = (let (r, d) = kill_strategy paper_venue 7 False (hs_engine hook_signal) in (map_sum id (\<lambda>_. True) r, d))"

lemma hook_killed_facts:
  "fst hook_killed = Inr True" "map (\<lambda>s. (ss_id s, ss_webhook_locked s)) (en_strategies (snd hook_killed)) = [(7, True)]"
  by code_simp+

theorem kill_switch_isolates_witness:
  "hs_engine (handle_all paper_venue
     [(hook_env 0, hook_request long_entry_body), (hook_env 90000000, hook_request start_body)] (hook_state (snd hook_killed))) = snd hook_killed"
proof -
  obtain r d where k: "kill_strategy paper_venue 7 False (hs_engine hook_signal) = (r, d)" by fastforce
  then have d: "snd hook_killed = d" "fst hook_killed = map_sum id (\<lambda>_. True) r" by (simp_all add: hook_killed_def)
  then obtain b where "r = Inr b" using hook_killed_facts(1) by (cases r) auto
  with k d have "kill_strategy paper_venue 7 False (hs_engine hook_signal) = (Inr b, hs_engine (hook_state (snd hook_killed)))"
    by (simp add: hook_state_def)
  moreover obtain s' where "en_strategies (snd hook_killed) = [s']" "ss_id s' = 7" using hook_killed_facts(2) by auto
  ultimately show ?thesis
    using kill_switch_isolates [of paper_venue 7 False "hs_engine hook_signal" b "hook_state (snd hook_killed)"
        "[(hook_env 0, hook_request long_entry_body), (hook_env 90000000, hook_request start_body)]"]
    by (simp add: hook_state_def find_strategy_by_webhook_token_def split: if_splits)
qed

definition hook_stopped :: "unit webhook" where
  "hook_stopped = hook_state (paper_engine\<lparr>en_runs := [paper_run\<lparr>sr_stopped_at := Some 0\<rparr>]\<rparr>)"

definition hook_refused :: "unit handled" where
  "hook_refused = handle_batch_webhook paper_venue (hook_env 1000000) (hook_request start_body) paper_strategy ''start'' start_body hook_stopped"

lemma hook_refused_answer: "fst hook_refused = Inr \<lparr>wo_status = 200, wo_label = ''rejected_cooling_off''\<rparr>"
  by code_simp

lemma hook_still_cooling: "cooling_off_active 1000000 7 (hs_engine hook_stopped)"
  by code_simp

lemma hook_refused_strategies: "en_strategies (hs_engine (snd hook_refused)) = [paper_strategy]"
proof -
  have "hs_engine (snd hook_refused) = hs_engine hook_stopped"
  proof (rule ccontr)
    assume a: "hs_engine (snd hook_refused) \<noteq> hs_engine hook_stopped"
    have "''start'' = request_action (hook_env 1000000) start_body" "or_string (ss_strategy_kind paper_strategy) ''batch'' \<noteq> ''signal''"
      by (simp_all add: request_action_def start_body_def get_field_def json_text_def or_string_def paper_strategy_def demo_strategy_def)
    from batch_reaches [OF a [unfolded hook_refused_def] this]
    have "\<not> cooling_off_active 1000000 7 (hs_engine hook_stopped)"
      by (simp add: hook_env_def paper_strategy_def demo_strategy_def)
    with hook_still_cooling show False by blast
  qed
  then show ?thesis by (simp add: hook_stopped_def hook_state_def paper_engine_def)
qed

theorem cooling_off_swallows_retry_witness:
  "hs_engine (snd (handle_webhook paper_venue (hook_env 45000000) (hook_request start_body) (snd hook_refused))) = hs_engine (snd hook_refused)"
proof -
  have "handle_batch_webhook paper_venue (hook_env 1000000) (hook_request start_body) paper_strategy ''start'' start_body hook_stopped =
      (Inr \<lparr>wo_status = 200, wo_label = ''rejected_cooling_off''\<rparr>, snd hook_refused)"
    using hook_refused_answer by (simp add: hook_refused_def prod_eq_iff)
  then show ?thesis
  proof (rule cooling_off_swallows_retry)
    show "find_strategy_by_webhook_token (hv_hash (hook_env 45000000)) (wr_token (hook_request start_body)) (hs_engine (snd hook_refused)) =
        Some paper_strategy"
      by (simp add: find_strategy_by_webhook_token_def hook_refused_strategies hook_env_def hook_request_def paper_strategy_def demo_strategy_def)
  qed (simp_all add: hook_env_def hook_request_def request_action_def request_mode_def start_body_def get_field_def json_text_def
      paper_strategy_def demo_strategy_def or_string_def dedupe_ttl_def usec_per_sec_def)
qed

theorem long_mode_raises_witness:
  "\<exists>x t. handle_webhook paper_venue (hook_env 0)
     (hook_request [(''action'', JText ''stop''), (''mode'', JText ''paper-trading'')]) hook_stopped = (Inl x, t) \<and>
     hs_engine t = hs_engine hook_stopped \<and> hs_events t = []"
proof -
  have "find_strategy_by_webhook_token (\<lambda>x. x) ''hash'' (hs_engine hook_stopped) = Some paper_strategy"
    by (simp add: hook_stopped_def hook_state_def paper_engine_def find_strategy_by_webhook_token_def paper_strategy_def demo_strategy_def)
  then show ?thesis
    using long_mode_raises [of "hook_env 0" "hook_request [(''action'', JText ''stop''), (''mode'', JText ''paper-trading'')]" hook_stopped
        paper_strategy "[(''action'', JText ''stop''), (''mode'', JText ''paper-trading'')]" "''paper-trading''" paper_venue]
    by (simp add: hook_env_def hook_request_def max_body_bytes_def get_field_def hook_stopped_def hook_state_def caller_fits_def)
qed


end
