(* ===== verification/Run_Recovery.thy ===== *)
theory Run_Recovery
  imports Engine_System
begin

text \<open>
  Checkpoints of active runs (\<open>src/backend/strategy/checkpoint.py\<close>) and their recovery at start-up
  (\<open>src/backend/strategy/recovery.py\<close>): the orders of an open run are reconciled with the sandbox,
  its state is rebuilt from the orders and the latest checkpoint, and its open legs subscribe to
  ticks again. The loop that writes a checkpoint every five seconds and a failing cache or database
  are left out. The money columns of a checkpoint hold two decimals.
\<close>

section \<open>Checkpoints\<close>

record checkpoint =
  cp_run_id :: int
  cp_ts :: datetime
  cp_pnl_realized :: rat
  cp_pnl_unrealized :: rat
  cp_pnl_total :: rat
  cp_pnl_peak :: rat
  cp_pnl_trough :: rat
  cp_lock_floor :: "rat option"
  cp_trail_to_entry_active :: bool
  cp_leg_state :: "leg_state list"

text \<open>A numeric column of two decimals, which rounds halves away from zero.\<close>

definition column2 :: "rat \<Rightarrow> rat" where
  "column2 x = (if 0 \<le> x then of_int \<lfloor>x * 100 + 1 / 2\<rfloor> / 100 else - (of_int \<lfloor>- x * 100 + 1 / 2\<rfloor> / 100))"

definition checkpoint_of :: "datetime \<Rightarrow> int \<Rightarrow> run_state \<Rightarrow> checkpoint" where
  "checkpoint_of now rid s =
     \<lparr>cp_run_id = rid, cp_ts = now, cp_pnl_realized = column2 (rs_pnl_realized s), cp_pnl_unrealized = column2 (rs_pnl_unrealized s),
      cp_pnl_total = column2 (rs_pnl_total s), cp_pnl_peak = column2 (rs_pnl_peak s), cp_pnl_trough = column2 (rs_pnl_trough s),
      cp_lock_floor = map_option column2 (rs_lock_floor s), cp_trail_to_entry_active = rs_trail_to_entry_active s,
      cp_leg_state = rs_legs s\<rparr>"

definition write_one :: "datetime \<Rightarrow> sm_run \<Rightarrow> run_store \<Rightarrow> checkpoint list \<Rightarrow> checkpoint list" where
  "write_one now run st cps =
     (case get_run_state (sr_id run) st of None \<Rightarrow> cps | Some s \<Rightarrow> cps @ [checkpoint_of now (sr_id run) s])"

definition checkpoint_pass :: "datetime \<Rightarrow> 'w engine \<Rightarrow> checkpoint list \<Rightarrow> checkpoint list" where
  "checkpoint_pass now d cps =
     fold (\<lambda>run. write_one now run (en_states d)) (filter (\<lambda>r. sr_stopped_at r = None) (en_runs d)) cps"

section \<open>Reconciling orders\<close>

definition normalize_status :: "string option \<Rightarrow> string option" where
  "normalize_status raw =
     (case raw of
        None \<Rightarrow> None
      | Some [] \<Rightarrow> None
      | Some r \<Rightarrow>
          (let s = lower (strip r) in
           if s \<in> {''complete'', ''completed'', ''filled'', ''executed''} then Some ''complete''
           else if s \<in> {''rejected'', ''reject''} then Some ''rejected''
           else if s \<in> {''cancelled'', ''canceled''} then Some ''cancelled''
           else if s \<in> {''pending'', ''open'', ''trigger pending'', ''trigger_pending'', ''modified''} then Some ''open''
           else None))"

definition terminal_status :: "string \<Rightarrow> bool" where
  "terminal_status s \<longleftrightarrow> s = ''complete'' \<or> s = ''rejected'' \<or> s = ''cancelled''"

text \<open>Zero prices and quantities of the sandbox row read as absent.\<close>

definition recovery_truth :: "'w venue \<Rightarrow> int \<Rightarrow> sm_order \<Rightarrow> 'w \<Rightarrow> order_truth option" where
  "recovery_truth v uid row w =
     (case or_text (mo_broker_order_id row) [] of
        [] \<Rightarrow> None
      | oid \<Rightarrow>
          map_option (\<lambda>t. t\<lparr>tr_average_price := (case tr_average_price t of Some p \<Rightarrow> if p = 0 then None else Some p | None \<Rightarrow> None),
                            tr_filled_quantity := (case tr_filled_quantity t of Some q \<Rightarrow> if q = 0 then None else Some q | None \<Rightarrow> None)\<rparr>)
            (vn_order_sandbox v uid oid w))"

definition recovered_row :: "datetime \<Rightarrow> order_truth \<Rightarrow> sm_order \<Rightarrow> sm_order" where
  "recovered_row now t row =
     (let r1 = (case normalize_status (tr_status t) of Some s \<Rightarrow> row\<lparr>mo_status := s\<rparr> | None \<Rightarrow> row);
          r2 = (case tr_average_price t of Some p \<Rightarrow> r1\<lparr>mo_avg_fill_price := Some p\<rparr> | None \<Rightarrow> r1);
          r3 = (case tr_filled_quantity t of Some q \<Rightarrow> r2\<lparr>mo_filled_qty := Some q\<rparr> | None \<Rightarrow> r2)
      in if mo_status r3 = ''complete'' \<and> mo_filled_at r3 = None then r3\<lparr>mo_filled_at := Some now\<rparr> else r3)"

definition reconcile_row :: "'w venue \<Rightarrow> sm_run \<Rightarrow> int \<Rightarrow> 'w \<Rightarrow> sm_order \<Rightarrow> sm_order" where
  "reconcile_row v run uid w row =
     (if mo_run_id row \<noteq> sr_id run \<or> terminal_status (mo_status row) then row
      else if sr_mode run = ''sandbox'' then
        (case recovery_truth v uid row w of None \<Rightarrow> row | Some t \<Rightarrow> recovered_row (vn_now v w) t row)
      else row)"

definition reconcile_run_orders :: "'w venue \<Rightarrow> sm_run \<Rightarrow> sm_strategy \<Rightarrow> 'w engine \<Rightarrow> 'w engine" where
  "reconcile_run_orders v run strat d =
     d\<lparr>en_orders := map (reconcile_row v run (ss_user_id strat) (en_world d)) (en_orders d)\<rparr>"

section \<open>Rebuilding the state\<close>

definition load_latest_checkpoint :: "int \<Rightarrow> checkpoint list \<Rightarrow> checkpoint option" where
  "load_latest_checkpoint rid cps =
     (case rev (sort_key cp_ts (filter (\<lambda>c. cp_run_id c = rid) cps)) of [] \<Rightarrow> None | c # _ \<Rightarrow> Some c)"

definition first_entry :: "sm_order list \<Rightarrow> int \<Rightarrow> sm_order option" where
  "first_entry orders i = List.find (\<lambda>x. mo_kind x = ''entry'' \<and> mo_leg_id x = i) orders"

definition last_exit :: "sm_order list \<Rightarrow> int \<Rightarrow> sm_order option" where
  "last_exit orders i = List.find (\<lambda>x. mo_kind x \<noteq> ''entry'' \<and> mo_status x \<noteq> ''rejected'' \<and> mo_leg_id x = i) (rev orders)"

definition recovered_status :: "sm_order option \<Rightarrow> sm_order option \<Rightarrow> string" where
  "recovered_status entry exit_row =
     (if (case entry of Some x \<Rightarrow> mo_status x = ''rejected'' | None \<Rightarrow> False) then ''rejected''
      else if exit_row \<noteq> None then ''closed''
      else if entry \<noteq> None then ''open''
      else ''configured'')"

definition recovered_leg :: "sm_order list \<Rightarrow> leg_state list \<Rightarrow> leg_config \<Rightarrow> leg_state" where
  "recovered_leg orders cp_legs c =
     (let i = lc_id c; entry = first_entry orders i; exit_row = last_exit orders i;
          status = recovered_status entry exit_row;
          cp = (case get_row lg_leg_id i cp_legs of Some g \<Rightarrow> g | None \<Rightarrow> bare_leg i)
      in \<lparr>lg_leg_id = i, lg_position = lc_position c, lg_lots = lc_lots c,
          lg_symbol = map_option mo_symbol entry, lg_exchange = map_option mo_exchange entry,
          lg_qty = map_option mo_qty entry, lg_entry_order_id = map_option mo_id entry,
          lg_entry_status = (case entry of Some x \<Rightarrow> Some (mo_status x) | None \<Rightarrow> Some ''configured''),
          lg_entry_avg = Option.bind entry mo_avg_fill_price,
          lg_ltp = lg_ltp cp, lg_mtm = (if status = ''closed'' then 0 else lg_mtm cp), lg_status = status,
          lg_exit_order_id = map_option mo_id exit_row, lg_exit_kind = map_option mo_kind exit_row,
          lg_effective_sl = lg_effective_sl cp, lg_effective_target = lg_effective_target cp,
          lg_trail_active = lg_trail_active cp, lg_favorable_peak = lg_favorable_peak cp,
          lg_realized_pnl = lg_realized_pnl cp,
          lg_current_side = (if status = ''open'' then lg_current_side cp else None), lg_exit_avg = None\<rparr>)"

definition state_from_db_and_checkpoint ::
  "sm_strategy \<Rightarrow> int \<Rightarrow> sm_order list \<Rightarrow> checkpoint option \<Rightarrow> run_state" where
  "state_from_db_and_checkpoint strat rid orders cp =
     (let money = (\<lambda>f. case cp of Some c \<Rightarrow> f c | None \<Rightarrow> (0 :: rat));
          cp_legs = (case cp of Some c \<Rightarrow> cp_leg_state c | None \<Rightarrow> []);
          floor_of = Option.bind cp cp_lock_floor
      in \<lparr>rs_run_id = rid, rs_strategy_id = ss_id strat, rs_pnl_realized = money cp_pnl_realized,
          rs_pnl_unrealized = money cp_pnl_unrealized, rs_pnl_total = money cp_pnl_total, rs_pnl_peak = money cp_pnl_peak,
          rs_pnl_trough = money cp_pnl_trough, rs_lock_armed = (floor_of \<noteq> None), rs_lock_floor = floor_of,
          rs_trail_to_entry_active = (case cp of Some c \<Rightarrow> cp_trail_to_entry_active c | None \<Rightarrow> False),
          rs_legs = fold (\<lambda>c ls. put_row lg_leg_id (recovered_leg orders cp_legs c) ls) (ss_legs strat) []\<rparr>)"

definition open_leg_symbols :: "run_state \<Rightarrow> (string \<times> string) list" where
  "open_leg_symbols s =
     List.map_filter (\<lambda>g. case (lg_exchange g, lg_symbol g) of
         (Some x, Some y) \<Rightarrow> if lg_status g = ''open'' \<and> x \<noteq> [] \<and> y \<noteq> [] then Some (x, y) else None
       | _ \<Rightarrow> None) (rs_legs s)"

section \<open>Recovery\<close>

text \<open>The run's strategy may be missing, which raises.\<close>

definition recover_run :: "'w venue \<Rightarrow> checkpoint list \<Rightarrow> sm_run \<Rightarrow> 'w engine \<Rightarrow> 'w engine option" where
  "recover_run v cps run d =
     (case get_row ss_id (sr_strategy_id run) (en_strategies d) of
        None \<Rightarrow> None
      | Some strat \<Rightarrow>
          let d1 = reconcile_run_orders v run strat d; rid = sr_id run;
              s = state_from_db_and_checkpoint strat rid (list_orders_for_run rid d1) (load_latest_checkpoint rid cps)
          in Some (d1\<lparr>en_states := hydrate_run_state rid s (en_states d1),
                      en_subs := add_run_subscriptions rid (open_leg_symbols s) (en_subs d1)\<rparr>))"

text \<open>A run whose recovery raises is stopped, when its strategy exists.\<close>

definition recovery_failed :: "'w venue \<Rightarrow> sm_run \<Rightarrow> 'w engine \<Rightarrow> 'w engine" where
  "recovery_failed v run d =
     (case (get_row sr_id (sr_id run) (en_runs d), get_row ss_id (sr_strategy_id run) (en_strategies d)) of
        (Some fresh, Some strat) \<Rightarrow>
          if sr_stopped_at fresh = None
          then finalize_run (vn_now v (en_world d)) (sr_id run) (ss_id strat) ''recovery_failed'' 0 0 d else d
      | _ \<Rightarrow> d)"

definition recover_one :: "'w venue \<Rightarrow> checkpoint list \<Rightarrow> sm_run \<Rightarrow> 'w engine \<Rightarrow> 'w engine" where
  "recover_one v cps run d =
     (case get_row sr_id (sr_id run) (en_runs d) of
        None \<Rightarrow> d
      | Some fresh \<Rightarrow>
          if sr_stopped_at fresh \<noteq> None then d
          else case recover_run v cps fresh d of Some e \<Rightarrow> e | None \<Rightarrow> recovery_failed v fresh d)"

definition recover_all :: "'w venue \<Rightarrow> checkpoint list \<Rightarrow> 'w engine \<Rightarrow> 'w engine" where
  "recover_all v cps d = fold (recover_one v cps) (filter (\<lambda>r. sr_stopped_at r = None) (en_runs d)) d"

text \<open>What a restart of the process forgets: the tick index and the cache of strikes.\<close>

definition restart :: "'w engine \<Rightarrow> 'w engine" where
  "restart d = d\<lparr>en_subs := [], en_strikes := (\<lambda>_. None)\<rparr>"

end
