(* ===== verification/Recovery_Flow.thy ===== *)
theory Recovery_Flow
  imports Run_Recovery Signal_Flow "HOL-Library.Multiset"
begin

text \<open>
  What a restart keeps of the active runs: strategies, runs and finished orders as they are, the
  protection of the legs and the profit figures from the last checkpoint, the tick subscriptions of
  open legs. And what it loses: a leg that was exited once in a run and entered again.
\<close>

section \<open>What recovery leaves alone\<close>

text \<open>A finished order row is kept, of another one only the status and the fill may change.\<close>

definition kept_row :: "sm_order \<Rightarrow> sm_order \<Rightarrow> bool" where
  "kept_row x y \<longleftrightarrow>
     (if terminal_status (mo_status x) then y = x
      else mo_id y = mo_id x \<and> mo_run_id y = mo_run_id x \<and> mo_leg_id y = mo_leg_id x \<and> mo_kind y = mo_kind x \<and>
        mo_broker_order_id y = mo_broker_order_id x \<and> mo_symbol y = mo_symbol x \<and> mo_exchange y = mo_exchange x \<and>
        mo_action y = mo_action x \<and> mo_qty y = mo_qty x \<and> mo_pricetype y = mo_pricetype x)"

definition recovers :: "'w engine \<Rightarrow> 'w engine \<Rightarrow> bool" where
  "recovers d e \<longleftrightarrow> same_rows d e \<and> en_world e = en_world d \<and> list_all2 kept_row (en_orders d) (en_orders e)"

lemma kept_row_refl [simp]: "kept_row x x"
  by (simp add: kept_row_def)

lemma kept_row_trans: "kept_row x y \<Longrightarrow> kept_row y z \<Longrightarrow> kept_row x z"
  by (auto simp: kept_row_def split: if_splits)

interpretation recovers: step_preorder recovers
proof
  show "recovers d d" for d :: "'w engine"
    by (simp add: recovers_def same_rows_def list_all2_refl)
  show "recovers d f" if "recovers d e" "recovers e f" for d e f :: "'w engine"
  proof -
    have "list_all2 kept_row (en_orders d) (en_orders f)"
      using that by (auto simp: recovers_def intro: list_all2_trans [OF kept_row_trans])
    with that show ?thesis by (simp add: recovers_def same_rows_def)
  qed
qed

lemma recovered_row_keeps: "\<not> terminal_status (mo_status x) \<Longrightarrow> kept_row x (recovered_row now t x)"
  by (simp add: kept_row_def recovered_row_def Let_def split: option.split)

lemma reconcile_row_keeps: "kept_row x (reconcile_row v run uid w x)"
  by (simp add: reconcile_row_def recovered_row_keeps split: option.split)

lemma reconcile_recovers: "recovers d (reconcile_run_orders v run strat d)"
  by (simp add: recovers_def same_rows_def reconcile_run_orders_def list_all2_conv_all_nth reconcile_row_keeps)

lemma recover_run_recovers: "recover_run v cps run d = Some e \<Longrightarrow> recovers d e"
  using reconcile_recovers [of d v run]
  by (auto simp: recover_run_def Let_def recovers_def same_rows_def split: option.splits)

text \<open>The only failure of a recovery is a missing strategy, and then there is nothing to stop.\<close>

lemma recover_one_eq:
  "recover_one v cps run d =
     (case get_row sr_id (sr_id run) (en_runs d) of
        None \<Rightarrow> d
      | Some fresh \<Rightarrow> if sr_stopped_at fresh \<noteq> None then d else (case recover_run v cps fresh d of None \<Rightarrow> d | Some e \<Rightarrow> e))"
  by (auto simp: recover_one_def recovery_failed_def recover_run_def Let_def split: option.split)

lemma recover_one_recovers: "recovers d (recover_one v cps run d)"
  by (auto simp: recover_one_eq recovers.refl recover_run_recovers split: option.split)

lemma recover_fold_recovers: "recovers d (fold (recover_one v cps) rs d)"
proof (induction rs arbitrary: d)
  case (Cons r rs)
  show ?case
    using recovers.trans [OF recover_one_recovers [of d v cps r] Cons [of "recover_one v cps r d"]] by simp
qed (simp add: recovers.refl)

lemma recovery_keeps_rows: "same_rows d (recover_all v cps (restart d))"
proof -
  have "recovers (restart d) (recover_all v cps (restart d))"
    unfolding recover_all_def by (rule recover_fold_recovers)
  then show ?thesis by (simp add: recovers_def same_rows_def restart_def)
qed

text \<open>A restart opens, closes and trades nothing. Recovery leaves every strategy and every run as it
  is; so, as before the restart, a strategy has at most one open run and is running exactly when it has
  one. No order is placed or removed, a finished order row is unchanged, and of the others only the
  status and the fill may change.\<close>

theorem recovery_opens_nothing:
  "en_strategies (recover_all v cps (restart d)) = en_strategies d \<and> en_runs (recover_all v cps (restart d)) = en_runs d \<and>
   en_world (recover_all v cps (restart d)) = en_world d \<and> runs_ok (recover_all v cps (restart d)) = runs_ok d \<and>
   list_all2 kept_row (en_orders d) (en_orders (recover_all v cps (restart d)))"
proof -
  have r: "recovers (restart d) (recover_all v cps (restart d))"
    unfolding recover_all_def by (rule recover_fold_recovers)
  then show ?thesis using recovery_keeps_rows [of d v cps] same_rows_ok [OF recovery_keeps_rows [of d v cps]] by (simp add: recovers_def same_rows_def restart_def)
qed

section \<open>The rebuilt state\<close>

text \<open>After recovery the state of an open run is the one built from its orders, as reconciled, and its
  latest checkpoint.\<close>

lemma recover_fold_state:
  assumes "run \<in> set rs" and "get_row sr_id (sr_id run) (en_runs d) = Some run" and "sr_stopped_at run = None"
    and "get_row ss_id (sr_strategy_id run) (en_strategies d) = Some strat"
  shows "\<exists>d'. recovers d d' \<and> (\<forall>x \<in> set (open_leg_symbols (state_from_db_and_checkpoint strat (sr_id run)
        (list_orders_for_run (sr_id run) d') (load_latest_checkpoint (sr_id run) cps))).
      (x, sr_id run) \<in> set (en_subs (fold (recover_one v cps) rs d))) \<and>
    get_run_state (sr_id run) (en_states (fold (recover_one v cps) rs d)) =
      Some (state_from_db_and_checkpoint strat (sr_id run) (list_orders_for_run (sr_id run) d') (load_latest_checkpoint (sr_id run) cps))"
    (is "\<exists>d'. ?P d' (fold (recover_one v cps) rs d)")
  using assms(1)
proof (induction rs rule: rev_induct)
  case (snoc x xs)
  let ?e = "fold (recover_one v cps) xs d"
  have e: "recovers d ?e" by (rule recover_fold_recovers)
  then have rows: "en_runs ?e = en_runs d" "en_strategies ?e = en_strategies d" by (simp_all add: recovers_def same_rows_def)
  have subs: "set (add_run_subscriptions i ks ix) = (\<lambda>k. (k, i)) ` set ks \<union> set ix" for i ks ix
    by (induction ks arbitrary: ix) (auto simp: add_run_subscriptions_def)
  show ?case
  proof (cases "sr_id x = sr_id run")
    case True
    let ?d' = "reconcile_run_orders v run strat ?e"
    have "recover_one v cps x ?e = the (recover_run v cps run ?e)" "recover_run v cps run ?e \<noteq> None"
      using assms True rows by (auto simp: recover_one_eq recover_run_def Let_def)
    then have "?P ?d' (recover_one v cps x ?e)"
      using assms rows recovers.trans [OF e reconcile_recovers]
      by (auto simp: recover_run_def Let_def subs state_from_db_and_checkpoint_def)
    then show ?thesis by auto
  next
    case False
    then have "run \<in> set xs" using snoc.prems by auto
    then obtain d' where d': "?P d' ?e" using snoc.IH by blast
    have "get_run_state (sr_id run) (en_states (recover_one v cps x ?e)) = get_run_state (sr_id run) (en_states ?e)"
      "set (en_subs ?e) \<subseteq> set (en_subs (recover_one v cps x ?e))"
      using False by (auto simp: recover_one_eq recover_run_def Let_def reconcile_run_orders_def subs dest!: get_row_key split: option.split)
    with d' show ?thesis by auto
  qed
qed simp

lemma recover_all_state:
  assumes "uniq sr_id (en_runs d)" and "run \<in> set (en_runs d)" and "sr_stopped_at run = None"
    and "get_row ss_id (sr_strategy_id run) (en_strategies d) = Some strat"
  shows "\<exists>d'. recovers (restart d) d' \<and>
    get_run_state (sr_id run) (en_states (recover_all v cps (restart d))) =
       Some (state_from_db_and_checkpoint strat (sr_id run) (list_orders_for_run (sr_id run) d') (load_latest_checkpoint (sr_id run) cps)) \<and>
    (\<forall>x \<in> set (open_leg_symbols (state_from_db_and_checkpoint strat (sr_id run)
        (list_orders_for_run (sr_id run) d') (load_latest_checkpoint (sr_id run) cps))).
      (x, sr_id run) \<in> set (en_subs (recover_all v cps (restart d))))"
  using recover_fold_state [of run "filter (\<lambda>r. sr_stopped_at r = None) (en_runs d)" "restart d" strat cps v]
    assms get_row_uniq [OF assms(1,2)]
  by (auto simp: recover_all_def restart_def)

text \<open>Ticks reach every open leg again. After a restart and recovery, every leg that the recovered
  state of an open run shows as open, with its instrument, has the run among the receivers of that
  instrument's ticks.\<close>

theorem recovered_legs_get_ticks:
  assumes "uniq sr_id (en_runs d)" and "run \<in> set (en_runs d)" and "sr_stopped_at run = None"
    and "get_row ss_id (sr_strategy_id run) (en_strategies d) = Some strat"
    and "get_run_state (sr_id run) (en_states (recover_all v cps (restart d))) = Some s"
    and "g \<in> set (rs_legs s)" and "lg_status g = ''open''" and "lg_exchange g = Some x" and "lg_symbol g = Some y"
    and "x \<noteq> []" and "y \<noteq> []"
  shows "sr_id run \<in> set (interested_runs x y (en_subs (recover_all v cps (restart d))))"
proof -
  have "(x, y) \<in> set (open_leg_symbols s)"
    unfolding open_leg_symbols_def List.map_filter_def set_map set_filter
    by (rule image_eqI [where x = g]) (use assms(6-11) in auto)
  with assms(5) recover_all_state [OF assms(1-4), of v cps]
  have "((x, y), sr_id run) \<in> set (en_subs (recover_all v cps (restart d)))" by auto
  then show ?thesis by (force simp: interested_runs_def)
qed

lemma recovered_legs:
  "get_row lg_leg_id i (rs_legs (state_from_db_and_checkpoint strat rid orders cp)) =
     map_option (recovered_leg orders (case cp of Some c \<Rightarrow> cp_leg_state c | None \<Rightarrow> [])) (get_row lc_id i (rev (ss_legs strat)))"
proof -
  have id: "lg_leg_id (recovered_leg orders cpl c) = lc_id c" for cpl c by (simp add: recovered_leg_def Let_def)
  have "get_row lg_leg_id i (fold (\<lambda>c ls. put_row lg_leg_id (recovered_leg orders cpl c) ls) cs ls) =
     (case get_row lc_id i (rev cs) of Some c \<Rightarrow> Some (recovered_leg orders cpl c) | None \<Rightarrow> get_row lg_leg_id i ls)" for cs ls cpl
  proof (induction cs arbitrary: ls)
    case (Cons c cs)
    then show ?case by (auto simp: get_put_row get_row_append id split: option.split)
  qed simp
  then show ?thesis
    by (cases "get_row lc_id i (rev (ss_legs strat))") (simp_all add: state_from_db_and_checkpoint_def Let_def)
qed

section \<open>Protection survives a restart\<close>

lemma column2_error: "\<bar>column2 x - x\<bar> \<le> 1 / 200"
proof -
  have up: "\<bar>of_int \<lfloor>y * 100 + 1 / 2\<rfloor> / 100 - y\<bar> \<le> 1 / 200" for y :: rat
  proof -
    have "\<bar>of_int \<lfloor>y * 100 + 1 / 2\<rfloor> - y * 100\<bar> \<le> 1 / 2"
      using of_int_floor_le [of "y * 100 + 1 / 2"] floor_correct [of "y * 100 + 1 / 2"] by linarith
    then show ?thesis by (simp add: field_simps abs_le_iff)
  qed
  show ?thesis
  proof (cases "0 \<le> x")
    case False
    then have "column2 x - x = - (of_int \<lfloor>(- x) * 100 + 1 / 2\<rfloor> / 100 - (- x))" by (simp add: column2_def)
    then show ?thesis using up [of "- x"] by (simp only: abs_minus_cancel)
  qed (use up [of x] in \<open>simp add: column2_def\<close>)
qed

lemma write_one_runs:
  "cp_run_id c \<noteq> sr_id run \<Longrightarrow> c \<in> set (write_one now run st cps) \<Longrightarrow> c \<in> set cps"
  by (auto simp: write_one_def checkpoint_of_def split: option.splits)

lemma pass_checkpoints:
  "filter (\<lambda>c. cp_run_id c = rid) (fold (\<lambda>run. write_one now run st) rs cps) =
     filter (\<lambda>c. cp_run_id c = rid) cps @
     (case get_run_state rid st of None \<Rightarrow> [] | Some s \<Rightarrow> map (\<lambda>_. checkpoint_of now rid s) (filter (\<lambda>r. sr_id r = rid) rs))"
proof (induction rs arbitrary: cps)
  case (Cons r rs)
  then show ?case by (cases "sr_id r = rid") (auto simp: write_one_def checkpoint_of_def split: option.split)
qed (simp split: option.split)

lemma latest_is_new:
  assumes "\<forall>c \<in> set cps. cp_ts c \<le> now" and "run \<in> set (en_runs d)" and "sr_stopped_at run = None"
    and "get_run_state (sr_id run) (en_states d) = Some s"
  shows "load_latest_checkpoint (sr_id run) (checkpoint_pass now d cps) = Some (checkpoint_of now (sr_id run) s)"
proof -
  let ?old = "filter (\<lambda>c. cp_run_id c = sr_id run) cps" and ?c = "checkpoint_of now (sr_id run) s"
  obtain n where n: "filter (\<lambda>c. cp_run_id c = sr_id run) (checkpoint_pass now d cps) = ?old @ replicate (Suc n) ?c"
  proof -
    let ?rs = "filter (\<lambda>r. sr_id r = sr_id run) (filter (\<lambda>r. sr_stopped_at r = None) (en_runs d))"
    have "?rs \<noteq> []" using assms(2,3) by (auto simp: filter_empty_conv)
    then obtain m where "length ?rs = Suc m" by (cases ?rs) auto
    then have "map (\<lambda>_. ?c) ?rs = replicate (Suc m) ?c" by (metis map_replicate_const)
    then show thesis using that assms(4) by (simp add: checkpoint_pass_def pass_checkpoints)
  qed
  have "sort_key cp_ts (?old @ replicate (Suc n) ?c) = sort_key cp_ts ?old @ replicate (Suc n) ?c"
  proof (rule properties_for_sort_key)
    show "mset (sort_key cp_ts ?old @ replicate (Suc n) ?c) = mset (?old @ replicate (Suc n) ?c)" by simp
    show "sorted (map cp_ts (sort_key cp_ts ?old @ replicate (Suc n) ?c))"
      using assms(1) by (auto simp: sorted_append checkpoint_of_def)
    show "filter (\<lambda>y. cp_ts k = cp_ts y) (sort_key cp_ts ?old @ replicate (Suc n) ?c) =
        filter (\<lambda>y. cp_ts k = cp_ts y) (?old @ replicate (Suc n) ?c)" if "k \<in> set (sort_key cp_ts ?old @ replicate (Suc n) ?c)" for k
      by (simp only: filter_append eq_commute [of "cp_ts k"] sort_key_stable)
  qed
  then show ?thesis by (simp add: load_latest_checkpoint_def n replicate_app_Cons_same)
qed

text \<open>C12: protection survives a restart. When an open run was checkpointed, and the process then restarts
  and recovers, every configured leg of the run has the stop, the target, the trail with its best price
  and the realized profit it had at the checkpoint; the profit figures of the run, its peak and its
  trough are those of the checkpoint to half a cent, the profit lock is armed exactly when it had a
  floor, and the stops moved to entry are remembered.\<close>

theorem recovery_restores_protection:
  assumes "uniq sr_id (en_runs d)" and "run \<in> set (en_runs d)" and "sr_stopped_at run = None"
    and "get_row ss_id (sr_strategy_id run) (en_strategies d) = Some strat"
    and "\<forall>c \<in> set cps. cp_ts c \<le> now" and "get_run_state (sr_id run) (en_states d) = Some s"
    and "i \<in> lc_id ` set (ss_legs strat)" and "get_row lg_leg_id i (rs_legs s) = Some g"
  shows "\<exists>s' g'. get_run_state (sr_id run) (en_states (recover_all v (checkpoint_pass now d cps) (restart d))) = Some s' \<and>
    get_row lg_leg_id i (rs_legs s') = Some g' \<and>
    lg_effective_sl g' = lg_effective_sl g \<and> lg_effective_target g' = lg_effective_target g \<and>
    lg_trail_active g' = lg_trail_active g \<and> lg_favorable_peak g' = lg_favorable_peak g \<and> lg_realized_pnl g' = lg_realized_pnl g \<and>
    \<bar>rs_pnl_peak s' - rs_pnl_peak s\<bar> \<le> 1 / 200 \<and> \<bar>rs_pnl_trough s' - rs_pnl_trough s\<bar> \<le> 1 / 200 \<and>
    \<bar>rs_pnl_total s' - rs_pnl_total s\<bar> \<le> 1 / 200 \<and>
    rs_lock_armed s' = (rs_lock_floor s \<noteq> None) \<and> rs_lock_floor s' = map_option column2 (rs_lock_floor s) \<and>
    rs_trail_to_entry_active s' = rs_trail_to_entry_active s"
proof -
  let ?cps = "checkpoint_pass now d cps"
  have cp: "load_latest_checkpoint (sr_id run) ?cps = Some (checkpoint_of now (sr_id run) s)"
    by (rule latest_is_new [OF assms(5,2,3,6)])
  obtain d' where "recovers (restart d) d'" and st: "get_run_state (sr_id run) (en_states (recover_all v ?cps (restart d))) =
      Some (state_from_db_and_checkpoint strat (sr_id run) (list_orders_for_run (sr_id run) d') (load_latest_checkpoint (sr_id run) ?cps))"
    using recover_all_state [OF assms(1-4), of v ?cps] by blast
  note st = st [unfolded cp]
  have "get_row lc_id i (rev (ss_legs strat)) \<noteq> None" using assms(7) by (simp add: get_row_None)
  then obtain c where c: "get_row lc_id i (rev (ss_legs strat)) = Some c" by blast
  with get_row_key [OF c] st assms(8) show ?thesis
    by (simp add: recovered_legs checkpoint_of_def recovered_leg_def Let_def)
      (simp add: state_from_db_and_checkpoint_def Let_def column2_error [simplified])
qed

section \<open>A leg that was left once\<close>

lemma recovered_leg_side:
  assumes "recovered_status (first_entry orders (lc_id c)) (last_exit orders (lc_id c)) \<noteq> ''open''"
  shows "lg_current_side (recovered_leg orders cpl c) = None"
  using assms by (simp add: recovered_leg_def Let_def)

text \<open>C38: a leg that was entered again is lost. If an order that left a leg was completed, or even
  cancelled, in an open run, then after a restart no signal can leave that leg any more, whatever entry
  came after it: every exit signal for it changes nothing.\<close>

theorem recovery_strands_reentered_leg:
  assumes "uniq sr_id (en_runs d)" and "run \<in> set (en_runs d)" and "sr_stopped_at run = None" and "sr_strategy_id run = sid"
    and "get_row ss_id sid (en_strategies d) = Some strat" and "ss_current_run_id strat = Some (sr_id run)"
    and "x \<in> set (en_orders d)" and "mo_run_id x = sr_id run" and "mo_leg_id x = lc_id c" and "mo_kind x \<noteq> ''entry''"
    and "mo_status x = ''complete'' \<or> mo_status x = ''cancelled''"
  shows "snd (exit_leg_by_signal v sid c action mode auth bypass (recover_all v cps (restart d))) = recover_all v cps (restart d)"
proof -
  let ?e = "recover_all v cps (restart d)" and ?i = "lc_id c"
  obtain d' where d': "recovers (restart d) d'" and st: "get_run_state (sr_id run) (en_states ?e) =
      Some (state_from_db_and_checkpoint strat (sr_id run) (list_orders_for_run (sr_id run) d') (load_latest_checkpoint (sr_id run) cps))"
    using recover_all_state [OF assms(1-3), of strat v cps] assms(4,5) by blast
  have rows: "en_runs ?e = en_runs d" "en_strategies ?e = en_strategies d"
    using recovery_keeps_rows [of d v cps] by (simp_all add: same_rows_def)
  have "x \<in> set (en_orders d')"
  proof -
    have "list_all2 kept_row (en_orders d) (en_orders d')" using d' by (simp add: recovers_def restart_def)
    then obtain y where "y \<in> set (en_orders d')" "kept_row x y" using assms(7) by (metis in_set_conv_nth list_all2_conv_all_nth)
    then show ?thesis using assms(11) by (auto simp: kept_row_def terminal_status_def)
  qed
  then have "x \<in> set (rev (list_orders_for_run (sr_id run) d'))" using assms(8) by (simp add: list_orders_for_run_def)
  then have "last_exit (list_orders_for_run (sr_id run) d') ?i \<noteq> None"
    using assms(9-11) by (auto simp: last_exit_def find_None_iff)
  then have not_open: "recovered_status (first_entry (list_orders_for_run (sr_id run) d') ?i) (last_exit (list_orders_for_run (sr_id run) d') ?i) \<noteq> ''open''"
    by (simp add: recovered_status_def)
  have side: "lg_current_side g = None" if g: "get_row lg_leg_id ?i (rs_legs (state_from_db_and_checkpoint strat (sr_id run)
      (list_orders_for_run (sr_id run) d') (load_latest_checkpoint (sr_id run) cps))) = Some g" for g
  proof -
    obtain c' where c': "get_row lc_id ?i (rev (ss_legs strat)) = Some c'"
      "g = recovered_leg (list_orders_for_run (sr_id run) d')
         (case load_latest_checkpoint (sr_id run) cps of Some c \<Rightarrow> cp_leg_state c | None \<Rightarrow> []) c'"
      using g unfolding recovered_legs by blast
    show ?thesis using not_open get_row_key [OF c'(1)] unfolding c'(2) by (simp add: recovered_leg_side)
  qed
  have "get_row sr_id (sr_id run) (en_runs ?e) = Some run" "get_row ss_id sid (en_strategies ?e) = Some strat"
    using get_row_uniq [OF assms(1,2)] assms(5) rows by simp_all
  with st assms(3,6) show ?thesis
    by (auto simp: exit_leg_by_signal_def Let_def dest: side split: option.split)
qed

section \<open>Examples\<close>

definition crash_strategy :: sm_strategy where
  "crash_strategy = demo_strategy\<lparr>ss_strategy_kind := ''signal'', ss_strategy_type := ''positional'', ss_legs := [share_leg],
     ss_current_run_id := Some 1\<rparr>"

definition crash_leg :: leg_state where
  "crash_leg = (bare_leg 1)\<lparr>lg_symbol := Some ''SBIN'', lg_exchange := Some ''NSE'', lg_qty := Some 10, lg_status := ''open'',
     lg_entry_avg := Some 100, lg_effective_sl := Some 90, lg_trail_active := True, lg_favorable_peak := 25,
     lg_current_side := Some ''long''\<rparr>"

definition crash_state :: run_state where
  "crash_state = (fresh_run 1 7 [crash_leg])\<lparr>rs_pnl_peak := 250 + 1 / 3, rs_lock_armed := True, rs_lock_floor := Some 100\<rparr>"

text \<open>Entered; left and entered again.\<close>

definition crash_entry :: sm_order where
  "crash_entry = (paper_entry 1 ''BUY'')\<lparr>mo_symbol := ''SBIN'', mo_exchange := ''NSE'', mo_qty := 10\<rparr>"

definition crash_exit :: sm_order where
  "crash_exit = crash_entry\<lparr>mo_id := 2, mo_kind := ''exit_signal'', mo_action := ''SELL''\<rparr>"

definition crash_engine :: "sm_order list \<Rightarrow> unit engine" where
  "crash_engine rows = (empty_engine ())\<lparr>en_strategies := [crash_strategy], en_runs := [paper_run], en_orders := rows,
     en_states := [1 \<mapsto> crash_state], en_subs := [((''NSE'', ''SBIN''), 1)]\<rparr>"

lemma crash_facts:
  "uniq sr_id (en_runs (crash_engine rows))" "paper_run \<in> set (en_runs (crash_engine rows))" "sr_stopped_at paper_run = None"
  "sr_strategy_id paper_run = 7" "sr_id paper_run = 1"
  "get_row ss_id 7 (en_strategies (crash_engine rows)) = Some crash_strategy" "ss_legs crash_strategy = [share_leg]" "lc_id share_leg = 1"
  "ss_current_run_id crash_strategy = Some 1" "en_orders (crash_engine rows) = rows" "get_run_state 1 (en_states (crash_engine rows)) = Some crash_state"
  by (simp_all add: crash_engine_def paper_run_def uniq_def crash_strategy_def demo_strategy_def share_leg_def demo_cfg_def
      get_run_state_def empty_engine_def)

theorem recovery_restores_protection_witness:
  "\<exists>s' g'. get_run_state 1 (en_states (recover_all paper_venue (checkpoint_pass 5 (crash_engine [crash_entry]) []) (restart (crash_engine [crash_entry])))) = Some s' \<and>
     get_row lg_leg_id 1 (rs_legs s') = Some g' \<and> lg_effective_sl g' = Some 90 \<and> lg_trail_active g' \<and> lg_favorable_peak g' = 25 \<and>
     \<bar>rs_pnl_peak s' - (250 + 1 / 3)\<bar> \<le> 1 / 200 \<and> rs_lock_armed s'"
proof -
  have "get_row lg_leg_id 1 (rs_legs crash_state) = Some crash_leg" by (simp add: crash_state_def fresh_run_def crash_leg_def)
  then show ?thesis
    using recovery_restores_protection [of "crash_engine [crash_entry]" paper_run crash_strategy "[]" 5 crash_state 1 crash_leg paper_venue]
    by (simp add: crash_facts) (force simp: crash_leg_def crash_state_def)
qed

theorem recovered_legs_get_ticks_witness:
  "1 \<in> set (interested_runs ''NSE'' ''SBIN'' (en_subs (recover_all paper_venue [] (restart (crash_engine [crash_entry])))))"
proof -
  let ?e = "recover_all paper_venue [] (restart (crash_engine [crash_entry]))"
  have "map_option (\<lambda>s. map (\<lambda>g. (lg_status g, lg_exchange g, lg_symbol g)) (rs_legs s)) (get_run_state 1 (en_states ?e)) =
      Some [(''open'', Some ''NSE'', Some ''SBIN'')]"
    by code_simp
  then obtain s g where "get_run_state 1 (en_states ?e) = Some s" "rs_legs s = [g]" "lg_status g = ''open''"
    "lg_exchange g = Some ''NSE''" "lg_symbol g = Some ''SBIN''" by auto
  then show ?thesis
    using recovered_legs_get_ticks [of "crash_engine [crash_entry]" paper_run crash_strategy paper_venue "[]" s g "''NSE''" "''SBIN''"]
    by (simp add: crash_facts)
qed

theorem recovery_strands_reentered_leg_witness:
  "snd (exit_leg_by_signal paper_venue 7 share_leg ''long_exit'' ''sandbox'' False False
      (recover_all paper_venue [] (restart (crash_engine [crash_entry, crash_exit, crash_entry\<lparr>mo_id := 3\<rparr>])))) =
    recover_all paper_venue [] (restart (crash_engine [crash_entry, crash_exit, crash_entry\<lparr>mo_id := 3\<rparr>]))"
  by (rule recovery_strands_reentered_leg [where run = paper_run and strat = crash_strategy and x = crash_exit])
    (simp_all add: crash_facts crash_exit_def crash_entry_def paper_entry_def)

end
