(* ===== verification/Wire.thy ===== *)
theory Wire
  imports Prelude "HOL-Library.Word"
begin

text \<open>
  Binary frames of market data: bytes, the fixed-width fields Python's \<open>struct\<close> reads from them in
  either byte order, IEEE single floats, and the dictionaries an adapter publishes
  (\<open>src/backend/websocket_proxy/base_adapter.py\<close>). A float is an exact rational, an
  infinity or not a number.
\<close>

type_synonym bytes = "8 word list"

section \<open>Fields\<close>

text \<open>Python's \<open>xs[a:b]\<close> for indices from the left.\<close>

definition slice :: "nat \<Rightarrow> nat \<Rightarrow> 'a list \<Rightarrow> 'a list" where
  "slice a b xs = take (b - a) (drop a xs)"

fun le_value :: "bytes \<Rightarrow> int" where
  "le_value [] = 0"
| "le_value (b # bs) = uint b + 256 * le_value bs"

definition be_value :: "bytes \<Rightarrow> int" where
  "be_value bs = le_value (rev bs)"

primrec le_bytes :: "nat \<Rightarrow> int \<Rightarrow> bytes" where
  "le_bytes 0 x = []"
| "le_bytes (Suc n) x = word_of_int x # le_bytes n (x div 256)"

definition be_bytes :: "nat \<Rightarrow> int \<Rightarrow> bytes" where
  "be_bytes n x = rev (le_bytes n x)"

definition signed32 :: "int \<Rightarrow> int" where
  "signed32 n = (if n < 2147483648 then n else n - 4294967296)"

text \<open>Python's floats: finite, infinite, or not a number, with the operations the adapters use. A divisor
  is never zero.\<close>

datatype flt = Fin rat | PosInf | NegInf | NaN

fun flt_minus :: "flt \<Rightarrow> flt \<Rightarrow> flt" where
  "flt_minus (Fin x) (Fin y) = Fin (x - y)"
| "flt_minus NaN b = NaN"
| "flt_minus a NaN = NaN"
| "flt_minus PosInf b = (if b = PosInf then NaN else PosInf)"
| "flt_minus NegInf b = (if b = NegInf then NaN else NegInf)"
| "flt_minus (Fin x) PosInf = NegInf"
| "flt_minus (Fin x) NegInf = PosInf"

fun flt_div :: "flt \<Rightarrow> flt \<Rightarrow> flt" where
  "flt_div (Fin x) (Fin y) = Fin (x / y)"
| "flt_div NaN b = NaN"
| "flt_div a NaN = NaN"
| "flt_div PosInf (Fin y) = (if y < 0 then NegInf else PosInf)"
| "flt_div NegInf (Fin y) = (if y < 0 then PosInf else NegInf)"
| "flt_div (Fin x) b = Fin 0"
| "flt_div a b = NaN"

fun flt_scale :: "rat \<Rightarrow> flt \<Rightarrow> flt" where
  "flt_scale k (Fin x) = Fin (k * x)"
| "flt_scale k a = a"

fun flt_round :: "nat \<Rightarrow> flt \<Rightarrow> flt" where
  "flt_round n (Fin x) = Fin (pyround x n)"
| "flt_round n a = a"

text \<open>An IEEE single: sign, exponent with bias 127, 23 bits of fraction.\<close>

definition f32 :: "int \<Rightarrow> flt" where
  "f32 n =
     (let sign = (if n div 2147483648 mod 2 = 1 then - 1 else 1); e = n div 8388608 mod 256; m = n mod 8388608 in
      if e = 255 then (if m \<noteq> 0 then NaN else if sign = - 1 then NegInf else PosInf)
      else if e = 0 then Fin (sign * of_int m / 2 ^ 149)
      else Fin (sign * of_int (8388608 + m) * 2 ^ nat e / 2 ^ 150))"

lemma length_bytes [simp]: "length (le_bytes n x) = n" "length (be_bytes n x) = n"
proof -
  show "length (le_bytes n x) = n" for x by (induction n arbitrary: x) auto
  then show "length (be_bytes n x) = n" by (simp add: be_bytes_def)
qed

lemma le_value_bounds: "0 \<le> le_value bs \<and> le_value bs < 256 ^ length bs"
proof (induction bs)
  case (Cons b bs)
  have "0 \<le> uint b" "uint b < 256" using uint_lt2p [of b] by simp_all
  with Cons show ?case by auto
qed simp

lemma be_value_bounds: "0 \<le> be_value bs \<and> be_value bs < 256 ^ length bs"
  using le_value_bounds [of "rev bs"] by (simp add: be_value_def)

lemma uint_of_byte: "uint (word_of_int x :: 8 word) = x mod 256"
  by (simp add: uint_word_of_int)

lemma le_value_bytes: "le_value (le_bytes n x) = x mod 256 ^ n"
proof (induction n arbitrary: x)
  case (Suc n)
  have "x mod (256 * 256 ^ n) = 256 * (x div 256 mod 256 ^ n) + x mod 256"
    by (rule zmod_zmult2_eq) simp
  with Suc show ?case by (simp add: uint_of_byte)
qed simp

lemma be_value_bytes: "be_value (be_bytes n x) = x mod 256 ^ n"
  by (simp add: be_value_def be_bytes_def le_value_bytes)

lemma signed32_bounds: "0 \<le> n \<Longrightarrow> n < 4294967296 \<Longrightarrow> - 2147483648 \<le> signed32 n \<and> signed32 n < 2147483648"
  by (simp add: signed32_def)

lemma slice_simps [simp]:
  "length (slice a b xs) = min (b - a) (length xs - a)"
  "slice 0 b xs = take b xs"
  by (simp_all add: slice_def)

lemma slice_append: "length xs = n \<Longrightarrow> slice (n + a) (n + b) (xs @ ys) = slice a b ys"
  by (simp add: slice_def)

section \<open>Published dictionaries\<close>

record book_level =
  bl_price :: flt
  bl_quantity :: int
  bl_orders :: int

datatype field = FNum flt | FInt int | FText string | FBook "book_level list" "book_level list"

type_synonym tick = "(string \<times> field) list"

text \<open>A topic and its dictionary; assigning a key keeps its place.\<close>

type_synonym publication = "string \<times> tick"

definition set_key :: "string \<Rightarrow> field \<Rightarrow> tick \<Rightarrow> tick" where
  "set_key k v t = (if k \<in> fst ` set t then map (\<lambda>(a, b). if a = k then (a, v) else (a, b)) t else t @ [(k, v)])"

definition topic :: "string \<Rightarrow> string \<Rightarrow> string \<Rightarrow> string" where
  "topic exch sb mode = exch @ ''_'' @ sb @ ''_'' @ mode"

definition head_of :: "string \<Rightarrow> string \<Rightarrow> tick" where
  "head_of sb exch = [(''symbol'', FText sb), (''exchange'', FText exch)]"

text \<open>\<open>round(ltp - close, 4) if (ltp and close) else 0.0\<close>, and the percentage.\<close>

definition tick_change :: "flt \<Rightarrow> flt \<Rightarrow> flt" where
  "tick_change l c = (if l = Fin 0 \<or> c = Fin 0 then Fin 0 else flt_round 4 (flt_minus l c))"

definition tick_change_pct :: "flt \<Rightarrow> flt \<Rightarrow> flt" where
  "tick_change_pct l c = (if c = Fin 0 then Fin 0 else flt_round 4 (flt_scale 100 (flt_div (flt_minus l c) c)))"

definition change_fields :: "flt \<Rightarrow> flt \<Rightarrow> tick" where
  "change_fields l c = [(''change'', FNum (tick_change l c)), (''change_percent'', FNum (tick_change_pct l c))]"

section \<open>Batches\<close>

function chunks :: "nat \<Rightarrow> 'a list \<Rightarrow> 'a list list" where
  "chunks n xs = (if xs = [] \<or> n = 0 then [] else take n xs # chunks n (drop n xs))"
  by auto
termination by (relation "measure (\<lambda>(n, xs). length xs)") auto

declare chunks.simps [simp del]

lemma concat_chunks: "0 < n \<Longrightarrow> concat (chunks n xs) = xs"
  by (induction n xs rule: chunks.induct) (subst chunks.simps, simp)

lemma chunk_length: "c \<in> set (chunks n xs) \<Longrightarrow> 0 < length c \<and> length c \<le> n"
  by (induction n xs rule: chunks.induct) (subst (asm) (2) chunks.simps, auto split: if_splits)

text \<open>Grouping by a key in the order of first appearance.\<close>

primrec add_group :: "'k \<times> 'a \<Rightarrow> ('k \<times> 'a list) list \<Rightarrow> ('k \<times> 'a list) list" where
  "add_group p [] = [(fst p, [snd p])]"
| "add_group p (g # gs) = (if fst g = fst p then (fst g, snd g @ [snd p]) # gs else g # add_group p gs)"

definition groups_of :: "('k \<times> 'a) list \<Rightarrow> ('k \<times> 'a list) list" where
  "groups_of ps = fold add_group ps []"

definition in_group :: "'k \<Rightarrow> 'a \<Rightarrow> ('k \<times> 'a list) list \<Rightarrow> bool" where
  "in_group k x gs = list_ex (\<lambda>g. fst g = k \<and> x \<in> set (snd g)) gs"

lemma in_group_add: "in_group k x (add_group p gs) \<longleftrightarrow> (k, x) = p \<or> in_group k x gs"
  by (induction gs) (cases p; auto simp: in_group_def)+

lemma in_groups_of: "in_group k x (groups_of ps) \<longleftrightarrow> (k, x) \<in> set ps"
proof -
  have "in_group k x (fold add_group ps gs) \<longleftrightarrow> (k, x) \<in> set ps \<or> in_group k x gs" for gs
    by (induction ps arbitrary: gs) (auto simp: in_group_add)
  then show ?thesis by (simp add: groups_of_def in_group_def)
qed

section \<open>The symbol cache\<close>

text \<open>The instrument tokens of the contract table, with the fallbacks for indices.\<close>

definition get_token_from_cache :: "((string \<times> string) \<Rightarrow> string option) option \<Rightarrow> string \<Rightarrow> string \<Rightarrow> string option" where
  "get_token_from_cache cache sb exch =
     (case cache of
        None \<Rightarrow> None
      | Some m \<Rightarrow>
          (case m (sb, exch) of
             Some t \<Rightarrow> Some t
           | None \<Rightarrow>
               if exch \<in> {''BSE'', ''BSE_INDEX''} then map_of [(''SENSEX'', ''1''), (''BANKEX'', ''12''), (''SENSEX50'', ''118'')] sb
               else if exch \<in> {''NSE'', ''NSE_INDEX''}
               then map_of [(''NIFTY'', ''26000''), (''BANKNIFTY'', ''26009''), (''FINNIFTY'', ''26037''), (''MIDCPNIFTY'', ''26074''),
                 (''INDIAVIX'', ''26017'')] sb
               else None))"

end
