(* ===== verification/Market_Cache.thy ===== *)
theory Market_Cache
  imports Wire
begin

text \<open>
  The cache every tick goes through (\<open>src/backend/services/market_data_cache.py\<close>): validation of a
  tick, the last price, quote and ladder of every instrument, the subscribers in the order of their
  priorities, and the health of the feed with the gate for trade management. Times are seconds. A
  callback is recorded by the id of its subscriber; what it raises is logged by the code and passed
  over. The keys \<open>bids\<close> and \<open>asks\<close>, which nothing in the program sends, and the mirror in Redis are left
  out.
\<close>

section \<open>State\<close>

datatype conn_status = Disconnected | Connecting | Connected | Authenticated | Stale

datatype gate_reason = NoReason | ConnectionLost | NoTicksFor rat | NotAuthenticated conn_status

record ltp_snap =
  lp_value :: "field option"
  lp_timestamp :: field
  lp_volume :: field

record quote_snap =
  qs_open :: "field option"
  qs_high :: "field option"
  qs_low :: "field option"
  qs_close :: "field option"
  qs_ltp :: "field option"
  qs_volume :: field
  qs_change :: "field option"
  qs_change_percent :: "field option"
  qs_timestamp :: field

record depth_snap =
  ds_buy :: "book_level list"
  ds_sell :: "book_level list"
  ds_ltp :: "field option"
  ds_timestamp :: field

record cache_entry =
  ce_key :: string
  ce_symbol :: string
  ce_exchange :: string
  ce_last_update :: rat
  ce_ltp :: "ltp_snap option"
  ce_quote :: "quote_snap option"
  ce_depth :: "depth_snap option"

record subscriber =
  sb_id :: int
  sb_priority :: int
  sb_event :: string
  sb_filter :: "string list"

record market_cache =
  mc_entries :: "cache_entry list"
  mc_prices :: "string \<Rightarrow> flt option"
  mc_subs :: "subscriber list"
  mc_sub_id :: int
  mc_status :: conn_status
  mc_last_data :: rat
  mc_reconnects :: int
  mc_paused :: bool
  mc_reason :: gate_reason
  mc_updates :: int
  mc_errors :: int
  mc_stale :: int
  mc_hits :: int
  mc_misses :: int

definition fresh_cache :: market_cache where
  "fresh_cache = \<lparr>mc_entries = [], mc_prices = (\<lambda>_. None), mc_subs = [], mc_sub_id = 0, mc_status = Disconnected, mc_last_data = 0,
     mc_reconnects = 0, mc_paused = False, mc_reason = NoReason, mc_updates = 0, mc_errors = 0, mc_stale = 0, mc_hits = 0, mc_misses = 0\<rparr>"

definition max_data_gap_seconds :: rat where "max_data_gap_seconds = 30"

definition max_data_age_seconds :: rat where "max_data_age_seconds = 60"

definition max_price_change_percent :: rat where "max_price_change_percent = 20"

definition priority_critical :: int where "priority_critical = 1"

definition cache_key :: "string \<Rightarrow> string \<Rightarrow> string" where
  "cache_key sb exch = exch @ '':'' @ sb"

section \<open>Validation\<close>

datatype tick_error = NoSymbol | NoLtp | LtpType | LtpNotPositive

datatype tick_warning = DepthWithoutLtp | OldTimestamp | PriceJump

definition number_of :: "field \<Rightarrow> flt option" where
  "number_of f = (case f of FNum x \<Rightarrow> Some x | FInt n \<Rightarrow> Some (Fin (of_int n)) | _ \<Rightarrow> None)"

definition flt_nonpos :: "flt \<Rightarrow> bool" where
  "flt_nonpos x = (case x of Fin r \<Rightarrow> r \<le> 0 | NegInf \<Rightarrow> True | _ \<Rightarrow> False)"

definition ladder_of :: "tick \<Rightarrow> book_level list \<times> book_level list" where
  "ladder_of data = (case map_of data ''depth'' of Some (FBook b a) \<Rightarrow> (b, a) | _ \<Rightarrow> ([], []))"

text \<open>A timestamp in milliseconds is taken to seconds.\<close>

definition old_timestamp :: "rat \<Rightarrow> tick \<Rightarrow> bool" where
  "old_timestamp now data =
     (let ts = (case map_of data ''timestamp'' of
                  None \<Rightarrow> None | Some (FText t) \<Rightarrow> map_option Fin (py_float t) | Some f \<Rightarrow> number_of f)
      in case ts of
           Some (Fin x) \<Rightarrow> max_data_age_seconds < now - (if 10 ^ 12 < x then x / 1000 else x)
         | Some NegInf \<Rightarrow> True
         | _ \<Rightarrow> False)"

definition price_jump :: "flt option \<Rightarrow> flt \<Rightarrow> bool" where
  "price_jump prev ltp =
     (case (prev, ltp) of
        (Some (Fin l), Fin x) \<Rightarrow> 0 < l \<and> max_price_change_percent < \<bar>(x - l) / l\<bar> * 100
      | (Some (Fin l), PosInf) \<Rightarrow> 0 < l
      | _ \<Rightarrow> False)"

text \<open>The warnings are returned and read by nobody.\<close>

definition validate ::
  "rat \<Rightarrow> string \<Rightarrow> string \<Rightarrow> int option \<Rightarrow> tick \<Rightarrow> (string \<Rightarrow> flt option) \<Rightarrow> (tick_error + tick_warning list) \<times> (string \<Rightarrow> flt option)" where
  "validate now sb exch mode data prices =
     (let ltp = map_of data ''ltp'';
          unpriced = (case ltp of None \<Rightarrow> True | Some f \<Rightarrow> (case number_of f of Some x \<Rightarrow> flt_nonpos x | None \<Rightarrow> False))
      in if sb = [] \<or> exch = [] then (Inl NoSymbol, prices)
         else if mode = Some 3 \<and> ladder_of data \<noteq> ([], []) \<and> unpriced then (Inr [DepthWithoutLtp], prices)
         else case ltp of
           None \<Rightarrow> (Inl NoLtp, prices)
         | Some f \<Rightarrow>
             (case number_of f of
                None \<Rightarrow> (Inl LtpType, prices)
              | Some x \<Rightarrow>
                  if flt_nonpos x then (Inl LtpNotPositive, prices)
                  else
                    let key = cache_key sb exch in
                    (Inr ((if old_timestamp now data then [OldTimestamp] else []) @ (if price_jump (prices key) x then [PriceJump] else [])),
                     prices(key \<mapsto> x))))"

section \<open>Ticks\<close>

definition blank_entry :: "rat \<Rightarrow> string \<Rightarrow> string \<Rightarrow> cache_entry" where
  "blank_entry now sb exch = \<lparr>ce_key = cache_key sb exch, ce_symbol = sb, ce_exchange = exch, ce_last_update = now,
     ce_ltp = None, ce_quote = None, ce_depth = None\<rparr>"

definition field_or :: "tick \<Rightarrow> string \<Rightarrow> field \<Rightarrow> field" where
  "field_or data k f = (case map_of data k of Some g \<Rightarrow> g | None \<Rightarrow> f)"

definition ltp_of :: "rat \<Rightarrow> tick \<Rightarrow> ltp_snap" where
  "ltp_of now data = \<lparr>lp_value = map_of data ''ltp'', lp_timestamp = field_or data ''timestamp'' (FNum (Fin now)),
     lp_volume = field_or data ''volume'' (FInt 0)\<rparr>"

definition quote_of :: "rat \<Rightarrow> tick \<Rightarrow> quote_snap" where
  "quote_of now data = \<lparr>qs_open = map_of data ''open'', qs_high = map_of data ''high'', qs_low = map_of data ''low'',
     qs_close = map_of data ''close'', qs_ltp = map_of data ''ltp'', qs_volume = field_or data ''volume'' (FInt 0),
     qs_change = map_of data ''change'', qs_change_percent = map_of data ''change_percent'',
     qs_timestamp = field_or data ''timestamp'' (FNum (Fin now))\<rparr>"

definition depth_of :: "rat \<Rightarrow> tick \<Rightarrow> depth_snap" where
  "depth_of now data = \<lparr>ds_buy = fst (ladder_of data), ds_sell = snd (ladder_of data), ds_ltp = map_of data ''ltp'',
     ds_timestamp = field_or data ''timestamp'' (FNum (Fin now))\<rparr>"

definition update_entry :: "rat \<Rightarrow> int option \<Rightarrow> tick \<Rightarrow> cache_entry \<Rightarrow> cache_entry" where
  "update_entry now mode data en =
     (let en1 = (if mode = Some 1 then en\<lparr>ce_ltp := Some (ltp_of now data)\<rparr>
                 else if mode = Some 2 then en\<lparr>ce_quote := Some (quote_of now data), ce_ltp := Some (ltp_of now data)\<rparr>
                 else if mode = Some 3 then en\<lparr>ce_depth := Some (depth_of now data)\<rparr>
                 else en)
      in en1\<lparr>ce_last_update := now\<rparr>)"

definition event_of_mode :: "int option \<Rightarrow> string" where
  "event_of_mode mode =
     (if mode = Some 1 then ''ltp'' else if mode = Some 2 then ''quote'' else if mode = Some 3 then ''depth'' else ''all'')"

definition wants :: "string \<Rightarrow> string \<Rightarrow> subscriber \<Rightarrow> bool" where
  "wants key ev r \<longleftrightarrow> (sb_event r = ''all'' \<or> sb_event r = ev) \<and> (sb_filter r = [] \<or> key \<in> set (sb_filter r))"

text \<open>The subscribers called, in this order.\<close>

definition cache_broadcast :: "string \<Rightarrow> int option \<Rightarrow> market_cache \<Rightarrow> int list" where
  "cache_broadcast key mode c = map sb_id (filter (wants key (event_of_mode mode)) (sort_key sb_priority (mc_subs c)))"

definition revive :: "market_cache \<Rightarrow> market_cache" where
  "revive c = (if mc_status c = Stale then c\<lparr>mc_status := Authenticated, mc_paused := False, mc_reason := NoReason\<rparr> else c)"

definition process_market_data ::
  "rat \<Rightarrow> string \<Rightarrow> string \<Rightarrow> int option \<Rightarrow> tick \<Rightarrow> market_cache \<Rightarrow> (bool \<times> int list) \<times> market_cache" where
  "process_market_data now sb exch mode data c =
     (case validate now sb exch mode data (mc_prices c) of
        (Inl e, prices) \<Rightarrow> ((False, []), c\<lparr>mc_errors := mc_errors c + 1\<rparr>)
      | (Inr ws, prices) \<Rightarrow>
          let key = cache_key sb exch;
              en = (case get_row ce_key key (mc_entries c) of Some en \<Rightarrow> en | None \<Rightarrow> blank_entry now sb exch);
              d = revive (c\<lparr>mc_prices := prices, mc_entries := put_row ce_key (update_entry now mode data en) (mc_entries c),
                     mc_updates := mc_updates c + 1, mc_last_data := now\<rparr>)
          in ((True, cache_broadcast key mode d), d))"

section \<open>Subscribers\<close>

definition cache_subscribe :: "int \<Rightarrow> string \<Rightarrow> string list \<Rightarrow> market_cache \<Rightarrow> int \<times> market_cache" where
  "cache_subscribe priority ev flt c =
     (let i = mc_sub_id c + 1
      in (i, c\<lparr>mc_sub_id := i, mc_subs := mc_subs c @ [\<lparr>sb_id = i, sb_priority = priority, sb_event = ev, sb_filter = flt\<rparr>]\<rparr>))"

definition subscribe_critical :: "string list \<Rightarrow> market_cache \<Rightarrow> int \<times> market_cache" where
  "subscribe_critical flt c = cache_subscribe priority_critical ''ltp'' flt c"

definition cache_unsubscribe :: "int \<Rightarrow> market_cache \<Rightarrow> bool \<times> market_cache" where
  "cache_unsubscribe i c = (\<exists>r \<in> set (mc_subs c). sb_id r = i, c\<lparr>mc_subs := filter (\<lambda>r. sb_id r \<noteq> i) (mc_subs c)\<rparr>)"

section \<open>Reads\<close>

definition cache_read :: "(cache_entry \<Rightarrow> 'a option) \<Rightarrow> string \<Rightarrow> string \<Rightarrow> market_cache \<Rightarrow> 'a option \<times> market_cache" where
  "cache_read f sb exch c =
     (case get_row ce_key (cache_key sb exch) (mc_entries c) of
        Some en \<Rightarrow> (f en, c\<lparr>mc_hits := mc_hits c + 1\<rparr>)
      | None \<Rightarrow> (None, c\<lparr>mc_misses := mc_misses c + 1\<rparr>))"

definition cache_get_ltp :: "string \<Rightarrow> string \<Rightarrow> market_cache \<Rightarrow> ltp_snap option \<times> market_cache" where
  "cache_get_ltp = cache_read ce_ltp"

definition cache_get_quote :: "string \<Rightarrow> string \<Rightarrow> market_cache \<Rightarrow> quote_snap option \<times> market_cache" where
  "cache_get_quote = cache_read ce_quote"

definition cache_get_depth :: "string \<Rightarrow> string \<Rightarrow> market_cache \<Rightarrow> depth_snap option \<times> market_cache" where
  "cache_get_depth = cache_read ce_depth"

definition get_ltp_value :: "string \<Rightarrow> string \<Rightarrow> market_cache \<Rightarrow> field option \<times> market_cache" where
  "get_ltp_value sb exch c = (let (d, c1) = cache_get_ltp sb exch c in (Option.bind d lp_value, c1))"

section \<open>Health\<close>

definition set_connected :: "bool \<Rightarrow> bool \<Rightarrow> market_cache \<Rightarrow> market_cache" where
  "set_connected conn auth c =
     (let prev = mc_status c in
      if conn
      then
        let c1 = c\<lparr>mc_status := (if auth then Authenticated else Connected)\<rparr> in
        if prev = Disconnected \<or> prev = Stale
        then c1\<lparr>mc_reconnects := (if prev = Stale then mc_reconnects c + 1 else mc_reconnects c), mc_paused := False, mc_reason := NoReason\<rparr>
        else c1
      else c\<lparr>mc_reconnects := (if prev = Connected \<or> prev = Authenticated then mc_reconnects c + 1 else mc_reconnects c),
             mc_status := Disconnected, mc_paused := True, mc_reason := ConnectionLost, mc_stale := mc_stale c + 1\<rparr>)"

definition is_data_fresh :: "rat \<Rightarrow> (string \<times> string) option \<Rightarrow> rat \<Rightarrow> market_cache \<Rightarrow> bool" where
  "is_data_fresh now item max_age c =
     (if mc_last_data c = 0 then False
      else if max_age \<le> now - mc_last_data c then False
      else case item of
        Some (sb, exch) \<Rightarrow>
          if sb = [] \<or> exch = [] then True
          else (case get_row ce_key (cache_key sb exch) (mc_entries c) of
                  None \<Rightarrow> False | Some en \<Rightarrow> now - ce_last_update en < max_age)
      | None \<Rightarrow> True)"

definition is_trade_management_safe :: "rat \<Rightarrow> market_cache \<Rightarrow> bool \<times> gate_reason" where
  "is_trade_management_safe now c =
     (if mc_paused c then (False, mc_reason c)
      else if mc_status c \<noteq> Authenticated then (False, NotAuthenticated (mc_status c))
      else
        let age = (if mc_last_data c \<noteq> 0 then now - mc_last_data c else - 1) in
        if age < 0 \<or> max_data_gap_seconds \<le> age then (False, NoTicksFor age) else (True, NoReason))"

definition health_pass :: "rat \<Rightarrow> market_cache \<Rightarrow> market_cache" where
  "health_pass now c =
     (let age = now - mc_last_data c in
      if mc_status c = Authenticated \<and> 0 < mc_last_data c \<and> max_data_gap_seconds < age
      then c\<lparr>mc_status := Stale, mc_paused := True, mc_reason := NoTicksFor age, mc_stale := mc_stale c + 1\<rparr>
      else c)"

record health_status =
  hl_healthy :: bool
  hl_connected :: bool
  hl_authenticated :: bool
  hl_age :: rat
  hl_cache_size :: nat
  hl_total_subscribers :: nat
  hl_critical_subscribers :: nat

definition get_health_status :: "rat \<Rightarrow> market_cache \<Rightarrow> health_status" where
  "get_health_status now c =
     (let age = (if mc_last_data c \<noteq> 0 then now - mc_last_data c else 0); authed = mc_status c = Authenticated in
      \<lparr>hl_healthy = (authed \<and> 0 < mc_last_data c \<and> age < max_data_gap_seconds),
       hl_connected = (mc_status c = Connected \<or> authed), hl_authenticated = authed,
       hl_age = (if mc_last_data c \<noteq> 0 then pyround age 2 else 0), hl_cache_size = length (mc_entries c),
       hl_total_subscribers = length (mc_subs c),
       hl_critical_subscribers = length (filter (\<lambda>r. sb_priority r = priority_critical) (mc_subs c))\<rparr>)"

text \<open>The share of reads that found an entry, in percent.\<close>

definition hit_rate :: "market_cache \<Rightarrow> rat" where
  "hit_rate c = (let total = mc_hits c + mc_misses c in if total \<noteq> 0 then pyround (of_int (mc_hits c) / of_int total * 100) 2 else 0)"

end
