(* ===== verification/Ws_Proxy.thy ===== *)
theory Ws_Proxy
  imports Market_Cache Py_Text Py_Json
begin

text \<open>
  The websocket proxy (\<open>src/backend/websocket_proxy/server.py\<close>): clients that authenticate and
  subscribe, the adapter of the broker behind them, and the listener that takes what the adapter
  publishes through the cache to the clients. The adapter is the record of its operations on a state of
  its own; checking an api key, and whether an adapter can be created and connected, are parameters. A
  message that makes its handler raise closes the connection. Sending to a client does not fail.
\<close>

section \<open>Topics\<close>

fun split_on :: "char \<Rightarrow> string \<Rightarrow> string list" where
  "split_on d [] = [[]]"
| "split_on d (c # cs) =
     (if c = d then [] # split_on d cs else case split_on d cs of [] \<Rightarrow> [[c]] | x # xs \<Rightarrow> (c # x) # xs)"

fun join_on :: "char \<Rightarrow> string list \<Rightarrow> string" where
  "join_on d [] = []"
| "join_on d [x] = x"
| "join_on d (x # y # zs) = x @ d # join_on d (y # zs)"

definition mode_map :: "(string \<times> int) list" where
  "mode_map = [(''LTP'', 1), (''QUOTE'', 2), (''DEPTH'', 3), (''FULL'', 3)]"

definition mode_name :: "int \<Rightarrow> string option" where
  "mode_name mode = map_of [(1, ''LTP''), (2, ''QUOTE''), (3, ''DEPTH'')] mode"

definition index_exchanges :: "string list" where
  "index_exchanges = [''NSE_INDEX'', ''BSE_INDEX'', ''MCX_INDEX'', ''GLOBAL_INDEX'']"

text \<open>Symbol, exchange and mode of a topic.\<close>

definition parse_topic :: "string \<Rightarrow> (string \<times> string \<times> int) option" where
  "parse_topic t =
     (let segs = split_on (CHR ''_'') t; two = segs ! 0 @ ''_'' @ segs ! 1 in
      if length segs < 3 then None
      else case map_of mode_map (last segs) of
        None \<Rightarrow> None
      | Some m \<Rightarrow>
          if 4 \<le> length segs \<and> two \<in> set index_exchanges then Some (join_on (CHR ''_'') (butlast (drop 2 segs)), two, m)
          else Some (join_on (CHR ''_'') (butlast (drop 1 segs)), segs ! 0, m))"

section \<open>State\<close>

type_synonym client = string

type_synonym index_key = "jval \<times> jval \<times> int"

record index_row =
  ix_key :: index_key
  ix_clients :: "client list"

record 'a adapter_ops =
  ao_subscribe :: "(string \<times> string) list \<Rightarrow> int \<Rightarrow> 'a \<Rightarrow> 'a"
  ao_unsubscribe :: "(string \<times> string) list \<Rightarrow> int \<Rightarrow> 'a \<Rightarrow> 'a"
  ao_fatal :: "'a \<Rightarrow> bool"
  ao_token :: "'a \<Rightarrow> string"

record 'a proxy =
  px_adapter :: "'a option"
  px_clients :: "client list"
  px_authed :: "client list"
  px_index :: "index_row list"
  px_last_send :: "string \<times> string \<Rightarrow> rat"
  px_cache :: market_cache

text \<open>What a message meets outside: the token and broker of an api key, the adapter that could be created
  and connected, and the clock.\<close>

record 'a proxy_env =
  pe_verify :: "string \<Rightarrow> (string \<times> string) option"
  pe_create :: "string \<Rightarrow> string \<Rightarrow> 'a option"
  pe_time :: rat

datatype frame = Reply "(string \<times> json) list" | MarketData string string field tick

definition max_ws_connections :: nat where "max_ws_connections = 10"

definition max_symbols_per_subscribe :: nat where "max_symbols_per_subscribe = 1000"

definition ltp_throttle_sec :: rat where "ltp_throttle_sec = 1 / 20"

section \<open>The subscription index\<close>

definition ins_client :: "client \<Rightarrow> client list \<Rightarrow> client list" where
  "ins_client c cs = (if c \<in> set cs then cs else cs @ [c])"

definition index_at :: "index_key \<Rightarrow> index_row list \<Rightarrow> client list" where
  "index_at k idx = (case get_row ix_key k idx of Some r \<Rightarrow> ix_clients r | None \<Rightarrow> [])"

definition index_add :: "index_key \<Rightarrow> client \<Rightarrow> index_row list \<Rightarrow> index_row list" where
  "index_add k c idx = put_row ix_key \<lparr>ix_key = k, ix_clients = ins_client c (index_at k idx)\<rparr> idx"

text \<open>A key whose last client goes is deleted.\<close>

definition index_drop :: "index_key \<Rightarrow> client \<Rightarrow> index_row list \<Rightarrow> index_row list" where
  "index_drop k c idx =
     (let cs = filter (\<lambda>x. x \<noteq> c) (index_at k idx) in
      if index_at k idx = [] then idx
      else if cs = [] then filter (\<lambda>r. ix_key r \<noteq> k) idx
      else put_row ix_key \<lparr>ix_key = k, ix_clients = cs\<rparr> idx)"

definition index_forget :: "client \<Rightarrow> index_row list \<Rightarrow> index_row list" where
  "index_forget c idx = fold (\<lambda>k. index_drop k c) (map ix_key idx) idx"

text \<open>The key of an item: it must be an object, and a symbol or exchange that is a list or an object cannot
  be hashed.\<close>

definition item_key :: "json \<Rightarrow> exn + (jval \<times> jval) option" where
  "item_key item =
     (case item of
        JObj kvs \<Rightarrow>
          if json_truthy (get_field ''symbol'' kvs) \<and> json_truthy (get_field ''exchange'' kvs)
          then (case (get_field ''symbol'' kvs, get_field ''exchange'' kvs) of
                  (JVal a, JVal b) \<Rightarrow> Inr (Some (a, b)) | _ \<Rightarrow> Inl TypeError)
          else Inr None
      | _ \<Rightarrow> Inl TypeError)"

text \<open>What of the items an adapter can find in the symbol cache.\<close>

definition text_item :: "json \<Rightarrow> (string \<times> string) option" where
  "text_item item = (case item_key item of Inr (Some (JStr a, JStr b)) \<Rightarrow> Some (a, b) | _ \<Rightarrow> None)"

fun index_items :: "client \<Rightarrow> int \<Rightarrow> json list \<Rightarrow> index_row list \<Rightarrow> (exn + unit) \<times> index_row list" where
  "index_items c mode [] idx = (Inr (), idx)"
| "index_items c mode (item # items) idx =
     (case item_key item of
        Inl e \<Rightarrow> (Inl e, idx)
      | Inr None \<Rightarrow> index_items c mode items idx
      | Inr (Some (a, b)) \<Rightarrow> index_items c mode items (index_add (a, b, mode) c idx))"

text \<open>Items whose key has lost its last client are to be unsubscribed upstream.\<close>

fun drop_items :: "client \<Rightarrow> int \<Rightarrow> json list \<Rightarrow> index_row list \<Rightarrow> (exn + json list) \<times> index_row list" where
  "drop_items c mode [] idx = (Inr [], idx)"
| "drop_items c mode (item # items) idx =
     (case item_key item of
        Inl e \<Rightarrow> (Inl e, idx)
      | Inr None \<Rightarrow> drop_items c mode items idx
      | Inr (Some (a, b)) \<Rightarrow>
          (let idx1 = index_drop (a, b, mode) c idx;
               gone = index_at (a, b, mode) idx \<noteq> [] \<and> index_at (a, b, mode) idx1 = []
           in case drop_items c mode items idx1 of
                (Inl e, idx2) \<Rightarrow> (Inl e, idx2)
              | (Inr js, idx2) \<Rightarrow> (Inr (if gone then item # js else js), idx2)))"

section \<open>Clients\<close>

text \<open>A handled message: whether the connection goes on, the answers, the new state.\<close>

type_synonym 'a handled_message = "bool \<times> frame list \<times> 'a proxy"

definition ack :: "(string \<times> json) list \<Rightarrow> (string \<times> json) list \<Rightarrow> frame" where
  "ack msg payload = Reply (case get_field ''request_id'' msg of JVal JNone \<Rightarrow> payload | r \<Rightarrow> payload @ [(''request_id'', r)])"

definition error_reply :: "string \<Rightarrow> string \<Rightarrow> (string \<times> json) list" where
  "error_reply typ m = [(''type'', JText typ), (''status'', JText ''error''), (''message'', JText m)]"

text \<open>The adapter kept, or none when it failed or serves another token.\<close>

definition kept_adapter :: "'a adapter_ops \<Rightarrow> string \<Rightarrow> 'a option \<Rightarrow> 'a option" where
  "kept_adapter ops tok ad =
     (case ad of None \<Rightarrow> None | Some a \<Rightarrow> if ao_fatal ops a \<or> ao_token ops a \<noteq> tok then None else Some a)"

definition authenticate ::
  "'a adapter_ops \<Rightarrow> 'a proxy_env \<Rightarrow> client \<Rightarrow> (string \<times> json) list \<Rightarrow> 'a proxy \<Rightarrow> 'a handled_message" where
  "authenticate ops e c msg s =
     (case get_field ''api_key'' msg of
        JVal (JStr key) \<Rightarrow>
          if key = [] then (True, [ack msg (error_reply ''auth'' ''api_key required'')], s)
          else (case pe_verify e key of
            None \<Rightarrow> (True, [ack msg (error_reply ''auth'' ''Authentication failed'')], s)
          | Some (tok, broker) \<Rightarrow>
              (let s1 = s\<lparr>px_authed := ins_client c (px_authed s)\<rparr>;
                   ok = ack msg [(''type'', JText ''auth''), (''status'', JText ''success''), (''broker'', JText broker)]
               in case kept_adapter ops tok (px_adapter s) of
                    Some a \<Rightarrow> (True, [ok], s1)
                  | None \<Rightarrow>
                      (case pe_create e broker tok of
                         Some a \<Rightarrow> (True, [ok], s1\<lparr>px_adapter := Some a, px_cache := set_connected True True (px_cache s)\<rparr>)
                       | None \<Rightarrow> (True, [ack msg (error_reply ''auth'' ''Broker connection failed'')],
                                  s1\<lparr>px_adapter := None, px_cache := set_connected False False (px_cache s)\<rparr>))))
      | v \<Rightarrow> if json_truthy v then (False, [], s) else (True, [ack msg (error_reply ''auth'' ''api_key required'')], s))"

text \<open>The mode of a message; a mode that is no text raises.\<close>

definition message_mode :: "(string \<times> json) list \<Rightarrow> exn + int" where
  "message_mode msg =
     (case map_of msg ''mode'' of
        None \<Rightarrow> Inr 1
      | Some (JVal (JStr t)) \<Rightarrow> Inr (case map_of mode_map (upper t) of Some m \<Rightarrow> m | None \<Rightarrow> 1)
      | Some v \<Rightarrow> Inl TypeError)"

definition subscription_of :: "int \<Rightarrow> json \<Rightarrow> json option" where
  "subscription_of mode item =
     (case item of
        JObj kvs \<Rightarrow>
          if json_truthy (get_field ''symbol'' kvs) \<and> json_truthy (get_field ''exchange'' kvs)
          then Some (JObj [(''symbol'', get_field ''symbol'' kvs), (''exchange'', get_field ''exchange'' kvs),
                 (''mode'', case mode_name mode of Some m \<Rightarrow> JText m | None \<Rightarrow> JNull)])
          else None
      | _ \<Rightarrow> None)"

definition ws_subscribe :: "'a adapter_ops \<Rightarrow> client \<Rightarrow> (string \<times> json) list \<Rightarrow> 'a proxy \<Rightarrow> 'a handled_message" where
  "ws_subscribe ops c msg s =
     (case px_adapter s of
        None \<Rightarrow> (True, [ack msg (error_reply ''subscribe'' ''Not authenticated'')], s)
      | Some a \<Rightarrow>
          if c \<notin> set (px_authed s) then (True, [ack msg (error_reply ''subscribe'' ''Not authenticated'')], s)
          else case (case map_of msg ''symbols'' of None \<Rightarrow> JArr [] | Some v \<Rightarrow> v) of
            JArr items \<Rightarrow>
              if max_symbols_per_subscribe < length items
              then (True, [ack msg (error_reply ''subscribe'' ''symbols must be a list (max 1000)'')], s)
              else (case message_mode msg of
                Inl x \<Rightarrow> (False, [], s)
              | Inr mode \<Rightarrow>
                  (case index_items c mode items (px_index s) of
                     (Inl x, idx) \<Rightarrow> (False, [], s\<lparr>px_index := idx\<rparr>)
                   | (Inr _, idx) \<Rightarrow>
                       (True, [ack msg [(''type'', JText ''subscribe''), (''status'', JText ''success''),
                                (''subscriptions'', JArr (List.map_filter (subscription_of mode) items))]],
                        s\<lparr>px_index := idx, px_adapter := Some (ao_subscribe ops (List.map_filter text_item items) mode a)\<rparr>)))
          | v \<Rightarrow> (True, [ack msg (error_reply ''subscribe'' ''symbols must be a list (max 1000)'')], s))"

text \<open>The loop over the symbols of an unsubscribe takes anything it can iterate over: an empty text or object
  has no items, the keys of an object and the letters of a text are no objects.\<close>

definition iterated :: "json \<Rightarrow> exn + json list" where
  "iterated v =
     (case v of
        JArr items \<Rightarrow> Inr items
      | JObj kvs \<Rightarrow> if kvs = [] then Inr [] else Inl TypeError
      | JVal (JStr t) \<Rightarrow> if t = [] then Inr [] else Inl TypeError
      | _ \<Rightarrow> Inl TypeError)"

definition ws_unsubscribe :: "'a adapter_ops \<Rightarrow> client \<Rightarrow> (string \<times> json) list \<Rightarrow> 'a proxy \<Rightarrow> 'a handled_message" where
  "ws_unsubscribe ops c msg s =
     (case px_adapter s of
        None \<Rightarrow> (True, [ack msg (error_reply ''unsubscribe'' ''Not authenticated'')], s)
      | Some a \<Rightarrow>
          if c \<notin> set (px_authed s) then (True, [ack msg (error_reply ''unsubscribe'' ''Not authenticated'')], s)
          else case (message_mode msg, iterated (case map_of msg ''symbols'' of None \<Rightarrow> JArr [] | Some v \<Rightarrow> v)) of
            (Inr mode, Inr items) \<Rightarrow>
              (case drop_items c mode items (px_index s) of
                 (Inl x, idx) \<Rightarrow> (False, [], s\<lparr>px_index := idx\<rparr>)
               | (Inr gone, idx) \<Rightarrow>
                   (True, [ack msg [(''type'', JText ''unsubscribe''), (''status'', JText ''success'')]],
                    s\<lparr>px_index := idx,
                      px_adapter := Some (if gone = [] then a else ao_unsubscribe ops (List.map_filter text_item gone) mode a)\<rparr>))
          | _ \<Rightarrow> (False, [], s))"

definition pong :: "'a proxy_env \<Rightarrow> (string \<times> json) list \<Rightarrow> frame" where
  "pong e msg =
     (let p = [(''type'', JText ''pong''), (''timestamp'', JVal (JInt \<lfloor>pe_time e * 1000\<rfloor>))]
      in Reply (case get_field ''_pingId'' msg of JVal JNone \<Rightarrow> p | i \<Rightarrow> p @ [(''_pingId'', i)]))"

text \<open>One message of a client, parsed; a text that does not parse is \<open>None\<close>.\<close>

definition handle_message ::
  "'a adapter_ops \<Rightarrow> 'a proxy_env \<Rightarrow> client \<Rightarrow> json option \<Rightarrow> 'a proxy \<Rightarrow> 'a handled_message" where
  "handle_message ops e c raw s =
     (case raw of
        None \<Rightarrow> (True, [Reply [(''type'', JText ''error''), (''message'', JText ''Invalid JSON'')]], s)
      | Some (JObj msg) \<Rightarrow>
          (let act = get_field ''action'' msg in
           if act = JText ''authenticate'' then authenticate ops e c msg s
           else if act = JText ''subscribe'' then ws_subscribe ops c msg s
           else if act = JText ''unsubscribe'' then ws_unsubscribe ops c msg s
           else if act = JText ''ping'' then (True, [pong e msg], s)
           else (True, [Reply [(''type'', JText ''error''), (''message'', JText ''Unknown action'')]], s))
      | Some v \<Rightarrow> (False, [], s))"

text \<open>A connection opens unless there are ten, and leaves nothing behind when it closes.\<close>

definition client_open :: "client \<Rightarrow> 'a proxy \<Rightarrow> bool \<times> 'a proxy" where
  "client_open c s =
     (if max_ws_connections \<le> length (px_clients s) then (False, s) else (True, s\<lparr>px_clients := px_clients s @ [c]\<rparr>))"

definition client_close :: "client \<Rightarrow> 'a proxy \<Rightarrow> 'a proxy" where
  "client_close c s =
     s\<lparr>px_clients := filter (\<lambda>x. x \<noteq> c) (px_clients s), px_authed := filter (\<lambda>x. x \<noteq> c) (px_authed s),
       px_index := index_forget c (px_index s)\<rparr>"

definition client_message ::
  "'a adapter_ops \<Rightarrow> 'a proxy_env \<Rightarrow> client \<Rightarrow> json option \<Rightarrow> 'a proxy \<Rightarrow> frame list \<times> 'a proxy" where
  "client_message ops e c raw s =
     (case handle_message ops e c raw s of
        (True, out, t) \<Rightarrow> (out, t) | (False, out, t) \<Rightarrow> (out, client_close c t))"

section \<open>The listener\<close>

text \<open>The clients a tick goes to: those subscribed in its mode or a lower one, each once.\<close>

definition receivers :: "string \<Rightarrow> string \<Rightarrow> int \<Rightarrow> index_row list \<Rightarrow> client list" where
  "receivers sb exch mode idx = remdups (concat (map (\<lambda>m. index_at (JStr sb, JStr exch, m) idx) [1..mode]))"

definition throttled :: "rat \<Rightarrow> string \<Rightarrow> string \<Rightarrow> int \<Rightarrow> 'a proxy \<Rightarrow> bool" where
  "throttled tm sb exch mode s \<longleftrightarrow> mode = 1 \<and> tm - px_last_send s (sb, exch) < ltp_throttle_sec"

record 'a heard =
  hd_sent :: "(client \<times> frame) list"
  hd_called :: "int list"
  hd_proxy :: "'a proxy"

definition proxy_listen :: "rat \<Rightarrow> rat \<Rightarrow> publication \<Rightarrow> 'a proxy \<Rightarrow> 'a heard" where
  "proxy_listen tm now pub s =
     (case parse_topic (fst pub) of
        None \<Rightarrow> \<lparr>hd_sent = [], hd_called = [], hd_proxy = s\<rparr>
      | Some (sb, exch, mode) \<Rightarrow>
          if throttled tm sb exch mode s then \<lparr>hd_sent = [], hd_called = [], hd_proxy = s\<rparr>
          else
            let s1 = (if mode = 1 then s\<lparr>px_last_send := (px_last_send s)((sb, exch) := tm)\<rparr> else s);
                data = snd pub;
                ((ok, called), cache) = process_market_data now sb exch (Some mode) data (px_cache s1);
                name = (case map_of data ''mode'' of Some f \<Rightarrow> f
                        | None \<Rightarrow> FText (lower (case mode_name mode of Some m \<Rightarrow> m | None \<Rightarrow> ''ltp'')));
                cs = filter (\<lambda>c. c \<in> set (px_clients s)) (receivers sb exch mode (px_index s))
            in \<lparr>hd_sent = map (\<lambda>c. (c, MarketData sb exch name data)) cs, hd_called = called, hd_proxy = s1\<lparr>px_cache := cache\<rparr>\<rparr>)"

definition proxy_shutdown :: "'a proxy \<Rightarrow> 'a proxy" where
  "proxy_shutdown s =
     \<lparr>px_adapter = None, px_clients = [], px_authed = [], px_index = [], px_last_send = (\<lambda>_. 0),
      px_cache = (case px_adapter s of None \<Rightarrow> px_cache s | Some a \<Rightarrow> set_connected False False (px_cache s))\<rparr>"

definition fresh_proxy :: "'a proxy" where
  "fresh_proxy = \<lparr>px_adapter = None, px_clients = [], px_authed = [], px_index = [], px_last_send = (\<lambda>_. 0), px_cache = fresh_cache\<rparr>"

end
