(* ===== verification/Dhan_Feed.thy ===== *)
theory Dhan_Feed
  imports Wire Py_Text
begin

text \<open>
  The streaming adapter of the broker Dhan (\<open>src/backend/broker/dhan/streaming/dhan_adapter.py\<close> and
  \<open>dhan_mapping.py\<close>): its subscription table, the queue that batches subscribe messages, and the
  parsing of binary frames into published ticks. A frame is a run of packets, each with a header of
  eight bytes that gives the packet's length. The socket, the threads with their timers and the
  reconnecting loop are left out; the messages sent upstream are recorded.
\<close>

section \<open>Exchanges\<close>

definition mode_ltp :: int where "mode_ltp = 1"

definition mode_quote :: int where "mode_quote = 2"

definition mode_depth :: int where "mode_depth = 3"

definition dhan_exchange_map :: "(string \<times> string) list" where
  "dhan_exchange_map = [(''NSE'', ''NSE_EQ''), (''BSE'', ''BSE_EQ''), (''NFO'', ''NSE_FNO''), (''BFO'', ''BSE_FNO''),
     (''MCX'', ''MCX_COMM''), (''CDS'', ''NSE_CURRENCY''), (''BCD'', ''BSE_CURRENCY''), (''NSE_INDEX'', ''IDX_I''), (''BSE_INDEX'', ''IDX_I'')]"

definition get_dhan_exchange :: "string \<Rightarrow> string option" where
  "get_dhan_exchange exch = map_of dhan_exchange_map exch"

definition segment_to_exchange :: "(int \<times> string) list" where
  "segment_to_exchange = [(0, ''NSE_INDEX''), (1, ''NSE''), (2, ''NFO''), (3, ''CDS''), (4, ''BSE''), (5, ''MCX''), (7, ''BCD''), (8, ''BFO'')]"

definition get_segment_from_exchange :: "string \<Rightarrow> int option" where
  "get_segment_from_exchange exch =
     (if exch = ''BSE_INDEX'' then Some 0 else map_of (map (\<lambda>(a, b). (b, a)) segment_to_exchange) exch)"

definition dhan_mode :: "int \<Rightarrow> string option" where
  "dhan_mode mode = map_of [(mode_ltp, ''TICKER''), (mode_quote, ''QUOTE''), (mode_depth, ''FULL'')] mode"

fun strip_token_suffix :: "string \<Rightarrow> string" where
  "strip_token_suffix t =
     (if take 4 t = ''::::'' then [] else case t of [] \<Rightarrow> [] | c # cs \<Rightarrow> c # strip_token_suffix cs)"

declare strip_token_suffix.simps [simp del]

section \<open>Subscriptions\<close>

type_synonym dhan_key = "string \<times> string"

record dhan_sub =
  dk_key :: dhan_key
  dk_mode :: int
  dk_symbol :: string
  dk_exchange :: string

record dhan =
  da_connected :: bool
  da_subs :: "dhan_sub list"
  da_queue :: "(string \<times> dhan_key) list"
  da_sent :: "(string \<times> dhan_key list) list"

definition max_instruments_per_request :: nat where "max_instruments_per_request = 100"

type_synonym token_lookup = "string \<Rightarrow> string \<Rightarrow> string option"

definition dhan_key_of :: "token_lookup \<Rightarrow> string \<times> string \<Rightarrow> dhan_key option" where
  "dhan_key_of tokens item =
     (case item of
        (sb, exch) \<Rightarrow>
          if sb = [] \<or> exch = [] then None
          else case tokens sb exch of
            None \<Rightarrow> None
          | Some t \<Rightarrow> if t = [] then None else map_option (\<lambda>seg. (seg, strip_token_suffix t)) (get_dhan_exchange exch))"

definition dhan_add :: "token_lookup \<Rightarrow> int \<Rightarrow> string \<times> string \<Rightarrow> dhan_sub list \<Rightarrow> dhan_sub list" where
  "dhan_add tokens mode item subs =
     (case dhan_key_of tokens item of
        None \<Rightarrow> subs
      | Some k \<Rightarrow>
          let current = (case get_row dk_key k subs of Some r \<Rightarrow> dk_mode r | None \<Rightarrow> 0)
          in put_row dk_key \<lparr>dk_key = k, dk_mode = max current mode, dk_symbol = fst item, dk_exchange = snd item\<rparr> subs)"

definition dhan_subscribe :: "token_lookup \<Rightarrow> (string \<times> string) list \<Rightarrow> int \<Rightarrow> dhan \<Rightarrow> dhan" where
  "dhan_subscribe tokens items mode s =
     (case dhan_mode mode of
        None \<Rightarrow> s
      | Some dm \<Rightarrow>
          let new_items = List.map_filter (\<lambda>x. map_option (\<lambda>k. (dm, k)) (dhan_key_of tokens x)) items;
              t = s\<lparr>da_subs := fold (dhan_add tokens mode) items (da_subs s)\<rparr>
          in if \<not> da_connected t \<or> new_items = [] then t else t\<lparr>da_queue := da_queue t @ new_items\<rparr>)"

definition dhan_send_subscribe :: "string \<Rightarrow> dhan_key list \<Rightarrow> dhan \<Rightarrow> dhan" where
  "dhan_send_subscribe dm ks s =
     s\<lparr>da_sent := da_sent s @ map (\<lambda>c. (dm, c)) (chunks max_instruments_per_request ks)\<rparr>"

definition dhan_flush :: "dhan \<Rightarrow> dhan" where
  "dhan_flush s =
     (let t = s\<lparr>da_queue := []\<rparr> in
      if da_queue s = [] \<or> \<not> da_connected s then t
      else fold (\<lambda>(dm, ks). dhan_send_subscribe dm ks) (groups_of (da_queue s)) t)"

definition dhan_unsubscribe :: "token_lookup \<Rightarrow> (string \<times> string) list \<Rightarrow> dhan \<Rightarrow> dhan" where
  "dhan_unsubscribe tokens items s =
     (let targets = List.map_filter (dhan_key_of tokens) items
      in s\<lparr>da_subs := filter (\<lambda>r. dk_key r \<notin> set targets) (da_subs s),
           da_queue := filter (\<lambda>x. snd x \<notin> set targets) (da_queue s)\<rparr>)"

definition dhan_on_open :: "dhan \<Rightarrow> dhan" where
  "dhan_on_open s =
     (let wanted = List.map_filter (\<lambda>r. map_option (\<lambda>dm. (dm, dk_key r)) (dhan_mode (dk_mode r))) (da_subs s)
      in fold (\<lambda>(dm, ks). dhan_send_subscribe dm ks) (groups_of wanted) (s\<lparr>da_connected := True\<rparr>))"

definition dhan_on_close :: "dhan \<Rightarrow> dhan" where
  "dhan_on_close s = s\<lparr>da_connected := False\<rparr>"

definition dhan_disconnect :: "dhan \<Rightarrow> dhan" where
  "dhan_disconnect s = s\<lparr>da_connected := False, da_queue := [], da_subs := []\<rparr>"

section \<open>Frames\<close>

record dhan_packet =
  dp_code :: int
  dp_segment :: int
  dp_security :: int
  dp_payload :: bytes

definition dhan_header :: "bytes \<Rightarrow> nat \<Rightarrow> int \<times> nat \<times> int \<times> int" where
  "dhan_header data off =
     (le_value (slice off (off + 1) data), nat (le_value (slice (off + 1) (off + 3) data)),
      le_value (slice (off + 3) (off + 4) data), le_value (slice (off + 4) (off + 8) data))"

text \<open>The loop over the packets of a frame; it goes on from the end that the header's length gives.\<close>

partial_function (option) dhan_packets :: "bytes \<Rightarrow> nat \<Rightarrow> dhan_packet list \<Rightarrow> dhan_packet list option" where
  "dhan_packets data off acc =
     (if length data < off + 8 then Some acc
      else case dhan_header data off of
        (code, len, segment, security) \<Rightarrow>
          if length data < off + len then Some acc
          else if code = 0 then dhan_packets data (off + len) acc
          else dhan_packets data (off + len)
                 (acc @ [\<lparr>dp_code = code, dp_segment = segment, dp_security = security,
                          dp_payload = slice (off + 8) (off + len) data\<rparr>]))"

text \<open>The first subscription of the security id whose segment fits or is unknown, then the shared cache.\<close>

definition dhan_resolve :: "(string \<Rightarrow> (string \<times> string) option) \<Rightarrow> dhan_sub list \<Rightarrow> int \<Rightarrow> int \<Rightarrow> (string \<times> string) option" where
  "dhan_resolve cache subs segment security =
     (case List.find (\<lambda>r. snd (dk_key r) = show_int security \<and>
               (case get_segment_from_exchange (dk_exchange r) of None \<Rightarrow> True | Some g \<Rightarrow> g = segment)) subs of
        Some r \<Rightarrow> Some (dk_symbol r, dk_exchange r)
      | None \<Rightarrow> cache (show_int security))"

abbreviation u_at :: "bytes \<Rightarrow> nat \<Rightarrow> nat \<Rightarrow> int" where "u_at p a b \<equiv> le_value (slice a b p)"

abbreviation f_at :: "bytes \<Rightarrow> nat \<Rightarrow> flt" where "f_at p a \<equiv> f32 (le_value (slice a (a + 4) p))"

definition dhan_ticker :: "string \<Rightarrow> string \<Rightarrow> bytes \<Rightarrow> publication list" where
  "dhan_ticker sb exch p =
     (if length p < 8 then []
      else [(topic exch sb ''LTP'', head_of sb exch @ [(''mode'', FText ''ltp''), (''ltp'', FNum (f_at p 0)), (''ltt'', FInt (u_at p 4 8))])])"

text \<open>The trades of a quote packet at their offsets; a full packet has three more fields before the prices.\<close>

definition dhan_trades :: "bytes \<Rightarrow> tick" where
  "dhan_trades p = [(''ltp'', FNum (f_at p 0)), (''ltq'', FInt (u_at p 4 6)), (''ltt'', FInt (u_at p 6 10)),
     (''average_price'', FNum (f_at p 10)), (''volume'', FInt (u_at p 14 18)), (''total_buy_quantity'', FInt (u_at p 22 26)),
     (''total_sell_quantity'', FInt (u_at p 18 22))]"

definition dhan_prices :: "bytes \<Rightarrow> nat \<Rightarrow> tick" where
  "dhan_prices p a = [(''open'', FNum (f_at p a)), (''high'', FNum (f_at p (a + 8))), (''low'', FNum (f_at p (a + 12))),
     (''close'', FNum (f_at p (a + 4))), (''cp'', FNum (f_at p (a + 4)))] @ change_fields (f_at p 0) (f_at p (a + 4))"

definition dhan_quote :: "string \<Rightarrow> string \<Rightarrow> bytes \<Rightarrow> publication list" where
  "dhan_quote sb exch p =
     (if length p < 42 then []
      else
        [(topic exch sb ''LTP'', head_of sb exch @ [(''mode'', FText ''ltp''), (''ltp'', FNum (f_at p 0)), (''ltt'', FInt (u_at p 6 10)),
            (''cp'', FNum (f_at p 30))] @ change_fields (f_at p 0) (f_at p 30)),
         (topic exch sb ''QUOTE'', head_of sb exch @ (''mode'', FText ''quote'') # dhan_trades p @ dhan_prices p 26 @ [(''oi'', FInt 0)])])"

definition dhan_level :: "bytes \<Rightarrow> nat \<Rightarrow> nat \<Rightarrow> book_level \<times> book_level" where
  "dhan_level p a i =
     (let b = a + i * 20
      in (\<lparr>bl_price = f_at p (b + 12), bl_quantity = u_at p b (b + 4), bl_orders = u_at p (b + 8) (b + 10)\<rparr>,
          \<lparr>bl_price = f_at p (b + 16), bl_quantity = u_at p (b + 4) (b + 8), bl_orders = u_at p (b + 10) (b + 12)\<rparr>))"

definition dhan_full :: "string \<Rightarrow> string \<Rightarrow> bytes \<Rightarrow> publication list" where
  "dhan_full sb exch p =
     (if length p < 154 then []
      else
        let levels = map (dhan_level p 54) [0..<5];
            quote = head_of sb exch @ dhan_trades p @ dhan_prices p 38 @
              [(''oi'', FInt (u_at p 26 30)), (''oi_high'', FInt (u_at p 30 34)), (''oi_low'', FInt (u_at p 34 38))]
        in [(topic exch sb ''LTP'', quote @ [(''mode'', FText ''ltp'')]),
            (topic exch sb ''QUOTE'', quote @ [(''mode'', FText ''quote'')]),
            (topic exch sb ''DEPTH'', quote @ [(''mode'', FText ''full''), (''depth'', FBook (map fst levels) (map snd levels))])])"

definition dhan_handle_packet ::
  "(string \<Rightarrow> (string \<times> string) option) \<Rightarrow> dhan_sub list \<Rightarrow> dhan_packet \<Rightarrow> publication list" where
  "dhan_handle_packet cache subs k =
     (case dhan_resolve cache subs (dp_segment k) (dp_security k) of
        None \<Rightarrow> []
      | Some (sb, exch) \<Rightarrow>
          if dp_code k = 2 then dhan_ticker sb exch (dp_payload k)
          else if dp_code k = 4 then dhan_quote sb exch (dp_payload k)
          else if dp_code k = 8 then dhan_full sb exch (dp_payload k)
          else [])"

text \<open>What a frame publishes; \<open>None\<close> when the loop does not end.\<close>

definition dhan_parse_binary ::
  "(string \<Rightarrow> (string \<times> string) option) \<Rightarrow> dhan_sub list \<Rightarrow> bytes \<Rightarrow> publication list option" where
  "dhan_parse_binary cache subs data =
     map_option (\<lambda>ks. concat (map (dhan_handle_packet cache subs) ks)) (dhan_packets data 0 [])"

definition dhan_on_message ::
  "(string \<Rightarrow> (string \<times> string) option) \<Rightarrow> dhan_sub list \<Rightarrow> bytes \<Rightarrow> publication list option" where
  "dhan_on_message cache subs data = (if 8 \<le> length data then dhan_parse_binary cache subs data else Some [])"

end
