(* ===== verification/Kite_Feed.thy ===== *)
theory Kite_Feed
  imports Dhan_Feed "HOL-Library.AList"
begin

text \<open>
  The streaming adapter of the broker Zerodha (\<open>src/backend/broker/zerodha/streaming/zerodha_adapter.py\<close>):
  its subscription tables with their cap, the queue that a worker drains into subscribe and mode
  messages, and the parsing of binary frames, a count of packets and each packet behind its length.
  The socket, the threads with their pauses and the reconnecting loop are left out; the messages sent
  upstream are recorded, and sending does not fail.
\<close>

section \<open>Subscriptions\<close>

datatype kite_msg = Subscribe "int list" | SetMode string "int list" | Unsubscribe "int list"

record kite =
  kt_connected :: bool
  kt_modes :: "(int \<times> int) list"
  kt_tokens :: "(int \<times> string) list"
  kt_close :: "int \<Rightarrow> flt option"
  kt_pending :: "(int \<times> int) list"
  kt_sent :: "kite_msg list"

definition max_tokens_per_subscribe :: nat where "max_tokens_per_subscribe = 200"

definition max_instruments_per_connection :: nat where "max_instruments_per_connection = 3000"

definition kite_mode_name :: "int \<Rightarrow> string option" where
  "kite_mode_name mode = map_of [(mode_ltp, ''ltp''), (mode_quote, ''quote''), (mode_depth, ''full'')] mode"

definition mode_name_or_quote :: "int \<Rightarrow> string" where
  "mode_name_or_quote mode = (case kite_mode_name mode of Some m \<Rightarrow> m | None \<Rightarrow> ''quote'')"

definition numeric_token :: "string \<Rightarrow> int option" where
  "numeric_token t = py_int (strip_token_suffix t)"

definition kite_token_of :: "token_lookup \<Rightarrow> string \<times> string \<Rightarrow> (int \<times> string) option" where
  "kite_token_of tokens item =
     (case item of
        (sb, exch) \<Rightarrow>
          if sb = [] \<or> exch = [] then None
          else case tokens sb exch of
            None \<Rightarrow> None
          | Some t \<Rightarrow> if t = [] then None else map_option (\<lambda>n. (n, t)) (numeric_token t))"

text \<open>One item of a subscribe call; a token beyond the cap is dropped again.\<close>

definition kite_add :: "token_lookup \<Rightarrow> int \<Rightarrow> string \<times> string \<Rightarrow> kite \<times> int list \<Rightarrow> kite \<times> int list" where
  "kite_add tokens mode item acc =
     (case (kite_token_of tokens item, acc) of
        (None, _) \<Rightarrow> acc
      | (Some (n, t), (s, ns)) \<Rightarrow>
          let current = (case map_of (kt_modes s) n of Some m \<Rightarrow> m | None \<Rightarrow> 0);
              s1 = s\<lparr>kt_tokens := AList.update n t (kt_tokens s)\<rparr>;
              s2 = (if current < mode then s1\<lparr>kt_modes := AList.update n mode (kt_modes s1)\<rparr> else s1)
          in if max_instruments_per_connection < length (kt_modes s2)
             then (s2\<lparr>kt_modes := AList.delete n (kt_modes s2), kt_tokens := AList.delete n (kt_tokens s2)\<rparr>, ns)
             else (s2, ns @ [n]))"

definition kite_subscribe :: "token_lookup \<Rightarrow> (string \<times> string) list \<Rightarrow> int \<Rightarrow> kite \<Rightarrow> kite" where
  "kite_subscribe tokens items mode s =
     (if kite_mode_name mode = None then s
      else case fold (kite_add tokens mode) items (s, []) of
        (t, ns) \<Rightarrow> t\<lparr>kt_pending := kt_pending t @ map (\<lambda>n. (n, mode)) ns\<rparr>)"

definition kite_unsubscribe :: "token_lookup \<Rightarrow> (string \<times> string) list \<Rightarrow> kite \<Rightarrow> kite" where
  "kite_unsubscribe tokens items s =
     (let ns = map fst (List.map_filter (kite_token_of tokens) items);
          t = s\<lparr>kt_modes := filter (\<lambda>p. fst p \<notin> set ns) (kt_modes s), kt_tokens := filter (\<lambda>p. fst p \<notin> set ns) (kt_tokens s)\<rparr>
      in if ns \<noteq> [] \<and> kt_connected t then t\<lparr>kt_sent := kt_sent t @ [Unsubscribe ns]\<rparr> else t)"

definition kite_disconnect :: "kite \<Rightarrow> kite" where
  "kite_disconnect s = s\<lparr>kt_connected := False, kt_modes := [], kt_tokens := [], kt_pending := []\<rparr>"

text \<open>A batch from the front of the queue: one mode, at most as many tokens as one message may carry.\<close>

fun take_batch :: "nat \<Rightarrow> int \<Rightarrow> (int \<times> int) list \<Rightarrow> int list \<times> (int \<times> int) list" where
  "take_batch n mode [] = ([], [])"
| "take_batch 0 mode ps = ([], ps)"
| "take_batch (Suc n) mode ((t, m) # ps) =
     (if m \<noteq> mode then ([], (t, m) # ps) else case take_batch n mode ps of (ts, rest) \<Rightarrow> (t # ts, rest))"

lemma take_batch_split: "take_batch n mode ps = (ts, rest) \<Longrightarrow> map (\<lambda>t. (t, mode)) ts @ rest = ps \<and> length ts \<le> n"
  by (induction n mode ps arbitrary: ts rule: take_batch.induct) (auto split: if_splits prod.splits)

definition kite_round :: "kite \<Rightarrow> kite" where
  "kite_round s =
     (case kt_pending s of
        [] \<Rightarrow> s
      | (t, m) # ps \<Rightarrow>
          (case take_batch max_tokens_per_subscribe m (kt_pending s) of
             (batch, rest) \<Rightarrow> s\<lparr>kt_pending := rest, kt_sent := kt_sent s @ [Subscribe batch, SetMode (mode_name_or_quote m) batch]\<rparr>))"

lemma kite_round_shorter:
  assumes "kt_pending s \<noteq> []"
  shows "length (kt_pending (kite_round s)) < length (kt_pending s)"
proof -
  obtain t m ps where p: "kt_pending s = (t, m) # ps" using assms by (metis list.exhaust prod.exhaust)
  obtain batch rest where b: "take_batch max_tokens_per_subscribe m (kt_pending s) = (batch, rest)" by fastforce
  have "batch \<noteq> []" using b p by (auto simp: max_tokens_per_subscribe_def numeral_eq_Suc split: prod.splits)
  with take_batch_split [OF b] have "length rest < length (kt_pending s)" by (metis length_append length_greater_0_conv length_map less_add_same_cancel2)
  then show ?thesis using p b by (simp add: kite_round_def)
qed

text \<open>The worker: it works the queue off while connected, and gives up on a lost connection.\<close>

function process_subscriptions :: "kite \<Rightarrow> kite" where
  "process_subscriptions s = (if kt_pending s = [] \<or> \<not> kt_connected s then s else process_subscriptions (kite_round s))"
  by auto
termination by (relation "measure (\<lambda>s. length (kt_pending s))") (auto simp: kite_round_shorter)

declare process_subscriptions.simps [simp del]

definition kite_on_open :: "kite \<Rightarrow> kite" where
  "kite_on_open s =
     (let groups = groups_of (map (\<lambda>(n, m). (m, n)) (kt_modes s));
          msgs = concat (map (\<lambda>(m, ns). concat (map (\<lambda>b. [Subscribe b, SetMode (mode_name_or_quote m) b]) (chunks max_tokens_per_subscribe ns))) groups)
      in process_subscriptions (s\<lparr>kt_connected := True, kt_sent := kt_sent s @ msgs\<rparr>))"

section \<open>Frames\<close>

fun kite_packets :: "nat \<Rightarrow> bytes \<Rightarrow> nat \<Rightarrow> bytes list" where
  "kite_packets 0 data off = []"
| "kite_packets (Suc n) data off =
     (if length data < off + 2 then []
      else
        let len = nat (be_value (slice off (off + 2) data)); b = off + 2 in
        if length data < b + len then [] else slice b (b + len) data # kite_packets n data (b + len))"

definition kite_split :: "bytes \<Rightarrow> bytes list" where
  "kite_split data = (if length data < 4 then [] else kite_packets (nat (be_value (slice 0 2 data))) data 2)"

abbreviation ub :: "bytes \<Rightarrow> nat \<Rightarrow> int" where "ub p a \<equiv> be_value (slice a (a + 4) p)"

abbreviation sb_at :: "bytes \<Rightarrow> nat \<Rightarrow> int" where "sb_at p a \<equiv> signed32 (ub p a)"

definition rupees :: "int \<Rightarrow> flt" where
  "rupees n = Fin (of_int n / 100)"

text \<open>The previous close of a token, when the packet's is not zero.\<close>

definition note_close :: "int \<Rightarrow> int \<Rightarrow> (int \<Rightarrow> flt option) \<Rightarrow> int \<Rightarrow> flt option" where
  "note_close n close m = (if close = 0 then m else m(n \<mapsto> rupees close))"

definition kite_index ::
  "int \<Rightarrow> int \<Rightarrow> string \<Rightarrow> string \<Rightarrow> bytes \<Rightarrow> (int \<Rightarrow> flt option) \<Rightarrow> publication list \<times> (int \<Rightarrow> flt option)" where
  "kite_index now n sb exch p m =
     (let ltp = rupees (sb_at p 4); close = rupees (sb_at p 20);
          ts = (if length p = 28 then 0 else sb_at p 28);
          rest = [(''ltp'', FNum ltp), (''ltt'', FInt (if ts \<noteq> 0 then ts else now)), (''cp'', FNum close)] @ change_fields ltp close;
          prices = [(''open'', FNum (rupees (sb_at p 16))), (''high'', FNum (rupees (sb_at p 8))), (''low'', FNum (rupees (sb_at p 12))),
            (''close'', FNum close), (''ltq'', FInt 0), (''average_price'', FNum (Fin 0)), (''volume'', FInt 0),
            (''total_buy_quantity'', FInt 0), (''total_sell_quantity'', FInt 0), (''oi'', FInt 0)] @
            (if ts \<noteq> 0 then [(''exchange_timestamp'', FInt ts)] else []);
          with_mode = (\<lambda>mode. head_of sb exch @ (''mode'', FText mode) # rest)
      in ([(topic exch sb ''LTP'', with_mode ''ltp''), (topic exch sb ''QUOTE'', with_mode ''quote'' @ prices)] @
          (if length p = 32 then [(topic exch sb ''DEPTH'', with_mode ''full'' @ prices @ [(''depth'', FBook [] [])])] else []),
          note_close n (sb_at p 20) m))"

definition kite_level :: "bytes \<Rightarrow> nat \<Rightarrow> book_level" where
  "kite_level p b = \<lparr>bl_price = rupees (ub p (b + 4)), bl_quantity = ub p b, bl_orders = be_value (slice (b + 8) (b + 10) p)\<rparr>"

definition kite_side :: "bytes \<Rightarrow> nat \<Rightarrow> book_level list" where
  "kite_side p a = map (\<lambda>i. kite_level p (a + i * 12)) (filter (\<lambda>i. a + i * 12 + 12 \<le> length p) [0..<5])"

text \<open>The fields of a quote after the mode; those past byte 44 are there in longer packets.\<close>

definition kite_quote_fields :: "int \<Rightarrow> bytes \<Rightarrow> tick" where
  "kite_quote_fields now p =
     (let ltp = rupees (sb_at p 4); close = rupees (sb_at p 40);
          base = [(''ltp'', FNum ltp), (''ltq'', FInt (sb_at p 8)), (''average_price'', FNum (rupees (sb_at p 12))),
            (''volume'', FInt (sb_at p 16)), (''total_buy_quantity'', FInt (sb_at p 20)), (''total_sell_quantity'', FInt (sb_at p 24)),
            (''open'', FNum (rupees (sb_at p 28))), (''high'', FNum (rupees (sb_at p 32))), (''low'', FNum (rupees (sb_at p 36))),
            (''close'', FNum close), (''cp'', FNum close)] @ change_fields ltp close;
          ltt = (if 64 \<le> length p \<and> ub p 44 \<noteq> 0 then ub p 44 else now)
      in base @ (if 64 \<le> length p
         then [(''oi'', FInt (ub p 48)), (''ltt'', FInt ltt), (''last_traded_time'', FInt (ub p 44)), (''oi_day_high'', FInt (ub p 52)),
           (''oi_day_low'', FInt (ub p 56)), (''exchange_timestamp'', FInt (ub p 60))]
         else [(''oi'', FInt 0), (''ltt'', FInt ltt)]))"

definition kite_equity ::
  "int \<Rightarrow> int \<Rightarrow> string \<Rightarrow> string \<Rightarrow> bytes \<Rightarrow> (int \<Rightarrow> flt option) \<Rightarrow> publication list \<times> (int \<Rightarrow> flt option)" where
  "kite_equity now n sb exch p m =
     (let ltp = rupees (sb_at p 4); cached = (case m n of Some c \<Rightarrow> c | None \<Rightarrow> Fin 0);
          ltp_pub = (topic exch sb ''LTP'', head_of sb exch @
            [(''mode'', FText ''ltp''), (''ltp'', FNum ltp), (''ltt'', FInt now), (''cp'', FNum cached)] @ change_fields ltp cached);
          quote = (\<lambda>mode. head_of sb exch @ (''mode'', FText mode) # kite_quote_fields now p)
      in if length p < 44 then ([ltp_pub], m)
         else ([ltp_pub, (topic exch sb ''QUOTE'', quote ''quote'')] @
             (if 184 \<le> length p then [(topic exch sb ''DEPTH'', quote ''full'' @ [(''depth'', FBook (kite_side p 64) (kite_side p 124))])] else []),
             note_close n (sb_at p 40) m))"

definition kite_parse_packet ::
  "int \<Rightarrow> (string \<Rightarrow> (string \<times> string) option) \<Rightarrow> (int \<times> string) list \<Rightarrow> bytes \<Rightarrow> (int \<Rightarrow> flt option) \<Rightarrow>
     publication list \<times> (int \<Rightarrow> flt option)" where
  "kite_parse_packet now cache tokens p m =
     (if length p < 8 then ([], m)
      else
        let n = ub p 0 in
        case map_of tokens n of
          None \<Rightarrow> ([], m)
        | Some t \<Rightarrow>
            if t = [] then ([], m)
            else case (case cache t of Some info \<Rightarrow> Some info | None \<Rightarrow> cache (show_int n)) of
              None \<Rightarrow> ([], m)
            | Some (sb, exch) \<Rightarrow>
                if length p = 28 \<or> length p = 32 then kite_index now n sb exch p m else kite_equity now n sb exch p m)"

fun kite_parse_all ::
  "int \<Rightarrow> (string \<Rightarrow> (string \<times> string) option) \<Rightarrow> (int \<times> string) list \<Rightarrow> bytes list \<Rightarrow> (int \<Rightarrow> flt option) \<Rightarrow>
     publication list \<times> (int \<Rightarrow> flt option)" where
  "kite_parse_all now cache tokens [] m = ([], m)"
| "kite_parse_all now cache tokens (p # ps) m =
     (let (pubs, m1) = kite_parse_packet now cache tokens p m; (more, m2) = kite_parse_all now cache tokens ps m1
      in (pubs @ more, m2))"

text \<open>A frame of one byte is a heartbeat.\<close>

definition kite_on_message :: "int \<Rightarrow> (string \<Rightarrow> (string \<times> string) option) \<Rightarrow> bytes \<Rightarrow> kite \<Rightarrow> publication list \<times> kite" where
  "kite_on_message now cache data s =
     (if length data < 4 then ([], s)
      else let (pubs, m) = kite_parse_all now cache (kt_tokens s) (kite_split data) (kt_close s) in (pubs, s\<lparr>kt_close := m\<rparr>))"

end
