(* ===== verification/Tick_Queue.thy ===== *)
theory Tick_Queue
  imports Ws_Proxy Kite_Feed Run_Ticks
begin

text \<open>
  From the cache to the rules (\<open>src/backend/strategy/tick_feed.py\<close>): the callback of the strategy engine
  on the cache puts a payload with the price and the interested runs on a queue, and the processor of
  \<open>tick_processor.py\<close> works the queue off; and the adapter of Zerodha as the adapter of the proxy. The
  queue does not overflow. Prices that are not finite end here: the rules of the model know none.
\<close>

record tick_payload =
  tp_exchange :: string
  tp_symbol :: string
  tp_ltp :: flt
  tp_runs :: "int list"

text \<open>Subscribing the engine to the cache.\<close>

definition tick_feed_init :: "market_cache \<Rightarrow> int \<times> market_cache" where
  "tick_feed_init c = subscribe_critical [] c"

text \<open>\<open>float(ltp)\<close> of the price of a tick.\<close>

definition tick_price :: "tick \<Rightarrow> flt option" where
  "tick_price data =
     (case map_of data ''ltp'' of
        None \<Rightarrow> None | Some (FText t) \<Rightarrow> map_option Fin (py_float t) | Some f \<Rightarrow> number_of f)"

definition feed_on_tick :: "tick_index \<Rightarrow> string \<Rightarrow> string \<Rightarrow> tick \<Rightarrow> tick_payload option" where
  "feed_on_tick idx sb exch data =
     (if sb = [] \<or> exch = [] then None
      else
        let rids = interested_runs exch sb idx in
        if rids = [] then None
        else map_option (\<lambda>x. \<lparr>tp_exchange = exch, tp_symbol = sb, tp_ltp = x, tp_runs = rids\<rparr>) (tick_price data))"

definition consume_payload :: "'w venue \<Rightarrow> (sm_run \<Rightarrow> bool) \<Rightarrow> tick_payload \<Rightarrow> 'w engine \<Rightarrow> 'w engine option" where
  "consume_payload v auth p d =
     (case tp_ltp p of Fin x \<Rightarrow> Some (process_tick v auth (tp_exchange p) (tp_symbol p) x (tp_runs p) d) | _ \<Rightarrow> None)"

text \<open>The adapter of Zerodha behind the proxy; whether it has failed for good, and the token it was made with,
  are parameters.\<close>

definition kite_ops :: "token_lookup \<Rightarrow> (kite \<Rightarrow> bool) \<Rightarrow> (kite \<Rightarrow> string) \<Rightarrow> kite adapter_ops" where
  "kite_ops tokens fatal tok =
     \<lparr>ao_subscribe = (\<lambda>xs m. kite_subscribe tokens xs m), ao_unsubscribe = (\<lambda>xs m. kite_unsubscribe tokens xs),
      ao_fatal = fatal, ao_token = tok\<rparr>"

definition dhan_ops :: "token_lookup \<Rightarrow> (dhan \<Rightarrow> bool) \<Rightarrow> (dhan \<Rightarrow> string) \<Rightarrow> dhan adapter_ops" where
  "dhan_ops tokens fatal tok =
     \<lparr>ao_subscribe = (\<lambda>xs m. dhan_subscribe tokens xs m), ao_unsubscribe = (\<lambda>xs m. dhan_unsubscribe tokens xs),
      ao_fatal = fatal, ao_token = tok\<rparr>"

end
