(* ===== verification/Feed_Flow.thy ===== *)
theory Feed_Flow
  imports Kite_Feed "HOL-Library.Sublist"
begin

text \<open>
  What the adapters make of their frames: which frames the parsing loops return on, that frames built
  of packets are read back packet by packet, and that what is published fits the wire.
\<close>

section \<open>The frames of Dhan\<close>

text \<open>The offsets the loop comes to: the start, and from a header with its packet inside the frame the
  packet's end.\<close>

inductive dhan_offset :: "bytes \<Rightarrow> nat \<Rightarrow> bool" for data where
  start: "dhan_offset data 0"
| step: "dhan_offset data off \<Longrightarrow> off + 8 \<le> length data \<Longrightarrow> dhan_header data off = (code, len, segment, security) \<Longrightarrow>
    off + len \<le> length data \<Longrightarrow> dhan_offset data (off + len)"

inductive_cases dhan_offsetE: "dhan_offset data off"

definition zero_header :: "bytes \<Rightarrow> nat \<Rightarrow> bool" where
  "zero_header data off \<longleftrightarrow> off + 8 \<le> length data \<and> fst (snd (dhan_header data off)) = 0"

text \<open>The same from any offset.\<close>

inductive offset_from :: "bytes \<Rightarrow> nat \<Rightarrow> nat \<Rightarrow> bool" for data where
  here: "offset_from data a a"
| on: "a + 8 \<le> length data \<Longrightarrow> dhan_header data a = (code, len, segment, security) \<Longrightarrow> a + len \<le> length data \<Longrightarrow>
    offset_from data (a + len) b \<Longrightarrow> offset_from data a b"

lemma offset_from_step:
  "offset_from data a b \<Longrightarrow> b + 8 \<le> length data \<Longrightarrow> dhan_header data b = (code, len, segment, security) \<Longrightarrow>
     b + len \<le> length data \<Longrightarrow> offset_from data a (b + len)"
  by (induction rule: offset_from.induct) (auto intro: offset_from.intros)

lemma dhan_offset_from: "dhan_offset data b \<longleftrightarrow> offset_from data 0 b"
proof
  show "offset_from data 0 b" if "dhan_offset data b"
    using that by (induction rule: dhan_offset.induct) (auto intro: offset_from.here offset_from_step)
  have "dhan_offset data a \<Longrightarrow> dhan_offset data b" if "offset_from data a b" for a
    using that by (induction rule: offset_from.induct) (auto intro: dhan_offset.step)
  then show "dhan_offset data b" if "offset_from data 0 b" using that dhan_offset.start by blast
qed

text \<open>A header with length zero, once reached, keeps the loop where it is.\<close>

lemma stuck_at_zero:
  assumes "zero_header data off"
  shows "dhan_packets data off acc = None"
proof (rule ccontr)
  assume "dhan_packets data off acc \<noteq> None"
  then obtain r where r: "dhan_packets data off acc = Some r" by blast
  have "\<not> zero_header data off"
  proof (rule dhan_packets.raw_induct [where P = "\<lambda>d a acc r. \<not> zero_header d a", OF _ r])
    show "\<not> zero_header d a"
      if "\<And>d a acc r. rec d a acc = Some r \<Longrightarrow> \<not> zero_header d a"
        and "(if length d < a + 8 then Some acc
          else case dhan_header d a of
            (code, len, segment, security) \<Rightarrow>
              if length d < a + len then Some acc
              else if code = 0 then rec d (a + len) acc
              else rec d (a + len)
                     (acc @ [\<lparr>dp_code = code, dp_segment = segment, dp_security = security,
                              dp_payload = slice (a + 8) (a + len) d\<rparr>])) = Some r" for rec d a acc r
      using that by (cases "dhan_header d a") (fastforce simp: zero_header_def split: if_splits)
  qed
  with r assms show False by blast
qed

lemma loops_on_zero:
  assumes "offset_from data a b" and "zero_header data b"
  shows "dhan_packets data a acc = None"
  using assms
proof (induction arbitrary: acc rule: offset_from.induct)
  case (here a)
  then show ?case by (simp add: stuck_at_zero)
next
  case (on a code len segment security b)
  then show ?case by (subst dhan_packets.simps) simp
qed

lemma returns_without_zero:
  assumes "\<And>b. offset_from data a b \<Longrightarrow> \<not> zero_header data b"
  shows "\<exists>r. dhan_packets data a acc = Some r"
  using assms
proof (induction "length data - a" arbitrary: a acc rule: less_induct)
  case less
  obtain code len segment security where h: "dhan_header data a = (code, len, segment, security)" by (cases "dhan_header data a")
  show ?case
  proof (cases "a + 8 \<le> length data \<and> a + len \<le> length data")
    case True
    have "len \<noteq> 0" using less.prems [OF offset_from.here] True h by (simp add: zero_header_def)
    then have "length data - (a + len) < length data - a" using True by arith
    moreover have "\<not> zero_header data b" if "offset_from data (a + len) b" for b
      using less.prems [OF offset_from.on] True h that by blast
    ultimately have "\<exists>r. dhan_packets data (a + len) acc' = Some r" for acc' using less.hyps by blast
    with True h show ?thesis by (subst dhan_packets.simps) simp
  next
    case False
    with h show ?thesis by (subst dhan_packets.simps) auto
  qed
qed

text \<open>C28: which frames end. Reading a binary frame of Dhan returns exactly when no packet header the
  reading comes to has length zero; on a frame with such a header it never returns.\<close>

theorem dhan_frame_ends:
  "dhan_parse_binary cache subs data \<noteq> None \<longleftrightarrow> (\<nexists>off. dhan_offset data off \<and> zero_header data off)"
proof (cases "\<exists>off. dhan_offset data off \<and> zero_header data off")
  case True
  then show ?thesis using loops_on_zero [of data 0] by (auto simp: dhan_parse_binary_def dhan_offset_from)
next
  case False
  then have "\<exists>r. dhan_packets data 0 [] = Some r" using returns_without_zero [of data 0 "[]"] by (auto simp: dhan_offset_from)
  with False show ?thesis by (auto simp: dhan_parse_binary_def)
qed

definition dhan_encode :: "dhan_packet \<Rightarrow> bytes" where
  "dhan_encode k = le_bytes 1 (dp_code k) @ le_bytes 2 (int (8 + length (dp_payload k))) @ le_bytes 1 (dp_segment k) @
     le_bytes 4 (dp_security k) @ dp_payload k"

definition dhan_fits :: "dhan_packet \<Rightarrow> bool" where
  "dhan_fits k \<longleftrightarrow> 0 \<le> dp_code k \<and> dp_code k < 256 \<and> 0 \<le> dp_segment k \<and> dp_segment k < 256 \<and>
     0 \<le> dp_security k \<and> dp_security k < 4294967296 \<and> length (dp_payload k) + 8 < 65536"

lemma slice_here: "length xs = b - a \<Longrightarrow> length pre = a \<Longrightarrow> a \<le> b \<Longrightarrow> slice a b (pre @ xs @ ys) = xs"
  by (simp add: slice_def)

lemma dhan_header_encode:
  assumes "dhan_fits k"
  shows "dhan_header (pre @ dhan_encode k @ rest) (length pre) = (dp_code k, 8 + length (dp_payload k), dp_segment k, dp_security k)"
    and "slice (length pre + 8) (length pre + (8 + length (dp_payload k))) (pre @ dhan_encode k @ rest) = dp_payload k"
proof -
  let ?n = "int (8 + length (dp_payload k))"
  have "slice (length pre) (length pre + 1) (pre @ dhan_encode k @ rest) = le_bytes 1 (dp_code k)"
    unfolding dhan_encode_def append_assoc by (rule slice_here) simp_all
  moreover have "slice (length pre + 1) (length pre + 3) ((pre @ le_bytes 1 (dp_code k)) @ le_bytes 2 ?n @
      (le_bytes 1 (dp_segment k) @ le_bytes 4 (dp_security k) @ dp_payload k @ rest)) = le_bytes 2 ?n"
    by (rule slice_here) simp_all
  moreover have "slice (length pre + 3) (length pre + 4) ((pre @ le_bytes 1 (dp_code k) @ le_bytes 2 ?n) @ le_bytes 1 (dp_segment k) @
      (le_bytes 4 (dp_security k) @ dp_payload k @ rest)) = le_bytes 1 (dp_segment k)"
    by (rule slice_here) simp_all
  moreover have "slice (length pre + 4) (length pre + 8) ((pre @ le_bytes 1 (dp_code k) @ le_bytes 2 ?n @ le_bytes 1 (dp_segment k)) @
      le_bytes 4 (dp_security k) @ (dp_payload k @ rest)) = le_bytes 4 (dp_security k)"
    by (rule slice_here) simp_all
  ultimately show "dhan_header (pre @ dhan_encode k @ rest) (length pre) =
      (dp_code k, 8 + length (dp_payload k), dp_segment k, dp_security k)"
    using assms unfolding dhan_header_def dhan_encode_def append_assoc dhan_fits_def
    by (simp only: le_value_bytes) simp
  have "slice (length pre + 8) (length pre + (8 + length (dp_payload k)))
      ((pre @ le_bytes 1 (dp_code k) @ le_bytes 2 ?n @ le_bytes 1 (dp_segment k) @ le_bytes 4 (dp_security k)) @ dp_payload k @ rest) = dp_payload k"
    by (rule slice_here) simp_all
  then show "slice (length pre + 8) (length pre + (8 + length (dp_payload k))) (pre @ dhan_encode k @ rest) = dp_payload k"
    unfolding dhan_encode_def append_assoc .
qed

lemma length_dhan_encode [simp]: "length (dhan_encode k) = 8 + length (dp_payload k)"
  by (simp add: dhan_encode_def)

lemma dhan_packets_encode:
  assumes "list_all dhan_fits ks" and "length rest < 8"
  shows "dhan_packets (pre @ concat (map dhan_encode ks) @ rest) (length pre) acc = Some (acc @ filter (\<lambda>k. dp_code k \<noteq> 0) ks)"
  using assms(1)
proof (induction ks arbitrary: pre acc)
  case Nil
  then show ?case using assms(2) by (subst dhan_packets.simps) simp
next
  case (Cons k ks)
  let ?data = "pre @ concat (map dhan_encode (k # ks)) @ rest" and ?tail = "concat (map dhan_encode ks) @ rest"
  have k: "dhan_fits k" "list_all dhan_fits ks" using Cons.prems by simp_all
  note h = dhan_header_encode [OF k(1), of pre ?tail]
  have data: "?data = pre @ dhan_encode k @ ?tail" by simp
  have next_off: "length pre + (8 + length (dp_payload k)) = length (pre @ dhan_encode k)" by simp
  have IH: "dhan_packets ?data (length pre + (8 + length (dp_payload k))) acc' = Some (acc' @ filter (\<lambda>k. dp_code k \<noteq> 0) ks)" for acc'
    using Cons.IH [OF k(2), of "pre @ dhan_encode k" acc'] unfolding next_off by simp
  have same: "\<lparr>dp_code = dp_code k, dp_segment = dp_segment k, dp_security = dp_security k, dp_payload = dp_payload k\<rparr> = k" by simp
  have "dhan_packets ?data (length pre) acc =
     (if dp_code k = 0 then dhan_packets ?data (length pre + (8 + length (dp_payload k))) acc
      else dhan_packets ?data (length pre + (8 + length (dp_payload k))) (acc @ [k]))"
    unfolding data by (subst dhan_packets.simps) (simp add: h same)
  then show ?case unfolding IH by simp
qed

text \<open>Frames are read back. A frame made of any packets that fit their header, with less than a
  header left over at the end, is read as exactly these packets, in order, without the heartbeats.\<close>

theorem dhan_frame_roundtrip:
  assumes "list_all dhan_fits ks" and "length rest < 8"
  shows "dhan_packets (concat (map dhan_encode ks) @ rest) 0 [] = Some (filter (\<lambda>k. dp_code k \<noteq> 0) ks)"
  using dhan_packets_encode [OF assms, of "[]" "[]"] by simp

definition two_packets :: "dhan_packet list" where
  "two_packets = [\<lparr>dp_code = 0, dp_segment = 0, dp_security = 0, dp_payload = []\<rparr>,
     \<lparr>dp_code = 2, dp_segment = 1, dp_security = 2885, dp_payload = [0, 0, 128, 63, 1, 0, 0, 0]\<rparr>]"

theorem dhan_frame_roundtrip_witness:
  "list_all dhan_fits two_packets \<and> length [1, 2 :: 8 word] < 8 \<and>
   dhan_packets (concat (map dhan_encode two_packets) @ [1, 2]) 0 [] = Some (filter (\<lambda>k. dp_code k \<noteq> 0) two_packets) \<and>
   length (filter (\<lambda>k. dp_code k \<noteq> 0) two_packets) = 1"
proof -
  have fits: "list_all dhan_fits two_packets" by (simp add: two_packets_def dhan_fits_def)
  show ?thesis using fits dhan_frame_roundtrip [OF fits, of "[1, 2]"] by (simp add: two_packets_def)
qed

section \<open>The frames of Zerodha\<close>

definition kite_encode :: "bytes list \<Rightarrow> bytes" where
  "kite_encode ps = be_bytes 2 (int (length ps)) @ concat (map (\<lambda>p. be_bytes 2 (int (length p)) @ p) ps)"

definition kite_fits :: "bytes list \<Rightarrow> bool" where
  "kite_fits ps \<longleftrightarrow> length ps < 65536 \<and> list_all (\<lambda>p. length p < 65536) ps"

text \<open>The packets that lie wholly in the first \<open>n\<close> bytes of a frame's body.\<close>

fun whole_packets :: "nat \<Rightarrow> bytes list \<Rightarrow> bytes list" where
  "whole_packets n [] = []"
| "whole_packets n (p # ps) = (if 2 + length p \<le> n then p # whole_packets (n - (2 + length p)) ps else [])"

definition kite_body :: "bytes list \<Rightarrow> bytes" where
  "kite_body ps = concat (map (\<lambda>p. be_bytes 2 (int (length p)) @ p) ps)"

lemma kite_body_simps [simp]:
  "kite_body [] = []" "kite_body (p # ps) = be_bytes 2 (int (length p)) @ p @ kite_body ps"
  by (simp_all add: kite_body_def)

lemma whole_packets_all: "length (kite_body ps) \<le> n \<Longrightarrow> whole_packets n ps = ps"
  by (induction n ps rule: whole_packets.induct) simp_all

lemma whole_packets_prefix: "prefix (whole_packets n ps) ps"
  by (induction n ps rule: whole_packets.induct) simp_all

text \<open>They are the most packets whose bytes are all there.\<close>

lemma whole_packets_most:
  "k \<le> length ps \<Longrightarrow> k \<le> length (whole_packets n ps) \<longleftrightarrow> k = 0 \<or> length (kite_body (take k ps)) \<le> n"
proof (induction n ps arbitrary: k rule: whole_packets.induct)
  case (2 n p ps)
  then show ?case by (cases k) auto
qed simp

lemma kite_packets_whole:
  assumes "list_all (\<lambda>p. length p < 65536) ps"
  shows "kite_packets (length ps) (pre @ take n (kite_body ps @ junk)) (length pre) = whole_packets n ps"
  using assms
proof (induction ps arbitrary: pre n)
  case (Cons p ps)
  let ?h = "be_bytes 2 (int (length p))" and ?tail = "kite_body ps @ junk"
  let ?data = "pre @ take n (kite_body (p # ps) @ junk)"
  show ?case
  proof (cases "2 \<le> n")
    case False
    then show ?thesis by simp
  next
    case True
    have data: "?data = pre @ ?h @ take (n - 2) (p @ ?tail)" using True by simp
    have "slice (length pre) (length pre + 2) ?data = ?h" unfolding data by (rule slice_here) simp_all
    then have len: "nat (be_value (slice (length pre) (length pre + 2) ?data)) = length p"
      using Cons.prems by (simp add: be_value_bytes)
    show ?thesis
    proof (cases "2 + length p \<le> n")
      case fits: True
      have whole: "?data = (pre @ ?h) @ p @ take (n - (2 + length p)) ?tail"
        unfolding data using fits by (simp add: diff_diff_add)
      have "slice (length pre + 2) (length pre + 2 + length p) ?data = p" unfolding whole by (rule slice_here) simp_all
      moreover have "kite_packets (length ps) ?data (length pre + 2 + length p) = whole_packets (n - (2 + length p)) ps"
        using Cons.IH [of "pre @ ?h @ p" "n - (2 + length p)"] Cons.prems unfolding whole by (simp add: add.assoc)
      ultimately show ?thesis using fits len by (simp add: Let_def)
    next
      case cut: False
      then have "length ?data < length pre + 2 + length p" unfolding data using True by simp
      with cut len True show ?thesis by (simp add: Let_def)
    qed
  qed
qed simp

lemma kite_split_take:
  assumes "kite_fits ps"
  shows "kite_split (take n (kite_encode ps @ junk)) = whole_packets (n - 2) ps"
proof (cases "4 \<le> length (take n (kite_encode ps @ junk))")
  case True
  let ?c = "be_bytes 2 (int (length ps))"
  have data: "take n (kite_encode ps @ junk) = ?c @ take (n - 2) (kite_body ps @ junk)"
    using True by (simp add: kite_encode_def kite_body_def)
  have "nat (be_value (slice 0 2 (?c @ take (n - 2) (kite_body ps @ junk)))) = length ps"
    using assms by (simp add: be_value_bytes kite_fits_def)
  then show ?thesis
    using kite_packets_whole [of ps ?c "n - 2" junk] assms True unfolding data kite_split_def by (simp add: kite_fits_def)
next
  case False
  then have "whole_packets (n - 2) ps = []" by (cases ps) (auto simp: kite_encode_def)
  with False show ?thesis by (simp add: kite_split_def)
qed

text \<open>C29: frames are read back, and a cut frame as far as it goes. A frame made of packets is read as
  exactly these packets, whatever follows it. A frame cut off after \<open>n\<close> bytes is read as the first
  packets of the frame, as many as have all their bytes before the cut: the first \<open>k\<close> packets are
  among those read exactly when the count and these packets with their lengths take at most \<open>n\<close> bytes.\<close>

theorem kite_frame_roundtrip:
  assumes "kite_fits ps"
  shows "kite_split (kite_encode ps @ junk) = ps \<and>
    prefix (kite_split (take n (kite_encode ps))) ps \<and>
    (\<forall>k. 0 < k \<and> k \<le> length ps \<longrightarrow>
       (k \<le> length (kite_split (take n (kite_encode ps))) \<longleftrightarrow> length (kite_encode (take k ps)) \<le> n))"
proof (intro conjI allI impI)
  have "length (kite_body ps) \<le> length (kite_encode ps @ junk) - 2" by (simp add: kite_encode_def kite_body_def)
  then show "kite_split (kite_encode ps @ junk) = ps"
    using kite_split_take [OF assms, of "length (kite_encode ps @ junk)" junk] by (simp add: whole_packets_all)
  have cut: "kite_split (take n (kite_encode ps)) = whole_packets (n - 2) ps"
    using kite_split_take [OF assms, of n "[]"] by simp
  show "prefix (kite_split (take n (kite_encode ps))) ps" by (simp add: cut whole_packets_prefix)
  fix k assume k: "0 < k \<and> k \<le> length ps"
  have size: "length (kite_encode (take k ps)) = 2 + length (kite_body (take k ps))" by (simp add: kite_encode_def kite_body_def)
  have "0 < length (kite_body (take k ps))" using k by (cases k; cases ps) auto
  then have fits: "length (kite_encode (take k ps)) \<le> n \<longleftrightarrow> length (kite_body (take k ps)) \<le> n - 2"
    unfolding size by arith
  show "k \<le> length (kite_split (take n (kite_encode ps))) \<longleftrightarrow> length (kite_encode (take k ps)) \<le> n"
    using k whole_packets_most [of k ps "n - 2"] unfolding cut fits by auto
qed

theorem kite_frame_roundtrip_witness:
  "kite_fits [[1, 2], [3]] \<and> kite_split (kite_encode [[1, 2], [3]] @ [9]) = [[1, 2], [3]] \<and>
   kite_split (take 8 (kite_encode [[1, 2], [3]])) = [[1, 2]]"
proof -
  have fits: "kite_fits [[1, 2], [3]]" by (simp add: kite_fits_def)
  note r = kite_frame_roundtrip [OF fits, of "[9]" 8]
  let ?r = "kite_split (take 8 (kite_encode [[1, 2], [3]]))"
  have l: "length (kite_encode (take 1 [[1, 2], [3]])) = 6" "length (kite_encode (take 2 [[1, 2], [3]])) = 9"
    by (simp_all add: kite_encode_def)
  have one: "length ?r = 1"
    using r [THEN conjunct2, THEN conjunct2, rule_format, of 1] r [THEN conjunct2, THEN conjunct2, rule_format, of 2] l by simp
  have "prefix ?r [[1, 2], [3]]" using r by blast
  with one have "?r = [[1, 2]]" by (cases ?r) auto
  with fits r show ?thesis by blast
qed

section \<open>What is published\<close>

text \<open>Topic, symbol, exchange and mode belong together; integers fit 32 bits, prices are what the adapter's
  wire carries, the changes are computed from the price and the close beside them; a ladder has five levels
  on each side, or none.\<close>

definition mode_topic :: "string \<Rightarrow> string option" where
  "mode_topic mode = map_of [(''ltp'', ''LTP''), (''quote'', ''QUOTE''), (''full'', ''DEPTH'')] mode"

text \<open>What a price on the wire can be: of Zerodha a whole number of paise in 32 bits, of Dhan an IEEE
  single, infinities and NaN included.\<close>

definition kite_price :: "flt \<Rightarrow> bool" where
  "kite_price x =
     (case x of Fin r \<Rightarrow> of_int \<lfloor>r * 100\<rfloor> = r * 100 \<and> - 2147483648 \<le> r * 100 \<and> r * 100 < 4294967296 | _ \<Rightarrow> False)"

definition dhan_price :: "flt \<Rightarrow> bool" where
  "dhan_price x \<longleftrightarrow> (\<exists>n. 0 \<le> n \<and> n < 4294967296 \<and> x = f32 n)"

definition level_typed :: "(flt \<Rightarrow> bool) \<Rightarrow> book_level \<Rightarrow> bool" where
  "level_typed price l \<longleftrightarrow>
     price (bl_price l) \<and> 0 \<le> bl_quantity l \<and> bl_quantity l < 4294967296 \<and> 0 \<le> bl_orders l \<and> bl_orders l < 65536"

definition field_typed :: "(flt \<Rightarrow> bool) \<Rightarrow> string \<times> field \<Rightarrow> bool" where
  "field_typed price kf =
     (case snd kf of
        FNum x \<Rightarrow> fst kf \<in> {''change'', ''change_percent''} \<or> price x
      | FInt n \<Rightarrow> - 2147483648 \<le> n \<and> n < 4294967296
      | FBook b a \<Rightarrow> length a = length b \<and> (length b = 5 \<or> b = []) \<and> list_all (level_typed price) b \<and> list_all (level_typed price) a
      | FText _ \<Rightarrow> True)"

definition changes_typed :: "tick \<Rightarrow> bool" where
  "changes_typed t =
     (case (map_of t ''ltp'', map_of t ''cp'') of
        (Some (FNum l), Some (FNum c)) \<Rightarrow>
          map_of t ''change'' = Some (FNum (tick_change l c)) \<and> map_of t ''change_percent'' = Some (FNum (tick_change_pct l c))
      | (Some (FNum l), None) \<Rightarrow> map_of t ''change'' = None \<and> map_of t ''change_percent'' = None
      | _ \<Rightarrow> False)"

definition publication_typed :: "(flt \<Rightarrow> bool) \<Rightarrow> publication \<Rightarrow> bool" where
  "publication_typed price q \<longleftrightarrow>
     (case (map_of (snd q) ''symbol'', map_of (snd q) ''exchange'', map_of (snd q) ''mode'') of
        (Some (FText sb), Some (FText exch), Some (FText mode)) \<Rightarrow> map_option (topic exch sb) (mode_topic mode) = Some (fst q)
      | _ \<Rightarrow> False) \<and> changes_typed (snd q) \<and> list_all (field_typed price) (snd q)"

lemma wire_bounds:
  "0 \<le> le_value (slice a b p)" "0 \<le> be_value (slice a b p)"
  "b \<le> a + 4 \<Longrightarrow> le_value (slice a b p) < 4294967296" "b \<le> a + 4 \<Longrightarrow> be_value (slice a b p) < 4294967296"
  "b \<le> a + 2 \<Longrightarrow> le_value (slice a b p) < 65536" "b \<le> a + 2 \<Longrightarrow> be_value (slice a b p) < 65536"
proof -
  have len: "length (slice a b p) \<le> b - a" by simp
  show "0 \<le> le_value (slice a b p)" "0 \<le> be_value (slice a b p)"
    using le_value_bounds [of "slice a b p"] be_value_bounds [of "slice a b p"] by simp_all
  have up: "(256 :: int) ^ length (slice a b p) \<le> 256 ^ n" if "b \<le> a + n" for n
    using that len by (intro power_increasing) simp_all
  show "b \<le> a + 4 \<Longrightarrow> le_value (slice a b p) < 4294967296" "b \<le> a + 4 \<Longrightarrow> be_value (slice a b p) < 4294967296"
    using up [of 4] le_value_bounds [of "slice a b p"] be_value_bounds [of "slice a b p"] by (simp_all del: slice_simps)
  show "b \<le> a + 2 \<Longrightarrow> le_value (slice a b p) < 65536" "b \<le> a + 2 \<Longrightarrow> be_value (slice a b p) < 65536"
    using up [of 2] le_value_bounds [of "slice a b p"] be_value_bounds [of "slice a b p"] by (simp_all del: slice_simps)
qed

lemma signed_wire:
  "b \<le> a + 4 \<Longrightarrow> - 2147483648 \<le> signed32 (be_value (slice a b p))" "b \<le> a + 4 \<Longrightarrow> signed32 (be_value (slice a b p)) < 4294967296"
  using signed32_bounds [OF wire_bounds(2) wire_bounds(4), of b a p] by simp_all

lemma kite_price_rupees: "- 2147483648 \<le> n \<Longrightarrow> n < 4294967296 \<Longrightarrow> kite_price (rupees n)"
  by (simp add: kite_price_def rupees_def)

lemma kite_prices [simp]:
  "b \<le> a + 4 \<Longrightarrow> kite_price (rupees (be_value (slice a b p)))"
  "b \<le> a + 4 \<Longrightarrow> kite_price (rupees (signed32 (be_value (slice a b p))))"
  "kite_price (Fin 0)"
proof -
  show "b \<le> a + 4 \<Longrightarrow> kite_price (rupees (be_value (slice a b p)))"
    by (intro kite_price_rupees order_trans [OF _ wire_bounds(2)] wire_bounds(4)) simp_all
  show "b \<le> a + 4 \<Longrightarrow> kite_price (rupees (signed32 (be_value (slice a b p))))"
    by (intro kite_price_rupees signed_wire)
qed (simp add: kite_price_def)

lemma dhan_prices_single [simp]:
  "b \<le> a + 4 \<Longrightarrow> dhan_price (f32 (le_value (slice a b p)))"
  "b \<le> 4 \<Longrightarrow> dhan_price (f32 (le_value (take b p)))"
proof -
  show single: "b \<le> a + 4 \<Longrightarrow> dhan_price (f32 (le_value (slice a b p)))" for a
    unfolding dhan_price_def using wire_bounds(1,3) by blast
  show "b \<le> 4 \<Longrightarrow> dhan_price (f32 (le_value (take b p)))"
    using single [of 0] by simp
qed

lemmas typed_defs = publication_typed_def field_typed_def changes_typed_def head_of_def change_fields_def mode_topic_def

lemma levels_typed [simp]:
  "level_typed dhan_price (fst (dhan_level p a i))" "level_typed dhan_price (snd (dhan_level p a i))" "level_typed kite_price (kite_level p a)"
  by (simp_all add: level_typed_def dhan_level_def kite_level_def Let_def wire_bounds)

lemma dhan_typed: "list_all (publication_typed dhan_price) (dhan_handle_packet cache subs k)"
proof -
  have "list_all (publication_typed dhan_price) (dhan_ticker sb exch p)" "list_all (publication_typed dhan_price) (dhan_quote sb exch p)" for sb exch p
    by (simp_all add: dhan_ticker_def dhan_quote_def dhan_trades_def dhan_prices_def typed_defs wire_bounds less_imp_le
        order_trans [OF _ wire_bounds(1)] order.strict_trans2 [OF wire_bounds(5)])
  moreover have "list_all (publication_typed dhan_price) (dhan_full sb exch p)" for sb exch p
    by (simp add: dhan_full_def dhan_trades_def dhan_prices_def typed_defs wire_bounds Let_def
        list.pred_map comp_def list.pred_True order_trans [OF _ wire_bounds(1)])
  ultimately show ?thesis by (auto simp: dhan_handle_packet_def split: option.split)
qed

lemma kite_side_five: "a + 60 \<le> length p \<Longrightarrow> kite_side p a = map (\<lambda>i. kite_level p (a + i * 12)) [0..<5]"
  unfolding kite_side_def by (subst filter_True) auto

text \<open>The closes an adapter remembers are prices of the wire too.\<close>

definition closes_typed :: "(int \<Rightarrow> flt option) \<Rightarrow> bool" where
  "closes_typed m \<longleftrightarrow> (\<forall>n c. m n = Some c \<longrightarrow> kite_price c)"

lemma note_close_typed:
  "closes_typed m \<Longrightarrow> b \<le> a + 4 \<Longrightarrow> closes_typed (note_close n (signed32 (be_value (slice a b p))) m)"
  by (simp add: closes_typed_def note_close_def)

lemma tick_typed:
  assumes "mode_topic mode = Some tp" and "list_all (field_typed price) t" and "changes_typed t"
  shows "publication_typed price (topic exch sb tp, head_of sb exch @ (''mode'', FText mode) # t)"
proof -
  let ?t = "head_of sb exch @ (''mode'', FText mode) # t"
  have same: "map_of ?t ''ltp'' = map_of t ''ltp''" "map_of ?t ''cp'' = map_of t ''cp''"
    "map_of ?t ''change'' = map_of t ''change''" "map_of ?t ''change_percent'' = map_of t ''change_percent''"
    by (simp_all add: head_of_def)
  have "changes_typed ?t = changes_typed t" unfolding changes_typed_def same ..
  with assms show ?thesis by (simp add: publication_typed_def head_of_def field_typed_def [of _ "(_, FText _)"])
qed

lemma kite_index_typed:
  assumes "- 2147483648 \<le> now" and "now < 4294967296"
  shows "list_all (publication_typed kite_price) (fst (kite_index now n sb exch p m))"
  using assms signed_wire by (simp add: kite_index_def typed_defs Let_def)

lemma kite_quote_typed:
  assumes "- 2147483648 \<le> now" and "now < 4294967296"
  shows "list_all (field_typed kite_price) (kite_quote_fields now p)"
    and "changes_typed (kite_quote_fields now p)" and "changes_typed (kite_quote_fields now p @ [(''depth'', d)])"
  using assms signed_wire wire_bounds
  by (simp_all add: kite_quote_fields_def change_fields_def field_typed_def changes_typed_def Let_def order_trans [OF _ wire_bounds(2)])

lemma kite_equity_typed:
  assumes "- 2147483648 \<le> now" and "now < 4294967296" and "closes_typed m"
  shows "list_all (publication_typed kite_price) (fst (kite_equity now n sb exch p m))"
proof -
  have cached: "kite_price (case m n of None \<Rightarrow> Fin 0 | Some c \<Rightarrow> c)"
    using assms(3) by (auto simp: closes_typed_def split: option.split)
  have book: "184 \<le> length p \<Longrightarrow> field_typed kite_price (k, FBook (kite_side p 64) (kite_side p 124))" for k
    by (simp add: field_typed_def kite_side_five list.pred_map comp_def list.pred_True)
  have ltp: "publication_typed kite_price (topic exch sb ''LTP'', head_of sb exch @
      [(''mode'', FText ''ltp''), (''ltp'', FNum (rupees (sb_at p 4))), (''ltt'', FInt now), (''cp'', FNum c)] @
      change_fields (rupees (sb_at p 4)) c)" if "kite_price c" for c
    using assms that by (simp add: typed_defs)
  show ?thesis
    using ltp [OF cached] kite_quote_typed [OF assms(1,2), of p] book
    by (auto simp: kite_equity_def Let_def mode_topic_def intro!: tick_typed)
qed

lemma kite_packet_closes: "closes_typed m \<Longrightarrow> closes_typed (snd (kite_parse_packet now cache tokens p m))"
  by (auto simp: kite_parse_packet_def kite_index_def kite_equity_def Let_def note_close_typed split: option.split)

lemma kite_typed:
  assumes "- 2147483648 \<le> now" and "now < 4294967296" and "closes_typed m"
  shows "list_all (publication_typed kite_price) (fst (kite_parse_packet now cache tokens p m))"
  using kite_index_typed [OF assms(1,2)] kite_equity_typed [OF assms]
  by (auto simp: kite_parse_packet_def Let_def split: option.split)

lemma kite_all_closes: "closes_typed m \<Longrightarrow> closes_typed (snd (kite_parse_all now cache tokens ps m))"
  by (induction ps arbitrary: m) (simp_all add: Let_def split_beta kite_packet_closes)

lemma kite_all_typed:
  assumes "- 2147483648 \<le> now" and "now < 4294967296" and "closes_typed m"
  shows "list_all (publication_typed kite_price) (fst (kite_parse_all now cache tokens ps m))"
  using assms(3)
  by (induction ps arbitrary: m) (simp_all add: Let_def split_beta kite_packet_closes kite_typed [OF assms(1,2)])

section \<open>Subscriptions of Zerodha\<close>

inductive kite_step :: "kite \<Rightarrow> kite \<Rightarrow> bool" where
  subscribe: "kite_step s (kite_subscribe tokens items mode s)"
| unsubscribe: "kite_step s (kite_unsubscribe tokens items s)"
| worker: "kite_step s (process_subscriptions s)"
| opened: "kite_step s (kite_on_open s)"
| closed: "kite_step s (s\<lparr>kt_connected := False\<rparr>)"
| message: "kite_step s (snd (kite_on_message now cache data s))"
| disconnect: "kite_step s (kite_disconnect s)"

definition fresh_kite :: kite where
  "fresh_kite = \<lparr>kt_connected = False, kt_modes = [], kt_tokens = [], kt_close = (\<lambda>_. None), kt_pending = [], kt_sent = []\<rparr>"

inductive kite_reachable :: "kite \<Rightarrow> bool" where
  fresh: "kite_reachable fresh_kite"
| step: "kite_reachable s \<Longrightarrow> kite_step s t \<Longrightarrow> kite_reachable t"

text \<open>A message that subscribes or sets a mode names at most as many tokens as one batch may hold.\<close>

definition batch_sized :: "kite_msg \<Rightarrow> bool" where
  "batch_sized m =
     (case m of
        Subscribe b \<Rightarrow> length b \<le> max_tokens_per_subscribe
      | SetMode _ b \<Rightarrow> length b \<le> max_tokens_per_subscribe
      | Unsubscribe _ \<Rightarrow> True)"

lemma batch_sized_simps [simp]:
  "batch_sized (Subscribe b) \<longleftrightarrow> length b \<le> max_tokens_per_subscribe"
  "batch_sized (SetMode name b) \<longleftrightarrow> length b \<le> max_tokens_per_subscribe"
  "batch_sized (Unsubscribe b)"
  by (simp_all add: batch_sized_def)

definition kite_ok :: "kite \<Rightarrow> bool" where
  "kite_ok s \<longleftrightarrow> distinct (map fst (kt_modes s)) \<and> length (kt_modes s) \<le> max_instruments_per_connection \<and>
     list_all (\<lambda>p. kite_mode_name (snd p) \<noteq> None) (kt_modes s) \<and> list_all batch_sized (kt_sent s) \<and> closes_typed (kt_close s)"

lemma update_fst: "fst ` set (AList.update k v xs) = insert k (fst ` set xs)"
  by (induction xs) auto

lemma update_snd: "x \<in> set (AList.update k v xs) \<Longrightarrow> x = (k, v) \<or> x \<in> set xs"
  by (induction xs) (auto split: if_splits)

lemma delete_update_length: "length (filter (\<lambda>(k', _). k \<noteq> k') (AList.update k v xs)) \<le> length xs"
  by (induction xs) (auto simp: le_SucI)

lemma kite_add_ok:
  assumes "kite_ok (fst acc)" and "kite_mode_name mode \<noteq> None"
  shows "kite_ok (fst (kite_add tokens mode item acc))"
proof (cases "kite_token_of tokens item")
  case (Some p)
  obtain n t where p: "p = (n, t)" by (cases p)
  obtain s ns where acc: "acc = (s, ns)" by (cases acc)
  have "length (AList.delete n (AList.update n mode (kt_modes s))) \<le> length (kt_modes s)"
    by (simp add: AList.delete_eq delete_update_length)
  moreover have "length (AList.delete n (kt_modes s)) \<le> length (kt_modes s)" by (simp add: AList.delete_eq)
  ultimately show ?thesis
    using assms Some
    by (auto simp: kite_add_def acc p kite_ok_def Let_def list_all_iff AList.distinct_update AList.delete_eq
        distinct_map_filter dest!: update_snd)
qed (use assms in \<open>simp add: kite_add_def\<close>)

lemma kite_round_ok: "kite_ok s \<Longrightarrow> kite_ok (kite_round s)"
proof (cases "kt_pending s")
  case (Cons p ps)
  assume ok: "kite_ok s"
  obtain t m where p: "p = (t, m)" by (cases p)
  obtain batch rest where b: "take_batch max_tokens_per_subscribe m (kt_pending s) = (batch, rest)" by fastforce
  have "length batch \<le> max_tokens_per_subscribe" using take_batch_split [OF b] by simp
  with ok b show ?thesis by (simp add: kite_round_def Cons p kite_ok_def)
qed (simp add: kite_round_def)

lemma worker_ok: "kite_ok s \<Longrightarrow> kite_ok (process_subscriptions s)"
proof (induction s rule: process_subscriptions.induct)
  case (1 s)
  then show ?case by (subst process_subscriptions.simps) (simp add: kite_round_ok)
qed

lemma kite_step_ok:
  assumes "kite_step s t" and "kite_ok s"
  shows "kite_ok t"
  using assms
proof (induction rule: kite_step.induct)
  case (subscribe s tokens items mode)
  show ?case
  proof (cases "kite_mode_name mode")
    case (Some name)
    have "kite_ok (fst (fold (kite_add tokens mode) items acc))" if "kite_ok (fst acc)" for acc
      using that by (induction items arbitrary: acc) (simp_all add: kite_add_ok Some)
    from this [of "(s, [])"] subscribe Some show ?thesis by (simp add: kite_subscribe_def kite_ok_def split_beta)
  qed (use subscribe in \<open>simp add: kite_subscribe_def\<close>)
next
  case (unsubscribe s tokens items)
  then show ?case
    by (auto simp: kite_unsubscribe_def kite_ok_def Let_def distinct_map_filter list_all_iff intro: order_trans [OF length_filter_le])
next
  case (opened s)
  have joined: "kite_ok (s\<lparr>kt_connected := True, kt_sent := kt_sent s @ msgs\<rparr>)"
    if "list_all batch_sized msgs" for msgs
    using opened that by (simp add: kite_ok_def)
  then show ?case
    unfolding kite_on_open_def Let_def
    by (intro worker_ok joined) (auto simp: list_all_iff dest!: chunk_length)
next
  case (message s now cache data)
  then show ?case using kite_all_closes by (auto simp: kite_on_message_def kite_ok_def split_beta)
next
  case (worker s)
  then show ?case by (simp add: worker_ok)
qed (simp_all add: kite_ok_def kite_disconnect_def)

lemma reachable_kite_ok: "kite_reachable s \<Longrightarrow> kite_ok s"
proof (induction rule: kite_reachable.induct)
  case fresh
  show ?case by (simp add: fresh_kite_def kite_ok_def closes_typed_def)
next
  case (step s t)
  then show ?case using kite_step_ok by blast
qed

text \<open>C31: the limits of Zerodha are kept when subscribing. In every state the adapter reaches it holds at
  most three thousand instruments, each once and in a known mode, and no message that subscribes to
  instruments or sets their mode has named more than two hundred. Messages that unsubscribe are not
  cut into batches: one carries every token of its call that resolves, however many.\<close>

theorem kite_within_limits:
  assumes "kite_reachable s"
  shows "distinct (map fst (kt_modes s)) \<and> length (kt_modes s) \<le> 3000 \<and> list_all (\<lambda>p. kite_mode_name (snd p) \<noteq> None) (kt_modes s) \<and>
    (\<forall>b. Subscribe b \<in> set (kt_sent s) \<longrightarrow> length b \<le> 200) \<and>
    (\<forall>name b. SetMode name b \<in> set (kt_sent s) \<longrightarrow> length b \<le> 200) \<and>
    (kt_connected s \<and> List.map_filter (kite_token_of tokens) items \<noteq> [] \<longrightarrow>
       kt_sent (kite_unsubscribe tokens items s) =
         kt_sent s @ [Unsubscribe (map fst (List.map_filter (kite_token_of tokens) items))])"
proof (intro conjI allI impI)
  note ok = reachable_kite_ok [OF assms, unfolded kite_ok_def]
  show "distinct (map fst (kt_modes s))" "list_all (\<lambda>p. kite_mode_name (snd p) \<noteq> None) (kt_modes s)" using ok by blast+
  show "length (kt_modes s) \<le> 3000" using ok by (simp add: max_instruments_per_connection_def)
  show "length b \<le> 200" if "Subscribe b \<in> set (kt_sent s)" for b
    using ok that by (fastforce simp: list_all_iff max_tokens_per_subscribe_def)
  show "length b \<le> 200" if "SetMode name b \<in> set (kt_sent s)" for name b
    using ok that by (fastforce simp: list_all_iff max_tokens_per_subscribe_def)
qed (simp add: kite_unsubscribe_def Let_def)

theorem kite_within_limits_witness:
  "let s = kite_on_open (kite_subscribe (\<lambda>_ _. Some ''779521'') [(''SBIN'', ''NSE'')] mode_quote fresh_kite) in
   kite_reachable s \<and> length (kt_modes s) \<le> 3000 \<and> kt_modes s = [(779521, mode_quote)] \<and>
   kt_sent (kite_unsubscribe (\<lambda>_ _. Some ''779521'') [(''SBIN'', ''NSE'')] s) = kt_sent s @ [Unsubscribe [779521]]"
proof -
  let ?s = "kite_on_open (kite_subscribe (\<lambda>_ _. Some ''779521'') [(''SBIN'', ''NSE'')] mode_quote fresh_kite)"
  have r: "kite_reachable ?s"
    by (rule kite_reachable.step [OF kite_reachable.step [OF kite_reachable.fresh kite_step.subscribe] kite_step.opened])
  have items: "List.map_filter (kite_token_of (\<lambda>_ _. Some ''779521'')) [(''SBIN'', ''NSE'')] = [(779521, ''779521'')]" by code_simp
  have "kt_connected ?s \<and> kt_modes ?s = [(779521, mode_quote)]" by code_simp
  then show ?thesis
    using r kite_within_limits [OF r, of "\<lambda>_ _. Some ''779521''" "[(''SBIN'', ''NSE'')]", unfolded items] by (simp add: Let_def)
qed

text \<open>C30: what is published is well formed. Of any frame, both adapters publish only ticks whose topic is
  made of their symbol, exchange and mode, and whose ladders have five levels on each side or none.
  Integers fit 32 bits, signed or unsigned. The prices of Zerodha, its remembered closes
  included, are finite and whole paise in that range; those of Dhan are IEEE singles, so they may be
  infinite or NaN when the wire says so. Wherever a tick has a previous close, its change and
  percentage are computed from the price and the close in the same tick. The clock that dates ticks is
  taken to fit 32 bits.\<close>

theorem feeds_well_typed:
  assumes "0 \<le> now" and "now < 4294967296" and "kite_reachable s"
  shows "(case dhan_on_message cache subs data of None \<Rightarrow> True | Some pubs \<Rightarrow> list_all (publication_typed dhan_price) pubs) \<and>
    list_all (publication_typed kite_price) (fst (kite_on_message now cache data s))"
proof
  have "list_all (publication_typed dhan_price) (concat (map (dhan_handle_packet cache subs) ks))" for ks
    by (induction ks) (simp_all add: dhan_typed)
  then show "case dhan_on_message cache subs data of None \<Rightarrow> True | Some pubs \<Rightarrow> list_all (publication_typed dhan_price) pubs"
    by (auto simp: dhan_on_message_def dhan_parse_binary_def split: option.split)
  show "list_all (publication_typed kite_price) (fst (kite_on_message now cache data s))"
    using kite_all_typed [of now "kt_close s"] assms(1,2) reachable_kite_ok [OF assms(3)]
    by (simp add: kite_on_message_def kite_ok_def split_beta)
qed

definition one_kite :: kite where
  "one_kite = kite_subscribe (\<lambda>_ _. Some ''7'') [(''SBIN'', ''NSE'')] mode_ltp fresh_kite"

theorem feeds_well_typed_witness:
  "kite_reachable one_kite \<and>
   fst (kite_on_message 1750000000 (\<lambda>_. Some (''SBIN'', ''NSE'')) (kite_encode [[0, 0, 0, 7, 0, 0, 1, 0]]) one_kite) \<noteq> [] \<and>
   (case dhan_on_message (\<lambda>_. Some (''SBIN'', ''NSE'')) [] (concat (map dhan_encode two_packets)) of
      None \<Rightarrow> True | Some pubs \<Rightarrow> list_all (publication_typed dhan_price) pubs) \<and>
   list_all (publication_typed kite_price)
     (fst (kite_on_message 1750000000 (\<lambda>_. Some (''SBIN'', ''NSE'')) (kite_encode [[0, 0, 0, 7, 0, 0, 1, 0]]) one_kite))"
proof -
  have r: "kite_reachable one_kite"
    unfolding one_kite_def by (rule kite_reachable.step [OF kite_reachable.fresh kite_step.subscribe])
  have "fst (kite_on_message 1750000000 (\<lambda>_. Some (''SBIN'', ''NSE'')) (kite_encode [[0, 0, 0, 7, 0, 0, 1, 0]]) one_kite) \<noteq> []"
    by code_simp
  then show ?thesis using r feeds_well_typed [of 1750000000 one_kite] by simp
qed

text \<open>The rounds of the worker, as the batches it sends.\<close>

definition batch_messages :: "(int list \<times> int) list \<Rightarrow> kite_msg list" where
  "batch_messages bs = concat (map (\<lambda>(b, m). [Subscribe b, SetMode (mode_name_or_quote m) b]) bs)"

lemma round_sends:
  assumes "kt_pending s \<noteq> []"
  obtains b m where "kt_pending s = map (\<lambda>n. (n, m)) b @ kt_pending (kite_round s)" and "length b \<le> max_tokens_per_subscribe"
    and "kite_round s = s\<lparr>kt_pending := kt_pending (kite_round s), kt_sent := kt_sent s @ batch_messages [(b, m)]\<rparr>"
proof -
  obtain t m ps where p: "kt_pending s = (t, m) # ps" using assms by (metis list.exhaust prod.exhaust)
  obtain b rest where b: "take_batch max_tokens_per_subscribe m (kt_pending s) = (b, rest)" by fastforce
  show ?thesis
    using take_batch_split [OF b] p b by (intro that [of m b]) (simp_all add: kite_round_def batch_messages_def)
qed

lemma worker_sends:
  assumes "kt_connected s"
  shows "\<exists>bs. kt_pending s = concat (map (\<lambda>(b, m). map (\<lambda>n. (n, m)) b) bs) \<and> list_all (\<lambda>(b, m). length b \<le> max_tokens_per_subscribe) bs \<and>
    process_subscriptions s = s\<lparr>kt_pending := [], kt_sent := kt_sent s @ batch_messages bs\<rparr>"
  using assms
proof (induction s rule: process_subscriptions.induct)
  case (1 s)
  show ?case
  proof (cases "kt_pending s = []")
    case True
    then show ?thesis by (intro exI [of _ "[]"]) (subst process_subscriptions.simps, simp add: batch_messages_def)
  next
    case False
    obtain b m where r: "kt_pending s = map (\<lambda>n. (n, m)) b @ kt_pending (kite_round s)" "length b \<le> max_tokens_per_subscribe"
      "kite_round s = s\<lparr>kt_pending := kt_pending (kite_round s), kt_sent := kt_sent s @ batch_messages [(b, m)]\<rparr>"
      using round_sends [OF False] .
    let ?t = "s\<lparr>kt_pending := kt_pending (kite_round s), kt_sent := kt_sent s @ batch_messages [(b, m)]\<rparr>"
    have "kt_connected (kite_round s)" using 1(2) by (subst r(3)) simp
    with 1 False obtain bs where bs: "kt_pending (kite_round s) = concat (map (\<lambda>(b, m). map (\<lambda>n. (n, m)) b) bs)"
      "list_all (\<lambda>(b, m). length b \<le> max_tokens_per_subscribe) bs"
      "process_subscriptions (kite_round s) = (kite_round s)\<lparr>kt_pending := [], kt_sent := kt_sent (kite_round s) @ batch_messages bs\<rparr>"
      by blast
    have "process_subscriptions s = ?t\<lparr>kt_pending := [], kt_sent := kt_sent ?t @ batch_messages bs\<rparr>"
      using bs(3) 1(2) False by (subst process_subscriptions.simps) (simp add: r(3) [symmetric])
    then show ?thesis
      using r(1,2) bs(1,2) by (intro exI [of _ "(b, m) # bs"]) (simp add: batch_messages_def)
  qed
qed

text \<open>The queue is worked off. While the connection holds, the worker ends, with nothing left in the
  queue: every queued token has been sent once, in the order of the queue, in batches of one mode and at
  most two hundred tokens, each subscribed and then set to the mode it was queued with.\<close>

theorem kite_worker_delivers:
  assumes "kt_connected s"
  shows "\<exists>bs. kt_pending s = concat (map (\<lambda>(b, m). map (\<lambda>n. (n, m)) b) bs) \<and> list_all (\<lambda>(b, m). length b \<le> 200) bs \<and>
    process_subscriptions s = s\<lparr>kt_pending := [], kt_sent := kt_sent s @ batch_messages bs\<rparr>"
  using worker_sends [OF assms] unfolding max_tokens_per_subscribe_def .

text \<open>A second subscription in a lower mode takes the higher one away. The table keeps the higher
  mode, but the broker is told to send the instrument in the lower one.\<close>

theorem kite_lower_mode_downgrades:
  assumes "kt_connected s" and "kt_pending s = []" and "length (kt_modes s) \<le> 3000"
    and "kite_token_of tokens item = Some (n, t)" and "map_of (kt_modes s) n = Some high" and "mode < high"
    and "kite_mode_name mode = Some name"
  shows "kt_modes (process_subscriptions (kite_subscribe tokens [item] mode s)) = kt_modes s \<and>
    kt_sent (process_subscriptions (kite_subscribe tokens [item] mode s)) = kt_sent s @ [Subscribe [n], SetMode name [n]]"
proof -
  let ?s = "s\<lparr>kt_tokens := AList.update n t (kt_tokens s), kt_pending := [(n, mode)]\<rparr>"
  have sub: "kite_subscribe tokens [item] mode s = ?s"
    using assms by (simp add: kite_subscribe_def kite_add_def max_instruments_per_connection_def)
  have "process_subscriptions ?s = ?s\<lparr>kt_pending := [], kt_sent := kt_sent s @ [Subscribe [n], SetMode name [n]]\<rparr>"
    using assms(1,7)
    by (subst process_subscriptions.simps, subst process_subscriptions.simps)
      (simp add: kite_round_def max_tokens_per_subscribe_def numeral_eq_Suc mode_name_or_quote_def)
  then show ?thesis by (simp add: sub)
qed

definition depth_kite :: kite where
  "depth_kite = \<lparr>kt_connected = True, kt_modes = [(779521, mode_depth)], kt_tokens = [(779521, ''779521'')], kt_close = (\<lambda>_. None),
     kt_pending = [], kt_sent = [Subscribe [779521], SetMode ''full'' [779521]]\<rparr>"

theorem kite_lower_mode_downgrades_witness:
  "kite_token_of (\<lambda>_ _. Some ''779521'') (''SBIN'', ''NSE'') = Some (779521, ''779521'') \<and>
   kt_sent (process_subscriptions (kite_subscribe (\<lambda>_ _. Some ''779521'') [(''SBIN'', ''NSE'')] mode_ltp depth_kite)) =
     [Subscribe [779521], SetMode ''full'' [779521], Subscribe [779521], SetMode ''ltp'' [779521]]"
proof -
  have tok: "kite_token_of (\<lambda>_ _. Some ''779521'') (''SBIN'', ''NSE'') = Some (779521, ''779521'')" by code_simp
  moreover have "kite_mode_name mode_ltp = Some ''ltp''" by code_simp
  ultimately show ?thesis
    using kite_lower_mode_downgrades [of depth_kite "\<lambda>_ _. Some ''779521''" "(''SBIN'', ''NSE'')" 779521 "''779521''" mode_depth mode_ltp "''ltp''"]
    by (simp add: depth_kite_def mode_depth_def mode_ltp_def)
qed

theorem kite_worker_delivers_witness:
  "kt_connected depth_kite \<and> process_subscriptions (depth_kite\<lparr>kt_pending := [(5, 1), (6, 2)]\<rparr>) \<noteq> depth_kite \<and>
   (\<exists>bs. [(5, 1), (6, 2)] = concat (map (\<lambda>(b, m). map (\<lambda>n. (n, m)) b) bs) \<and> list_all (\<lambda>(b, m). length b \<le> 200) bs \<and>
      kt_sent (process_subscriptions (depth_kite\<lparr>kt_pending := [(5, 1), (6, 2)]\<rparr>)) = kt_sent depth_kite @ batch_messages bs)"
proof -
  let ?s = "depth_kite\<lparr>kt_pending := [(5, 1), (6, 2)]\<rparr>"
  have con: "kt_connected depth_kite" "kt_connected ?s" by (simp_all add: depth_kite_def)
  obtain bs where bs: "kt_pending ?s = concat (map (\<lambda>(b, m). map (\<lambda>n. (n, m)) b) bs)" "list_all (\<lambda>(b, m). length b \<le> 200) bs"
    "process_subscriptions ?s = ?s\<lparr>kt_pending := [], kt_sent := kt_sent ?s @ batch_messages bs\<rparr>"
    using kite_worker_delivers [OF con(2)] by blast
  then have "bs \<noteq> []" by auto
  then have "batch_messages bs \<noteq> []" by (cases bs) (auto simp: batch_messages_def)
  then have "kt_sent (process_subscriptions ?s) \<noteq> kt_sent depth_kite" unfolding bs(3) by simp
  then have "process_subscriptions ?s \<noteq> depth_kite" by (rule contrapos_nn) (rule arg_cong)
  with con bs show ?thesis by auto
qed

end
