(* ===== verification/Market_Flow.thy ===== *)
theory Market_Flow
  imports Tick_Queue Feed_Flow
begin

text \<open>
  The way of a price from a frame of the broker to the clients and the rules: topics read back as they were
  written, the cache keeps prices that make sense and calls its subscribers in order, the gate for trade
  management opens only on a live feed, and no client gets data it may not have.
\<close>

section \<open>Topics\<close>

abbreviation us :: char where "us \<equiv> CHR ''_''"

lemma split_on_plain: "d \<notin> set x \<Longrightarrow> split_on d x = [x]"
  by (induction x) auto

lemma split_on_nonempty [simp]: "split_on d t \<noteq> []"
  by (cases t) (auto split: list.split)

lemma split_on_head: "d \<notin> set x \<Longrightarrow> split_on d (x @ d # t) = x # split_on d t"
  by (induction x) auto

lemma split_on_last: "d \<notin> set x \<Longrightarrow> split_on d (t @ d # x) = split_on d t @ [x]"
proof (induction t)
  case (Cons c t)
  obtain y ys where y: "split_on d t = y # ys" by (metis split_on_nonempty list.exhaust)
  then show ?case using Cons by auto
qed (simp add: split_on_plain)

lemma join_split [simp]: "join_on d (split_on d t) = t"
proof (induction t)
  case (Cons c t)
  obtain y ys where y: "split_on d t = y # ys" by (metis split_on_nonempty list.exhaust)
  with Cons show ?case by (cases ys) auto
qed simp

lemma split_on_parts: "x \<in> set (split_on d t) \<Longrightarrow> d \<notin> set x"
proof (induction t arbitrary: x)
  case (Cons c t)
  obtain y ys where y: "split_on d t = y # ys" by (metis split_on_nonempty list.exhaust)
  with Cons show ?case by (auto split: if_splits)
qed simp

text \<open>Names whose topic can be read back: an index exchange, or an exchange without an underscore whose symbol
  does not make it look like one.\<close>

definition clear_name :: "string \<Rightarrow> string \<Rightarrow> bool" where
  "clear_name exch sb \<longleftrightarrow> exch \<in> set index_exchanges \<or> (us \<notin> set exch \<and> take 6 sb \<noteq> ''INDEX_'')"

lemma index_exchange_parts:
  assumes "exch \<in> set index_exchanges"
  obtains a where "exch = a @ us # ''INDEX''" and "us \<notin> set a"
proof -
  have "\<exists>a. exch = a @ us # ''INDEX'' \<and> us \<notin> set a"
    using assms unfolding index_exchanges_def
    by (auto intro: exI [of _ "''NSE''"] exI [of _ "''BSE''"] exI [of _ "''MCX''"] exI [of _ "''GLOBAL''"])
  with that show ?thesis by blast
qed

lemma index_exchange_tail:
  assumes "a @ us # b \<in> set index_exchanges" and "us \<notin> set a" and "us \<notin> set b"
  shows "b = ''INDEX''"
proof -
  obtain c where c: "a @ us # b = c @ us # ''INDEX''" "us \<notin> set c" using index_exchange_parts [OF assms(1)] by blast
  have "split_on us (a @ us # b) = [a, b]" using assms by (simp add: split_on_head split_on_plain)
  moreover have "split_on us (c @ us # ''INDEX'') = [c, ''INDEX'']"
    using split_on_head [OF c(2), of "''INDEX''"] split_on_plain [of us "''INDEX''"] by simp
  ultimately have "[a, b] = [c, ''INDEX'']" unfolding c(1) by (rule trans [OF sym])
  then show ?thesis by simp
qed

lemma topic_segments:
  assumes "us \<notin> set tp"
  shows "us \<notin> set exch \<Longrightarrow> split_on us (topic exch sb tp) = exch # split_on us sb @ [tp]"
    and "exch = a @ us # ''INDEX'' \<Longrightarrow> us \<notin> set a \<Longrightarrow> split_on us (topic exch sb tp) = a # ''INDEX'' # split_on us sb @ [tp]"
proof -
  have rest: "split_on us (sb @ us # tp) = split_on us sb @ [tp]" by (rule split_on_last [OF assms])
  show "split_on us (topic exch sb tp) = exch # split_on us sb @ [tp]" if "us \<notin> set exch"
    using split_on_head [OF that] rest by (simp add: topic_def)
  have "topic (a @ us # ''INDEX'') sb tp = a @ us # (''INDEX'' @ us # (sb @ us # tp))" for a by (simp add: topic_def)
  moreover have "us \<notin> set ''INDEX''" by simp
  ultimately show "split_on us (topic exch sb tp) = a # ''INDEX'' # split_on us sb @ [tp]"
    if "exch = a @ us # ''INDEX''" "us \<notin> set a"
    using that split_on_head rest by metis
qed

lemma parse_topic_topic:
  assumes "clear_name exch sb" and "map_of mode_map tp = Some m"
  shows "parse_topic (topic exch sb tp) = Some (sb, exch, m)"
proof -
  have tp: "us \<notin> set tp" using assms(2) by (auto simp: mode_map_def split: if_splits)
  obtain y ys where y: "split_on us sb = y # ys" by (metis split_on_nonempty list.exhaust)
  show ?thesis
  proof (cases "exch \<in> set index_exchanges")
    case True
    then obtain a where a: "exch = a @ us # ''INDEX''" "us \<notin> set a" by (rule index_exchange_parts)
    show ?thesis
      using topic_segments(2) [OF tp a, of sb] True a assms(2) y join_split [of us sb]
      by (simp add: parse_topic_def Let_def butlast_append)
  next
    case False
    then have e: "us \<notin> set exch" and s: "take 6 sb \<noteq> ''INDEX_''" using assms(1) by (simp_all add: clear_name_def)
    have "\<not> (ys \<noteq> [] \<and> exch @ us # y \<in> set index_exchanges)"
    proof
      assume both: "ys \<noteq> [] \<and> exch @ us # y \<in> set index_exchanges"
      have "us \<notin> set y" using split_on_parts [of y us sb] y by simp
      then have "y = ''INDEX''" using both e index_exchange_tail by blast
      moreover have "sb = join_on us (y # ys)" using join_split [of us sb] y by simp
      ultimately have "take 6 sb = ''INDEX_''" using both by (cases ys) auto
      with s show False by simp
    qed
    then show ?thesis
      using topic_segments(1) [OF tp e, of sb] assms(2) y join_split [of us sb]
      by (cases ys) (auto simp: parse_topic_def Let_def butlast_append)
  qed
qed

text \<open>Topics are read back. The topic an adapter publishes under is read by the proxy as the symbol, the
  exchange and the mode it was made of, for index exchanges and for every other exchange without an
  underscore whose symbol does not begin with \<open>INDEX_\<close>.\<close>

theorem topics_roundtrip:
  assumes "clear_name exch sb" and "map_of mode_map tp = Some m"
  shows "parse_topic (topic exch sb tp) = Some (sb, exch, m)"
  by (rule parse_topic_topic [OF assms])

theorem topics_roundtrip_witness:
  "clear_name ''NSE'' ''M_M'' \<and> clear_name ''NSE_INDEX'' ''NIFTY'' \<and>
   parse_topic ''NSE_M_M_LTP'' = Some (''M_M'', ''NSE'', 1) \<and> parse_topic ''NSE_INDEX_NIFTY_DEPTH'' = Some (''NIFTY'', ''NSE_INDEX'', 3)"
proof -
  have c: "clear_name ''NSE'' ''M_M''" "clear_name ''NSE_INDEX'' ''NIFTY''" by (simp_all add: clear_name_def index_exchanges_def)
  have m: "map_of mode_map ''LTP'' = Some 1" "map_of mode_map ''DEPTH'' = Some 3" by (simp_all add: mode_map_def)
  show ?thesis using c topics_roundtrip [OF c(1) m(1)] topics_roundtrip [OF c(2) m(2)] by (simp add: topic_def)
qed

section \<open>The cache\<close>

inductive cache_step :: "market_cache \<Rightarrow> market_cache \<Rightarrow> bool" where
  tick: "cache_step c (snd (process_market_data now sb exch mode data c))"
| subscribe: "cache_step c (snd (cache_subscribe pr ev flt c))"
| unsubscribe: "cache_step c (snd (cache_unsubscribe i c))"
| read_ltp: "cache_step c (snd (get_ltp_value sb exch c))"
| read_quote: "cache_step c (snd (cache_get_quote sb exch c))"
| read_depth: "cache_step c (snd (cache_get_depth sb exch c))"
| connection: "cache_step c (set_connected conn auth c)"
| health: "cache_step c (health_pass now c)"

inductive_cases cache_stepE: "cache_step c d"

definition positive_field :: "field option \<Rightarrow> bool" where
  "positive_field f \<longleftrightarrow> (\<exists>g x. f = Some g \<and> number_of g = Some x \<and> \<not> flt_nonpos x)"

definition entry_priced :: "cache_entry \<Rightarrow> bool" where
  "entry_priced en \<longleftrightarrow> (case ce_ltp en of None \<Rightarrow> True | Some l \<Rightarrow> positive_field (lp_value l))"

definition status_ok :: "market_cache \<Rightarrow> bool" where
  "status_ok c \<longleftrightarrow> (mc_paused c \<longrightarrow> mc_status c = Disconnected \<or> mc_status c = Stale)"

definition subs_ok :: "market_cache \<Rightarrow> bool" where
  "subs_ok c \<longleftrightarrow> distinct (map sb_id (mc_subs c)) \<and> (\<forall>r \<in> set (mc_subs c). sb_id r \<le> mc_sub_id c)"

definition cache_ok :: "market_cache \<Rightarrow> bool" where
  "cache_ok c \<longleftrightarrow> list_all entry_priced (mc_entries c) \<and> status_ok c \<and> subs_ok c"

lemma fresh_cache_ok: "cache_ok fresh_cache"
  by (simp add: cache_ok_def fresh_cache_def status_ok_def subs_ok_def)

lemma revive_simps [simp]:
  "mc_entries (revive c) = mc_entries c" "mc_subs (revive c) = mc_subs c" "mc_sub_id (revive c) = mc_sub_id c"
  "mc_last_data (revive c) = mc_last_data c" "mc_prices (revive c) = mc_prices c"
  by (simp_all add: revive_def)

lemma put_row_all: "list_all P rs \<Longrightarrow> P r \<Longrightarrow> list_all P (put_row key r rs)"
  by (induction rs) simp_all

lemma validated_price:
  assumes "validate now sb exch mode data prices = (Inr ws, prices')" and "mode = Some 1 \<or> mode = Some 2"
  shows "positive_field (map_of data ''ltp'')"
  using assms by (auto simp: validate_def positive_field_def Let_def split: if_splits option.splits)

lemma update_priced:
  assumes "entry_priced en" and "mode = Some 1 \<or> mode = Some 2 \<Longrightarrow> positive_field (map_of data ''ltp'')"
  shows "entry_priced (update_entry now mode data en)"
  using assms by (auto simp: update_entry_def entry_priced_def ltp_of_def Let_def)

lemma blank_priced: "entry_priced (blank_entry now sb exch)"
  by (simp add: entry_priced_def blank_entry_def)

lemma process_ok:
  assumes "cache_ok c"
  shows "cache_ok (snd (process_market_data now sb exch mode data c))"
proof -
  obtain v prices where v: "validate now sb exch mode data (mc_prices c) = (v, prices)" by fastforce
  show ?thesis
  proof (cases v)
    case (Inl e)
    then show ?thesis using assms v by (simp add: process_market_data_def cache_ok_def status_ok_def subs_ok_def)
  next
    case (Inr ws)
    let ?en = "case get_row ce_key (cache_key sb exch) (mc_entries c) of Some en \<Rightarrow> en | None \<Rightarrow> blank_entry now sb exch"
    have "entry_priced ?en"
      using assms get_row_mem [of ce_key "cache_key sb exch" "mc_entries c"] blank_priced
      by (auto simp: cache_ok_def list_all_iff split: option.split)
    then have "entry_priced (update_entry now mode data ?en)"
      using update_priced validated_price v Inr by blast
    with assms show ?thesis
      by (auto simp: process_market_data_def v Inr Let_def cache_ok_def subs_ok_def put_row_all)
        (auto simp: status_ok_def revive_def)
  qed
qed

lemma cache_step_ok: "cache_step c d \<Longrightarrow> cache_ok c \<Longrightarrow> cache_ok d"
proof (induction rule: cache_step.induct)
  case (tick c now sb exch mode data)
  then show ?case by (rule process_ok)
qed (auto simp: cache_ok_def status_ok_def subs_ok_def cache_subscribe_def cache_unsubscribe_def Let_def get_ltp_value_def
    cache_get_ltp_def cache_get_quote_def cache_get_depth_def cache_read_def set_connected_def health_pass_def distinct_map_filter
    list_all_iff split: option.splits)

inductive cache_reachable :: "market_cache \<Rightarrow> bool" where
  fresh: "cache_reachable fresh_cache"
| step: "cache_reachable c \<Longrightarrow> cache_step c d \<Longrightarrow> cache_reachable d"

lemma cache_reachable_ok: "cache_reachable c \<Longrightarrow> cache_ok c"
  by (induction rule: cache_reachable.induct) (auto intro: fresh_cache_ok cache_step_ok)

text \<open>C32: the gate opens only on a live feed. In every state the cache reaches, trade management is reported
  safe exactly when the connection is authenticated and the last tick came less than thirty seconds ago.\<close>

theorem gate_exact:
  assumes "cache_reachable c"
  shows "fst (is_trade_management_safe now c) \<longleftrightarrow>
    mc_status c = Authenticated \<and> mc_last_data c \<noteq> 0 \<and> mc_last_data c \<le> now \<and> now < mc_last_data c + 30"
  using cache_reachable_ok [OF assms]
  by (auto simp: is_trade_management_safe_def cache_ok_def status_ok_def max_data_gap_seconds_def Let_def)

text \<open>A cached price makes sense. In every state the cache reaches, the price it gives for an instrument
  is a number that is not zero, negative or minus infinity.\<close>

theorem cached_price_positive:
  assumes "cache_reachable c" and "fst (get_ltp_value sb exch c) = Some f"
  shows "\<exists>x. number_of f = Some x \<and> \<not> flt_nonpos x"
proof -
  obtain en l where "get_row ce_key (cache_key sb exch) (mc_entries c) = Some en" "ce_ltp en = Some l" "lp_value l = Some f"
    using assms(2) by (auto simp: get_ltp_value_def cache_get_ltp_def cache_read_def bind_eq_Some_conv split: option.splits)
  moreover from this have "entry_priced en"
    using cache_reachable_ok [OF assms(1)] get_row_mem by (fastforce simp: cache_ok_def list_all_iff)
  ultimately show ?thesis by (auto simp: entry_priced_def positive_field_def)
qed

text \<open>Subscribers are called in the order of their priorities, each once. On an accepted tick the ids
  called are those of the subscribers that want it; no id occurs twice, and none is called before one of a
  smaller priority number.\<close>

lemma sorted_filter_map: "sorted (map f (filter P (sort_key f xs)))"
  by (simp add: sorted_filter)

theorem subscribers_in_order:
  assumes "cache_reachable c" and "process_market_data now sb exch mode data c = ((True, called), d)"
  shows "\<exists>rs. called = map sb_id rs \<and> set rs = {r \<in> set (mc_subs c). wants (cache_key sb exch) (event_of_mode mode) r} \<and>
    distinct called \<and> sorted (map sb_priority rs)"
proof -
  let ?rs = "filter (wants (cache_key sb exch) (event_of_mode mode)) (sort_key sb_priority (mc_subs c))"
  have "called = map sb_id ?rs"
    using assms(2) by (auto simp: process_market_data_def cache_broadcast_def Let_def split: prod.splits sum.splits)
  moreover have "distinct (map sb_id ?rs)"
  proof -
    have "distinct (map sb_id (mc_subs c))"
      using cache_reachable_ok [OF assms(1)] by (simp add: cache_ok_def subs_ok_def)
    then have "distinct (map sb_id (sort_key sb_priority (mc_subs c)))" by (simp add: distinct_map)
    then show ?thesis by (rule distinct_map_filter)
  qed
  ultimately show ?thesis using sorted_filter_map [of sb_priority] by (intro exI [of _ ?rs]) auto
qed

section \<open>Clients\<close>

definition index_ok :: "client list \<Rightarrow> index_row list \<Rightarrow> bool" where
  "index_ok cs idx \<longleftrightarrow> uniq ix_key idx \<and> (\<forall>r \<in> set idx. ix_clients r \<noteq> [] \<and> distinct (ix_clients r) \<and> set (ix_clients r) \<subseteq> set cs)"

lemma index_at_ok:
  assumes "index_ok cs idx"
  shows "distinct (index_at k idx) \<and> set (index_at k idx) \<subseteq> set cs"
  using assms get_row_mem [of ix_key k idx] by (auto simp: index_ok_def index_at_def split: option.splits)

lemma index_add_ok:
  assumes "index_ok cs idx" and "c \<in> set cs"
  shows "index_ok cs (index_add k c idx)"
  using assms index_at_ok [OF assms(1), of k] uniq_put_row [of ix_key idx]
  unfolding index_ok_def index_add_def ins_client_def by (auto dest!: set_put_row)

lemma index_drop_ok:
  assumes "index_ok cs idx"
  shows "index_ok cs (index_drop k c idx)"
  using assms index_at_ok [OF assms, of k] uniq_put_row [of ix_key idx]
  unfolding index_ok_def index_drop_def Let_def
  by (auto simp: uniq_def distinct_map_filter dest!: set_put_row)

lemma index_items_ok: "index_ok cs idx \<Longrightarrow> c \<in> set cs \<Longrightarrow> index_ok cs (snd (index_items c mode items idx))"
  by (induction c mode items idx rule: index_items.induct) (auto simp: index_add_ok split: sum.split option.split)

lemma drop_items_ok: "index_ok cs idx \<Longrightarrow> index_ok cs (snd (drop_items c mode items idx))"
proof (induction items arbitrary: idx)
  case (Cons item items)
  show ?case
  proof (cases "item_key item")
    case (Inr ko)
    show ?thesis
    proof (cases ko)
      case (Some k)
      obtain a b where k: "k = (a, b)" by (cases k)
      obtain r idx2 where r: "drop_items c mode items (index_drop (a, b, mode) c idx) = (r, idx2)" by fastforce
      have "index_ok cs idx2" using Cons.IH [OF index_drop_ok [OF Cons.prems], of "(a, b, mode)" c] by (simp add: r)
      then show ?thesis by (cases r) (simp_all add: Inr Some k r Let_def)
    qed (use Cons in \<open>simp add: Inr\<close>)
  qed (use Cons in simp)
qed simp

lemma index_at_drop:
  assumes "index_ok cs idx"
  shows "index_at k (index_drop j c idx) = (if k = j then filter (\<lambda>x. x \<noteq> c) (index_at k idx) else index_at k idx)"
  using assms
  by (auto simp: index_drop_def Let_def index_at_def index_ok_def get_put_row get_row_filter
      split: option.split dest: get_row_key)

lemma index_at_drops:
  assumes "index_ok cs idx"
  shows "index_at k (fold (\<lambda>j. index_drop j c) js idx) = (if k \<in> set js then filter (\<lambda>x. x \<noteq> c) (index_at k idx) else index_at k idx)"
  using assms
proof (induction js arbitrary: idx)
  case (Cons j js)
  then show ?case by (auto simp: index_at_drop index_drop_ok)
qed simp

lemma drops_ok: "index_ok cs idx \<Longrightarrow> index_ok cs (fold (\<lambda>j. index_drop j c) js idx)"
  by (induction js arbitrary: idx) (simp_all add: index_drop_ok)

lemma index_forget_at:
  assumes "index_ok cs idx"
  shows "index_at k (index_forget c idx) = filter (\<lambda>x. x \<noteq> c) (index_at k idx)"
proof -
  have "index_at k idx = []" if "k \<notin> set (map ix_key idx)" using that get_row_None [of ix_key k idx] by (auto simp: index_at_def split: option.split)
  then show ?thesis unfolding index_forget_def index_at_drops [OF assms] by auto
qed

lemma index_forget_ok:
  assumes "index_ok cs idx"
  shows "index_ok (filter (\<lambda>x. x \<noteq> c) cs) (index_forget c idx)"
proof -
  have ok: "index_ok cs (index_forget c idx)" using drops_ok [OF assms] by (simp add: index_forget_def)
  have "c \<notin> set (ix_clients r)" if "r \<in> set (index_forget c idx)" for r
  proof -
    have "get_row ix_key (ix_key r) (index_forget c idx) = Some r"
      using ok that by (intro get_row_uniq) (simp_all add: index_ok_def)
    then have "ix_clients r = index_at (ix_key r) (index_forget c idx)" by (simp add: index_at_def)
    then show ?thesis unfolding index_forget_at [OF assms] by simp
  qed
  with ok show ?thesis by (auto simp: index_ok_def)
qed

inductive proxy_step :: "'a adapter_ops \<Rightarrow> 'a proxy \<Rightarrow> 'a proxy \<Rightarrow> bool" for ops where
  arrive: "c \<notin> set (px_clients s) \<Longrightarrow> proxy_step ops s (snd (client_open c s))"
| message: "c \<in> set (px_clients s) \<Longrightarrow> proxy_step ops s (snd (client_message ops e c raw s))"
| leave: "proxy_step ops s (client_close c s)"
| listen: "proxy_step ops s (hd_proxy (proxy_listen tm now pub s))"
| cache: "cache_step (px_cache s) c \<Longrightarrow> proxy_step ops s (s\<lparr>px_cache := c\<rparr>)"
| adapter: "proxy_step ops s (s\<lparr>px_adapter := map_option f (px_adapter s)\<rparr>)"
| shutdown: "proxy_step ops s (proxy_shutdown s)"

inductive proxy_reachable :: "'a adapter_ops \<Rightarrow> 'a proxy \<Rightarrow> bool" for ops where
  fresh: "proxy_reachable ops fresh_proxy"
| step: "proxy_reachable ops s \<Longrightarrow> proxy_step ops s t \<Longrightarrow> proxy_reachable ops t"

definition clients_ok :: "'a proxy \<Rightarrow> bool" where
  "clients_ok s \<longleftrightarrow> distinct (px_clients s) \<and> length (px_clients s) \<le> max_ws_connections \<and>
     set (px_authed s) \<subseteq> set (px_clients s) \<and> index_ok (px_authed s) (px_index s)"

lemma index_ok_more: "index_ok cs idx \<Longrightarrow> set cs \<subseteq> set ds \<Longrightarrow> index_ok ds idx"
  by (auto simp: index_ok_def)

lemma close_ok: "clients_ok s \<Longrightarrow> clients_ok (client_close c s)"
  using index_forget_ok [of "px_authed s" "px_index s" c]
  by (auto simp: clients_ok_def client_close_def intro: order_trans [OF length_filter_le])

lemma clients_ok_other [simp]:
  "clients_ok (s\<lparr>px_adapter := a\<rparr>) = clients_ok s" "clients_ok (s\<lparr>px_cache := k\<rparr>) = clients_ok s"
  by (simp_all add: clients_ok_def)

lemma clients_ok_index: "clients_ok s \<Longrightarrow> index_ok (px_authed s) idx \<Longrightarrow> clients_ok (s\<lparr>px_index := idx\<rparr>)"
  by (simp add: clients_ok_def)

lemma authenticate_ok:
  assumes "clients_ok s" and "c \<in> set (px_clients s)"
  shows "clients_ok (snd (snd (authenticate ops e c msg s)))"
proof -
  have "clients_ok (s\<lparr>px_authed := ins_client c (px_authed s)\<rparr>)"
    using assms by (auto simp: clients_ok_def ins_client_def intro: index_ok_more)
  then show ?thesis using assms by (simp add: authenticate_def Let_def split: json.split jval.split option.split prod.split)
qed

lemma ws_subscribe_ok:
  assumes "clients_ok s"
  shows "clients_ok (snd (snd (ws_subscribe ops c msg s)))"
proof -
  have "clients_ok (s\<lparr>px_index := idx\<rparr>)"
    if "c \<in> set (px_authed s)" and "index_items c mode items (px_index s) = (r, idx)" for mode items r idx
    using assms index_items_ok [of "px_authed s" "px_index s" c mode items] that
    by (intro clients_ok_index) (simp_all add: clients_ok_def)
  then show ?thesis using assms by (simp add: ws_subscribe_def split: json.split option.split prod.split sum.split)
qed

lemma ws_unsubscribe_ok:
  assumes "clients_ok s"
  shows "clients_ok (snd (snd (ws_unsubscribe ops c msg s)))"
proof -
  have "clients_ok (s\<lparr>px_index := idx\<rparr>)" if "drop_items c mode items (px_index s) = (r, idx)" for mode items r idx
    using assms drop_items_ok [of "px_authed s" "px_index s" c mode items] that
    by (intro clients_ok_index) (simp_all add: clients_ok_def)
  then show ?thesis using assms by (simp add: ws_unsubscribe_def split: option.split prod.split sum.split)
qed

lemma handle_message_ok:
  assumes "clients_ok s" and "c \<in> set (px_clients s)"
  shows "clients_ok (snd (snd (handle_message ops e c raw s)))"
  using assms authenticate_ok [OF assms] ws_subscribe_ok [OF assms(1)] ws_unsubscribe_ok [OF assms(1)]
  by (simp add: handle_message_def Let_def split: option.split json.split)

lemma client_message_ok:
  assumes "clients_ok s" and "c \<in> set (px_clients s)"
  shows "clients_ok (snd (client_message ops e c raw s))"
proof -
  obtain b out t where h: "handle_message ops e c raw s = (b, out, t)" by (metis prod_cases3)
  have "clients_ok t" using handle_message_ok [OF assms, of ops e raw] by (simp add: h)
  then show ?thesis using close_ok by (cases b) (simp_all add: client_message_def h)
qed

lemma listen_frame:
  "px_clients (hd_proxy (proxy_listen tm now pub s)) = px_clients s \<and> px_authed (hd_proxy (proxy_listen tm now pub s)) = px_authed s \<and>
   px_index (hd_proxy (proxy_listen tm now pub s)) = px_index s \<and> px_adapter (hd_proxy (proxy_listen tm now pub s)) = px_adapter s"
  by (auto simp: proxy_listen_def Let_def split: option.split prod.split)

lemma proxy_step_ok: "proxy_step ops s t \<Longrightarrow> clients_ok s \<Longrightarrow> clients_ok t"
proof (induction rule: proxy_step.induct)
  case (arrive c s)
  then show ?case by (auto simp: client_open_def clients_ok_def)
next
  case (message c s e raw)
  then show ?case by (intro client_message_ok)
next
  case (leave s c)
  then show ?case by (rule close_ok)
next
  case (listen s tm now pub)
  then show ?case by (simp add: clients_ok_def listen_frame)
qed (auto simp: clients_ok_def proxy_shutdown_def index_ok_def uniq_def)

lemma proxy_reachable_ok: "proxy_reachable ops s \<Longrightarrow> clients_ok s"
proof (induction rule: proxy_reachable.induct)
  case fresh
  show ?case by (simp add: clients_ok_def fresh_proxy_def index_ok_def uniq_def)
next
  case (step s t)
  then show ?case by (blast intro: proxy_step_ok)
qed

text \<open>C13: market data goes to authenticated clients only. In every state the proxy reaches, whatever the
  clients sent, every client a tick is sent to is connected, has authenticated and is subscribed to the
  instrument in the mode of the tick or a lower one; each gets the tick once, and there are at most ten.\<close>

theorem only_authenticated_receive:
  assumes "proxy_reachable ops s"
  shows "distinct (map fst (hd_sent (proxy_listen tm now pub s))) \<and> length (hd_sent (proxy_listen tm now pub s)) \<le> 10 \<and>
    (\<forall>(c, f) \<in> set (hd_sent (proxy_listen tm now pub s)). c \<in> set (px_clients s) \<and> c \<in> set (px_authed s) \<and>
      (\<exists>sb exch mode m. parse_topic (fst pub) = Some (sb, exch, mode) \<and> 1 \<le> m \<and> m \<le> mode \<and> c \<in> set (index_at (JStr sb, JStr exch, m) (px_index s))))"
proof (cases "parse_topic (fst pub)")
  case (Some p)
  obtain sb exch mode where p: "p = (sb, exch, mode)" by (cases p)
  have ok: "clients_ok s" by (rule proxy_reachable_ok [OF assms])
  let ?cs = "filter (\<lambda>c. c \<in> set (px_clients s)) (receivers sb exch mode (px_index s))"
  have sent: "map fst (hd_sent (proxy_listen tm now pub s)) = (if throttled tm sb exch mode s then [] else ?cs)"
    by (auto simp: proxy_listen_def Some p Let_def comp_def split: prod.split)
  have cs: "distinct ?cs" "set ?cs \<subseteq> set (px_clients s)" by (auto simp: receivers_def)
  then have "length ?cs \<le> 10"
    using ok card_mono [of "set (px_clients s)" "set ?cs"] distinct_card [OF cs(1)] card_length [of "px_clients s"]
    by (simp add: clients_ok_def max_ws_connections_def)
  moreover have "length (hd_sent (proxy_listen tm now pub s)) = length (map fst (hd_sent (proxy_listen tm now pub s)))" by simp
  ultimately have "distinct (map fst (hd_sent (proxy_listen tm now pub s)))" "length (hd_sent (proxy_listen tm now pub s)) \<le> 10"
    using cs(1) unfolding sent by simp_all
  moreover have "c \<in> set (px_clients s) \<and> c \<in> set (px_authed s) \<and>
      (\<exists>m. 1 \<le> m \<and> m \<le> mode \<and> c \<in> set (index_at (JStr sb, JStr exch, m) (px_index s)))"
    if "(c, f) \<in> set (hd_sent (proxy_listen tm now pub s))" for c f
  proof -
    have "c \<in> set (map fst (hd_sent (proxy_listen tm now pub s)))" using that by force
    then have c: "c \<in> set ?cs" unfolding sent by (simp split: if_splits)
    then obtain m where m: "1 \<le> m" "m \<le> mode" "c \<in> set (index_at (JStr sb, JStr exch, m) (px_index s))"
      by (auto simp: receivers_def)
    moreover have "c \<in> set (px_authed s)"
      using m(3) ok index_at_ok [of "px_authed s" "px_index s"] by (auto simp: clients_ok_def)
    ultimately show ?thesis using c by auto
  qed
  ultimately show ?thesis by (auto simp: Some p)
qed (simp add: proxy_listen_def)

section \<open>From a packet to the rules\<close>

definition ltp_publication :: "string \<Rightarrow> string \<Rightarrow> flt \<Rightarrow> tick \<Rightarrow> publication" where
  "ltp_publication exch sb x tl_fields = (topic exch sb ''LTP'', head_of sb exch @ (''mode'', FText ''ltp'') # (''ltp'', FNum x) # tl_fields)"

lemma kite_publishes_ltp:
  assumes "8 \<le> length p" and "map_of tokens (ub p 0) = Some t" and "t \<noteq> []" and "cache t = Some (sb, exch)"
  shows "\<exists>tl_fields rest. fst (kite_parse_packet clock cache tokens p m) = ltp_publication exch sb (rupees (sb_at p 4)) tl_fields # rest"
  using assms by (simp add: kite_parse_packet_def kite_index_def kite_equity_def Let_def ltp_publication_def)

lemma ltp_listened:
  assumes "clear_name exch sb" and "sb \<noteq> []" and "exch \<noteq> []" and "0 < x" and "\<not> throttled tm sb exch 1 s"
  shows "let h = proxy_listen tm now (ltp_publication exch sb (Fin x) tl_fields) s in
    fst (get_ltp_value sb exch (px_cache (hd_proxy h))) = Some (FNum (Fin x)) \<and>
    hd_called h = cache_broadcast (cache_key sb exch) (Some 1) (px_cache (hd_proxy h)) \<and>
    mc_subs (px_cache (hd_proxy h)) = mc_subs (px_cache s) \<and> px_last_send (hd_proxy h) (sb, exch) = tm"
proof -
  have topic: "parse_topic (topic exch sb ''LTP'') = Some (sb, exch, 1)"
    using assms(1) by (rule parse_topic_topic) (simp add: mode_map_def)
  have ltp: "map_of (head_of sb exch @ (''mode'', FText ''ltp'') # (''ltp'', FNum (Fin x)) # tl_fields) ''ltp'' = Some (FNum (Fin x))"
    by (simp add: head_of_def)
  have "\<exists>ws prices'. validate now sb exch (Some 1) (snd (ltp_publication exch sb (Fin x) tl_fields)) prices = (Inr ws, prices')" for prices
    unfolding ltp_publication_def snd_conv validate_def ltp
    using assms(2-4) by (simp add: Let_def number_of_def flt_nonpos_def)
  then obtain ws prices' where v: "validate now sb exch (Some 1) (snd (ltp_publication exch sb (Fin x) tl_fields)) (mc_prices (px_cache s)) = (Inr ws, prices')"
    by blast
  have snap: "ce_ltp (update_entry now (Some 1) (snd (ltp_publication exch sb (Fin x) tl_fields)) en) = Some (ltp_of now (snd (ltp_publication exch sb (Fin x) tl_fields)))" for en
    by (simp add: update_entry_def)
  have val: "lp_value (ltp_of now (snd (ltp_publication exch sb (Fin x) tl_fields))) = Some (FNum (Fin x))"
    unfolding ltp_of_def ltp_publication_def snd_conv ltp by simp
  have key: "ce_key (update_entry now mode data en) = ce_key en" for mode data en by (simp add: update_entry_def)
  have en: "ce_key (case get_row ce_key (cache_key sb exch) es of Some en \<Rightarrow> en | None \<Rightarrow> blank_entry now sb exch) = cache_key sb exch" for es
    by (auto simp: blank_entry_def split: option.split dest: get_row_key)
  have fst_pub: "fst (ltp_publication exch sb (Fin x) tl_fields) = topic exch sb ''LTP''" by (simp add: ltp_publication_def)
  show ?thesis
    unfolding Let_def
    using assms(5) by (simp add: proxy_listen_def fst_pub topic process_market_data_def v Let_def get_ltp_value_def cache_get_ltp_def
        cache_read_def get_put_row key en snap val)
qed


text \<open>C39: of a burst only the first price is seen. After a last price of an instrument was taken, every
  further one that comes within a twentieth of a second is dropped before the cache: no client gets it, no
  subscriber is called, not even the rules of the strategies, and the cache keeps answering the first price.\<close>

theorem burst_drops_prices:
  assumes "clear_name exch sb" and "sb \<noteq> []" and "exch \<noteq> []" and "0 < x" and "\<not> throttled t0 sb exch 1 s"
    and "\<forall>(t, y) \<in> set xs. t0 \<le> t \<and> t < t0 + 1 / 20"
  shows "let s1 = hd_proxy (proxy_listen t0 now (ltp_publication exch sb (Fin x) tl_fields) s) in
    fold (\<lambda>(t, y) u. hd_proxy (proxy_listen t now (ltp_publication exch sb y tl_fields) u)) xs s1 = s1 \<and>
    (\<forall>(t, y) \<in> set xs. hd_called (proxy_listen t now (ltp_publication exch sb y tl_fields) s1) = [] \<and>
       hd_sent (proxy_listen t now (ltp_publication exch sb y tl_fields) s1) = []) \<and>
    fst (get_ltp_value sb exch (px_cache s1)) = Some (FNum (Fin x))"
proof -
  let ?s1 = "hd_proxy (proxy_listen t0 now (ltp_publication exch sb (Fin x) tl_fields) s)"
  have topic: "parse_topic (topic exch sb ''LTP'') = Some (sb, exch, 1)"
    using assms(1) by (rule parse_topic_topic) (simp add: mode_map_def)
  note h = ltp_listened [OF assms(1-5), of now tl_fields, unfolded Let_def]
  have quiet: "proxy_listen t now (ltp_publication exch sb y tl_fields) ?s1 = \<lparr>hd_sent = [], hd_called = [], hd_proxy = ?s1\<rparr>"
    if "t0 \<le> t" "t < t0 + 1 / 20" for t y
    using that h topic by (simp add: proxy_listen_def [of t] ltp_publication_def [of _ _ y] throttled_def ltp_throttle_sec_def)
  have "fold (\<lambda>(t, y) u. hd_proxy (proxy_listen t now (ltp_publication exch sb y tl_fields) u)) ys ?s1 = ?s1"
    if "\<forall>(t, y) \<in> set ys. t0 \<le> t \<and> t < t0 + 1 / 20" for ys
    using that by (induction ys) (auto simp: quiet)
  with assms(6) h quiet show ?thesis unfolding Let_def by fastforce
qed

section \<open>Leaving an instrument\<close>

text \<open>What the proxy may expect of an adapter: instruments that are unsubscribed are not streamed any more, and
  those that are not the same instrument as one of them are streamed as before.\<close>

locale stream_adapter =
  fixes ops :: "'a adapter_ops"
    and streams :: "string \<times> string \<Rightarrow> 'a \<Rightarrow> bool"
    and same :: "string \<times> string \<Rightarrow> string \<times> string \<Rightarrow> bool"
  assumes stops: "x \<in> set xs \<Longrightarrow> \<not> streams x (ao_unsubscribe ops xs m a)"
    and keeps: "\<forall>y \<in> set xs. \<not> same x y \<Longrightarrow> streams x (ao_unsubscribe ops xs m a) = streams x a"
begin

text \<open>A client that leaves an instrument in one mode, the last one there, takes it from those who have it in
  another mode; instruments that are not the same go on.\<close>

lemma last_one_leaves:
  assumes "index_ok cs (px_index s)" and "px_adapter s = Some a" and "c \<in> set (px_authed s)"
    and "map_of msg ''symbols'' = Some (JArr [item])" and "message_mode msg = Inr m"
    and "item_key item = Inr (Some (JStr sb, JStr exch))"
    and "index_at (JStr sb, JStr exch, m) (px_index s) = [c]"
    and "d \<in> set (index_at (JStr sb, JStr exch, k) (px_index s))" and "k \<noteq> m"
  shows "\<exists>out a' t. ws_unsubscribe ops c msg s = (True, out, t) \<and> px_adapter t = Some a' \<and> \<not> streams (sb, exch) a' \<and>
    a' = ao_unsubscribe ops [(sb, exch)] m a \<and> d \<in> set (index_at (JStr sb, JStr exch, k) (px_index t)) \<and>
    (\<forall>x. \<not> same x (sb, exch) \<longrightarrow> streams x a' = streams x a)"
proof -
  let ?k = "(JStr sb, JStr exch, m)"
  have gone: "index_at ?k (index_drop ?k c (px_index s)) = []" using assms(7) by (simp add: index_at_drop [OF assms(1)])
  have stay: "index_at (JStr sb, JStr exch, k) (index_drop ?k c (px_index s)) = index_at (JStr sb, JStr exch, k) (px_index s)"
    using assms(9) by (simp add: index_at_drop [OF assms(1)])
  have drop: "drop_items c m [item] (px_index s) = (Inr [item], index_drop ?k c (px_index s))"
    using assms(6,7) gone by (simp add: Let_def)
  have item: "text_item item = Some (sb, exch)" using assms(6) by (simp add: text_item_def)
  have run: "ws_unsubscribe ops c msg s =
     (True, [ack msg [(''type'', JText ''unsubscribe''), (''status'', JText ''success'')]],
      s\<lparr>px_index := index_drop ?k c (px_index s), px_adapter := Some (ao_unsubscribe ops [(sb, exch)] m a)\<rparr>)"
    unfolding ws_unsubscribe_def using assms(2-5) by (simp add: iterated_def drop item del: drop_items.simps)
  show ?thesis
    unfolding run using assms(8) stay stops [of "(sb, exch)" "[(sb, exch)]" m a] keeps [of "[(sb, exch)]" _ m a] by simp
qed

end

definition kite_streams :: "token_lookup \<Rightarrow> string \<times> string \<Rightarrow> kite \<Rightarrow> bool" where
  "kite_streams tokens x s = (case kite_token_of tokens x of None \<Rightarrow> False | Some p \<Rightarrow> fst p \<in> fst ` set (kt_tokens s))"

definition kite_same :: "token_lookup \<Rightarrow> string \<times> string \<Rightarrow> string \<times> string \<Rightarrow> bool" where
  "kite_same tokens x y \<longleftrightarrow> map_option fst (kite_token_of tokens x) = map_option fst (kite_token_of tokens y)"

lemma map_filter_set: "set (List.map_filter f xs) = {y. \<exists>x \<in> set xs. f x = Some y}"
  by (force simp: map_filter_def)

lemma kite_unsubscribe_tokens:
  "kt_tokens (kite_unsubscribe tokens xs s) = filter (\<lambda>p. fst p \<notin> fst ` {q. \<exists>x \<in> set xs. kite_token_of tokens x = Some q}) (kt_tokens s)"
  by (simp add: kite_unsubscribe_def Let_def map_filter_set)

lemma filter_keys: "k \<notin> N \<Longrightarrow> k \<in> fst ` set (filter (\<lambda>q. fst q \<notin> N) ts) \<longleftrightarrow> k \<in> fst ` set ts"
  by (induction ts) auto

interpretation kite_stream: stream_adapter "kite_ops tokens fatal tok" "kite_streams tokens" "kite_same tokens" for tokens fatal tok
proof
  fix x xs m and a :: kite
  show "x \<in> set xs \<Longrightarrow> \<not> kite_streams tokens x (ao_unsubscribe (kite_ops tokens fatal tok) xs m a)"
    by (cases "kite_token_of tokens x") (auto simp: kite_streams_def kite_ops_def kite_unsubscribe_tokens image_iff)
  assume other: "\<forall>y \<in> set xs. \<not> kite_same tokens x y"
  show "kite_streams tokens x (ao_unsubscribe (kite_ops tokens fatal tok) xs m a) = kite_streams tokens x a"
  proof (cases "kite_token_of tokens x")
    case (Some p)
    then have "fst p \<notin> fst ` {q. \<exists>y \<in> set xs. kite_token_of tokens y = Some q}"
      using other by (fastforce simp: kite_same_def)
    with Some show ?thesis
      by (simp add: kite_streams_def kite_ops_def kite_unsubscribe_tokens filter_keys del: set_filter)
  qed (simp add: kite_streams_def)
qed

definition dhan_streams :: "token_lookup \<Rightarrow> string \<times> string \<Rightarrow> dhan \<Rightarrow> bool" where
  "dhan_streams tokens x s = (case dhan_key_of tokens x of None \<Rightarrow> False | Some k \<Rightarrow> k \<in> dk_key ` set (da_subs s))"

definition dhan_same :: "token_lookup \<Rightarrow> string \<times> string \<Rightarrow> string \<times> string \<Rightarrow> bool" where
  "dhan_same tokens x y \<longleftrightarrow> dhan_key_of tokens x = dhan_key_of tokens y"

interpretation dhan_stream: stream_adapter "dhan_ops tokens fatal tok" "dhan_streams tokens" "dhan_same tokens" for tokens fatal tok
proof
  fix x xs m and a :: dhan
  show "x \<in> set xs \<Longrightarrow> \<not> dhan_streams tokens x (ao_unsubscribe (dhan_ops tokens fatal tok) xs m a)"
    by (auto simp: dhan_streams_def dhan_ops_def dhan_unsubscribe_def Let_def map_filter_set split: option.split)
  assume other: "\<forall>y \<in> set xs. \<not> dhan_same tokens x y"
  show "dhan_streams tokens x (ao_unsubscribe (dhan_ops tokens fatal tok) xs m a) = dhan_streams tokens x a"
  proof (cases "dhan_key_of tokens x")
    case (Some k)
    then have "k \<notin> {q. \<exists>y \<in> set xs. dhan_key_of tokens y = Some q}" using other by (auto simp: dhan_same_def)
    with Some show ?thesis
      by (auto simp: dhan_streams_def dhan_ops_def dhan_unsubscribe_def Let_def map_filter_set image_iff)
  qed (simp add: dhan_streams_def)
qed

text \<open>C40: with Zerodha, leaving an instrument in one mode takes it from everyone. When the adapter behind
  the proxy is the one of Zerodha and a client unsubscribes from an instrument in a mode it was the last
  one in, another client that has the instrument in another mode stays subscribed in the proxy, but the
  adapter publishes nothing of a packet of the instrument any more. The adapter of Dhan is different: it
  still resolves such packets through the shared symbol cache.\<close>

theorem unsubscribe_cuts_other_modes:
  assumes "proxy_reachable (kite_ops tokens fatal tok) s" and "px_adapter s = Some a" and "c \<in> set (px_authed s)"
    and "map_of msg ''symbols'' = Some (JArr [item])" and "message_mode msg = Inr m"
    and "item_key item = Inr (Some (JStr sb, JStr exch))" and "kite_token_of tokens (sb, exch) = Some (n, txt)"
    and "index_at (JStr sb, JStr exch, m) (px_index s) = [c]"
    and "d \<in> set (index_at (JStr sb, JStr exch, k) (px_index s))" and "k \<noteq> m"
  shows "\<exists>out a' t. ws_unsubscribe (kite_ops tokens fatal tok) c msg s = (True, out, t) \<and> px_adapter t = Some a' \<and>
    d \<in> set (index_at (JStr sb, JStr exch, k) (px_index t)) \<and>
    (\<forall>p clock cache closes. ub p 0 = n \<longrightarrow> fst (kite_parse_packet clock cache (kt_tokens a') p closes) = [])"
proof -
  have "index_ok (px_authed s) (px_index s)" using proxy_reachable_ok [OF assms(1)] by (simp add: clients_ok_def)
  from kite_stream.last_one_leaves [OF this assms(2-6,8-10)]
  obtain out a' t where t: "ws_unsubscribe (kite_ops tokens fatal tok) c msg s = (True, out, t)" "px_adapter t = Some a'"
    "\<not> kite_streams tokens (sb, exch) a'" "d \<in> set (index_at (JStr sb, JStr exch, k) (px_index t))" by blast
  have "map_of (kt_tokens a') n = None"
    using t(3) assms(7) by (simp add: kite_streams_def map_of_eq_None_iff)
  then have "fst (kite_parse_packet clock cache (kt_tokens a') p closes) = []" if "ub p 0 = n" for p clock cache closes
    unfolding kite_parse_packet_def Let_def that by simp
  with t show ?thesis by blast
qed

section \<open>Concrete runs\<close>

definition live_cache :: market_cache where
  "live_cache = snd (process_market_data 100 ''SBIN'' ''NSE'' (Some 1) [(''ltp'', FNum (Fin 812))]
     (snd (cache_subscribe 1 ''ltp'' [] (snd (cache_subscribe 4 ''all'' [] (set_connected True True fresh_cache))))))"

lemma live_cache_reachable: "cache_reachable live_cache"
  unfolding live_cache_def
  by (rule cache_reachable.step [OF cache_reachable.step [OF cache_reachable.step [OF cache_reachable.step
        [OF cache_reachable.fresh cache_step.connection] cache_step.subscribe] cache_step.subscribe] cache_step.tick])

lemma live_cache_facts:
  "mc_status live_cache = Authenticated" "mc_last_data live_cache = 100"
  "fst (get_ltp_value ''SBIN'' ''NSE'' live_cache) = Some (FNum (Fin 812))"
  "fst (process_market_data 101 ''SBIN'' ''NSE'' (Some 1) [(''ltp'', FNum (Fin 813))] live_cache) = (True, [2, 1])"
  by code_simp+

theorem gate_exact_witness:
  "fst (is_trade_management_safe 110 live_cache) \<and> \<not> fst (is_trade_management_safe 130 live_cache)"
  using gate_exact [OF live_cache_reachable, of 110] gate_exact [OF live_cache_reachable, of 130] by (simp add: live_cache_facts)

theorem cached_price_positive_witness:
  "\<exists>f x. fst (get_ltp_value ''SBIN'' ''NSE'' live_cache) = Some f \<and> number_of f = Some x \<and> \<not> flt_nonpos x"
  using cached_price_positive [OF live_cache_reachable live_cache_facts(3)] live_cache_facts(3) by blast

theorem subscribers_in_order_witness:
  "\<exists>d (rs :: subscriber list). process_market_data 101 ''SBIN'' ''NSE'' (Some 1) [(''ltp'', FNum (Fin 813))] live_cache = ((True, [2, 1]), d) \<and>
     [2, 1] = map sb_id rs \<and> sorted (map sb_priority rs)"
proof -
  obtain d where d: "process_market_data 101 ''SBIN'' ''NSE'' (Some 1) [(''ltp'', FNum (Fin 813))] live_cache = ((True, [2, 1]), d)"
    using live_cache_facts(4) by (metis prod.collapse)
  obtain rs :: "subscriber list" where rs: "[2, 1] = map sb_id rs" "sorted (map sb_priority rs)"
    using subscribers_in_order [OF live_cache_reachable d] by (elim exE conjE) (rule that; assumption)
  show ?thesis by (rule exI, rule exI, rule conjI [OF d conjI [OF rs]])
qed

definition demo_tokens :: token_lookup where
  "demo_tokens = (\<lambda>sb exch. if sb = ''SBIN'' \<and> exch = ''NSE'' then Some ''7'' else None)"

definition demo_ops :: "kite adapter_ops" where
  "demo_ops = kite_ops demo_tokens (\<lambda>_. False) (\<lambda>_. ''tok'')"

definition proxy_env_demo :: "kite proxy_env" where
  "proxy_env_demo = \<lparr>pe_verify = (\<lambda>_. Some (''tok'', ''zerodha'')), pe_create = (\<lambda>_ _. Some (fresh_kite\<lparr>kt_connected := True\<rparr>)), pe_time = 50\<rparr>"

definition auth_message :: json where
  "auth_message = JObj [(''action'', JText ''authenticate''), (''api_key'', JText ''k'')]"

definition sbin_item :: json where
  "sbin_item = JObj [(''symbol'', JText ''SBIN''), (''exchange'', JText ''NSE'')]"

definition sub_fields :: "string \<Rightarrow> string \<Rightarrow> (string \<times> json) list" where
  "sub_fields act mode = [(''action'', JText act), (''symbols'', JArr [sbin_item]), (''mode'', JText mode)]"

definition demo_say :: "client \<Rightarrow> json \<Rightarrow> kite proxy \<Rightarrow> kite proxy" where
  "demo_say c m s = snd (client_message demo_ops proxy_env_demo c (Some m) s)"

definition two_clients :: "kite proxy" where
  "two_clients = snd (client_open ''b'' (demo_say ''a'' auth_message (snd (client_open ''a'' fresh_proxy))))"

definition two_subscribed :: "kite proxy" where
  "two_subscribed = demo_say ''b'' (JObj (sub_fields ''subscribe'' ''Quote'')) (demo_say ''b'' auth_message
     (demo_say ''a'' (JObj (sub_fields ''subscribe'' ''LTP'')) two_clients))"

lemma two_clients_facts:
  "px_clients (snd (client_open ''a'' (fresh_proxy :: kite proxy))) = [''a'']"
  "px_clients (demo_say ''a'' auth_message (snd (client_open ''a'' fresh_proxy))) = [''a'']"
  "px_clients two_clients = [''a'', ''b'']"
  "px_clients (demo_say ''a'' (JObj (sub_fields ''subscribe'' ''LTP'')) two_clients) = [''a'', ''b'']"
  "px_clients (demo_say ''b'' auth_message (demo_say ''a'' (JObj (sub_fields ''subscribe'' ''LTP'')) two_clients)) = [''a'', ''b'']"
  by code_simp+

lemma demo_say_reachable:
  "proxy_reachable demo_ops s \<Longrightarrow> c \<in> set (px_clients s) \<Longrightarrow> proxy_reachable demo_ops (demo_say c m s)"
  unfolding demo_say_def by (rule proxy_reachable.step [OF _ proxy_step.message])

lemma two_subscribed_reachable: "proxy_reachable demo_ops two_subscribed"
proof -
  have "proxy_reachable demo_ops (snd (client_open ''a'' fresh_proxy))"
    by (rule proxy_reachable.step [OF proxy_reachable.fresh proxy_step.arrive]) (simp add: fresh_proxy_def)
  then have "proxy_reachable demo_ops (demo_say ''a'' auth_message (snd (client_open ''a'' fresh_proxy)))"
    by (rule demo_say_reachable) (simp add: two_clients_facts)
  then have "proxy_reachable demo_ops two_clients"
    unfolding two_clients_def by (rule proxy_reachable.step [OF _ proxy_step.arrive]) (simp add: two_clients_facts)
  then have "proxy_reachable demo_ops (demo_say ''a'' (JObj (sub_fields ''subscribe'' ''LTP'')) two_clients)"
    by (rule demo_say_reachable) (simp add: two_clients_facts)
  then have "proxy_reachable demo_ops (demo_say ''b'' auth_message (demo_say ''a'' (JObj (sub_fields ''subscribe'' ''LTP'')) two_clients))"
    by (rule demo_say_reachable) (simp add: two_clients_facts)
  then show ?thesis unfolding two_subscribed_def by (rule demo_say_reachable) (simp add: two_clients_facts)
qed

lemma two_subscribed_facts:
  "px_authed two_subscribed = [''a'', ''b'']" "px_adapter two_subscribed \<noteq> None"
  "index_at (JStr ''SBIN'', JStr ''NSE'', 1) (px_index two_subscribed) = [''a'']"
  "index_at (JStr ''SBIN'', JStr ''NSE'', 2) (px_index two_subscribed) = [''b'']"
  "map fst (hd_sent (proxy_listen 60 60 (ltp_publication ''NSE'' ''SBIN'' (Fin 800) []) two_subscribed)) = [''a'']"
  by code_simp+

theorem only_authenticated_receive_witness:
  "map fst (hd_sent (proxy_listen 60 60 (ltp_publication ''NSE'' ''SBIN'' (Fin 800) []) two_subscribed)) = [''a''] \<and>
   list_all (\<lambda>(c, f). c \<in> set (px_authed two_subscribed))
     (hd_sent (proxy_listen 60 60 (ltp_publication ''NSE'' ''SBIN'' (Fin 800) []) two_subscribed))"
  using only_authenticated_receive [OF two_subscribed_reachable, of 60 60 "ltp_publication ''NSE'' ''SBIN'' (Fin 800) []"]
    two_subscribed_facts(5) by (fastforce simp: list_all_iff)

definition sbin_packet :: bytes where "sbin_packet = [0, 0, 0, 7, 0, 0, 1, 0]"

theorem unsubscribe_cuts_other_modes_witness:
  "\<exists>out a' t. ws_unsubscribe demo_ops ''a'' (sub_fields ''unsubscribe'' ''LTP'') two_subscribed = (True, out, t) \<and> px_adapter t = Some a' \<and>
     ''b'' \<in> set (index_at (JStr ''SBIN'', JStr ''NSE'', 2) (px_index t)) \<and>
     fst (kite_parse_packet 60 (\<lambda>_. Some (''SBIN'', ''NSE'')) (kt_tokens a') sbin_packet (\<lambda>_. None)) = []"
proof -
  obtain a where a: "px_adapter two_subscribed = Some a" using two_subscribed_facts(2) by blast
  have m: "map_of (sub_fields ''unsubscribe'' ''LTP'') ''symbols'' = Some (JArr [sbin_item])"
    "message_mode (sub_fields ''unsubscribe'' ''LTP'') = Inr 1" "item_key sbin_item = Inr (Some (JStr ''SBIN'', JStr ''NSE''))"
    "kite_token_of demo_tokens (''SBIN'', ''NSE'') = Some (7, ''7'')"
    by code_simp+
  have r: "proxy_reachable (kite_ops demo_tokens (\<lambda>_. False) (\<lambda>_. ''tok'')) two_subscribed"
    using two_subscribed_reachable by (simp add: demo_ops_def)
  have p: "ub sbin_packet 0 = 7" by code_simp
  have "''a'' \<in> set (px_authed two_subscribed)" "''b'' \<in> set (index_at (JStr ''SBIN'', JStr ''NSE'', 2) (px_index two_subscribed))" "(2 :: int) \<noteq> 1"
    by (simp_all add: two_subscribed_facts)
  from unsubscribe_cuts_other_modes [OF r a this(1) m two_subscribed_facts(3) this(2,3)] show ?thesis
    unfolding demo_ops_def using p by blast
qed


theorem burst_drops_prices_witness:
  "let s1 = hd_proxy (proxy_listen 60 60 (ltp_publication ''NSE'' ''SBIN'' (Fin 800) []) two_subscribed) in
   hd_called (proxy_listen (60 + 1 / 25) 60 (ltp_publication ''NSE'' ''SBIN'' (Fin 700) []) s1) = [] \<and>
   fst (get_ltp_value ''SBIN'' ''NSE'' (px_cache s1)) = Some (FNum (Fin 800))"
proof -
  have "\<not> throttled 60 ''SBIN'' ''NSE'' 1 two_subscribed" by code_simp
  moreover have "clear_name ''NSE'' ''SBIN''" by (simp add: clear_name_def)
  ultimately show ?thesis
    using burst_drops_prices [of "''NSE''" "''SBIN''" 800 60 two_subscribed "[(60 + 1 / 25, Fin 700)]" 60 "[]"]
    by (simp add: Let_def)
qed

end
