(* ===== verification/Spec2Isabelle.thy ===== *)
theory Spec2Isabelle
  imports Order_Flow Job_Flow Quote_Helper Symbol_Flow Signal_Flow Engine_Flow Webhook_Flow Recovery_Flow Market_Flow
begin

text \<open>
  OpenBull is a self-hosted trading platform for Indian brokers: clients, strategies and webhooks send
  orders, which go to a broker (live) or to a paper-trading book (the sandbox), and market data comes
  back over the streaming adapters of the brokers. This development models the parts under
  \<open>src/backend\<close> that decide what is ordered, filled, blocked and closed. Every operation is
  an executable function over records that carry the rows of the tables; answers are sums, with the
  error on the left; the outside world (broker, clock, identifiers, random names, digests) is a
  parameter of the function that asks it.

  The parts and their theories:

  \<^item> Shared: \<open>Prelude\<close> (keyed tables, rounding as Python does it, the locales \<open>row_store\<close>,
    \<open>weighted_store\<close>, \<open>step_preorder\<close>), \<open>Py_Text\<close> (Python's integers and case folding on text) and \<open>Py_Json\<close>
    (values read from a request, with their truth and equality).
  \<^item> The sandbox, \<open>sandbox/*.py\<close> and \<open>services/sandbox_service.py\<close>: the record \<open>db\<close> of
    \<open>Sandbox_Db\<close> holds its tables. \<open>Sandbox_Config\<close>, \<open>Sandbox_Session\<close>, \<open>Fund_Manager\<close>,
    \<open>Order_Manager\<close>, \<open>Position_Manager\<close>, \<open>Order_Validation\<close>, \<open>Execution_Engine\<close>, \<open>Settlement\<close>,
    \<open>Catch_Up\<close> and \<open>Quote_Helper\<close> follow the files of the same names; \<open>Sandbox_Service\<close> is the
    service, \<open>Sandbox_Jobs\<close> the scheduler with its square-off and reset jobs.
  \<^item> Contracts, \<open>strategy/symbol_resolver.py\<close> and \<open>services/option_symbol_service.py\<close>:
    \<open>Contract_Calendar\<close> (expiries) and \<open>Option_Symbols\<close> (strikes, at the money, offsets).
  \<^item> The strategy engine, \<open>strategy/*.py\<close>: \<open>Run_State\<close> (the documents of active runs), \<open>Risk_Evaluator\<close>
    and \<open>Strategy_Risk\<close> (the rules of a leg and of a run), \<open>Tick_Processor\<close> and \<open>Run_Ticks\<close> (what a tick
    does), \<open>Strategy_Db\<close> and \<open>Strategy_Crud\<close> (the repository), \<open>Strategy_Engine\<close>, \<open>Run_Start\<close> and
    \<open>Signal_Engine\<close> (the handlers of \<open>engine.py\<close>). The record \<open>engine\<close> holds the tables, the run
    documents, the tick index and the world behind a \<open>venue\<close>, the record of what the dispatch may ask;
    \<open>Sandbox_Venue\<close> (\<open>order_dispatch.py\<close>) is the venue made of the modelled sandbox.
  \<^item> The edges: \<open>Webhook\<close> (\<open>webhook_handler.py\<close>, \<open>security.py\<close>, \<open>routers/strategy_webhook.py\<close>) and
    \<open>Run_Recovery\<close> (\<open>checkpoint.py\<close>, \<open>recovery.py\<close>).
  \<^item> Market data: \<open>Wire\<close> (bytes, fields of fixed width, published dictionaries), \<open>Dhan_Feed\<close> and
    \<open>Kite_Feed\<close> (the streaming adapters of two brokers, with the parsing of binary frames), \<open>Market_Cache\<close>
    (\<open>services/market_data_cache.py\<close>: merging, staleness, the gate on trading), \<open>Ws_Proxy\<close>
    (\<open>websocket_proxy/server.py\<close>: clients, the subscription index, fan-out) and \<open>Tick_Queue\<close>
    (\<open>strategy/tick_feed.py\<close>: the hand-over to the engine).

  What the lemmas show:

  \<^item> \<open>Margin_Ledger\<close>, \<open>Job_Ledger\<close>, \<open>Sandbox_System\<close>: a step relation of all sandbox operations; in every
    state reached without reconciling the margin of a user whose pending orders block some, margin in use
    is backed and trading conserves cash; finished orders are frozen in all states. The operations enter through the locales \<open>step_preorder\<close> (a relation every composition keeps),
    \<open>fund_releases\<close> and \<open>exact_releases\<close> (loops that hand margin back).
  \<^item> \<open>Position_Manager\<close>, \<open>Execution_Engine\<close>, \<open>Order_Flow\<close>, \<open>Job_Flow\<close>, \<open>Quote_Helper\<close>: a fill conserves
    margin and profit, a matching pass misses nothing, validation lets nothing through, jobs run once;
    and the places where the code does not do what it means to.
  \<^item> \<open>Symbol_Flow\<close> and the end of \<open>Contract_Calendar\<close>: which strike an offset and which date a rank names,
    and that the strike cache cannot be seen.
  \<^item> \<open>Engine_Frame\<close>: the locales \<open>exit_frame\<close> and \<open>engine_frame\<close> say what a relation must keep for every
    handler of the engine to keep it; they are interpreted for the rows (\<open>rows\<close>, \<open>rows_added\<close>), for the
    runs (\<open>runs\<close> in \<open>Engine_System\<close>) and for the sandbox behind the venue (\<open>world\<close> in \<open>Sandbox_Venue\<close>).
    \<open>Engine_Orders\<close>, \<open>Signal_Flow\<close> and \<open>Engine_Flow\<close> rest on them: exits and entries are placed once, a
    strategy has one run, and the engine's rows mirror the sandbox's.
  \<^item> \<open>Webhook_Flow\<close>: which requests act, how often, what is recorded of them, and which act unrecorded.
  \<^item> \<open>Recovery_Flow\<close>: what a restart keeps and what it loses.
  \<^item> \<open>Feed_Flow\<close>: which frames the parsers return on, round trips with the encoders of the formats, and
    that what is published is well formed.
  \<^item> \<open>Market_Flow\<close>: from a packet to a strategy's rules. The locale \<open>stream_adapter\<close> says what the proxy
    may rely on; it is interpreted on both adapters (\<open>kite_stream\<close>, \<open>dhan_stream\<close>). Which ticks the cache
    keeps, when the gate is open, who receives what, and where a price is lost.

  Loops are structural recursion, \<open>function\<close> with a measure, or folds, so no fuel is needed; the one
  loop of the code that may run for ever, over the packets of a Dhan frame, is a
  \<open>partial_function (option)\<close> whose \<open>None\<close> is not returning, and its theorem says on which frames.

  Numbers are exact: money and prices are rationals, and where the code rounds (two or four decimals)
  the model rounds as Python does; the error of binary floating point and the rounding of a numeric
  column on write are left out (but for the columns of a checkpoint). Floats of the wire may be infinite
  or no number (\<open>flt\<close> of \<open>Wire\<close>); elsewhere such values are left out. Fields of the wire keep their width.

  Not modelled: locks, threads and timers (a step of the model is atomic; interleaving is a sequence of
  steps); published events, frames to web clients and the texts of log lines; a failing cache or
  database, which the code logs and passes over; characters outside ASCII. Of whole parts: the strategy scheduler, the
  HTTP layer, the sockets and the overflowing queues of the proxy, the other broker adapters and the order
  services, whose behaviour is that of the broker called, and option analytics, which is floating-point
  numerics.
\<close>

end
